(* ===== verification/Rsp_Prelude.thy ===== *)
theory Rsp_Prelude
  imports Main "HOL-Library.Word"
begin

text \<open>
  The shared layer of the OpenRSP development: the machine-integer types of the C
  sources, the named collections the component proofs feed to the simplifier, the
  little-endian view of 16- and 32-bit words, C strings in fixed-size buffers, the
  wrap-around arithmetic of \<open>uint32_t\<close> sample counters, and the index arithmetic of
  the ring buffers.
\<close>

unbundle bit_operations_syntax

named_theorems rsp_defs \<open>unfolding rules for the small predicates of the sources\<close>
named_theorems frame_simps \<open>fields an operation leaves unchanged\<close>

subsection \<open>Machine integers\<close>

text \<open>
  \<open>uintN_t\<close> is an \<open>N word\<close>. \<open>int32_t\<close> fields that cross the wire are kept as
  \<open>32 word\<close> and read with \<open>sint\<close>; socket descriptors and C results are \<open>int\<close>.
\<close>

type_synonym u8 = "8 word"
type_synonym u16 = "16 word"
type_synonym u32 = "32 word"
type_synonym u64 = "64 word"
type_synonym i32 = "32 word"
type_synonym descriptor = int

abbreviation has_flag :: "u32 \<Rightarrow> u32 \<Rightarrow> bool" where
  "has_flag flags bits \<equiv> flags AND bits \<noteq> 0"

subsection \<open>Little-endian words\<close>

definition u16_bytes :: "u16 \<Rightarrow> u8 list" where
  "u16_bytes w = [ucast w, ucast (drop_bit 8 w)]"

definition bytes_u16 :: "u8 \<Rightarrow> u8 \<Rightarrow> u16" where
  "bytes_u16 a b = ucast a OR push_bit 8 (ucast b)"

definition u32_bytes :: "u32 \<Rightarrow> u8 list" where
  "u32_bytes w =
     [ucast w, ucast (drop_bit 8 w), ucast (drop_bit 16 w), ucast (drop_bit 24 w)]"

definition bytes_u32 :: "u8 \<Rightarrow> u8 \<Rightarrow> u8 \<Rightarrow> u8 \<Rightarrow> u32" where
  "bytes_u32 a b c d =
     ucast a OR push_bit 8 (ucast b) OR push_bit 16 (ucast c) OR push_bit 24 (ucast d)"

lemma length_u16_bytes [simp]: "length (u16_bytes w) = 2"
  by (simp add: u16_bytes_def)

lemma length_u32_bytes [simp]: "length (u32_bytes w) = 4"
  by (simp add: u32_bytes_def)

lemma bytes_u16_inverse [simp]: "bytes_u16 (ucast w) (ucast (drop_bit 8 w)) = w"
  unfolding bytes_u16_def
proof (rule bit_word_eqI)
  fix n assume "n < LENGTH(16)"
  then show "bit (ucast (ucast w :: u8) OR push_bit 8 (ucast (ucast (drop_bit 8 w) :: u8)) :: u16) n
      = bit w n"
    by (cases "n < 8") (auto simp: bit_simps)
qed

lemma bytes_u32_inverse [simp]:
  "bytes_u32 (ucast w) (ucast (drop_bit 8 w)) (ucast (drop_bit 16 w)) (ucast (drop_bit 24 w)) = w"
  unfolding bytes_u32_def
proof (rule bit_word_eqI)
  fix n assume n: "n < LENGTH(32)"
  consider "n < 8" | "8 \<le> n" "n < 16" | "16 \<le> n" "n < 24" | "24 \<le> n" by linarith
  then show "bit (ucast (ucast w :: u8) OR push_bit 8 (ucast (ucast (drop_bit 8 w) :: u8))
      OR push_bit 16 (ucast (ucast (drop_bit 16 w) :: u8))
      OR push_bit 24 (ucast (ucast (drop_bit 24 w) :: u8)) :: u32) n = bit w n"
    using n by cases (auto simp: bit_simps)
qed

fun le32s :: "u8 list \<Rightarrow> u32 list" where
  "le32s (a # b # c # d # rest) = bytes_u32 a b c d # le32s rest"
| "le32s _ = []"

definition u32s_bytes :: "u32 list \<Rightarrow> u8 list" where
  "u32s_bytes ws = concat (map u32_bytes ws)"

lemma u32s_bytes_simps [simp]:
  "u32s_bytes [] = []" "u32s_bytes (w # ws) = u32_bytes w @ u32s_bytes ws"
  by (simp_all add: u32s_bytes_def)

lemma length_u32s_bytes [simp]: "length (u32s_bytes ws) = 4 * length ws"
  by (induction ws) simp_all

lemma le32s_u32_bytes [simp]: "le32s (u32_bytes w @ bs) = w # le32s bs"
  by (simp add: u32_bytes_def)

lemma le32s_u32s_bytes [simp]: "le32s (u32s_bytes ws @ bs) = ws @ le32s bs"
  by (induction ws) simp_all

lemma le32s_u32s_bytes_Nil [simp]: "le32s (u32s_bytes ws) = ws"
  using le32s_u32s_bytes [of ws "[]"] by simp

lemma le32s_u32_bytes_Nil [simp]: "le32s (u32_bytes w) = [w]"
  using le32s_u32_bytes [of w "[]"] by simp

subsection \<open>C strings in fixed-size buffers\<close>

text \<open>
  A \<open>char buf[64]\<close> is a list of 64 bytes; \<open>c_str\<close> is the string \<open>strcmp\<close> and
  \<open>%s\<close> see, and \<open>snprintf_s\<close> is \<open>snprintf(buf, size, "%s", s)\<close> into a zeroed buffer.
\<close>

definition c_str :: "u8 list \<Rightarrow> u8 list" where
  "c_str bs = takeWhile (\<lambda>b. b \<noteq> 0) bs"

definition snprintf_s :: "nat \<Rightarrow> u8 list \<Rightarrow> u8 list" where
  "snprintf_s cap s =
     (let t = take (cap - 1) (c_str s) in t @ replicate (cap - length t) 0)"

lemma length_snprintf_s [simp]: "0 < cap \<Longrightarrow> length (snprintf_s cap s) = cap"
  by (simp add: snprintf_s_def Let_def)

lemma c_str_no_zero: "0 \<notin> set (c_str bs)"
  by (auto simp: c_str_def dest: set_takeWhileD)

lemma c_str_id: "0 \<notin> set bs \<Longrightarrow> c_str bs = bs"
  by (auto simp: c_str_def takeWhile_eq_all_conv)

lemma c_str_append_zero: "0 \<notin> set bs \<Longrightarrow> c_str (bs @ 0 # cs) = bs"
proof -
  assume "0 \<notin> set bs"
  then have "\<And>b. b \<in> set bs \<Longrightarrow> b \<noteq> 0" by metis
  then show ?thesis by (simp add: c_str_def takeWhile_append2)
qed

lemma c_str_snprintf_s:
  assumes "0 < cap"
  shows "c_str (snprintf_s cap s) = take (cap - 1) (c_str s)"
proof -
  let ?t = "take (cap - 1) (c_str s)"
  have "length ?t < cap" using assms by (simp add: min_less_iff_disj)
  then obtain k where "cap - length ?t = Suc k"
    by (metis Suc_diff_Suc)
  then have "snprintf_s cap s = ?t @ 0 # replicate k 0"
    by (simp add: snprintf_s_def Let_def)
  moreover have "0 \<notin> set ?t" using c_str_no_zero [of s] by (meson in_set_takeD)
  ultimately show ?thesis by (simp add: c_str_append_zero)
qed

subsection \<open>Wrap-around sample arithmetic\<close>

text \<open>\<open>(int32_t)(a - b) >= 0\<close>: \<open>a\<close> is at or after \<open>b\<close> on the sample circle.\<close>

definition at_or_after :: "u32 \<Rightarrow> u32 \<Rightarrow> bool" where
  "at_or_after a b \<longleftrightarrow> sint (a - b) \<ge> 0"

lemma at_or_after_refl [simp]: "at_or_after a a"
  by (simp add: at_or_after_def)

lemma wrap_signed_32:
  fixes n :: int
  assumes "0 \<le> n" "n < 4294967296"
  shows "(n + 2147483648) mod 4294967296 = (if n < 2147483648 then n + 2147483648 else n - 2147483648)"
proof (cases "n < 2147483648")
  case True
  then show ?thesis using assms by (simp add: mod_pos_pos_trivial)
next
  case False
  have "(n + 2147483648) mod 4294967296 = ((n - 2147483648) + 4294967296) mod 4294967296"
    by (rule arg_cong [where f = "\<lambda>x. x mod 4294967296"]) linarith
  also have "\<dots> = (n - 2147483648) mod 4294967296" by (rule mod_add_self2)
  also have "\<dots> = n - 2147483648" using False assms by (intro mod_pos_pos_trivial) linarith+
  finally show ?thesis using False by simp
qed

lemma sint_u32_eq:
  "sint (w :: u32) = (if uint w < 2147483648 then uint w else uint w - 4294967296)"
proof -
  have "sint w = signed_take_bit 31 (uint w)" by (simp add: sint_uint)
  also have "\<dots> = (uint w + 2147483648) mod 4294967296 - 2147483648"
    by (simp add: signed_take_bit_eq_take_bit_shift take_bit_eq_mod)
  also have "\<dots> = (if uint w < 2147483648 then uint w else uint w - 4294967296)"
    using wrap_signed_32 [of "uint w"] unsigned_less [of w, where ?'a = int] unsigned_greater_eq [of w, where ?'a = int] by simp
  finally show ?thesis .
qed

lemma sint_u32_nonneg_iff: "0 \<le> sint (w :: u32) \<longleftrightarrow> unat w < 2147483648"
proof -
  have "uint w < 4294967296" using unsigned_less [of w, where ?'a = int] by simp
  then have "0 \<le> sint w \<longleftrightarrow> uint w < 2147483648" by (simp add: sint_u32_eq)
  also have "\<dots> \<longleftrightarrow> unat w < 2147483648" by (simp add: uint_nat del: of_nat_unat)
  finally show ?thesis .
qed

lemma at_or_after_iff: "at_or_after a b \<longleftrightarrow> unat (a - b) < 2147483648"
  by (simp add: at_or_after_def sint_u32_nonneg_iff)

subsection \<open>Results of sub-operations\<close>

lemma case_prod_Let_fst: "(case p of (a, b) \<Rightarrow> f a b) = f (fst p) (snd p)"
  by (cases p) simp

subsection \<open>Ring-buffer index arithmetic\<close>

lemma ring_index_inj:
  fixes h i j cap :: nat
  assumes "i < cap" "j < cap" "(h + i) mod cap = (h + j) mod cap"
  shows "i = j"
proof -
  have "int (h + i) mod int cap = int (h + j) mod int cap"
    using assms(3) by (simp only: zmod_int [symmetric])
  then have "int cap dvd int i - int j" by (simp add: mod_eq_dvd_iff)
  moreover have "\<bar>int i - int j\<bar> < int cap" using assms(1,2) by linarith
  ultimately have "int i - int j = 0" using dvd_imp_le_int [of "int i - int j" "int cap"] by linarith
  then show ?thesis by simp
qed

subsection \<open>Runs of a step relation\<close>

text \<open>
  \<open>runs step s ls s'\<close>: the labelled steps \<open>ls\<close>, in order, lead from \<open>s\<close> to \<open>s'\<close>.
  A component that is a state machine gives its step relation and interprets
  \<open>invariant_system\<close>; the invariant then holds at the end of every run.
\<close>

inductive runs :: "('s \<Rightarrow> 'l \<Rightarrow> 's \<Rightarrow> bool) \<Rightarrow> 's \<Rightarrow> 'l list \<Rightarrow> 's \<Rightarrow> bool"
  for step :: "'s \<Rightarrow> 'l \<Rightarrow> 's \<Rightarrow> bool" where
  runs_Nil: "runs step s [] s"
| runs_Cons: "step s l s' \<Longrightarrow> runs step s' ls s'' \<Longrightarrow> runs step s (l # ls) s''"

inductive_simps runs_Nil_iff [simp]: "runs step s [] s'"
inductive_simps runs_Cons_iff: "runs step s (l # ls) s'"

lemma runs_append: "runs step s ls s' \<Longrightarrow> runs step s' ks s'' \<Longrightarrow> runs step s (ls @ ks) s''"
  by (induction rule: runs.induct) (auto intro: runs.intros)

locale invariant_system =
  fixes step :: "'s \<Rightarrow> 'l \<Rightarrow> 's \<Rightarrow> bool"
    and inv :: "'s \<Rightarrow> bool"
  assumes step_inv: "inv s \<Longrightarrow> step s l s' \<Longrightarrow> inv s'"
begin

lemma runs_inv: "runs step s ls s' \<Longrightarrow> inv s \<Longrightarrow> inv s'"
  by (induction rule: runs.induct) (auto dest: step_inv)

text \<open>A relation each step establishes under the invariant holds for every step of a run.\<close>

lemma runs_step_property:
  assumes "runs step s ls s'" "inv s" "l \<in> set ls"
  shows "\<exists>t t'. inv t \<and> step t l t' \<and> inv t'"
  using assms by (induction rule: runs.induct) (auto dest: step_inv)

end

end
