(* ===== verification/Rsp_Protocol.thy ===== *)
theory Rsp_Protocol
  imports Rsp_Prelude
begin

text \<open>
  The daemon protocol of \<open>include/openrsp/protocol.h\<close>: command and status codes, the
  structures that cross the socket as \<open>record\<close>s, and their byte layout. The structures
  are written to the socket as they lie in memory; every field is naturally aligned and
  the hosts are little-endian, so the layout is the concatenation of the little-endian
  fields without padding. The interface \<open>wire_codec\<close> states what a layout promises;
  every structure of the protocol interprets it. \<open>daemon/config_validation.c\<close> and the
  dual-mode check of the daemon are the validity predicates at the end.
\<close>

subsection \<open>Codes\<close>

datatype openrsp_command_type =
    OPENRSP_CMD_PING | OPENRSP_CMD_LIST | OPENRSP_CMD_ACQUIRE | OPENRSP_CMD_RELEASE
  | OPENRSP_CMD_CONFIGURE | OPENRSP_CMD_START | OPENRSP_CMD_STOP | OPENRSP_CMD_UPDATE
  | OPENRSP_CMD_LOCK_API | OPENRSP_CMD_UNLOCK_API | OPENRSP_CMD_CONFIGURE_DUAL
  | OPENRSP_CMD_SWAP_TUNER | OPENRSP_CMD_SWAP_MODE | OPENRSP_CMD_RESUME_MODE
  | OPENRSP_CMD_DUO_ACQUIRE | OPENRSP_CMD_DUO_CONFIGURE | OPENRSP_CMD_DUO_START
  | OPENRSP_CMD_DUO_STOP | OPENRSP_CMD_DUO_UPDATE | OPENRSP_CMD_DUO_RELEASE
  | OPENRSP_CMD_DUO_SWAP_RATE
  | OPENRSP_MSG_RESPONSE | OPENRSP_EVENT_IQ | OPENRSP_EVENT_DEVICE | OPENRSP_EVENT_IQ_B
  | OPENRSP_EVENT_STATUS | OPENRSP_EVENT_DUO

fun command_code :: "openrsp_command_type \<Rightarrow> u16" where
  "command_code OPENRSP_CMD_PING = 1"
| "command_code OPENRSP_CMD_LIST = 2"
| "command_code OPENRSP_CMD_ACQUIRE = 3"
| "command_code OPENRSP_CMD_RELEASE = 4"
| "command_code OPENRSP_CMD_CONFIGURE = 5"
| "command_code OPENRSP_CMD_START = 6"
| "command_code OPENRSP_CMD_STOP = 7"
| "command_code OPENRSP_CMD_UPDATE = 8"
| "command_code OPENRSP_CMD_LOCK_API = 9"
| "command_code OPENRSP_CMD_UNLOCK_API = 10"
| "command_code OPENRSP_CMD_CONFIGURE_DUAL = 11"
| "command_code OPENRSP_CMD_SWAP_TUNER = 12"
| "command_code OPENRSP_CMD_SWAP_MODE = 13"
| "command_code OPENRSP_CMD_RESUME_MODE = 14"
| "command_code OPENRSP_CMD_DUO_ACQUIRE = 15"
| "command_code OPENRSP_CMD_DUO_CONFIGURE = 16"
| "command_code OPENRSP_CMD_DUO_START = 17"
| "command_code OPENRSP_CMD_DUO_STOP = 18"
| "command_code OPENRSP_CMD_DUO_UPDATE = 19"
| "command_code OPENRSP_CMD_DUO_RELEASE = 20"
| "command_code OPENRSP_CMD_DUO_SWAP_RATE = 21"
| "command_code OPENRSP_MSG_RESPONSE = 0x8000"
| "command_code OPENRSP_EVENT_IQ = 0x8001"
| "command_code OPENRSP_EVENT_DEVICE = 0x8002"
| "command_code OPENRSP_EVENT_IQ_B = 0x8003"
| "command_code OPENRSP_EVENT_STATUS = 0x8004"
| "command_code OPENRSP_EVENT_DUO = 0x8005"

datatype openrsp_status =
    OPENRSP_STATUS_OK | OPENRSP_STATUS_BAD_REQUEST | OPENRSP_STATUS_UNSUPPORTED
  | OPENRSP_STATUS_BUSY | OPENRSP_STATUS_IO_ERROR | OPENRSP_STATUS_START_PENDING
  | OPENRSP_STATUS_STOP_PENDING

fun status_code :: "openrsp_status \<Rightarrow> u32" where
  "status_code OPENRSP_STATUS_OK = 0"
| "status_code OPENRSP_STATUS_BAD_REQUEST = 1"
| "status_code OPENRSP_STATUS_UNSUPPORTED = 2"
| "status_code OPENRSP_STATUS_BUSY = 3"
| "status_code OPENRSP_STATUS_IO_ERROR = 4"
| "status_code OPENRSP_STATUS_START_PENDING = 5"
| "status_code OPENRSP_STATUS_STOP_PENDING = 6"

lemma command_code_inj [simp]: "command_code a = command_code b \<longleftrightarrow> a = b"
  by (cases a; cases b; simp)

lemma status_code_inj [simp]: "status_code a = status_code b \<longleftrightarrow> a = b"
  by (cases a; cases b; simp)

abbreviation (input) OPENRSP_PROTOCOL_MAGIC :: u32 where "OPENRSP_PROTOCOL_MAGIC \<equiv> 0x4f525350"
abbreviation (input) OPENRSP_PROTOCOL_VERSION :: u16 where "OPENRSP_PROTOCOL_VERSION \<equiv> 9"
abbreviation (input) OPENRSP_MAX_IQ_SAMPLES :: nat where "OPENRSP_MAX_IQ_SAMPLES \<equiv> 65536"

abbreviation (input) OPENRSP_TUNER_A :: u32 where "OPENRSP_TUNER_A \<equiv> 1"
abbreviation (input) OPENRSP_TUNER_B :: u32 where "OPENRSP_TUNER_B \<equiv> 2"
abbreviation (input) OPENRSP_TUNER_BOTH :: u32 where "OPENRSP_TUNER_BOTH \<equiv> 3"

abbreviation (input) OPENRSP_MODE_CAP_SINGLE :: u32 where "OPENRSP_MODE_CAP_SINGLE \<equiv> 1"
abbreviation (input) OPENRSP_MODE_CAP_DUAL :: u32 where "OPENRSP_MODE_CAP_DUAL \<equiv> 2"
abbreviation (input) OPENRSP_MODE_CAP_MASTER :: u32 where "OPENRSP_MODE_CAP_MASTER \<equiv> 4"
abbreviation (input) OPENRSP_MODE_CAP_SLAVE :: u32 where "OPENRSP_MODE_CAP_SLAVE \<equiv> 8"
abbreviation (input) OPENRSP_DUO_ROLE_MASTER :: u32 where "OPENRSP_DUO_ROLE_MASTER \<equiv> 1"
abbreviation (input) OPENRSP_DUO_ROLE_SLAVE :: u32 where "OPENRSP_DUO_ROLE_SLAVE \<equiv> 2"
abbreviation (input) OPENRSP_DEVICE_STATUS_REMOVED :: u32 where "OPENRSP_DEVICE_STATUS_REMOVED \<equiv> 1"
abbreviation (input) OPENRSP_MODE_SINGLE :: u32 where "OPENRSP_MODE_SINGLE \<equiv> 1"
abbreviation (input) OPENRSP_MODE_DUAL :: u32 where "OPENRSP_MODE_DUAL \<equiv> 2"

abbreviation (input) OPENRSP_CHANGE_SAMPLE_RATE :: u32 where "OPENRSP_CHANGE_SAMPLE_RATE \<equiv> 0x1"
abbreviation (input) OPENRSP_CHANGE_RF :: u32 where "OPENRSP_CHANGE_RF \<equiv> 0x2"
abbreviation (input) OPENRSP_CHANGE_BANDWIDTH :: u32 where "OPENRSP_CHANGE_BANDWIDTH \<equiv> 0x4"
abbreviation (input) OPENRSP_CHANGE_IF :: u32 where "OPENRSP_CHANGE_IF \<equiv> 0x8"
abbreviation (input) OPENRSP_CHANGE_GAIN :: u32 where "OPENRSP_CHANGE_GAIN \<equiv> 0x10"
abbreviation (input) OPENRSP_CHANGE_AGC :: u32 where "OPENRSP_CHANGE_AGC \<equiv> 0x20"
abbreviation (input) OPENRSP_CHANGE_BIAS_TEE :: u32 where "OPENRSP_CHANGE_BIAS_TEE \<equiv> 0x40"
abbreviation (input) OPENRSP_CHANGE_RF_NOTCH :: u32 where "OPENRSP_CHANGE_RF_NOTCH \<equiv> 0x80"
abbreviation (input) OPENRSP_CHANGE_DAB_NOTCH :: u32 where "OPENRSP_CHANGE_DAB_NOTCH \<equiv> 0x100"
abbreviation (input) OPENRSP_CHANGE_EXT_REF :: u32 where "OPENRSP_CHANGE_EXT_REF \<equiv> 0x200"
abbreviation (input) OPENRSP_CHANGE_AM_PORT :: u32 where "OPENRSP_CHANGE_AM_PORT \<equiv> 0x400"
abbreviation (input) OPENRSP_CHANGE_AM_NOTCH :: u32 where "OPENRSP_CHANGE_AM_NOTCH \<equiv> 0x800"
abbreviation (input) OPENRSP_CHANGE_RSPDUO_CONTROLS :: u32 where
  "OPENRSP_CHANGE_RSPDUO_CONTROLS \<equiv> 0xfc0"
abbreviation (input) OPENRSP_RESPONSE_RECOVERY_QUEUED :: u32 where
  "OPENRSP_RESPONSE_RECOVERY_QUEUED \<equiv> 0x80000000"

subsection \<open>Structures\<close>

record message_header =
  hdr_magic :: u32
  hdr_version :: u16
  hdr_type :: u16
  hdr_sequence :: u32
  hdr_payload_bytes :: u32

record acquire_request =
  id_device_index :: u32
  id_vendor_id :: u16
  id_product_id :: u16
  id_serial :: "u8 list"

record device_record =
  rec_device_index :: u32
  rec_vendor_id :: u16
  rec_product_id :: u16
  rec_serial :: "u8 list"
  rec_model :: "u8 list"
  rec_rspduo_mode_mask :: u32
  rec_rspduo_sample_rate_hz :: u32

record duo_acquire_request =
  da_identity :: acquire_request
  da_role :: u32
  da_tuner :: u32
  da_sample_rate_hz :: u32

record radio_config =
  sample_rate_hz :: u32
  center_frequency_hz :: u32
  bandwidth_hz :: u32
  if_frequency_hz :: i32
  gain_reduction_db :: i32
  lna_state :: u32
  agc_mode :: i32
  agc_setpoint_dbfs :: i32
  tuner :: u32
  bias_tee_enabled :: u32
  rf_notch_enabled :: u32
  dab_notch_enabled :: u32
  external_reference_enabled :: u32
  am_port_select :: u32
  am_notch_enabled :: u32

record dual_config =
  dual_sample_rate_hz :: u32
  dual_reserved :: u32
  channel_a :: radio_config
  channel_b :: radio_config

record update_request =
  upd_changed_flags :: u32
  upd_reserved :: u32
  upd_config :: radio_config

record swap_request =
  swp_tuner :: u32
  swp_reserved :: u32
  swp_config :: radio_config

record mode_swap_request =
  msr_mode :: u32
  msr_reserved :: u32
  msr_single :: radio_config
  msr_dual :: dual_config

record response =
  rsp_status :: u32
  rsp_sequence :: u32
  rsp_changed_flags :: u32
  rsp_reserved :: u32

subsection \<open>Layouts\<close>

definition encode_header :: "message_header \<Rightarrow> u8 list" where
  "encode_header h = u32_bytes (hdr_magic h) @ u16_bytes (hdr_version h) @
     u16_bytes (hdr_type h) @ u32_bytes (hdr_sequence h) @ u32_bytes (hdr_payload_bytes h)"

definition decode_header :: "u8 list \<Rightarrow> message_header" where
  "decode_header bs = \<lparr>hdr_magic = le32s (take 4 bs) ! 0,
     hdr_version = bytes_u16 (bs ! 4) (bs ! 5), hdr_type = bytes_u16 (bs ! 6) (bs ! 7),
     hdr_sequence = le32s (drop 8 bs) ! 0, hdr_payload_bytes = le32s (drop 8 bs) ! 1\<rparr>"

definition radio_config_words :: "radio_config \<Rightarrow> u32 list" where
  "radio_config_words c =
     [sample_rate_hz c, center_frequency_hz c, bandwidth_hz c, if_frequency_hz c,
      gain_reduction_db c, lna_state c, agc_mode c, agc_setpoint_dbfs c, tuner c,
      bias_tee_enabled c, rf_notch_enabled c, dab_notch_enabled c,
      external_reference_enabled c, am_port_select c, am_notch_enabled c]"

definition words_radio_config :: "u32 list \<Rightarrow> radio_config" where
  "words_radio_config w = \<lparr>sample_rate_hz = w ! 0, center_frequency_hz = w ! 1,
     bandwidth_hz = w ! 2, if_frequency_hz = w ! 3, gain_reduction_db = w ! 4,
     lna_state = w ! 5, agc_mode = w ! 6, agc_setpoint_dbfs = w ! 7, tuner = w ! 8,
     bias_tee_enabled = w ! 9, rf_notch_enabled = w ! 10, dab_notch_enabled = w ! 11,
     external_reference_enabled = w ! 12, am_port_select = w ! 13, am_notch_enabled = w ! 14\<rparr>"

definition dual_config_words :: "dual_config \<Rightarrow> u32 list" where
  "dual_config_words d = [dual_sample_rate_hz d, dual_reserved d] @
     radio_config_words (channel_a d) @ radio_config_words (channel_b d)"

definition words_dual_config :: "u32 list \<Rightarrow> dual_config" where
  "words_dual_config w = \<lparr>dual_sample_rate_hz = w ! 0, dual_reserved = w ! 1,
     channel_a = words_radio_config (take 15 (drop 2 w)),
     channel_b = words_radio_config (drop 17 w)\<rparr>"

definition encode_radio_config :: "radio_config \<Rightarrow> u8 list" where
  "encode_radio_config c = u32s_bytes (radio_config_words c)"

definition decode_radio_config :: "u8 list \<Rightarrow> radio_config" where
  "decode_radio_config bs = words_radio_config (le32s bs)"

definition encode_dual_config :: "dual_config \<Rightarrow> u8 list" where
  "encode_dual_config d = u32s_bytes (dual_config_words d)"

definition decode_dual_config :: "u8 list \<Rightarrow> dual_config" where
  "decode_dual_config bs = words_dual_config (le32s bs)"

definition encode_update_request :: "update_request \<Rightarrow> u8 list" where
  "encode_update_request u =
     u32s_bytes ([upd_changed_flags u, upd_reserved u] @ radio_config_words (upd_config u))"

definition decode_update_request :: "u8 list \<Rightarrow> update_request" where
  "decode_update_request bs = (let w = le32s bs in
     \<lparr>upd_changed_flags = w ! 0, upd_reserved = w ! 1,
      upd_config = words_radio_config (drop 2 w)\<rparr>)"

definition encode_swap_request :: "swap_request \<Rightarrow> u8 list" where
  "encode_swap_request s =
     u32s_bytes ([swp_tuner s, swp_reserved s] @ radio_config_words (swp_config s))"

definition decode_swap_request :: "u8 list \<Rightarrow> swap_request" where
  "decode_swap_request bs = (let w = le32s bs in
     \<lparr>swp_tuner = w ! 0, swp_reserved = w ! 1, swp_config = words_radio_config (drop 2 w)\<rparr>)"

definition encode_mode_swap_request :: "mode_swap_request \<Rightarrow> u8 list" where
  "encode_mode_swap_request s =
     u32s_bytes ([msr_mode s, msr_reserved s] @ radio_config_words (msr_single s) @
       dual_config_words (msr_dual s))"

definition decode_mode_swap_request :: "u8 list \<Rightarrow> mode_swap_request" where
  "decode_mode_swap_request bs = (let w = le32s bs in
     \<lparr>msr_mode = w ! 0, msr_reserved = w ! 1,
      msr_single = words_radio_config (take 15 (drop 2 w)),
      msr_dual = words_dual_config (drop 17 w)\<rparr>)"

definition encode_acquire_request :: "acquire_request \<Rightarrow> u8 list" where
  "encode_acquire_request a = u32_bytes (id_device_index a) @ u16_bytes (id_vendor_id a) @
     u16_bytes (id_product_id a) @ id_serial a"

definition decode_acquire_request :: "u8 list \<Rightarrow> acquire_request" where
  "decode_acquire_request bs = \<lparr>id_device_index = le32s (take 4 bs) ! 0,
     id_vendor_id = bytes_u16 (bs ! 4) (bs ! 5), id_product_id = bytes_u16 (bs ! 6) (bs ! 7),
     id_serial = take 64 (drop 8 bs)\<rparr>"

definition encode_duo_acquire_request :: "duo_acquire_request \<Rightarrow> u8 list" where
  "encode_duo_acquire_request d = encode_acquire_request (da_identity d) @
     u32s_bytes [da_role d, da_tuner d, da_sample_rate_hz d]"

definition decode_duo_acquire_request :: "u8 list \<Rightarrow> duo_acquire_request" where
  "decode_duo_acquire_request bs = (let w = le32s (drop 72 bs) in
     \<lparr>da_identity = decode_acquire_request (take 72 bs), da_role = w ! 0, da_tuner = w ! 1,
      da_sample_rate_hz = w ! 2\<rparr>)"

definition encode_device_record :: "device_record \<Rightarrow> u8 list" where
  "encode_device_record r = u32_bytes (rec_device_index r) @ u16_bytes (rec_vendor_id r) @
     u16_bytes (rec_product_id r) @ rec_serial r @ rec_model r @
     u32s_bytes [rec_rspduo_mode_mask r, rec_rspduo_sample_rate_hz r]"

definition decode_device_record :: "u8 list \<Rightarrow> device_record" where
  "decode_device_record bs = (let w = le32s (drop 136 bs) in
     \<lparr>rec_device_index = le32s (take 4 bs) ! 0,
      rec_vendor_id = bytes_u16 (bs ! 4) (bs ! 5), rec_product_id = bytes_u16 (bs ! 6) (bs ! 7),
      rec_serial = take 64 (drop 8 bs), rec_model = take 64 (drop 72 bs),
      rec_rspduo_mode_mask = w ! 0, rec_rspduo_sample_rate_hz = w ! 1\<rparr>)"

definition encode_response :: "response \<Rightarrow> u8 list" where
  "encode_response r =
     u32s_bytes [rsp_status r, rsp_sequence r, rsp_changed_flags r, rsp_reserved r]"

definition decode_response :: "u8 list \<Rightarrow> response" where
  "decode_response bs = (let w = le32s bs in
     \<lparr>rsp_status = w ! 0, rsp_sequence = w ! 1, rsp_changed_flags = w ! 2,
      rsp_reserved = w ! 3\<rparr>)"

subsection \<open>The interface of a layout\<close>

text \<open>
  A codec of a structure of \<open>width\<close> bytes: what is written has that width, and reading
  it gives the structure back, for structures whose character arrays have their declared
  size (\<open>wf\<close>).
\<close>

locale wire_codec =
  fixes enc :: "'a \<Rightarrow> u8 list"
    and dec :: "u8 list \<Rightarrow> 'a"
    and width :: nat
    and wf :: "'a \<Rightarrow> bool"
  assumes enc_width: "wf x \<Longrightarrow> length (enc x) = width"
    and dec_enc: "wf x \<Longrightarrow> dec (enc x) = x"
begin

lemma enc_injective: "wf x \<Longrightarrow> wf y \<Longrightarrow> enc x = enc y \<Longrightarrow> x = y"
  by (metis dec_enc)

text \<open>A structure followed by other bytes is split off the front unchanged.\<close>

lemma dec_take: "wf x \<Longrightarrow> dec (take width (enc x @ rest)) = x"
  by (simp add: enc_width [symmetric] dec_enc)

lemma enc_prefix_unique:
  assumes "wf x" "wf y" "enc x @ r = enc y @ r'"
  shows "x = y \<and> r = r'"
proof -
  have "length (enc x) = length (enc y)" using assms(1,2) by (simp add: enc_width)
  with assms(3) have "enc x = enc y" and "r = r'" by simp_all
  then show ?thesis using assms(1,2) enc_injective by blast
qed

end

definition wf_acquire_request :: "acquire_request \<Rightarrow> bool" where
  "wf_acquire_request a \<longleftrightarrow> length (id_serial a) = 64"

definition wf_device_record :: "device_record \<Rightarrow> bool" where
  "wf_device_record r \<longleftrightarrow> length (rec_serial r) = 64 \<and> length (rec_model r) = 64"

lemma length_radio_config_words [simp]: "length (radio_config_words c) = 15"
  by (simp add: radio_config_words_def)

lemma words_radio_config_inverse [simp]: "words_radio_config (radio_config_words c @ ws) = c"
  by (simp add: words_radio_config_def radio_config_words_def)

lemma words_radio_config_inverse_Nil [simp]: "words_radio_config (radio_config_words c) = c"
  using words_radio_config_inverse [of c "[]"] by simp

lemma length_dual_config_words [simp]: "length (dual_config_words d) = 32"
  by (simp add: dual_config_words_def)

lemma words_dual_config_inverse [simp]: "words_dual_config (dual_config_words d) = d"
  by (simp add: words_dual_config_def dual_config_words_def)

interpretation header_codec: wire_codec encode_header decode_header 16 "\<lambda>_. True"
  by unfold_locales
     (simp_all add: encode_header_def decode_header_def u16_bytes_def u32_bytes_def)

interpretation radio_config_codec:
  wire_codec encode_radio_config decode_radio_config 60 "\<lambda>_. True"
  by unfold_locales (simp_all add: encode_radio_config_def decode_radio_config_def)

interpretation dual_config_codec:
  wire_codec encode_dual_config decode_dual_config 128 "\<lambda>_. True"
  by unfold_locales (simp_all add: encode_dual_config_def decode_dual_config_def)

interpretation update_request_codec:
  wire_codec encode_update_request decode_update_request 68 "\<lambda>_. True"
  by unfold_locales (simp_all add: encode_update_request_def decode_update_request_def)

interpretation swap_request_codec:
  wire_codec encode_swap_request decode_swap_request 68 "\<lambda>_. True"
  by unfold_locales (simp_all add: encode_swap_request_def decode_swap_request_def)

interpretation mode_swap_request_codec:
  wire_codec encode_mode_swap_request decode_mode_swap_request 196 "\<lambda>_. True"
  by unfold_locales (simp_all add: encode_mode_swap_request_def decode_mode_swap_request_def)

interpretation response_codec: wire_codec encode_response decode_response 16 "\<lambda>_. True"
  by unfold_locales (simp_all add: encode_response_def decode_response_def)

interpretation acquire_request_codec:
  wire_codec encode_acquire_request decode_acquire_request 72 wf_acquire_request
  by unfold_locales
     (simp_all add: encode_acquire_request_def decode_acquire_request_def
        wf_acquire_request_def u16_bytes_def u32_bytes_def)

interpretation duo_acquire_request_codec:
  wire_codec encode_duo_acquire_request decode_duo_acquire_request 84
    "\<lambda>d. wf_acquire_request (da_identity d)"
  by unfold_locales
     (simp_all add: encode_duo_acquire_request_def decode_duo_acquire_request_def
        acquire_request_codec.enc_width acquire_request_codec.dec_enc)

interpretation device_record_codec:
  wire_codec encode_device_record decode_device_record 144 wf_device_record
  by unfold_locales
     (simp_all add: encode_device_record_def decode_device_record_def
        wf_device_record_def u16_bytes_def u32_bytes_def)

subsection \<open>Validity of configurations\<close>

text \<open>\<open>daemon/config_validation.c\<close>.\<close>

definition openrspd_config_valid :: "radio_config \<Rightarrow> bool" where
  "openrspd_config_valid c \<longleftrightarrow> sample_rate_hz c \<noteq> 0 \<and>
     sint (gain_reduction_db c) \<ge> 0 \<and> sint (gain_reduction_db c) \<le> 59 \<and>
     lna_state c \<le> 9 \<and> sint (agc_mode c) \<ge> 0 \<and> sint (agc_mode c) \<le> 4 \<and>
     sint (agc_setpoint_dbfs c) \<ge> -72 \<and> sint (agc_setpoint_dbfs c) \<le> 0 \<and>
     bias_tee_enabled c \<le> 1 \<and> rf_notch_enabled c \<le> 1 \<and> dab_notch_enabled c \<le> 1 \<and>
     external_reference_enabled c \<le> 1 \<and> am_port_select c \<le> 1 \<and> am_notch_enabled c \<le> 1 \<and>
     \<not> (tuner c = OPENRSP_TUNER_A \<and> bias_tee_enabled c \<noteq> 0) \<and>
     \<not> (tuner c = OPENRSP_TUNER_B \<and> (am_port_select c \<noteq> 0 \<or> am_notch_enabled c \<noteq> 0)) \<and>
     (tuner c = OPENRSP_TUNER_A \<or> tuner c = OPENRSP_TUNER_B)"

definition valid_dual_config :: "dual_config \<Rightarrow> bool" where
  "valid_dual_config d \<longleftrightarrow>
     (if dual_sample_rate_hz d \<noteq> 6000000 \<and> dual_sample_rate_hz d \<noteq> 8000000 then False
      else let required_if = (if dual_sample_rate_hz d = 6000000 then 1620000 else 2048000) in
        openrspd_config_valid (channel_a d) \<and> openrspd_config_valid (channel_b d) \<and>
        tuner (channel_a d) = OPENRSP_TUNER_A \<and> tuner (channel_b d) = OPENRSP_TUNER_B \<and>
        sample_rate_hz (channel_a d) = dual_sample_rate_hz d \<and>
        sample_rate_hz (channel_b d) = dual_sample_rate_hz d \<and>
        if_frequency_hz (channel_a d) = required_if \<and>
        if_frequency_hz (channel_b d) = required_if \<and>
        bandwidth_hz (channel_a d) \<le> 1536000 \<and> bandwidth_hz (channel_b d) \<le> 1536000)"

end
