(* ===== verification/Rsp_Duo.thy ===== *)
theory Rsp_Duo
  imports Rsp_Prelude
begin

text \<open>
  The RSPduo master/slave session of \<open>daemon/duo_session.c\<close>: two client processes share
  one receiver, the master owning its lifetime and the slave the other tuner. The model
  has the fields and the operations of the source; each operation returns the result
  code, the new session and the event for the peer. The second half is the contract: the
  invariant of the session, an abstract session in which only the legal shapes exist, and
  the proof that the operations implement it.
\<close>

subsection \<open>Data\<close>

record duo_session =
  master_fd :: descriptor
  slave_fd :: descriptor
  master_tuner :: u32
  slave_tuner :: u32
  duo_sample_rate_hz :: u32
  master_selected :: bool
  slave_selected :: bool
  master_initialised :: bool
  slave_initialised :: bool

abbreviation (input) OPENRSPD_INVALID_CLIENT :: descriptor where "OPENRSPD_INVALID_CLIENT \<equiv> -1"
abbreviation (input) OPENRSPD_DUO_TUNER_A :: u32 where "OPENRSPD_DUO_TUNER_A \<equiv> 1"
abbreviation (input) OPENRSPD_DUO_TUNER_B :: u32 where "OPENRSPD_DUO_TUNER_B \<equiv> 2"
abbreviation (input) OPENRSPD_DUO_RATE_UNSPECIFIED :: u32 where "OPENRSPD_DUO_RATE_UNSPECIFIED \<equiv> 0"

text \<open>The role is a C enumeration filled from a wire field, so it stays a number.\<close>

abbreviation (input) OPENRSPD_DUO_ROLE_NONE :: u32 where "OPENRSPD_DUO_ROLE_NONE \<equiv> 0"
abbreviation (input) OPENRSPD_DUO_ROLE_MASTER :: u32 where "OPENRSPD_DUO_ROLE_MASTER \<equiv> 1"
abbreviation (input) OPENRSPD_DUO_ROLE_SLAVE :: u32 where "OPENRSPD_DUO_ROLE_SLAVE \<equiv> 2"

datatype duo_result =
    OPENRSPD_DUO_OK | OPENRSPD_DUO_START_PENDING | OPENRSPD_DUO_STOP_PENDING
  | OPENRSPD_DUO_BUSY | OPENRSPD_DUO_INVALID

datatype duo_event_kind =
    OPENRSPD_DUO_EVENT_NONE | OPENRSPD_DUO_EVENT_MASTER_INITIALISED
  | OPENRSPD_DUO_EVENT_SLAVE_ATTACHED | OPENRSPD_DUO_EVENT_SLAVE_DETACHED
  | OPENRSPD_DUO_EVENT_SLAVE_INITIALISED | OPENRSPD_DUO_EVENT_SLAVE_UNINITIALISED
  | OPENRSPD_DUO_EVENT_MASTER_DLL_DISAPPEARED | OPENRSPD_DUO_EVENT_SLAVE_DLL_DISAPPEARED

record duo_event =
  ev_kind :: duo_event_kind
  ev_target_fd :: descriptor
  ev_source_fd :: descriptor
  ev_tuner :: u32

subsection \<open>Operations\<close>

definition valid_descriptor :: "descriptor \<Rightarrow> bool" where
  [rsp_defs]: "valid_descriptor d \<longleftrightarrow> d \<ge> 0"

definition valid_tuner :: "u32 \<Rightarrow> bool" where
  [rsp_defs]: "valid_tuner t \<longleftrightarrow> t = OPENRSPD_DUO_TUNER_A \<or> t = OPENRSPD_DUO_TUNER_B"

definition valid_rate :: "u32 \<Rightarrow> bool" where
  [rsp_defs]: "valid_rate r \<longleftrightarrow> r = 6000000 \<or> r = 8000000"

definition clear_event :: duo_event where
  "clear_event = \<lparr>ev_kind = OPENRSPD_DUO_EVENT_NONE, ev_target_fd = OPENRSPD_INVALID_CLIENT,
     ev_source_fd = OPENRSPD_INVALID_CLIENT, ev_tuner = 0\<rparr>"

definition emit_event :: "duo_event_kind \<Rightarrow> descriptor \<Rightarrow> descriptor \<Rightarrow> u32 \<Rightarrow> duo_event" where
  "emit_event kind target source t =
     \<lparr>ev_kind = kind, ev_target_fd = target, ev_source_fd = source, ev_tuner = t\<rparr>"

definition descriptor_is_master :: "duo_session \<Rightarrow> descriptor \<Rightarrow> bool" where
  [rsp_defs]: "descriptor_is_master s d \<longleftrightarrow> master_selected s \<and> master_fd s = d"

definition descriptor_is_slave :: "duo_session \<Rightarrow> descriptor \<Rightarrow> bool" where
  [rsp_defs]: "descriptor_is_slave s d \<longleftrightarrow> slave_selected s \<and> slave_fd s = d"

definition openrspd_duo_session_init :: duo_session where
  "openrspd_duo_session_init =
     \<lparr>master_fd = OPENRSPD_INVALID_CLIENT, slave_fd = OPENRSPD_INVALID_CLIENT,
      master_tuner = 0, slave_tuner = 0,
      duo_sample_rate_hz = OPENRSPD_DUO_RATE_UNSPECIFIED,
      master_selected = False, slave_selected = False,
      master_initialised = False, slave_initialised = False\<rparr>"

definition openrspd_duo_acquire ::
  "duo_session \<Rightarrow> descriptor \<Rightarrow> u32 \<Rightarrow> u32 \<Rightarrow> u32 \<Rightarrow> duo_result \<times> duo_session \<times> duo_event" where
  "openrspd_duo_acquire s d role t rate =
     (if \<not> valid_descriptor d \<or>
         (role \<noteq> OPENRSPD_DUO_ROLE_MASTER \<and> role \<noteq> OPENRSPD_DUO_ROLE_SLAVE) \<or> \<not> valid_tuner t
      then (OPENRSPD_DUO_INVALID, s, clear_event)
      else if role = OPENRSPD_DUO_ROLE_MASTER then
        (if \<not> valid_rate rate then (OPENRSPD_DUO_INVALID, s, clear_event)
         else if master_selected s then
           (if master_fd s = d \<and> master_tuner s = t \<and> duo_sample_rate_hz s = rate
            then (OPENRSPD_DUO_OK, s, clear_event)
            else (OPENRSPD_DUO_BUSY, s, clear_event))
         else if slave_selected s \<or> (slave_tuner s \<noteq> 0 \<and> slave_tuner s = t)
         then (OPENRSPD_DUO_BUSY, s, clear_event)
         else (OPENRSPD_DUO_OK,
               s\<lparr>master_fd := d, master_tuner := t, duo_sample_rate_hz := rate,
                 master_selected := True, master_initialised := False\<rparr>, clear_event))
      else if \<not> master_selected s \<or> master_fd s = d \<or>
              (rate \<noteq> OPENRSPD_DUO_RATE_UNSPECIFIED \<and> rate \<noteq> duo_sample_rate_hz s)
      then (OPENRSPD_DUO_BUSY, s, clear_event)
      else if t = master_tuner s then (OPENRSPD_DUO_BUSY, s, clear_event)
      else if slave_selected s then
        (if slave_fd s = d \<and> slave_tuner s = t
         then (OPENRSPD_DUO_OK, s, clear_event)
         else (OPENRSPD_DUO_BUSY, s, clear_event))
      else (OPENRSPD_DUO_OK,
            s\<lparr>slave_fd := d, slave_tuner := t, slave_selected := True,
              slave_initialised := False\<rparr>,
            emit_event OPENRSPD_DUO_EVENT_SLAVE_ATTACHED (master_fd s) d t))"

definition openrspd_duo_initialise ::
  "duo_session \<Rightarrow> descriptor \<Rightarrow> duo_result \<times> duo_session \<times> duo_event" where
  "openrspd_duo_initialise s d =
     (if \<not> valid_descriptor d then (OPENRSPD_DUO_INVALID, s, clear_event)
      else if descriptor_is_master s d then
        (if master_initialised s then (OPENRSPD_DUO_BUSY, s, clear_event)
         else (OPENRSPD_DUO_OK, s\<lparr>master_initialised := True\<rparr>,
               if slave_selected s
               then emit_event OPENRSPD_DUO_EVENT_MASTER_INITIALISED (slave_fd s) d (slave_tuner s)
               else clear_event))
      else if \<not> descriptor_is_slave s d then (OPENRSPD_DUO_INVALID, s, clear_event)
      else if slave_initialised s then (OPENRSPD_DUO_BUSY, s, clear_event)
      else if \<not> master_initialised s then (OPENRSPD_DUO_START_PENDING, s, clear_event)
      else (OPENRSPD_DUO_OK, s\<lparr>slave_initialised := True\<rparr>,
            emit_event OPENRSPD_DUO_EVENT_SLAVE_INITIALISED (master_fd s) d (slave_tuner s)))"

definition openrspd_duo_uninitialise ::
  "duo_session \<Rightarrow> descriptor \<Rightarrow> duo_result \<times> duo_session \<times> duo_event" where
  "openrspd_duo_uninitialise s d =
     (if \<not> valid_descriptor d then (OPENRSPD_DUO_INVALID, s, clear_event)
      else if descriptor_is_master s d then
        (if \<not> master_initialised s then (OPENRSPD_DUO_INVALID, s, clear_event)
         else if slave_initialised s then (OPENRSPD_DUO_STOP_PENDING, s, clear_event)
         else (OPENRSPD_DUO_OK, s\<lparr>master_initialised := False\<rparr>, clear_event))
      else if \<not> descriptor_is_slave s d \<or> \<not> slave_initialised s
      then (OPENRSPD_DUO_INVALID, s, clear_event)
      else (OPENRSPD_DUO_OK, s\<lparr>slave_initialised := False\<rparr>,
            emit_event OPENRSPD_DUO_EVENT_SLAVE_UNINITIALISED (master_fd s) d (slave_tuner s)))"

definition openrspd_duo_release ::
  "duo_session \<Rightarrow> descriptor \<Rightarrow> duo_result \<times> duo_session \<times> duo_event" where
  "openrspd_duo_release s d =
     (if \<not> valid_descriptor d then (OPENRSPD_DUO_INVALID, s, clear_event)
      else if descriptor_is_master s d then
        (if master_initialised s then (OPENRSPD_DUO_BUSY, s, clear_event)
         else if slave_selected s then (OPENRSPD_DUO_STOP_PENDING, s, clear_event)
         else (OPENRSPD_DUO_OK, openrspd_duo_session_init, clear_event))
      else if \<not> descriptor_is_slave s d then (OPENRSPD_DUO_INVALID, s, clear_event)
      else if slave_initialised s then (OPENRSPD_DUO_BUSY, s, clear_event)
      else (OPENRSPD_DUO_OK,
            s\<lparr>slave_fd := OPENRSPD_INVALID_CLIENT, slave_tuner := 0, slave_selected := False,
              slave_initialised := False\<rparr>,
            emit_event OPENRSPD_DUO_EVENT_SLAVE_DETACHED (master_fd s) d (slave_tuner s)))"

definition openrspd_duo_disconnect ::
  "duo_session \<Rightarrow> descriptor \<Rightarrow> duo_result \<times> duo_session \<times> duo_event" where
  "openrspd_duo_disconnect s d =
     (if \<not> valid_descriptor d then (OPENRSPD_DUO_INVALID, s, clear_event)
      else if descriptor_is_slave s d then
        (OPENRSPD_DUO_OK,
         s\<lparr>slave_fd := OPENRSPD_INVALID_CLIENT, slave_tuner := 0, slave_selected := False,
           slave_initialised := False\<rparr>,
         emit_event OPENRSPD_DUO_EVENT_SLAVE_DLL_DISAPPEARED (master_fd s) d (slave_tuner s))
      else if descriptor_is_master s d then
        (OPENRSPD_DUO_OK, openrspd_duo_session_init,
         if slave_selected s
         then emit_event OPENRSPD_DUO_EVENT_MASTER_DLL_DISAPPEARED (slave_fd s) d (slave_tuner s)
         else clear_event)
      else (OPENRSPD_DUO_OK, s, clear_event))"

text \<open>The result and the descriptor written through the pointer argument.\<close>

definition openrspd_duo_route :: "duo_session \<Rightarrow> u32 \<Rightarrow> int \<times> descriptor" where
  "openrspd_duo_route s t =
     (if \<not> valid_tuner t then (-1, OPENRSPD_INVALID_CLIENT)
      else if master_selected s \<and> master_initialised s \<and> master_tuner s = t
      then (if master_fd s \<ge> 0 then 1 else 0, master_fd s)
      else if slave_selected s \<and> slave_initialised s \<and> slave_tuner s = t
      then (if slave_fd s \<ge> 0 then 1 else 0, slave_fd s)
      else (0, OPENRSPD_INVALID_CLIENT))"

definition openrspd_duo_role_for_descriptor :: "duo_session \<Rightarrow> descriptor \<Rightarrow> u32" where
  "openrspd_duo_role_for_descriptor s d =
     (if descriptor_is_master s d then OPENRSPD_DUO_ROLE_MASTER
      else if descriptor_is_slave s d then OPENRSPD_DUO_ROLE_SLAVE
      else OPENRSPD_DUO_ROLE_NONE)"

definition openrspd_duo_write_failure_stops_stream :: "duo_session \<Rightarrow> descriptor \<Rightarrow> bool" where
  "openrspd_duo_write_failure_stops_stream s d \<longleftrightarrow>
     openrspd_duo_role_for_descriptor s d \<noteq> OPENRSPD_DUO_ROLE_SLAVE"

text \<open>The operations a daemon may call, in any order and from any descriptor.\<close>

datatype duo_op =
    Duo_Acquire descriptor u32 u32 u32
  | Duo_Initialise descriptor
  | Duo_Uninitialise descriptor
  | Duo_Release descriptor
  | Duo_Disconnect descriptor

fun duo_exec :: "duo_op \<Rightarrow> duo_session \<Rightarrow> duo_result \<times> duo_session \<times> duo_event" where
  "duo_exec (Duo_Acquire d role t rate) s = openrspd_duo_acquire s d role t rate"
| "duo_exec (Duo_Initialise d) s = openrspd_duo_initialise s d"
| "duo_exec (Duo_Uninitialise d) s = openrspd_duo_uninitialise s d"
| "duo_exec (Duo_Release d) s = openrspd_duo_release s d"
| "duo_exec (Duo_Disconnect d) s = openrspd_duo_disconnect s d"

inductive duo_step :: "duo_session \<Rightarrow> duo_op \<times> duo_result \<times> duo_event \<Rightarrow> duo_session \<Rightarrow> bool" where
  "duo_exec op s = (r, s', e) \<Longrightarrow> duo_step s (op, r, e) s'"

inductive_simps duo_step_iff: "duo_step s (op, r, e) s'"
inductive_cases duo_stepE: "duo_step s l s'"

lemmas duo_op_defs =
  openrspd_duo_acquire_def openrspd_duo_initialise_def openrspd_duo_uninitialise_def
  openrspd_duo_release_def openrspd_duo_disconnect_def

subsection \<open>Invariant\<close>

definition duo_inv :: "duo_session \<Rightarrow> bool" where
  "duo_inv s \<longleftrightarrow>
     (if master_selected s
      then master_fd s \<ge> 0 \<and> valid_tuner (master_tuner s) \<and> valid_rate (duo_sample_rate_hz s)
      else master_fd s = OPENRSPD_INVALID_CLIENT \<and> master_tuner s = 0 \<and>
        duo_sample_rate_hz s = OPENRSPD_DUO_RATE_UNSPECIFIED \<and> \<not> master_initialised s \<and>
        \<not> slave_selected s) \<and>
     (if slave_selected s
      then slave_fd s \<ge> 0 \<and> slave_fd s \<noteq> master_fd s \<and>
        valid_tuner (slave_tuner s) \<and> slave_tuner s \<noteq> master_tuner s
      else slave_fd s = OPENRSPD_INVALID_CLIENT \<and> slave_tuner s = 0 \<and> \<not> slave_initialised s) \<and>
     (slave_initialised s \<longrightarrow> master_initialised s)"

lemma duo_inv_free: "duo_inv s \<Longrightarrow> \<not> master_selected s \<Longrightarrow> s = openrspd_duo_session_init"
  by (cases s) (auto simp: duo_inv_def openrspd_duo_session_init_def)

lemma duo_inv_init [simp, intro]: "duo_inv openrspd_duo_session_init"
  by (simp add: duo_inv_def openrspd_duo_session_init_def)

lemma duo_inv_acquire: "duo_inv s \<Longrightarrow> duo_inv (fst (snd (openrspd_duo_acquire s d role t rate)))"
  unfolding openrspd_duo_acquire_def
  by (simp add: valid_descriptor_def) (auto simp: duo_inv_def valid_tuner_def)

lemma duo_inv_initialise: "duo_inv s \<Longrightarrow> duo_inv (fst (snd (openrspd_duo_initialise s d)))"
  by (auto simp: openrspd_duo_initialise_def duo_inv_def descriptor_is_master_def
      descriptor_is_slave_def split: if_splits)

lemma duo_inv_uninitialise: "duo_inv s \<Longrightarrow> duo_inv (fst (snd (openrspd_duo_uninitialise s d)))"
  by (auto simp: openrspd_duo_uninitialise_def duo_inv_def descriptor_is_master_def
      descriptor_is_slave_def split: if_splits)

lemma duo_inv_release: "duo_inv s \<Longrightarrow> duo_inv (fst (snd (openrspd_duo_release s d)))"
  by (auto simp: openrspd_duo_release_def)
     (auto simp: duo_inv_def descriptor_is_slave_def split: if_splits)

lemma duo_inv_disconnect: "duo_inv s \<Longrightarrow> duo_inv (fst (snd (openrspd_duo_disconnect s d)))"
  by (auto simp: openrspd_duo_disconnect_def)
     (auto simp: duo_inv_def descriptor_is_slave_def split: if_splits)

lemmas duo_inv_ops [intro] =
  duo_inv_acquire duo_inv_initialise duo_inv_uninitialise duo_inv_release duo_inv_disconnect

lemma duo_inv_exec: "duo_inv s \<Longrightarrow> duo_inv (fst (snd (duo_exec op s)))"
  by (cases op) auto

interpretation duo_sys: invariant_system duo_step duo_inv
proof
  fix s l s' assume "duo_inv s" "duo_step s l s'"
  then show "duo_inv s'" using duo_inv_exec by (auto elim!: duo_stepE) (metis fst_conv snd_conv)
qed

subsection \<open>The abstract session\<close>

text \<open>
  What the session promises, with only the legal shapes: the receiver is free, or held by
  a master, with or without a slave. A participant is its descriptor, its tuner and
  whether it is initialised.
\<close>

record participant =
  p_fd :: descriptor
  p_tuner :: u32
  p_initialised :: bool

datatype duo_spec = Free | Held participant u32 "participant option"

definition duo_abs :: "duo_session \<Rightarrow> duo_spec" where
  "duo_abs s =
     (if \<not> master_selected s then Free
      else Held \<lparr>p_fd = master_fd s, p_tuner = master_tuner s, p_initialised = master_initialised s\<rparr>
        (duo_sample_rate_hz s)
        (if slave_selected s
         then Some \<lparr>p_fd = slave_fd s, p_tuner = slave_tuner s, p_initialised = slave_initialised s\<rparr>
         else None))"

fun spec_acquire_master ::
  "descriptor \<Rightarrow> u32 \<Rightarrow> u32 \<Rightarrow> duo_spec \<Rightarrow> duo_result \<times> duo_spec \<times> duo_event" where
  "spec_acquire_master d t rate Free =
     (OPENRSPD_DUO_OK, Held \<lparr>p_fd = d, p_tuner = t, p_initialised = False\<rparr> rate None, clear_event)"
| "spec_acquire_master d t rate (Held m r sl) =
     (if p_fd m = d \<and> p_tuner m = t \<and> r = rate then OPENRSPD_DUO_OK else OPENRSPD_DUO_BUSY,
      Held m r sl, clear_event)"

fun spec_acquire_slave ::
  "descriptor \<Rightarrow> u32 \<Rightarrow> u32 \<Rightarrow> duo_spec \<Rightarrow> duo_result \<times> duo_spec \<times> duo_event" where
  "spec_acquire_slave d t rate Free = (OPENRSPD_DUO_BUSY, Free, clear_event)"
| "spec_acquire_slave d t rate (Held m r None) =
     (if d = p_fd m \<or> t = p_tuner m \<or> rate \<notin> {OPENRSPD_DUO_RATE_UNSPECIFIED, r}
      then (OPENRSPD_DUO_BUSY, Held m r None, clear_event)
      else (OPENRSPD_DUO_OK, Held m r (Some \<lparr>p_fd = d, p_tuner = t, p_initialised = False\<rparr>),
            emit_event OPENRSPD_DUO_EVENT_SLAVE_ATTACHED (p_fd m) d t))"
| "spec_acquire_slave d t rate (Held m r (Some p)) =
     (if p_fd p = d \<and> p_tuner p = t \<and> rate \<in> {OPENRSPD_DUO_RATE_UNSPECIFIED, r}
      then OPENRSPD_DUO_OK else OPENRSPD_DUO_BUSY, Held m r (Some p), clear_event)"

text \<open>The lifecycle operations act on the participant that calls them.\<close>

fun spec_initialise :: "descriptor \<Rightarrow> duo_spec \<Rightarrow> duo_result \<times> duo_spec \<times> duo_event" where
  "spec_initialise d Free = (OPENRSPD_DUO_INVALID, Free, clear_event)"
| "spec_initialise d (Held m r sl) =
     (if p_fd m = d then
        (if p_initialised m then (OPENRSPD_DUO_BUSY, Held m r sl, clear_event)
         else (OPENRSPD_DUO_OK, Held (m\<lparr>p_initialised := True\<rparr>) r sl,
               case sl of None \<Rightarrow> clear_event
               | Some p \<Rightarrow> emit_event OPENRSPD_DUO_EVENT_MASTER_INITIALISED (p_fd p) d (p_tuner p)))
      else case sl of None \<Rightarrow> (OPENRSPD_DUO_INVALID, Held m r sl, clear_event)
      | Some p \<Rightarrow>
          if p_fd p \<noteq> d then (OPENRSPD_DUO_INVALID, Held m r sl, clear_event)
          else if p_initialised p then (OPENRSPD_DUO_BUSY, Held m r sl, clear_event)
          else if \<not> p_initialised m then (OPENRSPD_DUO_START_PENDING, Held m r sl, clear_event)
          else (OPENRSPD_DUO_OK, Held m r (Some (p\<lparr>p_initialised := True\<rparr>)),
                emit_event OPENRSPD_DUO_EVENT_SLAVE_INITIALISED (p_fd m) d (p_tuner p)))"

fun spec_uninitialise :: "descriptor \<Rightarrow> duo_spec \<Rightarrow> duo_result \<times> duo_spec \<times> duo_event" where
  "spec_uninitialise d Free = (OPENRSPD_DUO_INVALID, Free, clear_event)"
| "spec_uninitialise d (Held m r sl) =
     (if p_fd m = d then
        (if \<not> p_initialised m then (OPENRSPD_DUO_INVALID, Held m r sl, clear_event)
         else if (\<exists>p \<in> set_option sl. p_initialised p)
         then (OPENRSPD_DUO_STOP_PENDING, Held m r sl, clear_event)
         else (OPENRSPD_DUO_OK, Held (m\<lparr>p_initialised := False\<rparr>) r sl, clear_event))
      else case sl of None \<Rightarrow> (OPENRSPD_DUO_INVALID, Held m r sl, clear_event)
      | Some p \<Rightarrow>
          if p_fd p \<noteq> d \<or> \<not> p_initialised p then (OPENRSPD_DUO_INVALID, Held m r sl, clear_event)
          else (OPENRSPD_DUO_OK, Held m r (Some (p\<lparr>p_initialised := False\<rparr>)),
                emit_event OPENRSPD_DUO_EVENT_SLAVE_UNINITIALISED (p_fd m) d (p_tuner p)))"

fun spec_release :: "descriptor \<Rightarrow> duo_spec \<Rightarrow> duo_result \<times> duo_spec \<times> duo_event" where
  "spec_release d Free = (OPENRSPD_DUO_INVALID, Free, clear_event)"
| "spec_release d (Held m r sl) =
     (if p_fd m = d then
        (if p_initialised m then (OPENRSPD_DUO_BUSY, Held m r sl, clear_event)
         else if sl \<noteq> None then (OPENRSPD_DUO_STOP_PENDING, Held m r sl, clear_event)
         else (OPENRSPD_DUO_OK, Free, clear_event))
      else case sl of None \<Rightarrow> (OPENRSPD_DUO_INVALID, Held m r sl, clear_event)
      | Some p \<Rightarrow>
          if p_fd p \<noteq> d then (OPENRSPD_DUO_INVALID, Held m r sl, clear_event)
          else if p_initialised p then (OPENRSPD_DUO_BUSY, Held m r sl, clear_event)
          else (OPENRSPD_DUO_OK, Held m r None,
                emit_event OPENRSPD_DUO_EVENT_SLAVE_DETACHED (p_fd m) d (p_tuner p)))"

fun spec_disconnect :: "descriptor \<Rightarrow> duo_spec \<Rightarrow> duo_result \<times> duo_spec \<times> duo_event" where
  "spec_disconnect d Free = (OPENRSPD_DUO_OK, Free, clear_event)"
| "spec_disconnect d (Held m r sl) =
     (if p_fd m = d then
        (OPENRSPD_DUO_OK, Free,
         case sl of None \<Rightarrow> clear_event
         | Some p \<Rightarrow> emit_event OPENRSPD_DUO_EVENT_MASTER_DLL_DISAPPEARED (p_fd p) d (p_tuner p))
      else case sl of None \<Rightarrow> (OPENRSPD_DUO_OK, Held m r sl, clear_event)
      | Some p \<Rightarrow>
          if p_fd p \<noteq> d then (OPENRSPD_DUO_OK, Held m r sl, clear_event)
          else (OPENRSPD_DUO_OK, Held m r None,
                emit_event OPENRSPD_DUO_EVENT_SLAVE_DLL_DISAPPEARED (p_fd m) d (p_tuner p)))"

fun duo_spec_exec :: "duo_op \<Rightarrow> duo_spec \<Rightarrow> duo_result \<times> duo_spec \<times> duo_event" where
  "duo_spec_exec (Duo_Acquire d role t rate) a =
     (if d < 0 \<or> \<not> valid_tuner t then (OPENRSPD_DUO_INVALID, a, clear_event)
      else if role = OPENRSPD_DUO_ROLE_MASTER \<and> valid_rate rate then spec_acquire_master d t rate a
      else if role = OPENRSPD_DUO_ROLE_SLAVE then spec_acquire_slave d t rate a
      else (OPENRSPD_DUO_INVALID, a, clear_event))"
| "duo_spec_exec (Duo_Initialise d) a = spec_initialise d a"
| "duo_spec_exec (Duo_Uninitialise d) a = spec_uninitialise d a"
| "duo_spec_exec (Duo_Release d) a = spec_release d a"
| "duo_spec_exec (Duo_Disconnect d) a =
     (if d < 0 then (OPENRSPD_DUO_INVALID, a, clear_event) else spec_disconnect d a)"

text \<open>The image of a concrete step under the abstraction.\<close>

definition abs_step :: "duo_result \<times> duo_session \<times> duo_event \<Rightarrow> duo_result \<times> duo_spec \<times> duo_event" where
  "abs_step x = (fst x, duo_abs (fst (snd x)), snd (snd x))"

lemma duo_cases [consumes 1, case_names free master both]:
  assumes "duo_inv s"
  obtains
      "s = openrspd_duo_session_init" "duo_abs s = Free"
    | "master_selected s" "\<not> slave_selected s" "master_fd s \<ge> 0"
    | "master_selected s" "slave_selected s" "master_fd s \<ge> 0" "slave_fd s \<ge> 0"
      "slave_fd s \<noteq> master_fd s" "slave_tuner s \<noteq> master_tuner s"
  using assms duo_inv_free [OF assms] by (auto simp: duo_inv_def duo_abs_def split: if_splits)

lemma refine_acquire:
  assumes "duo_inv s"
  shows "abs_step (openrspd_duo_acquire s d role t rate) = duo_spec_exec (Duo_Acquire d role t rate) (duo_abs s)"
  using assms
proof (cases rule: duo_cases)
  case free
  then show ?thesis
    by (simp add: openrspd_duo_acquire_def abs_step_def duo_abs_def openrspd_duo_session_init_def
        valid_descriptor_def not_le)
next
  case master
  with assms have "slave_tuner s = 0" by (simp add: duo_inv_def)
  with master show ?thesis
    by (auto simp: openrspd_duo_acquire_def abs_step_def duo_abs_def valid_descriptor_def)
next
  case both
  then show ?thesis
    by (auto simp: openrspd_duo_acquire_def abs_step_def duo_abs_def valid_descriptor_def)
qed

lemmas refine_simps = abs_step_def duo_abs_def openrspd_duo_session_init_def rsp_defs

lemma refine_initialise:
  "duo_inv s \<Longrightarrow> abs_step (openrspd_duo_initialise s d) = duo_spec_exec (Duo_Initialise d) (duo_abs s)"
  by (cases rule: duo_cases) (auto simp: openrspd_duo_initialise_def refine_simps)

lemma refine_uninitialise:
  "duo_inv s \<Longrightarrow> abs_step (openrspd_duo_uninitialise s d) = duo_spec_exec (Duo_Uninitialise d) (duo_abs s)"
  by (cases rule: duo_cases)
     (auto simp: openrspd_duo_uninitialise_def refine_simps duo_inv_def split: if_splits)

lemma refine_release:
  "duo_inv s \<Longrightarrow> abs_step (openrspd_duo_release s d) = duo_spec_exec (Duo_Release d) (duo_abs s)"
  by (cases rule: duo_cases) (auto simp: openrspd_duo_release_def refine_simps)

lemma refine_disconnect:
  "duo_inv s \<Longrightarrow> abs_step (openrspd_duo_disconnect s d) = duo_spec_exec (Duo_Disconnect d) (duo_abs s)"
  by (cases rule: duo_cases) (auto simp: openrspd_duo_disconnect_def refine_simps)

lemma refine_exec: "duo_inv s \<Longrightarrow> abs_step (duo_exec op s) = duo_spec_exec op (duo_abs s)"
  by (cases op)
     (simp_all del: duo_spec_exec.simps add: refine_acquire refine_initialise refine_uninitialise
        refine_release refine_disconnect)

inductive duo_spec_step :: "duo_spec \<Rightarrow> duo_op \<times> duo_result \<times> duo_event \<Rightarrow> duo_spec \<Rightarrow> bool" where
  "duo_spec_exec op a = (r, a', e) \<Longrightarrow> duo_spec_step a (op, r, e) a'"

inductive_cases duo_spec_stepE: "duo_spec_step a l a'"

lemma duo_step_simulated:
  assumes "duo_inv s" "duo_step s l s'"
  shows "duo_spec_step (duo_abs s) l (duo_abs s')"
  using assms(2)
proof cases
  case (1 op r e)
  with refine_exec [OF assms(1), of op] have "duo_spec_exec op (duo_abs s) = (r, duo_abs s', e)"
    by (simp add: abs_step_def)
  then show ?thesis unfolding 1(1) by (rule duo_spec_step.intros)
qed

lemma duo_spec_step_realised:
  assumes "duo_inv s" "duo_spec_step (duo_abs s) l a'"
  shows "\<exists>s'. duo_step s l s' \<and> duo_abs s' = a'"
  using assms(2)
proof cases
  case (1 op r e)
  obtain r' s' e' where ex: "duo_exec op s = (r', s', e')" by (metis prod_cases3)
  with refine_exec [OF assms(1), of op] 1(2) have "r' = r" "duo_abs s' = a'" "e' = e"
    by (simp_all add: abs_step_def)
  with ex show ?thesis unfolding 1(1) by (auto intro: duo_step.intros)
qed

lemma duo_runs_simulated:
  "runs duo_step s ls s' \<Longrightarrow> duo_inv s \<Longrightarrow> runs duo_spec_step (duo_abs s) ls (duo_abs s')"
  by (induction rule: runs.induct)
     (auto intro: runs.intros duo_step_simulated duo_sys.step_inv)

lemma duo_runs_realised:
  "runs duo_spec_step a ls a' \<Longrightarrow> duo_inv s \<Longrightarrow> duo_abs s = a
   \<Longrightarrow> \<exists>s'. runs duo_step s ls s' \<and> duo_abs s' = a'"
proof (induction arbitrary: s rule: runs.induct)
  case (runs_Nil a)
  then show ?case by (auto intro: runs.intros)
next
  case (runs_Cons a l b ls c)
  then obtain t where "duo_step s l t" "duo_abs t = b"
    using duo_spec_step_realised by metis
  moreover have "duo_inv t" using calculation runs_Cons.prems(1) duo_sys.step_inv by metis
  ultimately show ?case using runs_Cons.IH by (blast intro: runs.runs_Cons)
qed

lemma duo_abs_init [simp]: "duo_abs openrspd_duo_session_init = Free"
  by (simp add: duo_abs_def openrspd_duo_session_init_def)

lemma duo_route_owner:
  "openrspd_duo_route s t = (1, d) \<longleftrightarrow> d \<ge> 0 \<and> valid_tuner t \<and>
     (if master_selected s \<and> master_initialised s \<and> master_tuner s = t then d = master_fd s
      else slave_selected s \<and> slave_initialised s \<and> slave_tuner s = t \<and> d = slave_fd s)"
  by (auto simp: openrspd_duo_route_def)

lemma duo_inv_route_exclusive:
  assumes "duo_inv s" "openrspd_duo_route s t = (1, d)"
  shows "(descriptor_is_master s d \<and> master_tuner s = t \<or>
          descriptor_is_slave s d \<and> slave_tuner s = t \<and> slave_initialised s) \<and>
    master_initialised s \<and> (\<forall>t'. openrspd_duo_route s t' = (1, d) \<longrightarrow> t' = t)"
proof (cases "master_selected s \<and> master_initialised s \<and> master_tuner s = t")
  case True
  with assms show ?thesis
    by (auto simp: duo_route_owner duo_inv_def descriptor_is_master_def split: if_splits)
next
  case False
  with assms show ?thesis
    by (simp add: duo_route_owner descriptor_is_slave_def) (auto simp: duo_inv_def)
qed

text \<open>
  Who makes a call, and the notice the peer is owed for it, by the caller's role: the master
  announces that it starts or disappears, the slave each step it takes.
\<close>

fun duo_caller :: "duo_op \<Rightarrow> descriptor" where
  "duo_caller (Duo_Acquire d role t rate) = d"
| "duo_caller (Duo_Initialise d) = d"
| "duo_caller (Duo_Uninitialise d) = d"
| "duo_caller (Duo_Release d) = d"
| "duo_caller (Duo_Disconnect d) = d"

fun duo_notice :: "duo_op \<Rightarrow> bool \<Rightarrow> duo_event_kind" where
  "duo_notice (Duo_Acquire d role t rate) by_master =
     (if by_master then OPENRSPD_DUO_EVENT_NONE else OPENRSPD_DUO_EVENT_SLAVE_ATTACHED)"
| "duo_notice (Duo_Initialise d) by_master =
     (if by_master then OPENRSPD_DUO_EVENT_MASTER_INITIALISED else OPENRSPD_DUO_EVENT_SLAVE_INITIALISED)"
| "duo_notice (Duo_Uninitialise d) by_master =
     (if by_master then OPENRSPD_DUO_EVENT_NONE else OPENRSPD_DUO_EVENT_SLAVE_UNINITIALISED)"
| "duo_notice (Duo_Release d) by_master =
     (if by_master then OPENRSPD_DUO_EVENT_NONE else OPENRSPD_DUO_EVENT_SLAVE_DETACHED)"
| "duo_notice (Duo_Disconnect d) by_master =
     (if by_master then OPENRSPD_DUO_EVENT_MASTER_DLL_DISAPPEARED else OPENRSPD_DUO_EVENT_SLAVE_DLL_DISAPPEARED)"

lemma duo_event_peer:
  assumes "duo_inv s" "duo_exec op s = (r, s', e)" "ev_kind e \<noteq> OPENRSPD_DUO_EVENT_NONE"
  shows "r = OPENRSPD_DUO_OK \<and> ev_source_fd e = duo_caller op \<and>
    ev_kind e = duo_notice op (descriptor_is_master s (duo_caller op)) \<and>
    ev_target_fd e = (if descriptor_is_master s (duo_caller op) then slave_fd s else master_fd s) \<and>
    ev_tuner e = (if slave_selected s then slave_tuner s else slave_tuner s') \<and>
    0 \<le> ev_target_fd e \<and> ev_target_fd e \<noteq> duo_caller op"
proof -
  note simps = emit_event_def clear_event_def valid_descriptor_def
    descriptor_is_master_def descriptor_is_slave_def
  have i: "master_selected s \<Longrightarrow> master_fd s \<ge> 0"
    "slave_selected s \<Longrightarrow> master_selected s \<and> slave_fd s \<ge> 0 \<and> slave_fd s \<noteq> master_fd s"
    using assms(1) by (auto simp: duo_inv_def split: if_splits)
  show ?thesis
  proof (cases op)
    case (Duo_Acquire d role t rate)
    then show ?thesis using assms(2,3) i
      by (auto simp: openrspd_duo_acquire_def simps split: if_splits)
  next
    case (Duo_Initialise d)
    then show ?thesis using assms(2,3) i
      by (auto simp: openrspd_duo_initialise_def simps split: if_splits)
  next
    case (Duo_Uninitialise d)
    then show ?thesis using assms(2,3) i
      by (auto simp: openrspd_duo_uninitialise_def simps split: if_splits)
  next
    case (Duo_Release d)
    then show ?thesis using assms(2,3) i
      by (auto simp: openrspd_duo_release_def simps split: if_splits)
  next
    case (Duo_Disconnect d)
    then show ?thesis using assms(2,3) i
      by (auto simp: openrspd_duo_disconnect_def simps split: if_splits)
  qed
qed

lemma duo_event_owed:
  assumes "duo_inv s" "duo_exec op s = (r, s', e)" "s' \<noteq> s" "slave_selected s \<or> slave_selected s'"
    and "op \<noteq> Duo_Uninitialise (master_fd s)"
  shows "ev_kind e \<noteq> OPENRSPD_DUO_EVENT_NONE"
  using assms by (cases op) (auto simp: duo_op_defs rsp_defs openrspd_duo_session_init_def
      emit_event_def clear_event_def duo_inv_def split: if_splits)

lemma duo_reachable_inv: "runs duo_step openrspd_duo_session_init ls s \<Longrightarrow> duo_inv s"
  by (erule duo_sys.runs_inv) (rule duo_inv_init)

subsection \<open>Orderly shutdown\<close>

text \<open>
  The calls that take a session down: the slave uninitialises and releases, then the
  master does. \<open>duo_exec_all\<close> collects the result codes of a list of calls.
\<close>

definition duo_shutdown :: "duo_session \<Rightarrow> duo_op list" where
  "duo_shutdown s =
     (if slave_initialised s then [Duo_Uninitialise (slave_fd s)] else []) @
     (if slave_selected s then [Duo_Release (slave_fd s)] else []) @
     (if master_initialised s then [Duo_Uninitialise (master_fd s)] else []) @
     (if master_selected s then [Duo_Release (master_fd s)] else [])"

fun duo_exec_all :: "duo_op list \<Rightarrow> duo_session \<Rightarrow> duo_result list \<times> duo_session" where
  "duo_exec_all [] s = ([], s)"
| "duo_exec_all (op # ops) s =
     (let (r, s', e) = duo_exec op s; (rs, s'') = duo_exec_all ops s' in (r # rs, s''))"

lemma duo_shutdown_ok:
  assumes "duo_inv s"
  shows "duo_exec_all (duo_shutdown s) s =
    (replicate (length (duo_shutdown s)) OPENRSPD_DUO_OK, openrspd_duo_session_init)"
  using assms
proof (cases rule: duo_cases)
  case free
  then show ?thesis by (simp add: duo_shutdown_def openrspd_duo_session_init_def)
next
  case master
  with assms show ?thesis
    by (simp add: duo_shutdown_def duo_inv_def openrspd_duo_uninitialise_def
        openrspd_duo_release_def rsp_defs)
next
  case both
  with assms have "slave_initialised s \<longrightarrow> master_initialised s" by (simp add: duo_inv_def)
  with both show ?thesis
    by (cases "slave_initialised s"; cases "master_initialised s")
       (simp_all add: duo_shutdown_def openrspd_duo_uninitialise_def
          openrspd_duo_release_def valid_descriptor_def descriptor_is_master_def
          descriptor_is_slave_def)
qed

subsection \<open>Properties\<close>

text \<open>
  C14. The operations of \<open>duo_session.c\<close> implement the abstract session exactly: the
  sequences of calls, result codes and events they can produce from a fresh session are
  those of the abstract session started free, and the session reached is one that stands
  for the abstract one.
\<close>

theorem duo_session_refines_spec:
  "runs duo_spec_step Free ls a \<longleftrightarrow>
     (\<exists>s. runs duo_step openrspd_duo_session_init ls s \<and> duo_inv s \<and> duo_abs s = a)"
proof
  assume "runs duo_spec_step Free ls a"
  then show "\<exists>s. runs duo_step openrspd_duo_session_init ls s \<and> duo_inv s \<and> duo_abs s = a"
    using duo_runs_realised [of Free ls a openrspd_duo_session_init] duo_reachable_inv [of ls]
    by (simp only: duo_inv_init duo_abs_init) blast
next
  assume "\<exists>s. runs duo_step openrspd_duo_session_init ls s \<and> duo_inv s \<and> duo_abs s = a"
  then show "runs duo_spec_step Free ls a"
    using duo_runs_simulated [of openrspd_duo_session_init ls] by auto
qed

text \<open>
  C15. In every session any sequence of calls can reach, a sample lane is routed only to the
  initialised participant that selected that tuner, the slave receives samples only while
  the master is initialised, and no descriptor receives both lanes.
\<close>

theorem duo_route_exclusive:
  assumes "runs duo_step openrspd_duo_session_init ls s"
    and "openrspd_duo_route s t = (1, d)"
  shows "(descriptor_is_master s d \<and> master_tuner s = t \<or>
          descriptor_is_slave s d \<and> slave_tuner s = t \<and> slave_initialised s) \<and>
    master_initialised s \<and>
    (\<forall>t'. openrspd_duo_route s t' = (1, d) \<longrightarrow> t' = t)"
  by (rule duo_inv_route_exclusive [OF duo_reachable_inv [OF assms(1)] assms(2)])

theorem duo_route_exclusive_witness:
  "\<exists>s. openrspd_duo_route s 2 = (1, 5) \<and> descriptor_is_master s 5 \<and> master_tuner s = 2 \<and>
     master_initialised s \<and> openrspd_duo_route s 1 \<noteq> (1, 5)"
proof -
  let ?s = "openrspd_duo_session_init\<lparr>master_fd := 5, master_tuner := 2,
      duo_sample_rate_hz := 6000000, master_selected := True, master_initialised := True\<rparr>"
  have "runs duo_step openrspd_duo_session_init
     [(Duo_Acquire 5 1 2 6000000, OPENRSPD_DUO_OK, clear_event),
      (Duo_Initialise 5, OPENRSPD_DUO_OK, clear_event)] ?s"
    by (simp add: runs_Cons_iff duo_step_iff duo_op_defs rsp_defs openrspd_duo_session_init_def)
  moreover have route: "openrspd_duo_route ?s 2 = (1, 5)"
    by (simp add: openrspd_duo_route_def rsp_defs)
  ultimately have "(descriptor_is_master ?s 5 \<and> master_tuner ?s = 2 \<or>
      descriptor_is_slave ?s 5 \<and> slave_tuner ?s = 2 \<and> slave_initialised ?s) \<and>
    master_initialised ?s \<and> (\<forall>t'. openrspd_duo_route ?s t' = (1, 5) \<longrightarrow> t' = 2)"
    by (rule duo_route_exclusive)
  moreover from this have "openrspd_duo_route ?s 1 \<noteq> (1, 5)" by fastforce
  moreover have "\<not> descriptor_is_slave ?s 5"
    by (simp add: descriptor_is_slave_def openrspd_duo_session_init_def)
  ultimately show ?thesis using route by blast
qed

text \<open>
  C16. Whatever calls came before, every event names its caller and reaches the other
  participant. An event is produced only by a call that succeeds; its source is the
  descriptor that called, its kind is the notice owed for that call in the caller's role,
  it is addressed to the slave when the master called and to the master otherwise, an open
  descriptor other than the caller's, and it carries the slave's tuner. Conversely every
  call that changes a session with a slave in it, before or after, produces its event, the
  master's uninitialise apart, which has none.
\<close>

theorem duo_events_reach_peer:
  assumes "runs duo_step openrspd_duo_session_init ls s" and "duo_exec op s = (r, s', e)"
  shows "(ev_kind e \<noteq> OPENRSPD_DUO_EVENT_NONE \<longrightarrow>
      r = OPENRSPD_DUO_OK \<and> ev_source_fd e = duo_caller op \<and>
      ev_kind e = duo_notice op (descriptor_is_master s (duo_caller op)) \<and>
      ev_target_fd e = (if descriptor_is_master s (duo_caller op) then slave_fd s else master_fd s) \<and>
      ev_tuner e = (if slave_selected s then slave_tuner s else slave_tuner s') \<and>
      0 \<le> ev_target_fd e \<and> ev_target_fd e \<noteq> duo_caller op) \<and>
    (s' \<noteq> s \<and> (slave_selected s \<or> slave_selected s') \<and> op \<noteq> Duo_Uninitialise (master_fd s) \<longrightarrow>
      ev_kind e \<noteq> OPENRSPD_DUO_EVENT_NONE)"
  using duo_event_peer [OF duo_reachable_inv [OF assms(1)] assms(2)]
    duo_event_owed [OF duo_reachable_inv [OF assms(1)] assms(2)] by blast

theorem duo_events_reach_peer_witness:
  "\<exists>s s' e. duo_exec (Duo_Acquire 6 2 1 0) s = (OPENRSPD_DUO_OK, s', e) \<and>
     ev_kind e = OPENRSPD_DUO_EVENT_SLAVE_ATTACHED \<and> ev_source_fd e = 6 \<and> ev_target_fd e = 5"
proof -
  let ?s = "openrspd_duo_session_init\<lparr>master_fd := 5, master_tuner := 2,
      duo_sample_rate_hz := 6000000, master_selected := True\<rparr>"
  let ?s' = "?s\<lparr>slave_fd := 6, slave_tuner := 1, slave_selected := True\<rparr>"
  let ?e = "emit_event OPENRSPD_DUO_EVENT_SLAVE_ATTACHED 5 6 1"
  have "runs duo_step openrspd_duo_session_init
     [(Duo_Acquire 5 1 2 6000000, OPENRSPD_DUO_OK, clear_event)] ?s"
    by (simp add: runs_Cons_iff duo_step_iff duo_op_defs rsp_defs openrspd_duo_session_init_def)
  moreover have x: "duo_exec (Duo_Acquire 6 2 1 0) ?s = (OPENRSPD_DUO_OK, ?s', ?e)"
    by (simp add: duo_op_defs rsp_defs openrspd_duo_session_init_def)
  ultimately have "ev_source_fd ?e = 6 \<and> ev_target_fd ?e = 5"
    using duo_events_reach_peer [of _ ?s "Duo_Acquire 6 2 1 0" OPENRSPD_DUO_OK ?s' ?e]
    by (auto simp: emit_event_def descriptor_is_master_def)
  then show ?thesis using x by (intro exI [of _ ?s] exI [of _ ?s'] exI [of _ ?e]) (simp add: emit_event_def)
qed

text \<open>
  C17. From every reachable session the orderly shutdown sequence succeeds call by call and
  ends in the fresh session: no history leaves the receiver held.
\<close>

theorem duo_orderly_shutdown:
  assumes "runs duo_step openrspd_duo_session_init ls s"
  shows "duo_exec_all (duo_shutdown s) s =
    (replicate (length (duo_shutdown s)) OPENRSPD_DUO_OK, openrspd_duo_session_init)"
  by (rule duo_shutdown_ok [OF duo_reachable_inv [OF assms]])

theorem duo_orderly_shutdown_witness:
  "duo_exec_all [Duo_Uninitialise 5, Duo_Release 5]
     (openrspd_duo_session_init\<lparr>master_fd := 5, master_tuner := 2, duo_sample_rate_hz := 6000000,
        master_selected := True, master_initialised := True\<rparr>)
   = ([OPENRSPD_DUO_OK, OPENRSPD_DUO_OK], openrspd_duo_session_init)"
proof -
  let ?s = "openrspd_duo_session_init\<lparr>master_fd := 5, master_tuner := 2,
      duo_sample_rate_hz := 6000000, master_selected := True, master_initialised := True\<rparr>"
  have "runs duo_step openrspd_duo_session_init
     [(Duo_Acquire 5 1 2 6000000, OPENRSPD_DUO_OK, clear_event),
      (Duo_Initialise 5, OPENRSPD_DUO_OK, clear_event)] ?s"
    by (simp add: runs_Cons_iff duo_step_iff duo_op_defs rsp_defs openrspd_duo_session_init_def)
  moreover have "duo_shutdown ?s = [Duo_Uninitialise 5, Duo_Release 5]"
    by (simp add: duo_shutdown_def openrspd_duo_session_init_def)
  ultimately show ?thesis using duo_orderly_shutdown [of _ ?s] by simp
qed

end
