(* ===== verification/Rsp_Sync.thy ===== *)
theory Rsp_Sync
  imports Rsp_Prelude
begin

text \<open>
  The synchronous-update scheduler of \<open>compat/sync_update.c\<close>. Gain, RF and sample-rate
  updates are each due at a sample number of the free-running 32-bit sample counter, once
  (period zero) or periodically. The arrays \<open>due\<close> and \<open>period\<close> are lists of three words
  and the loops over the category bits are folds over \<open>[1, 2, 4]\<close>. The contract is a map
  from categories to pending schedules; every operation is refined to it.
\<close>

subsection \<open>State and operations\<close>

record sync_update =
  pending :: u32
  due :: "u32 list"
  period :: "u32 list"

abbreviation (input) OPENRSP_SYNC_GAIN :: u32 where "OPENRSP_SYNC_GAIN \<equiv> 1"
abbreviation (input) OPENRSP_SYNC_RF :: u32 where "OPENRSP_SYNC_RF \<equiv> 2"
abbreviation (input) OPENRSP_SYNC_FS :: u32 where "OPENRSP_SYNC_FS \<equiv> 4"
abbreviation (input) sync_bits :: "u32 list" where
  "sync_bits \<equiv> [OPENRSP_SYNC_GAIN, OPENRSP_SYNC_RF, OPENRSP_SYNC_FS]"

definition index_for :: "u32 \<Rightarrow> nat" where
  "index_for category =
     (if category = OPENRSP_SYNC_GAIN then 0 else if category = OPENRSP_SYNC_RF then 1 else 2)"

definition openrsp_sync_update_init :: sync_update where
  "openrsp_sync_update_init = \<lparr>pending = 0, due = [0, 0, 0], period = [0, 0, 0]\<rparr>"

definition openrsp_sync_update_schedule ::
  "sync_update \<Rightarrow> u32 \<Rightarrow> u32 \<Rightarrow> u32 \<Rightarrow> sync_update" where
  "openrsp_sync_update_schedule st categories sample per =
     (let known = OPENRSP_SYNC_GAIN OR OPENRSP_SYNC_RF OR OPENRSP_SYNC_FS;
          categories = categories AND known
      in fold (\<lambda>b s. if categories AND b = 0 then s
                    else s\<lparr>period := (period s)[index_for b := per],
                           due := (due s)[index_for b := sample],
                           pending := pending s OR b\<rparr>)
           sync_bits st)"

text \<open>\<open>None\<close> is the result -1; \<open>Some\<close> carries the target sample with the new state.\<close>

definition openrsp_sync_update_next ::
  "sync_update \<Rightarrow> u32 \<Rightarrow> u32 \<Rightarrow> (u32 \<times> sync_update) option" where
  "openrsp_sync_update_next st category current_sample =
     (if (category \<noteq> OPENRSP_SYNC_GAIN \<and> category \<noteq> OPENRSP_SYNC_RF \<and>
          category \<noteq> OPENRSP_SYNC_FS) \<or> pending st AND category = 0
      then None
      else let index = index_for category; target = due st ! index; per = period st ! index in
        if per \<noteq> 0 \<and> sint (current_sample - target) \<ge> 0
        then let elapsed = current_sample - target;
                 target' = target + (elapsed div per + 1) * per
             in Some (target', st\<lparr>due := (due st)[index := target']\<rparr>)
        else Some (target, st))"

definition openrsp_sync_update_reset :: "sync_update \<Rightarrow> u32 \<Rightarrow> sync_update" where
  "openrsp_sync_update_reset st categories =
     (let categories =
            categories AND (OPENRSP_SYNC_GAIN OR OPENRSP_SYNC_RF OR OPENRSP_SYNC_FS)
      in fold (\<lambda>b s. if categories AND b \<noteq> 0
                    then s\<lparr>period := (period s)[index_for b := 0]\<rparr> else s)
           sync_bits (st\<lparr>pending := pending st AND NOT categories\<rparr>))"

definition openrsp_sync_update_due :: "sync_update \<Rightarrow> u32 \<Rightarrow> u32" where
  "openrsp_sync_update_due st sample =
     fold (\<lambda>b result.
        if pending st AND b \<noteq> 0 \<and> sint (sample - due st ! index_for b) \<ge> 0
        then result OR b else result) sync_bits 0"

definition openrsp_sync_update_consume :: "sync_update \<Rightarrow> u32 \<Rightarrow> u32 \<Rightarrow> sync_update" where
  "openrsp_sync_update_consume st categories sample =
     (let categories = categories AND openrsp_sync_update_due st sample
      in fold (\<lambda>b s.
           if categories AND b = 0 then s
           else let index = index_for b; s = s\<lparr>pending := pending s AND NOT b\<rparr> in
             if period s ! index \<noteq> 0
             then s\<lparr>due := (due s)[index := due s ! index + period s ! index],
                    pending := pending s OR b\<rparr>
             else s\<lparr>pending := pending s AND NOT b\<rparr>)
         sync_bits st)"

subsection \<open>The contract: a map from categories to schedules\<close>

datatype sync_category = Gain | RF | FS

fun sync_bit :: "sync_category \<Rightarrow> u32" where
  "sync_bit Gain = OPENRSP_SYNC_GAIN" | "sync_bit RF = OPENRSP_SYNC_RF" | "sync_bit FS = OPENRSP_SYNC_FS"

fun sync_pos :: "sync_category \<Rightarrow> nat" where
  "sync_pos Gain = 0" | "sync_pos RF = 1" | "sync_pos FS = 2"

definition sync_wf :: "sync_update \<Rightarrow> bool" where
  "sync_wf st \<longleftrightarrow> length (due st) = 3 \<and> length (period st) = 3"

definition sync_abs :: "sync_update \<Rightarrow> sync_category \<rightharpoonup> u32 \<times> u32" where
  "sync_abs st c =
     (if bit (pending st) (sync_pos c) then Some (due st ! sync_pos c, period st ! sync_pos c)
      else None)"

lemma and_bit_eq_0:
  "(w :: u32) AND 1 = 0 \<longleftrightarrow> \<not> bit w 0"
  "w AND 2 = 0 \<longleftrightarrow> \<not> bit w 1"
  "w AND 4 = 0 \<longleftrightarrow> \<not> bit w 2"
  using and_exp_eq_0_iff_not_bit [of w 0] and_exp_eq_0_iff_not_bit [of w 1]
    and_exp_eq_0_iff_not_bit [of w 2] by simp_all

lemma has_flag_sync_bit: "has_flag w (sync_bit c) \<longleftrightarrow> bit w (sync_pos c)"
  by (cases c) (simp_all only: sync_bit.simps sync_pos.simps and_bit_eq_0 not_not)

lemma index_for_bits [simp]: "index_for 1 = 0" "index_for 2 = 1" "index_for 4 = 2"
  by (simp_all add: index_for_def)

lemma index_for_sync_bit [simp]: "index_for (sync_bit c) = sync_pos c"
  by (cases c) simp_all

lemma sync_cases:
  assumes "sync_wf st"
  obtains p d0 d1 d2 p0 p1 p2 where "st = \<lparr>pending = p, due = [d0, d1, d2], period = [p0, p1, p2]\<rparr>"
proof -
  have list3: "\<exists>a b c. xs = [a, b, c]" if "length xs = 3" for xs :: "u32 list"
    using that by (auto simp: numeral_3_eq_3 length_Suc_conv)
  show ?thesis
    using assms list3 [of "due st"] list3 [of "period st"] that
    by (cases st) (auto simp: sync_wf_def)
qed

lemmas sync_abs_simps = sync_abs_def and_bit_eq_0 bit_or_iff bit_and_iff bit_not_iff Let_def

lemma sync_wf_ops:
  "sync_wf openrsp_sync_update_init"
  "sync_wf st \<Longrightarrow> sync_wf (openrsp_sync_update_schedule st cats smp per)"
  "sync_wf st \<Longrightarrow> sync_wf (openrsp_sync_update_reset st cats)"
  "sync_wf st \<Longrightarrow> sync_wf (openrsp_sync_update_consume st cats smp)"
  "sync_wf st \<Longrightarrow> openrsp_sync_update_next st cat cur = Some (t, st') \<Longrightarrow> sync_wf st'"
  by (auto simp: sync_wf_def openrsp_sync_update_init_def openrsp_sync_update_schedule_def
      openrsp_sync_update_reset_def openrsp_sync_update_consume_def
      openrsp_sync_update_next_def Let_def split: if_splits)

lemma sync_abs_init: "sync_abs openrsp_sync_update_init = Map.empty"
  by (auto simp: sync_abs_def openrsp_sync_update_init_def)

lemma sync_abs_schedule:
  assumes "sync_wf st"
  shows "sync_abs (openrsp_sync_update_schedule st cats smp per) c =
    (if has_flag cats (sync_bit c) then Some (smp, per) else sync_abs st c)"
proof -
  obtain p d0 d1 d2 p0 p1 p2 where "st = \<lparr>pending = p, due = [d0, d1, d2], period = [p0, p1, p2]\<rparr>"
    using assms by (rule sync_cases)
  then show ?thesis
    unfolding has_flag_sync_bit
    by (cases c) (simp_all add: openrsp_sync_update_schedule_def sync_abs_simps)
qed

lemma sync_abs_reset:
  assumes "sync_wf st"
  shows "sync_abs (openrsp_sync_update_reset st cats) c =
    (if has_flag cats (sync_bit c) then None else sync_abs st c)"
proof -
  obtain p d0 d1 d2 p0 p1 p2 where "st = \<lparr>pending = p, due = [d0, d1, d2], period = [p0, p1, p2]\<rparr>"
    using assms by (rule sync_cases)
  then show ?thesis
    unfolding has_flag_sync_bit
    by (cases c) (simp_all add: openrsp_sync_update_reset_def sync_abs_simps)
qed

lemma sync_due_iff:
  assumes "sync_wf st"
  shows "has_flag (openrsp_sync_update_due st smp) (sync_bit c) \<longleftrightarrow>
    (\<exists>d per. sync_abs st c = Some (d, per) \<and> at_or_after smp d)"
proof -
  obtain p d0 d1 d2 p0 p1 p2 where "st = \<lparr>pending = p, due = [d0, d1, d2], period = [p0, p1, p2]\<rparr>"
    using assms by (rule sync_cases)
  then show ?thesis
    unfolding has_flag_sync_bit
    by (cases c) (simp_all add: openrsp_sync_update_due_def sync_abs_simps at_or_after_def)
qed

definition sync_advance :: "u32 \<times> u32 \<Rightarrow> (u32 \<times> u32) option" where
  "sync_advance x = (case x of (d, per) \<Rightarrow> if per \<noteq> 0 then Some (d + per, per) else None)"

text \<open>The loop body of \<open>openrsp_sync_update_consume\<close> for one category bit.\<close>

definition consume_bit :: "u32 \<Rightarrow> u32 \<Rightarrow> sync_update \<Rightarrow> sync_update" where
  "consume_bit cats b s =
     (if cats AND b = 0 then s
      else let index = index_for b; s = s\<lparr>pending := pending s AND NOT b\<rparr> in
        if period s ! index \<noteq> 0
        then s\<lparr>due := (due s)[index := due s ! index + period s ! index],
               pending := pending s OR b\<rparr>
        else s\<lparr>pending := pending s AND NOT b\<rparr>)"

lemma bit_sync_bit [simp]: "bit (sync_bit b) (sync_pos c) \<longleftrightarrow> b = c"
  by (cases b; cases c) simp_all

lemma sync_pos_inj [simp]: "sync_pos b = sync_pos c \<longleftrightarrow> b = c"
  by (cases b; cases c) simp_all

lemma sync_pos_less [simp]: "sync_pos c < 3" "sync_pos c < 32"
  by (cases c; simp)+

lemma consume_bit_wf: "sync_wf s \<Longrightarrow> sync_wf (consume_bit cats b s)"
  by (simp add: consume_bit_def sync_wf_def Let_def)

lemma consume_bit_period [simp]: "period (consume_bit cats b s) = period s"
  by (simp add: consume_bit_def Let_def)

lemma sync_abs_consume_bit:
  assumes "sync_wf s"
  shows "sync_abs (consume_bit cats (sync_bit b) s) c =
    (if b = c \<and> bit cats (sync_pos b)
     then sync_advance (due s ! sync_pos b, period s ! sync_pos b) else sync_abs s c)"
proof (cases "bit cats (sync_pos b)")
  case False
  then have "cats AND sync_bit b = 0" using has_flag_sync_bit by blast
  then show ?thesis using False by (simp add: consume_bit_def)
next
  case True
  then have "cats AND sync_bit b \<noteq> 0" using has_flag_sync_bit by blast
  then show ?thesis using True assms
    by (auto simp: consume_bit_def sync_abs_def sync_advance_def sync_wf_def Let_def
        bit_or_iff bit_and_iff bit_not_iff)
qed

lemma consume_bit_due:
  "b \<noteq> c \<Longrightarrow> due (consume_bit cats (sync_bit b) s) ! sync_pos c = due s ! sync_pos c"
  by (simp add: consume_bit_def Let_def)

lemma consume_fold:
  "openrsp_sync_update_consume st cats smp =
     (let k = cats AND openrsp_sync_update_due st smp in
      consume_bit k (sync_bit FS) (consume_bit k (sync_bit RF) (consume_bit k (sync_bit Gain) st)))"
  by (simp add: openrsp_sync_update_consume_def consume_bit_def Let_def cong: if_cong)

lemma sync_abs_consume:
  assumes "sync_wf st"
  shows "sync_abs (openrsp_sync_update_consume st cats smp) c =
    (case sync_abs st c of None \<Rightarrow> None
     | Some (d, per) \<Rightarrow>
         if has_flag cats (sync_bit c) \<and> at_or_after smp d then sync_advance (d, per)
         else Some (d, per))"
proof -
  have due: "bit (openrsp_sync_update_due st smp) (sync_pos c) \<longleftrightarrow>
    (\<exists>d per. sync_abs st c = Some (d, per) \<and> at_or_after smp d)"
    using sync_due_iff [OF assms] by (simp add: has_flag_sync_bit)
  have "sync_abs (openrsp_sync_update_consume st cats smp) c =
    (if bit (cats AND openrsp_sync_update_due st smp) (sync_pos c)
     then sync_advance (due st ! sync_pos c, period st ! sync_pos c) else sync_abs st c)"
    by (cases c) (simp_all del: sync_bit.simps sync_pos.simps
        add: consume_fold Let_def sync_abs_consume_bit consume_bit_wf consume_bit_due assms)
  then show ?thesis unfolding has_flag_sync_bit
    by (auto simp: due bit_and_iff sync_abs_def split: if_splits)
qed

subsection \<open>The next periodic boundary\<close>

lemma next_boundary_distance:
  fixes cur d per :: u32
  assumes "per \<noteq> 0"
  shows "unat (d + ((cur - d) div per + 1) * per - cur) = unat per - unat (cur - d) mod unat per"
proof -
  let ?e = "cur - d"
  have "?e div per * per + ?e mod per = ?e" by (rule div_mult_mod_eq)
  then have "d + (?e div per + 1) * per - cur = per - ?e mod per"
    by (metis (no_types, opaque_lifting) add.commute add_diff_cancel_left' add_diff_eq
        diff_diff_eq2 distrib_right mult_1 diff_add_cancel)
  moreover have "unat (?e mod per) \<le> unat per"
    using assms by (simp add: unat_mod_distrib unat_gt_0 less_imp_le)
  then have "?e mod per \<le> per" by (simp add: word_le_nat_alt)
  then have "unat (per - ?e mod per) = unat per - unat (?e mod per)" by (rule unat_sub)
  ultimately show ?thesis by (simp add: unat_mod_distrib)
qed

lemma sync_next_unfold:
  assumes "sync_abs st c = Some (d, per)"
  shows "openrsp_sync_update_next st (sync_bit c) cur =
    (if per \<noteq> 0 \<and> at_or_after cur d
     then let t = d + ((cur - d) div per + 1) * per
          in Some (t, st\<lparr>due := (due st)[sync_pos c := t]\<rparr>)
     else Some (d, st))"
proof -
  have "has_flag (pending st) (sync_bit c)" "due st ! sync_pos c = d" "period st ! sync_pos c = per"
    using assms by (simp_all add: has_flag_sync_bit sync_abs_def split: if_splits)
  moreover have "sync_bit c = 1 \<or> sync_bit c = 2 \<or> sync_bit c = 4" by (cases c) simp_all
  ultimately show ?thesis
    by (auto simp: openrsp_sync_update_next_def at_or_after_def Let_def)
qed

lemma sync_abs_set_due:
  "sync_wf st \<Longrightarrow> sync_abs (st\<lparr>due := (due st)[sync_pos b := t]\<rparr>) c =
     (if b = c then map_option (\<lambda>(d, per). (t, per)) (sync_abs st c) else sync_abs st c)"
  by (auto simp: sync_abs_def sync_wf_def)

subsection \<open>Properties\<close>

text \<open>
  C20. The scheduler is a map from categories to pending (due sample, period) pairs:
  scheduling sets the entries of the chosen categories, reset removes them, the due mask
  holds exactly the categories whose sample has been reached on the wrapping counter, and
  consuming advances a reached periodic entry by its period, drops a reached one-shot
  entry and leaves every other entry alone.
\<close>

theorem sync_scheduler_refines_map:
  assumes "sync_wf st"
  shows "sync_abs (openrsp_sync_update_schedule st cats smp per) =
      (\<lambda>c. if has_flag cats (sync_bit c) then Some (smp, per) else sync_abs st c) \<and>
    sync_abs (openrsp_sync_update_reset st cats) =
      (\<lambda>c. if has_flag cats (sync_bit c) then None else sync_abs st c) \<and>
    {c. has_flag (openrsp_sync_update_due st smp) (sync_bit c)} =
      {c. \<exists>d p. sync_abs st c = Some (d, p) \<and> at_or_after smp d} \<and>
    sync_abs (openrsp_sync_update_consume st cats smp) =
      (\<lambda>c. case sync_abs st c of None \<Rightarrow> None
           | Some (d, p) \<Rightarrow> if has_flag cats (sync_bit c) \<and> at_or_after smp d
                            then sync_advance (d, p) else Some (d, p))"
  using assms
  by (auto simp only: sync_abs_schedule sync_abs_reset sync_due_iff sync_abs_consume
      intro!: ext conjI)

theorem sync_scheduler_refines_map_witness:
  "sync_abs (openrsp_sync_update_consume
     \<lparr>pending = 2, due = [0, 4294967290, 0], period = [0, 100, 0]\<rparr> 2 3) RF = Some (94, 100)"
proof -
  let ?st = "\<lparr>pending = 2, due = [0, 4294967290, 0], period = [0, 100, 0]\<rparr> :: sync_update"
  have "sync_wf ?st" by (simp add: sync_wf_def)
  note sync_scheduler_refines_map [OF this, of 2 3 0]
  then show ?thesis by (simp add: sync_abs_def at_or_after_iff sync_advance_def)
qed

lemma next_multiple_least:
  fixes p e k :: nat
  assumes "e < k * p"
  shows "p - e mod p \<le> k * p - e"
proof -
  have "e div p < k" using assms by (simp add: less_mult_imp_div_less)
  then have "(e div p + 1) * p \<le> k * p" by (intro mult_le_mono1) simp
  moreover have "(e div p + 1) * p = e - e mod p + p" by (simp add: minus_mod_eq_div_mult)
  moreover have "e mod p \<le> e" by simp
  ultimately show ?thesis by arith
qed



text \<open>
  C22. Scheduling with period zero is a one-shot schedule: the category becomes due once the
  sample is reached, \<open>next\<close> reports the sample itself, and consuming it removes it. (The
  header's comment says that period zero disables scheduling.)
\<close>

theorem sync_period_zero_is_one_shot:
  assumes "sync_wf st" "has_flag cats (sync_bit c)" "at_or_after cur smp"
  shows "let st1 = openrsp_sync_update_schedule st cats smp 0 in
    has_flag (openrsp_sync_update_due st1 cur) (sync_bit c) \<and>
    openrsp_sync_update_next st1 (sync_bit c) cur = Some (smp, st1) \<and>
    sync_abs (openrsp_sync_update_consume st1 cats cur) c = None"
proof -
  let ?st = "openrsp_sync_update_schedule st cats smp 0"
  have "sync_wf ?st" using assms(1) by (rule sync_wf_ops)
  moreover have "sync_abs ?st c = Some (smp, 0)" using assms by (simp add: sync_abs_schedule)
  ultimately show ?thesis using assms(2,3)
    by (simp add: sync_due_iff sync_next_unfold sync_abs_consume sync_advance_def)
qed

theorem sync_period_zero_is_one_shot_witness:
  "openrsp_sync_update_next (openrsp_sync_update_schedule openrsp_sync_update_init 4 10 0) 4 20 =
     Some (10, openrsp_sync_update_schedule openrsp_sync_update_init 4 10 0)"
  using sync_period_zero_is_one_shot [of openrsp_sync_update_init 4 FS 20 10]
  by (simp add: sync_wf_ops at_or_after_iff Let_def)

end
