(* ===== verification/Rsp_Removal.thy ===== *)
theory Rsp_Removal
  imports Rsp_Prelude
begin

text \<open>
  The removal tracker of \<open>daemon/removal_tracker.c\<close>: it turns repeated observations that
  the receiver is absent into one removal notice, after a grace period on a millisecond
  clock. The \<open>int\<close> flags hold 0 and 1 and are booleans.
\<close>

record removal_tracker =
  absent_since_ms :: u64
  absence_active :: bool
  removal_notified :: bool

definition openrspd_removal_tracker_present :: "removal_tracker \<Rightarrow> removal_tracker" where
  "openrspd_removal_tracker_present tr =
     tr\<lparr>absent_since_ms := 0, absence_active := False, removal_notified := False\<rparr>"

definition openrspd_removal_tracker_absent ::
  "removal_tracker \<Rightarrow> u64 \<Rightarrow> u64 \<Rightarrow> bool \<times> removal_tracker" where
  "openrspd_removal_tracker_absent tr now_ms grace_ms =
     (if \<not> absence_active tr then
        let tr = tr\<lparr>absent_since_ms := now_ms, absence_active := True\<rparr> in
        if grace_ms = 0 \<and> \<not> removal_notified tr
        then (True, tr\<lparr>removal_notified := True\<rparr>) else (False, tr)
      else if now_ms < absent_since_ms tr then (False, tr\<lparr>absent_since_ms := now_ms\<rparr>)
      else if \<not> removal_notified tr \<and> now_ms - absent_since_ms tr \<ge> grace_ms
      then (True, tr\<lparr>removal_notified := True\<rparr>)
      else (False, tr))"

text \<open>A sequence of observations of absence, at the given times.\<close>

fun removal_polls :: "removal_tracker \<Rightarrow> u64 list \<Rightarrow> u64 \<Rightarrow> bool list" where
  "removal_polls tr [] grace = []"
| "removal_polls tr (t # ts) grace =
     (let (notice, tr') = openrspd_removal_tracker_absent tr t grace
      in notice # removal_polls tr' ts grace)"

text \<open>The contract: only the first position that holds is reported.\<close>

fun first_only :: "bool list \<Rightarrow> bool list" where
  "first_only [] = []"
| "first_only (b # bs) = (if b then True # replicate (length bs) False else False # first_only bs)"

lemma count_first_only: "length (filter id (first_only bs)) = (if True \<in> set bs then 1 else 0)"
  by (induction bs) (auto simp: filter_empty_conv)

lemma polls_notified:
  assumes "absence_active tr" "removal_notified tr"
  shows "removal_polls tr ts grace = replicate (length ts) False"
  using assms
  by (induction ts arbitrary: tr) (auto simp: openrspd_removal_tracker_absent_def)

lemma polls_active:
  assumes "absence_active tr" "\<not> removal_notified tr" "\<forall>t \<in> set ts. absent_since_ms tr \<le> t"
  shows "removal_polls tr ts grace = first_only (map (\<lambda>t. grace \<le> t - absent_since_ms tr) ts)"
  using assms
proof (induction ts)
  case (Cons t ts)
  then have "\<not> t < absent_since_ms tr" by (simp add: not_less)
  with Cons show ?case
    by (simp add: openrspd_removal_tracker_absent_def polls_notified)
qed simp

text \<open>
  C23. On a clock that does not run backwards, observing absence from the moment the receiver
  was last present gives exactly the contract: the notice is raised at the first
  observation whose distance from the first one reaches the grace period, and at no other.
\<close>

theorem removal_notified_once:
  assumes "\<forall>t \<in> set ts. t0 \<le> t"
  shows "removal_polls (openrspd_removal_tracker_present tr) (t0 # ts) grace =
    first_only (map (\<lambda>t. grace \<le> t - t0) (t0 # ts))"
proof -
  let ?tr = "\<lparr>absent_since_ms = t0, absence_active = True, removal_notified = False\<rparr>"
  have "removal_polls ?tr ts grace = first_only (map (\<lambda>t. grace \<le> t - t0) ts)"
    using polls_active [of ?tr ts grace] assms by simp
  then show ?thesis
    by (cases tr; cases "grace = 0")
       (simp_all add: openrspd_removal_tracker_absent_def openrspd_removal_tracker_present_def
          polls_notified)
qed

theorem removal_notified_once_witness:
  "removal_polls (openrspd_removal_tracker_present
      \<lparr>absent_since_ms = 7, absence_active = True, removal_notified = True\<rparr>)
     [1000, 4000, 6000, 9000] 5000 = [False, False, True, False]"
  using removal_notified_once [of "[4000, 6000, 9000]" 1000
      "\<lparr>absent_since_ms = 7, absence_active = True, removal_notified = True\<rparr>" 5000]
  by simp

end
