(* ===== verification/Rsp_Identity.thy ===== *)
theory Rsp_Identity
  imports Rsp_Protocol
begin

text \<open>
  Which receiver a request means: the model table of \<open>src/device_db.c\<close>, the identity
  matching of \<open>src/identity.c\<close>, and the USB instance matching of
  \<open>daemon/windows_device_recovery.c\<close> (whose SetupAPI calls exist on Windows only).
\<close>

subsection \<open>Model table\<close>

datatype support_level =
    OPENRSP_SUPPORT_UNKNOWN | OPENRSP_SUPPORT_DISCOVERY_ONLY
  | OPENRSP_SUPPORT_EXPERIMENTAL_STREAMING

record openrsp_model =
  model_vendor_id :: u16
  model_product_id :: u16
  model_name :: string
  model_support :: support_level

abbreviation (input) OPENRSP_USB_VENDOR_ID :: u16 where "OPENRSP_USB_VENDOR_ID \<equiv> 0x1df7"

definition models :: "openrsp_model list" where
  "models =
    [\<lparr>model_vendor_id = OPENRSP_USB_VENDOR_ID, model_product_id = 0x2500,
      model_name = ''Mirics MSi2500 / original RSP1-class'',
      model_support = OPENRSP_SUPPORT_DISCOVERY_ONLY\<rparr>,
     \<lparr>model_vendor_id = OPENRSP_USB_VENDOR_ID, model_product_id = 0x3000,
      model_name = ''SDRplay RSP1A'', model_support = OPENRSP_SUPPORT_DISCOVERY_ONLY\<rparr>,
     \<lparr>model_vendor_id = OPENRSP_USB_VENDOR_ID, model_product_id = 0x3010,
      model_name = ''SDRplay RSP2'', model_support = OPENRSP_SUPPORT_DISCOVERY_ONLY\<rparr>,
     \<lparr>model_vendor_id = OPENRSP_USB_VENDOR_ID, model_product_id = 0x3020,
      model_name = ''SDRplay RSPduo'', model_support = OPENRSP_SUPPORT_EXPERIMENTAL_STREAMING\<rparr>,
     \<lparr>model_vendor_id = OPENRSP_USB_VENDOR_ID, model_product_id = 0x3030,
      model_name = ''SDRplay RSPdx'', model_support = OPENRSP_SUPPORT_DISCOVERY_ONLY\<rparr>]"

definition openrsp_model_lookup :: "u16 \<Rightarrow> u16 \<Rightarrow> openrsp_model option" where
  "openrsp_model_lookup v p = find (\<lambda>m. model_vendor_id m = v \<and> model_product_id m = p) models"

fun openrsp_support_name :: "support_level \<Rightarrow> string" where
  "openrsp_support_name OPENRSP_SUPPORT_DISCOVERY_ONLY = ''discovery-only''"
| "openrsp_support_name OPENRSP_SUPPORT_EXPERIMENTAL_STREAMING = ''experimental-streaming''"
| "openrsp_support_name OPENRSP_SUPPORT_UNKNOWN = ''unknown''"

text \<open>The lookup finds an entry exactly when it is in the table: no entry shadows another.\<close>

lemma find_distinct_key:
  "distinct (map key xs) \<Longrightarrow> find (\<lambda>x. key x = k) xs = Some x \<longleftrightarrow> x \<in> set xs \<and> key x = k"
  by (induction xs) force+

lemma openrsp_model_lookup_iff:
  "openrsp_model_lookup v p = Some m \<longleftrightarrow>
     m \<in> set models \<and> model_vendor_id m = v \<and> model_product_id m = p"
proof -
  let ?key = "\<lambda>m. (model_vendor_id m, model_product_id m)"
  have "distinct (map ?key models)" by (simp add: models_def)
  from find_distinct_key [OF this, of "(v, p)"] show ?thesis
    by (simp add: openrsp_model_lookup_def)
qed

subsection \<open>Identity\<close>

definition terminated :: "u8 list \<Rightarrow> bool" where
  "terminated serial \<longleftrightarrow> 0 \<in> set (take 64 serial)"

definition openrsp_identity_matches :: "acquire_request \<Rightarrow> device_record \<Rightarrow> bool" where
  "openrsp_identity_matches identity candidate =
     (if \<not> terminated (id_serial identity) \<or> \<not> terminated (rec_serial candidate) \<or>
         id_vendor_id identity \<noteq> rec_vendor_id candidate \<or>
         id_product_id identity \<noteq> rec_product_id candidate
      then False
      else if id_serial identity ! 0 \<noteq> 0
      then c_str (id_serial identity) = c_str (rec_serial candidate)
      else id_device_index identity = rec_device_index candidate)"

datatype identity_error = OPENRSP_IDENTITY_NOT_FOUND | OPENRSP_IDENTITY_AMBIGUOUS

text \<open>The loop of \<open>openrsp_identity_resolve\<close>, with its locals \<open>found\<close> and \<open>resolved\<close>.\<close>

fun resolve_loop :: "acquire_request \<Rightarrow> device_record list \<Rightarrow> bool \<Rightarrow> u32 \<Rightarrow> identity_error + u32" where
  "resolve_loop identity [] found resolved =
     (if \<not> found then Inl OPENRSP_IDENTITY_NOT_FOUND else Inr resolved)"
| "resolve_loop identity (d # ds) found resolved =
     (if \<not> openrsp_identity_matches identity d then resolve_loop identity ds found resolved
      else if found then Inl OPENRSP_IDENTITY_AMBIGUOUS
      else resolve_loop identity ds True (rec_device_index d))"

definition openrsp_identity_resolve ::
  "acquire_request \<Rightarrow> device_record list \<Rightarrow> identity_error + u32" where
  "openrsp_identity_resolve identity devices = resolve_loop identity devices False 0"

lemma resolve_loop_found:
  "resolve_loop identity ds True r =
     (if filter (openrsp_identity_matches identity) ds = [] then Inr r
      else Inl OPENRSP_IDENTITY_AMBIGUOUS)"
  by (induction ds) auto

text \<open>
  C24. Resolving an identity is exact: it fails as not found when no listed device matches,
  as ambiguous when more than one does, and otherwise returns the index of the only match.
\<close>

theorem openrsp_identity_resolve_exact:
  "openrsp_identity_resolve identity devices =
     (case filter (openrsp_identity_matches identity) devices of
        [] \<Rightarrow> Inl OPENRSP_IDENTITY_NOT_FOUND
      | [d] \<Rightarrow> Inr (rec_device_index d)
      | _ # _ # _ \<Rightarrow> Inl OPENRSP_IDENTITY_AMBIGUOUS)"
  unfolding openrsp_identity_resolve_def
  by (induction devices) (auto simp: resolve_loop_found split: list.splits)

subsection \<open>Windows USB instances\<close>

definition string_bytes :: "string \<Rightarrow> u8 list" where
  "string_bytes s = map of_char s"

definition tolower :: "u8 \<Rightarrow> u8" where
  "tolower c = (if 65 \<le> c \<and> c \<le> 90 then c + 32 else c)"

definition ascii_equal_n :: "u8 list \<Rightarrow> u8 list \<Rightarrow> nat \<Rightarrow> bool" where
  "ascii_equal_n left right n \<longleftrightarrow> list_all (\<lambda>i. tolower (left ! i) = tolower (right ! i)) [0..<n]"

definition ascii_equal :: "u8 list \<Rightarrow> u8 list \<Rightarrow> bool" where
  "ascii_equal left right \<longleftrightarrow>
     length left = length right \<and> ascii_equal_n left right (length left)"

text \<open>\<open>%04X\<close> of a 16-bit value.\<close>

definition hex_digit :: "u16 \<Rightarrow> u8" where
  "hex_digit d = (if d < 10 then 48 + ucast d else 55 + ucast d)"

definition hex04 :: "u16 \<Rightarrow> u8 list" where
  "hex04 w = [hex_digit (drop_bit 12 w), hex_digit (drop_bit 8 w AND 15),
     hex_digit (drop_bit 4 w AND 15), hex_digit (w AND 15)]"

text \<open>
  Strings are their bytes before the terminator. The formatted prefix has 22 characters,
  so the truncation test on the 64-byte buffer never fires.
\<close>

definition instance_prefix :: "u16 \<Rightarrow> u16 \<Rightarrow> u8 list" where
  "instance_prefix v p =
     string_bytes ''USB'' @ [92] @ string_bytes ''VID_'' @ hex04 v @
     string_bytes ''&PID_'' @ hex04 p @ [92]"

definition openrsp_windows_usb_instance_matches ::
  "u8 list option \<Rightarrow> u16 \<Rightarrow> u16 \<Rightarrow> u8 list option \<Rightarrow> bool" where
  "openrsp_windows_usb_instance_matches instance_id v p serial =
     (case instance_id of None \<Rightarrow> False
      | Some inst \<Rightarrow>
          let prefix = instance_prefix v p; prefix_length = length prefix in
          if prefix_length \<ge> 64 then False
          else if length inst \<le> prefix_length \<or> \<not> ascii_equal_n inst prefix prefix_length then False
          else (case serial of None \<Rightarrow> True
                | Some s \<Rightarrow> s = [] \<or> ascii_equal (drop prefix_length inst) s))"

definition openrsp_windows_device_restart_requires_system_restart :: "int \<Rightarrow> bool" where
  "openrsp_windows_device_restart_requires_system_restart result \<longleftrightarrow> result = -3 \<or> result = -4"

lemma ascii_equal_n_iff:
  "n \<le> length xs \<Longrightarrow> n \<le> length ys \<Longrightarrow>
   ascii_equal_n xs ys n \<longleftrightarrow> map tolower (take n xs) = map tolower (take n ys)"
  by (auto simp: ascii_equal_n_def list_all_iff list_eq_iff_nth_eq)

lemma ascii_equal_iff: "ascii_equal xs ys \<longleftrightarrow> map tolower xs = map tolower ys"
proof (cases "length xs = length ys")
  case True
  then show ?thesis by (simp add: ascii_equal_def ascii_equal_n_iff)
next
  case False
  then show ?thesis using map_eq_imp_length_eq [of tolower xs tolower ys]
    by (auto simp: ascii_equal_def)
qed

lemma nibble_cases:
  assumes "(d :: u16) < 16"
  shows "d \<in> {0, 1, 2, 3, 4, 5, 6, 7, 8, 9, 10, 11, 12, 13, 14, 15}"
proof -
  have "unat d < 16" using assms by (simp add: word_less_nat_alt)
  then have "unat d \<in> {0, 1, 2, 3, 4, 5, 6, 7, 8, 9, 10, 11, 12, 13, 14, 15}"
    by (simp add: eval_nat_numeral less_Suc_eq)
  then have "word_of_nat (unat d) \<in> (word_of_nat :: nat \<Rightarrow> u16) ` {0, 1, 2, 3, 4, 5, 6, 7, 8, 9, 10, 11, 12, 13, 14, 15}"
    by (rule imageI)
  then show ?thesis by simp
qed

text \<open>The value of a hexadecimal digit, whatever its case.\<close>

definition hex_value :: "u8 \<Rightarrow> u16" where
  "hex_value c = (if c \<le> 57 then ucast c - 48 else ucast c - 87)"

lemma hex_value_digit: "d < 16 \<Longrightarrow> hex_value (tolower (hex_digit d)) = d"
  using nibble_cases [of d] by (auto simp: hex_value_def tolower_def hex_digit_def)

lemma nibble_less: "drop_bit 12 w < (16 :: u16)" "(w :: u16) AND 15 < 16"
proof -
  have "unat w < 2 ^ 16" using unsigned_less [of w, where ?'a = nat] by simp
  then have "unat (drop_bit 12 w) < 16" by (simp add: drop_bit_eq_div unat_div_distrib)
  then show "drop_bit 12 w < (16 :: u16)" by (simp add: word_less_nat_alt)
  have "w AND 15 \<le> 15" by (rule word_and_le1)
  then show "w AND 15 < 16" by (simp add: word_le_nat_alt word_less_nat_alt)
qed

lemma nibbles_determine:
  fixes w w' :: u16
  assumes "drop_bit 12 w = drop_bit 12 w'" "drop_bit 8 w AND 15 = drop_bit 8 w' AND 15"
    "drop_bit 4 w AND 15 = drop_bit 4 w' AND 15" "w AND 15 = w' AND 15"
  shows "w = w'"
proof (rule bit_word_eqI)
  fix n assume n: "n < LENGTH(16)"
  have b15: "bit (15 :: u16) k" if "k < 4" for k
    using that by (auto simp: less_Suc_eq eval_nat_numeral)
  consider "n < 4" | "4 \<le> n" "n < 8" | "8 \<le> n" "n < 12" | "12 \<le> n" by linarith
  then show "bit w n = bit w' n"
  proof cases
    case 1
    with b15 [of n] arg_cong [OF assms(4), of "\<lambda>x. bit x n"] show ?thesis by (simp add: bit_and_iff)
  next
    case 2
    with b15 [of "n - 4"] arg_cong [OF assms(3), of "\<lambda>x. bit x (n - 4)"] show ?thesis
      by (auto simp: bit_and_iff bit_drop_bit_eq)
  next
    case 3
    with b15 [of "n - 8"] arg_cong [OF assms(2), of "\<lambda>x. bit x (n - 8)"] show ?thesis
      by (auto simp: bit_and_iff bit_drop_bit_eq)
  next
    case 4
    with arg_cong [OF assms(1), of "\<lambda>x. bit x (n - 12)"] show ?thesis
      by (simp add: bit_drop_bit_eq)
  qed
qed

lemma hex_digit_inj:
  "tolower (hex_digit d) = tolower (hex_digit d') \<Longrightarrow> d < 16 \<Longrightarrow> d' < 16 \<Longrightarrow> d = d'"
  by (metis hex_value_digit)

lemma hex04_inj: "map tolower (hex04 w) = map tolower (hex04 w') \<Longrightarrow> w = w'"
  by (rule nibbles_determine)
     (auto simp: hex04_def intro!: hex_digit_inj nibble_less)

lemma length_hex04 [simp]: "length (hex04 w) = 4"
  by (simp add: hex04_def)

lemma length_instance_prefix [simp]: "length (instance_prefix v p) = 22"
  by (simp add: instance_prefix_def string_bytes_def)

lemma instance_prefix_inj:
  assumes "map tolower (instance_prefix v p) = map tolower (instance_prefix v' p')"
  shows "v = v' \<and> p = p'"
  using assms hex04_inj by (simp add: instance_prefix_def)

text \<open>
  A USB instance identifier names one product: if it matches two vendor and product
  pairs, with whatever serial numbers and letter case, the pairs are equal. A restart
  triggered for one receiver model is never applied to another.
\<close>

lemma windows_instance_names_one_product:
  assumes "openrsp_windows_usb_instance_matches (Some inst) v p s"
    and "openrsp_windows_usb_instance_matches (Some inst) v' p' s'"
  shows "v = v' \<and> p = p'"
proof -
  have "map tolower (take 22 inst) = map tolower (instance_prefix a b)"
    if "openrsp_windows_usb_instance_matches (Some inst) a b t" for a b t
    using that ascii_equal_n_iff [of 22 inst "instance_prefix a b"]
    by (simp add: openrsp_windows_usb_instance_matches_def split: if_splits)
  with assms have "map tolower (instance_prefix v p) = map tolower (instance_prefix v' p')" by metis
  then show ?thesis by (rule instance_prefix_inj)
qed

end
