(* ===== verification/Rsp_Transport.thy ===== *)
theory Rsp_Transport
  imports Rsp_Protocol
begin

text \<open>
  The byte transport: \<open>read_exact\<close>, \<open>write_exact\<close> and \<open>write_frame\<close> of the daemon, and
  \<open>transfer_exact\<close>, \<open>openrsp_client_send\<close> and \<open>openrsp_client_receive\<close> of
  \<open>src/client_posix.c\<close>. A stream socket is the list of outcomes of the system calls on
  it: the kernel hands over any nonempty part of the peer's bytes, accepts any part of a
  buffer, or reports an error. A read that finds the list exhausted blocks, which is
  \<open>None\<close>.
\<close>

subsection \<open>Sockets\<close>

text \<open>
  \<open>Data\<close> holds the bytes at the head of the receive queue, and \<open>Data []\<close> is end of file.
  \<open>Accept k\<close> is a write that takes at most \<open>k\<close> bytes. \<open>Interrupted\<close> is EINTR,
  \<open>Timed_out\<close> is EAGAIN or EWOULDBLOCK, \<open>Failed\<close> any other error.
\<close>

datatype sock_event = Data "u8 list" | Accept nat | Interrupted | Timed_out | Failed

text \<open>The bytes the peer has sent, and an event list without faults of the connection.\<close>

fun stream :: "sock_event list \<Rightarrow> u8 list" where
  "stream [] = []"
| "stream (Data bs # evs) = bs @ stream evs"
| "stream (_ # evs) = stream evs"

fun readable :: "sock_event \<Rightarrow> bool" where
  "readable (Data bs) = (bs \<noteq> [])"
| "readable Interrupted = True"
| "readable _ = False"

fun writable :: "sock_event \<Rightarrow> bool" where
  "writable (Accept k) = (k > 0)"
| "writable Interrupted = True"
| "writable _ = False"

subsection \<open>The daemon's loops\<close>

text \<open>
  Result, the bytes stored into the buffer so far, and the remaining socket. A read of
  \<open>n\<close> bytes takes at most \<open>n\<close> of the bytes at hand and leaves the rest queued.
\<close>

fun read_exact_loop :: "sock_event list \<Rightarrow> nat \<Rightarrow> u8 list \<Rightarrow> (int \<times> u8 list \<times> sock_event list) option" where
  "read_exact_loop evs 0 acc = Some (1, acc, evs)"
| "read_exact_loop [] (Suc n) acc = None"
| "read_exact_loop (Data bs # evs) (Suc n) acc =
     (if bs = [] then Some (0, acc, evs)
      else if length bs \<le> Suc n then read_exact_loop evs (Suc n - length bs) (acc @ bs)
      else Some (1, acc @ take (Suc n) bs, Data (drop (Suc n) bs) # evs))"
| "read_exact_loop (Interrupted # evs) (Suc n) acc = read_exact_loop evs (Suc n) acc"
| "read_exact_loop (Timed_out # evs) (Suc n) acc = Some (-1, acc, evs)"
| "read_exact_loop (Failed # evs) (Suc n) acc = Some (-1, acc, evs)"
| "read_exact_loop (Accept k # evs) (Suc n) acc = Some (-1, acc, evs)"

definition read_exact :: "sock_event list \<Rightarrow> nat \<Rightarrow> (int \<times> u8 list \<times> sock_event list) option" where
  "read_exact evs n = read_exact_loop evs n []"

text \<open>Result, the bytes that left, and the remaining socket; a write of no byte is retried.\<close>

fun write_exact_loop :: "sock_event list \<Rightarrow> u8 list \<Rightarrow> u8 list \<Rightarrow> (int \<times> u8 list \<times> sock_event list) option" where
  "write_exact_loop evs [] sent = Some (0, sent, evs)"
| "write_exact_loop [] (b # bs) sent = None"
| "write_exact_loop (Accept k # evs) (b # bs) sent =
     write_exact_loop evs (drop k (b # bs)) (sent @ take k (b # bs))"
| "write_exact_loop (Interrupted # evs) (b # bs) sent = write_exact_loop evs (b # bs) sent"
| "write_exact_loop (Timed_out # evs) (b # bs) sent = Some (-1, sent, evs)"
| "write_exact_loop (Failed # evs) (b # bs) sent = Some (-1, sent, evs)"
| "write_exact_loop (Data _ # evs) (b # bs) sent = Some (-1, sent, evs)"

definition write_exact :: "sock_event list \<Rightarrow> u8 list \<Rightarrow> (int \<times> u8 list \<times> sock_event list) option" where
  "write_exact evs buf = write_exact_loop evs buf []"

definition frame_header :: "u16 \<Rightarrow> u32 \<Rightarrow> u32 \<Rightarrow> message_header" where
  "frame_header ty sequence payload_bytes =
     \<lparr>hdr_magic = OPENRSP_PROTOCOL_MAGIC, hdr_version = OPENRSP_PROTOCOL_VERSION, hdr_type = ty,
      hdr_sequence = sequence, hdr_payload_bytes = payload_bytes\<rparr>"

definition write_frame ::
  "sock_event list \<Rightarrow> u16 \<Rightarrow> u32 \<Rightarrow> u8 list \<Rightarrow> (int \<times> u8 list \<times> sock_event list) option" where
  "write_frame evs ty sequence payload =
     (let header = frame_header ty sequence (of_nat (length payload)) in
      case write_exact evs (encode_header header) of None \<Rightarrow> None
      | Some (result, sent, evs) \<Rightarrow>
          if result = 0 \<and> payload \<noteq> []
          then (case write_exact evs payload of None \<Rightarrow> None
                | Some (result, sent', evs) \<Rightarrow> Some (result, sent @ sent', evs))
          else Some (result, sent, evs))"

subsection \<open>The client's loops\<close>

abbreviation (input) OPENRSP_CLIENT_OK :: int where "OPENRSP_CLIENT_OK \<equiv> 0"
abbreviation (input) OPENRSP_CLIENT_TIMEOUT :: int where "OPENRSP_CLIENT_TIMEOUT \<equiv> 1"
abbreviation (input) OPENRSP_CLIENT_ERROR :: int where "OPENRSP_CLIENT_ERROR \<equiv> -1"

text \<open>\<open>transfer_exact\<close> reading: a timeout before the first byte is distinguished.\<close>

fun transfer_exact_read :: "sock_event list \<Rightarrow> nat \<Rightarrow> u8 list \<Rightarrow> (int \<times> u8 list \<times> sock_event list) option" where
  "transfer_exact_read evs 0 acc = Some (OPENRSP_CLIENT_OK, acc, evs)"
| "transfer_exact_read [] (Suc n) acc = None"
| "transfer_exact_read (Data bs # evs) (Suc n) acc =
     (if bs = [] then Some (OPENRSP_CLIENT_ERROR, acc, evs)
      else if length bs \<le> Suc n then transfer_exact_read evs (Suc n - length bs) (acc @ bs)
      else Some (OPENRSP_CLIENT_OK, acc @ take (Suc n) bs, Data (drop (Suc n) bs) # evs))"
| "transfer_exact_read (Interrupted # evs) (Suc n) acc = transfer_exact_read evs (Suc n) acc"
| "transfer_exact_read (Timed_out # evs) (Suc n) acc =
     Some (if acc = [] then OPENRSP_CLIENT_TIMEOUT else OPENRSP_CLIENT_ERROR, acc, evs)"
| "transfer_exact_read (Failed # evs) (Suc n) acc = Some (OPENRSP_CLIENT_ERROR, acc, evs)"
| "transfer_exact_read (Accept k # evs) (Suc n) acc = Some (OPENRSP_CLIENT_ERROR, acc, evs)"

text \<open>\<open>transfer_exact\<close> writing: a write of no byte is an error here.\<close>

fun transfer_exact_write :: "sock_event list \<Rightarrow> u8 list \<Rightarrow> u8 list \<Rightarrow> (int \<times> u8 list \<times> sock_event list) option" where
  "transfer_exact_write evs [] sent = Some (OPENRSP_CLIENT_OK, sent, evs)"
| "transfer_exact_write [] (b # bs) sent = None"
| "transfer_exact_write (Accept k # evs) (b # bs) sent =
     (if k = 0 then Some (OPENRSP_CLIENT_ERROR, sent, evs)
      else transfer_exact_write evs (drop k (b # bs)) (sent @ take k (b # bs)))"
| "transfer_exact_write (Interrupted # evs) (b # bs) sent = transfer_exact_write evs (b # bs) sent"
| "transfer_exact_write (Timed_out # evs) (b # bs) sent = Some (OPENRSP_CLIENT_ERROR, sent, evs)"
| "transfer_exact_write (Failed # evs) (b # bs) sent = Some (OPENRSP_CLIENT_ERROR, sent, evs)"
| "transfer_exact_write (Data _ # evs) (b # bs) sent = Some (OPENRSP_CLIENT_ERROR, sent, evs)"

definition openrsp_client_send ::
  "sock_event list \<Rightarrow> u16 \<Rightarrow> u32 \<Rightarrow> u8 list \<Rightarrow> (int \<times> u8 list \<times> sock_event list) option" where
  "openrsp_client_send evs command sequence payload =
     (let header = frame_header command sequence (of_nat (length payload)) in
      case transfer_exact_write evs (encode_header header) [] of None \<Rightarrow> None
      | Some (result, sent, evs) \<Rightarrow>
          if result \<noteq> 0 then Some (-1, sent, evs)
          else if payload = [] then Some (0, sent, evs)
          else (case transfer_exact_write evs payload [] of None \<Rightarrow> None
                | Some (result, sent', evs) \<Rightarrow> Some (result, sent @ sent', evs)))"

text \<open>The result code, and on success the header with its payload.\<close>

definition openrsp_client_receive ::
  "sock_event list \<Rightarrow> nat \<Rightarrow> (int \<times> (message_header \<times> u8 list) option \<times> sock_event list) option" where
  "openrsp_client_receive evs capacity =
     (case transfer_exact_read evs 16 [] of None \<Rightarrow> None
      | Some (header_result, bytes, evs) \<Rightarrow>
          if header_result \<noteq> OPENRSP_CLIENT_OK then Some (header_result, None, evs)
          else let header = decode_header bytes in
            if hdr_magic header \<noteq> OPENRSP_PROTOCOL_MAGIC \<or>
               hdr_version header \<noteq> OPENRSP_PROTOCOL_VERSION \<or>
               unat (hdr_payload_bytes header) > capacity
            then Some (-1, None, evs)
            else if hdr_payload_bytes header \<noteq> 0 then
              (case transfer_exact_read evs (unat (hdr_payload_bytes header)) [] of None \<Rightarrow> None
               | Some (result, payload, evs) \<Rightarrow>
                   if result \<noteq> 0 then Some (OPENRSP_CLIENT_ERROR, None, evs)
                   else Some (0, Some (header, payload), evs))
            else Some (0, Some (header, []), evs))"

text \<open>The receiving half of \<open>serve_request\<close>: what it returns early, or the request.\<close>

abbreviation (input) OPENRSPD_MAX_PAYLOAD :: nat where "OPENRSPD_MAX_PAYLOAD \<equiv> 4096"

definition receive_request ::
  "sock_event list \<Rightarrow> (int + message_header \<times> u8 list) option" where
  "receive_request evs =
     (case read_exact evs 16 of None \<Rightarrow> None
      | Some (read_result, bytes, evs) \<Rightarrow>
          if read_result \<noteq> 1 then Some (Inl read_result)
          else let request = decode_header bytes in
            if unat (hdr_payload_bytes request) > OPENRSPD_MAX_PAYLOAD then Some (Inl (-1))
            else if hdr_payload_bytes request \<noteq> 0 then
              (case read_exact evs (unat (hdr_payload_bytes request)) of None \<Rightarrow> None
               | Some (result, payload, evs) \<Rightarrow>
                   if result \<noteq> 1 then Some (Inl (-1)) else Some (Inr (request, payload)))
            else Some (Inr (request, [])))"

subsection \<open>Interfaces\<close>

text \<open>A reader that delivers the next bytes of the stream however they were split.\<close>

locale exact_reader =
  fixes rd :: "sock_event list \<Rightarrow> nat \<Rightarrow> (int \<times> u8 list \<times> sock_event list) option"
    and ok :: int
  assumes rd_exact: "list_all readable evs \<Longrightarrow> n \<le> length (stream evs) \<Longrightarrow>
    \<exists>evs'. rd evs n = Some (ok, take n (stream evs), evs') \<and>
      stream evs' = drop n (stream evs) \<and> list_all readable evs'"
begin

lemma rd_prefix:
  assumes "list_all readable evs" "stream evs = xs @ ys" "length xs = n"
  obtains evs' where "rd evs n = Some (ok, xs, evs')" "stream evs' = ys" "list_all readable evs'"
  using rd_exact [of evs n] assms by auto

end

text \<open>A writer that puts the whole buffer on the wire when the connection stays up, and
  never anything but a prefix of it.\<close>

locale exact_writer =
  fixes wr :: "sock_event list \<Rightarrow> u8 list \<Rightarrow> (int \<times> u8 list \<times> sock_event list) option"
  assumes wr_prefix: "wr evs buf = Some (r, sent, evs') \<Longrightarrow> \<exists>rest. buf = sent @ rest \<and> (r = 0 \<longrightarrow> rest = [])"
    and wr_total: "list_all writable evs \<Longrightarrow> length buf \<le> length (filter (\<lambda>e. e \<noteq> Interrupted) evs) \<Longrightarrow>
      \<exists>evs'. wr evs buf = Some (0, buf, evs')"
begin

lemma wr_ok_all: "wr evs buf = Some (0, sent, evs') \<Longrightarrow> sent = buf"
  using wr_prefix by fastforce

end

subsection \<open>The loops implement the interfaces\<close>

lemma read_exact_loop_readable:
  assumes "list_all readable evs" "n \<le> length (stream evs)"
  shows "\<exists>evs'. read_exact_loop evs n acc = Some (1, acc @ take n (stream evs), evs') \<and>
    stream evs' = drop n (stream evs) \<and> list_all readable evs'"
  using assms
  by (induction evs n acc rule: read_exact_loop.induct) auto

lemma transfer_exact_read_readable:
  assumes "list_all readable evs" "n \<le> length (stream evs)"
  shows "\<exists>evs'. transfer_exact_read evs n acc = Some (0, acc @ take n (stream evs), evs') \<and>
    stream evs' = drop n (stream evs) \<and> list_all readable evs'"
  using assms
  by (induction evs n acc rule: transfer_exact_read.induct) auto

interpretation daemon_reader: exact_reader read_exact 1
  by unfold_locales (drule (1) read_exact_loop_readable [where acc = "[]"], simp add: read_exact_def)

interpretation client_reader: exact_reader "\<lambda>evs n. transfer_exact_read evs n []" 0
  by unfold_locales (drule (1) transfer_exact_read_readable [where acc = "[]"], simp)

lemma write_exact_loop_prefix:
  "write_exact_loop evs buf sent = Some (r, sent', evs') \<Longrightarrow>
   \<exists>mid rest. sent' = sent @ mid \<and> buf = mid @ rest \<and> (r = 0 \<longrightarrow> rest = [])"
proof (induction evs buf sent rule: write_exact_loop.induct)
  case (3 k evs b bs sent)
  then obtain mid rest where "sent' = (sent @ take k (b # bs)) @ mid"
    "drop k (b # bs) = mid @ rest" "r = 0 \<longrightarrow> rest = []" by auto
  then show ?case by (metis append.assoc append_take_drop_id)
qed auto

lemma transfer_exact_write_prefix:
  "transfer_exact_write evs buf sent = Some (r, sent', evs') \<Longrightarrow>
   \<exists>mid rest. sent' = sent @ mid \<and> buf = mid @ rest \<and> (r = 0 \<longrightarrow> rest = [])"
proof (induction evs buf sent rule: transfer_exact_write.induct)
  case (3 k evs b bs sent)
  show ?case
  proof (cases "k = 0")
    case False
    with 3 obtain mid rest where "sent' = (sent @ take k (b # bs)) @ mid"
      "drop k (b # bs) = mid @ rest" "r = 0 \<longrightarrow> rest = []" by auto
    then show ?thesis by (metis append.assoc append_take_drop_id)
  qed (use 3 in auto)
qed auto

lemma write_exact_loop_total:
  assumes "list_all writable evs" "length buf \<le> length (filter (\<lambda>e. e \<noteq> Interrupted) evs)"
  shows "\<exists>evs'. write_exact_loop evs buf sent = Some (0, sent @ buf, evs')"
  using assms
  by (induction evs buf sent rule: write_exact_loop.induct) auto

lemma transfer_exact_write_total:
  assumes "list_all writable evs" "length buf \<le> length (filter (\<lambda>e. e \<noteq> Interrupted) evs)"
  shows "\<exists>evs'. transfer_exact_write evs buf sent = Some (0, sent @ buf, evs')"
  using assms
  by (induction evs buf sent rule: transfer_exact_write.induct) auto

interpretation daemon_writer: exact_writer write_exact
proof
  show "\<exists>rest. buf = sent @ rest \<and> (r = 0 \<longrightarrow> rest = [])"
    if "write_exact evs buf = Some (r, sent, evs')" for evs buf r sent evs'
    using that write_exact_loop_prefix [of evs buf "[]"] by (auto simp: write_exact_def)
  show "\<exists>evs'. write_exact evs buf = Some (0, buf, evs')"
    if "list_all writable evs" "length buf \<le> length (filter (\<lambda>e. e \<noteq> Interrupted) evs)" for evs buf
    using that write_exact_loop_total [of evs buf "[]"] by (auto simp: write_exact_def)
qed

interpretation client_writer: exact_writer "\<lambda>evs buf. transfer_exact_write evs buf []"
proof
  show "\<exists>rest. buf = sent @ rest \<and> (r = 0 \<longrightarrow> rest = [])"
    if "transfer_exact_write evs buf [] = Some (r, sent, evs')" for evs buf r sent evs'
    using that transfer_exact_write_prefix [of evs buf "[]"] by auto
  show "\<exists>evs'. transfer_exact_write evs buf [] = Some (0, buf, evs')"
    if "list_all writable evs" "length buf \<le> length (filter (\<lambda>e. e \<noteq> Interrupted) evs)" for evs buf
    using that transfer_exact_write_total [of evs buf "[]"] by auto
qed

subsection \<open>Frames\<close>

text \<open>The bytes of a frame, and the bytes of a sequence of frames.\<close>

definition frame_bytes :: "u16 \<times> u32 \<times> u8 list \<Rightarrow> u8 list" where
  "frame_bytes f = (case f of (ty, sequence, payload) \<Rightarrow>
     encode_header (frame_header ty sequence (of_nat (length payload))) @ payload)"

lemma write_frame_ok_bytes:
  "write_frame evs ty sequence payload = Some (0, sent, evs') \<Longrightarrow>
   sent = frame_bytes (ty, sequence, payload)"
  by (auto simp: write_frame_def frame_bytes_def Let_def split: option.splits if_splits)
     (metis daemon_writer.wr_ok_all)+

lemma openrsp_client_send_ok_bytes:
  "openrsp_client_send evs ty sequence payload = Some (0, sent, evs') \<Longrightarrow>
   sent = frame_bytes (ty, sequence, payload)"
  by (auto simp: openrsp_client_send_def frame_bytes_def Let_def split: option.splits if_splits)
     (metis client_writer.wr_ok_all)+

lemma frame_header_simps [simp]:
  "hdr_magic (frame_header t q n) = OPENRSP_PROTOCOL_MAGIC"
  "hdr_version (frame_header t q n) = OPENRSP_PROTOCOL_VERSION"
  "hdr_type (frame_header t q n) = t" "hdr_sequence (frame_header t q n) = q"
  "hdr_payload_bytes (frame_header t q n) = n"
  by (simp_all add: frame_header_def)

lemma unat_of_nat_u32: "n < 4294967296 \<Longrightarrow> unat (of_nat n :: u32) = n"
  by (simp add: unat_of_nat)

lemma of_nat_u32_eq_0:
  "n < 4294967296 \<Longrightarrow> (of_nat n :: u32) = 0 \<longleftrightarrow> n = 0"
proof -
  assume "n < 4294967296"
  then have "unat (of_nat n :: u32) = n" by (rule unat_of_nat_u32)
  then show ?thesis by (metis unat_eq_zero)
qed

text \<open>Receiving one frame from the front of the stream.\<close>

lemma openrsp_client_receive_frame:
  assumes "list_all readable evs" "stream evs = frame_bytes (ty, sequence, payload) @ rest"
    "length payload \<le> capacity" "length payload < 4294967296"
  shows "\<exists>evs'. openrsp_client_receive evs capacity =
      Some (0, Some (frame_header ty sequence (of_nat (length payload)), payload), evs') \<and>
    stream evs' = rest \<and> list_all readable evs'"
proof -
  let ?h = "frame_header ty sequence (of_nat (length payload))"
  have "stream evs = encode_header ?h @ (payload @ rest)"
    using assms(2) by (simp add: frame_bytes_def)
  then obtain evs1 where h: "transfer_exact_read evs 16 [] = Some (0, encode_header ?h, evs1)"
    and s1: "stream evs1 = payload @ rest" and r1: "list_all readable evs1"
    using client_reader.rd_prefix [OF assms(1)] header_codec.enc_width by metis
  show ?thesis
  proof (cases "payload = []")
    case True
    with h s1 r1 show ?thesis
      by (simp add: openrsp_client_receive_def header_codec.dec_enc Let_def)
  next
    case False
    obtain evs2 where "transfer_exact_read evs1 (length payload) [] = Some (0, payload, evs2)"
      "stream evs2 = rest" "list_all readable evs2"
      using client_reader.rd_prefix [OF r1 s1 refl] by metis
    with h False assms(3,4) show ?thesis
      by (simp add: openrsp_client_receive_def header_codec.dec_enc Let_def
          unat_of_nat_u32 of_nat_u32_eq_0)
  qed
qed

lemma receive_request_frame:
  assumes "list_all readable evs" "stream evs = frame_bytes (ty, sequence, payload) @ rest"
    "length payload \<le> OPENRSPD_MAX_PAYLOAD"
  shows "receive_request evs =
    Some (Inr (frame_header ty sequence (of_nat (length payload)), payload))"
proof -
  let ?h = "frame_header ty sequence (of_nat (length payload))"
  have "stream evs = encode_header ?h @ (payload @ rest)"
    using assms(2) by (simp add: frame_bytes_def)
  then obtain evs1 where h: "read_exact evs 16 = Some (1, encode_header ?h, evs1)"
    and s1: "stream evs1 = payload @ rest" and r1: "list_all readable evs1"
    using daemon_reader.rd_prefix [OF assms(1)] header_codec.enc_width by metis
  show ?thesis
  proof (cases "payload = []")
    case True
    with h s1 r1 show ?thesis
      by (simp add: receive_request_def header_codec.dec_enc Let_def)
  next
    case False
    obtain evs2 where "read_exact evs1 (length payload) = Some (1, payload, evs2)"
      using daemon_reader.rd_prefix [OF r1 s1 refl] by metis
    with h False assms(3) show ?thesis
      by (simp add: receive_request_def header_codec.dec_enc Let_def
          unat_of_nat_u32 of_nat_u32_eq_0)
  qed
qed

text \<open>Receiving frame after frame, as the reader threads do.\<close>

fun receive_frames :: "nat \<Rightarrow> sock_event list \<Rightarrow> nat \<Rightarrow> (message_header \<times> u8 list) list option" where
  "receive_frames 0 evs capacity = Some []"
| "receive_frames (Suc k) evs capacity =
     (case openrsp_client_receive evs capacity of
        Some (result, Some f, evs') \<Rightarrow>
          if result = 0 then map_option (Cons f) (receive_frames k evs' capacity) else None
      | _ \<Rightarrow> None)"

text \<open>Writing frame after frame, as the daemon's threads do; the bytes that left, if every write succeeded.\<close>

fun write_frames ::
  "sock_event list \<Rightarrow> (u16 \<times> u32 \<times> u8 list) list \<Rightarrow> (u8 list \<times> sock_event list) option" where
  "write_frames evs [] = Some ([], evs)"
| "write_frames evs ((ty, sequence, payload) # fs) =
     (case write_frame evs ty sequence payload of
        Some (result, sent, evs') \<Rightarrow>
          if result = 0 then map_option (\<lambda>(sent', evs''). (sent @ sent', evs'')) (write_frames evs' fs) else None
      | None \<Rightarrow> None)"

lemma write_frames_bytes:
  "write_frames evs fs = Some (sent, evs') \<Longrightarrow> sent = concat (map frame_bytes fs)"
proof (induction evs fs arbitrary: sent rule: write_frames.induct)
  case (2 evs ty sequence payload fs)
  then show ?case using write_frame_ok_bytes by (fastforce split: option.splits if_splits prod.splits)
qed simp

definition progress :: "sock_event list \<Rightarrow> nat" where
  "progress evs = length (filter (\<lambda>e. e \<noteq> Interrupted) evs)"

lemma write_exact_progress:
  assumes "list_all writable evs" "length buf \<le> progress evs"
  shows "\<exists>evs'. write_exact_loop evs buf sent = Some (0, sent @ buf, evs') \<and> list_all writable evs' \<and>
    progress evs \<le> progress evs' + length buf"
  using assms
proof (induction evs buf sent rule: write_exact_loop.induct)
  case (3 k evs b bs sent)
  then have k: "0 < k" by simp
  then have "length (drop k (b # bs)) \<le> progress evs" using 3(3) by (auto simp: progress_def)
  with 3 obtain evs' where
    "write_exact_loop evs (drop k (b # bs)) (sent @ take k (b # bs)) =
       Some (0, (sent @ take k (b # bs)) @ drop k (b # bs), evs')"
    "list_all writable evs'" "progress evs \<le> progress evs' + length (drop k (b # bs))" by auto
  then show ?case using k by (auto simp: progress_def)
qed (auto simp: progress_def)

lemma write_frame_progress:
  assumes "list_all writable evs" "length (frame_bytes (ty, sequence, payload)) \<le> progress evs"
  shows "\<exists>sent evs'. write_frame evs ty sequence payload = Some (0, sent, evs') \<and> list_all writable evs' \<and>
    progress evs \<le> progress evs' + length (frame_bytes (ty, sequence, payload))"
proof -
  let ?h = "encode_header (frame_header ty sequence (of_nat (length payload)))"
  obtain evs1 where 1: "write_exact evs ?h = Some (0, ?h, evs1)" "list_all writable evs1"
    "progress evs \<le> progress evs1 + length ?h"
    using write_exact_progress [of evs ?h "[]"] assms by (auto simp: frame_bytes_def write_exact_def)
  moreover obtain evs2 where "write_exact evs1 payload = Some (0, payload, evs2)" "list_all writable evs2"
    "progress evs1 \<le> progress evs2 + length payload"
    using write_exact_progress [of evs1 payload "[]"] 1 assms by (auto simp: frame_bytes_def write_exact_def)
  ultimately show ?thesis by (auto simp: write_frame_def frame_bytes_def)
qed

lemma write_frames_progress:
  assumes "list_all writable evs" "length (concat (map frame_bytes fs)) \<le> progress evs"
  shows "\<exists>sent evs'. write_frames evs fs = Some (sent, evs')"
  using assms
proof (induction evs fs rule: write_frames.induct)
  case (2 evs ty sequence payload fs)
  then obtain sent evs' where 1: "write_frame evs ty sequence payload = Some (0, sent, evs')"
    "list_all writable evs'" "progress evs \<le> progress evs' + length (frame_bytes (ty, sequence, payload))"
    using write_frame_progress [of evs ty sequence payload] by auto
  then have "length (concat (map frame_bytes fs)) \<le> progress evs'" using 2(3) by simp
  then show ?case using 1 2(1) [OF 1(1) refl refl] by auto
qed simp

lemma receive_frames_bytes:
  assumes "list_all readable evs"
    and "stream evs = concat (map frame_bytes fs) @ rest"
    and "list_all (\<lambda>(ty, sequence, payload). length payload \<le> capacity) fs"
    and "capacity < 4294967296"
  shows "receive_frames (length fs) evs capacity =
    Some (map (\<lambda>(ty, sequence, payload).
      (frame_header ty sequence (of_nat (length payload)), payload)) fs)"
  using assms(1,2,3)
proof (induction fs arbitrary: evs)
  case (Cons f fs)
  obtain ty sequence payload where f: "f = (ty, sequence, payload)" by (cases f)
  obtain evs' where "openrsp_client_receive evs capacity =
      Some (0, Some (frame_header ty sequence (of_nat (length payload)), payload), evs')"
    "stream evs' = concat (map frame_bytes fs) @ rest" "list_all readable evs'"
    using openrsp_client_receive_frame [of evs ty sequence payload _ capacity] Cons.prems assms(4) f
    by fastforce
  with Cons f show ?case by simp
qed simp

subsection \<open>Properties\<close>

text \<open>
  C18. The frames the daemon writes with \<open>write_frame\<close>, one after the other, the client receives
  with \<open>openrsp_client_receive\<close> as the same frames in the same order: on a socket whose writes
  make progress every frame is written, and from whatever reads return the bytes that were
  written, however the kernel cuts and interrupts writes and reads, the client gets every
  frame back, as long as the payloads fit into its buffer.
\<close>

theorem frames_round_trip:
  assumes "list_all (\<lambda>(ty, sequence, payload). length payload \<le> capacity) fs"
    and "capacity < 4294967296"
  shows "(list_all writable wevs \<and> length (concat (map frame_bytes fs)) \<le> progress wevs \<longrightarrow>
      (\<exists>sent wevs'. write_frames wevs fs = Some (sent, wevs'))) \<and>
    (\<forall>sent wevs' evs rest. write_frames wevs fs = Some (sent, wevs') \<and>
      list_all readable evs \<and> stream evs = sent @ rest \<longrightarrow>
      receive_frames (length fs) evs capacity =
        Some (map (\<lambda>(ty, sequence, payload).
          (frame_header ty sequence (of_nat (length payload)), payload)) fs))"
  using write_frames_progress [of wevs fs] write_frames_bytes [of wevs fs] receive_frames_bytes [OF _ _ assms]
  by blast

theorem frames_round_trip_witness:
  "\<exists>sent wevs'. write_frames (Accept 7 # Interrupted # replicate 18 (Accept 2)) [(0x8000, 7, [1, 2, 3])] =
       Some (sent, wevs') \<and> length sent = 19 \<and>
     receive_frames 1 [Interrupted, Data (take 5 sent), Interrupted, Data (drop 5 sent @ [9, 9])] 64 =
       Some [(frame_header 0x8000 7 3, [1, 2, 3])]"
proof -
  let ?fs = "[(0x8000 :: u16, 7 :: u32, [1, 2, 3 :: u8])]"
  let ?w = "Accept 7 # Interrupted # replicate 18 (Accept 2)"
  have "list_all (\<lambda>(ty, sequence, payload). length payload \<le> 64) ?fs" "(64 :: nat) < 4294967296" by simp_all
  note trip = frames_round_trip [OF this, of ?w]
  have len: "length (frame_bytes (0x8000, 7, [1, 2, 3])) = 19"
    by (simp add: frame_bytes_def header_codec.enc_width)
  then obtain sent wevs' where sent: "write_frames ?w ?fs = Some (sent, wevs')"
    using trip by (auto simp: progress_def list_all_iff)
  have n: "length sent = 19" using write_frames_bytes [OF sent] len by simp
  then have "take 5 sent \<noteq> []" by force
  then have "list_all readable [Interrupted, Data (take 5 sent), Interrupted, Data (drop 5 sent @ [9, 9])]" by simp
  moreover have "stream [Interrupted, Data (take 5 sent), Interrupted, Data (drop 5 sent @ [9, 9])] = sent @ [9, 9]"
    by (simp flip: append_assoc)
  ultimately have "receive_frames (length ?fs) [Interrupted, Data (take 5 sent), Interrupted, Data (drop 5 sent @ [9, 9])] 64 =
      Some (map (\<lambda>(ty, sequence, payload). (frame_header ty sequence (of_nat (length payload)), payload)) ?fs)"
    using trip sent by blast
  then show ?thesis using sent n by simp
qed

text \<open>
  C19. A request the client sends successfully is the request the daemon serves: whatever
  partial writes happened on one side and partial reads on the other, \<open>serve_request\<close>
  gets the header and the payload that were sent.
\<close>

theorem request_round_trip:
  assumes "openrsp_client_send wevs command sequence payload = Some (0, sent, wevs')"
    and "list_all readable evs" and "stream evs = sent @ rest"
    and "length payload \<le> OPENRSPD_MAX_PAYLOAD"
  shows "receive_request evs =
    Some (Inr (frame_header command sequence (of_nat (length payload)), payload))"
  using receive_request_frame assms openrsp_client_send_ok_bytes by metis

theorem request_round_trip_witness:
  "receive_request [Data (frame_bytes (1, 4, []))] = Some (Inr (frame_header 1 4 0, []))"
proof -
  have len: "length (frame_bytes (1, 4, [])) = 16"
    by (simp add: frame_bytes_def header_codec.enc_width)
  then have ne: "frame_bytes (1, 4, []) \<noteq> []" by fastforce
  have "openrsp_client_send [Accept 16] 1 4 [] = Some (0, frame_bytes (1, 4, []), [])"
    by (simp add: openrsp_client_send_def frame_bytes_def Let_def encode_header_def u32_bytes_def
        u16_bytes_def)
  moreover have "list_all readable [Data (frame_bytes (1, 4, []))]" using ne by simp
  moreover have "stream [Data (frame_bytes (1, 4, []))] = frame_bytes (1, 4, []) @ []" by simp
  moreover have "length ([] :: u8 list) \<le> 4096" by simp
  ultimately have "receive_request [Data (frame_bytes (1, 4, []))] =
    Some (Inr (frame_header 1 4 (of_nat (length ([] :: u8 list))), []))"
    by (rule request_round_trip)
  then show ?thesis by simp
qed

end
