(* ===== verification/Rsp_Io.thy ===== *)
theory Rsp_Io
  imports Rsp_Protocol Rsp_Identity Rsp_Duo Rsp_Removal
begin

text \<open>
  The world around the daemon of \<open>daemon/openrspd.c\<close>, and its state. Every call that
  leaves the process (the radio library, the USB inventory, threads, the clock, frames
  written to a socket) is a value of \<open>io_call\<close>. The environment answers each call with a
  result that may depend on everything that happened before, and each call is appended to
  the \<open>trace\<close> of the state with its answer. The theorems hold for every environment.
  \<open>daemon_state\<close> has the fields of the C structure; \<open>radio\<close> says whether the handle is
  non-NULL, \<open>running\<close> is the process-wide flag, and \<open>thread_alive\<close>, \<open>thread_dual\<close> say
  whether a stream thread is executing and in which mode it was started.
\<close>

subsection \<open>Calls that leave the process\<close>

datatype io_call =
    Open_tuner u32 u32
  | Close_radio
  | Open_candidate u32
  | Close_candidate
  | Configure_rspduo u32 u32 u32 u32 i32 u32
  | Configure_rspduo_dual u32 u32 u32 u32 u32 i32 u32 i32 u32
  | Set_rspduo_controls u32 u32 u32 u32 u32 u32 u32 u32
  | Set_rspduo_gain i32 u32
  | Set_sample_rate u32
  | Set_center_freq u32
  | Set_bandwidth u32
  | Set_if_freq u32
  | Update_rspduo_dual u32 u32 i32 u32
  | Streaming_stop
  | Cancel_async
  | Get_device_count
  | Device_requires_firmware u32
  | Get_device_info u32
  | Clock_gettime
  | Thread_create
  | Thread_join
  | Stream_return
  | Send descriptor u16 u32 "u8 list"

type_synonym io_trace = "(io_call \<times> int) list"

text \<open>
  \<open>device_info\<close> is what \<open>mirisdr_get_device_info\<close> stores for an index (vendor, product,
  product name, serial); \<open>clock\<close> the seconds and nanoseconds \<open>clock_gettime\<close> stores.
\<close>

record env =
  answer :: "io_trace \<Rightarrow> io_call \<Rightarrow> int"
  device_info :: "io_trace \<Rightarrow> u32 \<Rightarrow> u16 \<times> u16 \<times> u8 list \<times> u8 list"
  clock :: "io_trace \<Rightarrow> int \<times> int"

subsection \<open>State\<close>

record daemon_state =
  radio :: bool
  owner :: descriptor
  api_lock_owner :: descriptor
  acquired_identity :: acquire_request
  streaming :: bool
  stream_thread_started :: bool
  stream_error :: bool
  stream_result :: int
  client_write_error :: bool
  client_write_error_fd :: descriptor
  logged_usb_iq :: bool
  logged_socket_iq :: bool
  first_iq_seen :: bool
  recovery_config_pending :: bool
  mode_swap_paused :: bool
  recovery_identity_status :: "identity_error option"
  stream_sequence :: "u32 list"
  configured :: bool
  config :: radio_config
  dual_mode :: bool
  dual_config :: Rsp_Protocol.dual_config
  bootstrap_configured :: bool
  bootstrap_config :: radio_config
  device_snapshot_valid :: bool
  device_snapshot_time :: "int \<times> int"
  device_snapshot :: "device_record list"
  removal :: removal_tracker
  duo :: duo_session
  duo_active :: bool
  duo_config_a :: bool
  duo_config_b :: bool
  duo_config :: Rsp_Protocol.dual_config
  running :: bool
  thread_alive :: bool
  thread_dual :: bool
  trace :: io_trace

definition io :: "env \<Rightarrow> io_call \<Rightarrow> daemon_state \<Rightarrow> int \<times> daemon_state" where
  "io E c s = (let r = answer E (trace s) c in (r, s\<lparr>trace := trace s @ [(c, r)]\<rparr>))"

abbreviation (input) EBUSY :: int where "EBUSY \<equiv> 16"
abbreviation (input) OPENRSPD_MAX_DEVICES :: nat where "OPENRSPD_MAX_DEVICES \<equiv> 32"
abbreviation (input) OPENRSPD_MAX_CLIENTS :: nat where "OPENRSPD_MAX_CLIENTS \<equiv> 32"
abbreviation (input) MIRISDR_RSPDUO_IDENTITY_COLD :: int where "MIRISDR_RSPDUO_IDENTITY_COLD \<equiv> 1"

subsection \<open>Initial state\<close>

definition zero_radio_config :: radio_config where
  "zero_radio_config = words_radio_config (replicate 15 0)"

definition zero_dual_config :: Rsp_Protocol.dual_config where
  "zero_dual_config = words_dual_config (replicate 32 0)"

definition zero_identity :: acquire_request where
  "zero_identity = \<lparr>id_device_index = 0, id_vendor_id = 0, id_product_id = 0,
     id_serial = replicate 64 0\<rparr>"

definition daemon_init :: daemon_state where
  "daemon_init = \<lparr>radio = False, owner = -1, api_lock_owner = -1,
     acquired_identity = zero_identity, streaming = False, stream_thread_started = False,
     stream_error = False, stream_result = 0, client_write_error = False,
     client_write_error_fd = -1, logged_usb_iq = False, logged_socket_iq = False,
     first_iq_seen = False, recovery_config_pending = False, mode_swap_paused = False,
     recovery_identity_status = None, stream_sequence = [0, 0], configured = False,
     config = zero_radio_config, dual_mode = False, dual_config = zero_dual_config,
     bootstrap_configured = False, bootstrap_config = zero_radio_config,
     device_snapshot_valid = False, device_snapshot_time = (0, 0), device_snapshot = [],
     removal = \<lparr>absent_since_ms = 0, absence_active = False, removal_notified = False\<rparr>,
     duo = openrspd_duo_session_init, duo_active = False, duo_config_a = False,
     duo_config_b = False, duo_config = zero_dual_config, running = True,
     thread_alive = False, thread_dual = False, trace = []\<rparr>"

subsection \<open>Shape of every operation\<close>

text \<open>Results of an operation are read through projections, so that facts about the state
  an operation leaves apply wherever it is called.\<close>

lemmas op_simps = Let_def case_prod_beta

lemma io_state [simp]: "snd (io E c s) = s\<lparr>trace := trace s @ [(c, answer E (trace s) c)]\<rparr>"
  by (simp add: io_def Let_def)

lemma io_result [simp]: "fst (io E c s) = answer E (trace s) c"
  by (simp add: io_def Let_def)

end
