(* ===== verification/Rsp_Daemon.thy ===== *)
theory Rsp_Daemon
  imports Rsp_Io
begin

text \<open>
  The operations of \<open>daemon/openrspd.c\<close> below its request handlers, in the order of the
  source: frames to clients, the stream thread, stopping and closing, configuring the
  radio in single and dual mode, recovery after a failed stream, in-place updates, the
  device inventory, and the helpers of the RSPduo session. Logging and the 250 ms sleeps
  between attempts have no effect on the state and are left out; the branches compiled on
  Windows only are not modelled.
\<close>

subsection \<open>Frames\<close>

definition write_control_frame ::
  "env \<Rightarrow> descriptor \<Rightarrow> u16 \<Rightarrow> u32 \<Rightarrow> u8 list \<Rightarrow> daemon_state \<Rightarrow> int \<times> daemon_state" where
  "write_control_frame E d t sequence payload s = io E (Send d t sequence payload) s"

fun duo_event_code :: "duo_event_kind \<Rightarrow> u32" where
  "duo_event_code OPENRSPD_DUO_EVENT_NONE = 0"
| "duo_event_code OPENRSPD_DUO_EVENT_MASTER_INITIALISED = 1"
| "duo_event_code OPENRSPD_DUO_EVENT_SLAVE_ATTACHED = 2"
| "duo_event_code OPENRSPD_DUO_EVENT_SLAVE_DETACHED = 3"
| "duo_event_code OPENRSPD_DUO_EVENT_SLAVE_INITIALISED = 4"
| "duo_event_code OPENRSPD_DUO_EVENT_SLAVE_UNINITIALISED = 5"
| "duo_event_code OPENRSPD_DUO_EVENT_MASTER_DLL_DISAPPEARED = 6"
| "duo_event_code OPENRSPD_DUO_EVENT_SLAVE_DLL_DISAPPEARED = 7"

definition send_duo_event :: "env \<Rightarrow> duo_event \<Rightarrow> daemon_state \<Rightarrow> int \<times> daemon_state" where
  "send_duo_event E e s =
     (if ev_kind e = OPENRSPD_DUO_EVENT_NONE \<or> ev_target_fd e < 0 then (0, s)
      else write_control_frame E (ev_target_fd e) (command_code OPENRSP_EVENT_DUO) 0
             (u32s_bytes [duo_event_code (ev_kind e), ev_tuner e]) s)"

text \<open>
  \<open>send_stream\<close> runs in the stream thread. Its wait for \<open>control_write_pending\<close> orders it
  after a control frame being written; here a step of the stream thread never falls inside
  one.
\<close>

text \<open>Writing the frame to its target, and what follows a failed write.\<close>

definition deliver_iq :: "env \<Rightarrow> descriptor \<Rightarrow> u16 \<Rightarrow> u32 \<Rightarrow> u8 list \<Rightarrow> daemon_state \<Rightarrow> daemon_state" where
  "deliver_iq E target event sequence buffer s =
     (let (r, s) = io E (Send target event sequence buffer) s in
      if r \<noteq> 0 then
        let s = (if \<not> client_write_error s then s\<lparr>client_write_error_fd := target\<rparr> else s);
            s = s\<lparr>client_write_error := True\<rparr>
        in if radio s \<and>
              (\<not> duo_active s \<or> openrspd_duo_write_failure_stops_stream (duo s) target)
           then snd (io E Cancel_async s) else s
      else if \<not> logged_socket_iq s then s\<lparr>logged_socket_iq := True\<rparr> else s)"

definition stream_target :: "u32 \<Rightarrow> daemon_state \<Rightarrow> descriptor" where
  "stream_target t s = (if duo_active s then snd (openrspd_duo_route (duo s) t) else owner s)"

definition send_stream :: "env \<Rightarrow> u32 \<Rightarrow> u8 list \<Rightarrow> daemon_state \<Rightarrow> daemon_state" where
  "send_stream E t buffer s =
     (let s = (if \<not> logged_usb_iq s then s\<lparr>logged_usb_iq := True, first_iq_seen := True\<rparr> else s) in
      if length buffer > OPENRSP_MAX_IQ_SAMPLES * 4
      then (if radio s then snd (io E Cancel_async s) else s)
      else
        let slot = (if t = OPENRSP_TUNER_B then 1 else 0);
            sequence = stream_sequence s ! slot + 1;
            s = s\<lparr>stream_sequence := (stream_sequence s)[slot := sequence]\<rparr>;
            event = (if t = OPENRSP_TUNER_B then command_code OPENRSP_EVENT_IQ_B
                     else command_code OPENRSP_EVENT_IQ);
            target = stream_target t s
        in if target < 0 then s else deliver_iq E target event sequence buffer s)"

text \<open>The single-mode callback labels every buffer tuner A; the dual one passes the tuner.\<close>

definition stream_callback :: "env \<Rightarrow> u8 list \<Rightarrow> daemon_state \<Rightarrow> daemon_state" where
  "stream_callback E buffer s = send_stream E OPENRSP_TUNER_A buffer s"

definition dual_stream_callback :: "env \<Rightarrow> u32 \<Rightarrow> u8 list \<Rightarrow> daemon_state \<Rightarrow> daemon_state" where
  "dual_stream_callback E t buffer s = send_stream E t buffer s"

subsection \<open>The stream thread\<close>

text \<open>
  \<open>stream_main\<close> calls the library, which runs the callback for every buffer and returns a
  result; what the thread does when it returns is \<open>stream_main_return\<close>.
\<close>

definition stream_main_return :: "env \<Rightarrow> daemon_state \<Rightarrow> daemon_state" where
  "stream_main_return E s =
     (let (result, s) = io E Stream_return s in
      s\<lparr>streaming := False, stream_result := result, stream_error := result \<noteq> 0,
        thread_alive := False\<rparr>)"

text \<open>\<open>pthread_create\<close> and \<open>pthread_join\<close>: joining waits until the thread has returned.\<close>

definition create_stream_thread :: "env \<Rightarrow> daemon_state \<Rightarrow> int \<times> daemon_state" where
  "create_stream_thread E s =
     (let (r, s) = io E Thread_create s in
      (r, if r = 0 then s\<lparr>thread_alive := True, thread_dual := dual_mode s\<rparr> else s))"

definition join_stream_thread :: "env \<Rightarrow> daemon_state \<Rightarrow> int \<times> daemon_state" where
  "join_stream_thread E s =
     io E Thread_join (if thread_alive s then stream_main_return E s else s)"

subsection \<open>Stopping and closing\<close>

definition set_gain :: "env \<Rightarrow> radio_config \<Rightarrow> daemon_state \<Rightarrow> int \<times> daemon_state" where
  "set_gain E c s = io E (Set_rspduo_gain (gain_reduction_db c) (lna_state c)) s"

definition stop_stream :: "env \<Rightarrow> daemon_state \<Rightarrow> int \<times> daemon_state" where
  "stop_stream E s =
     (if \<not> stream_thread_started s then (0, s)
      else
        let (result, s) =
              (if radio s then let (r, s) = io E Streaming_stop s in (if r < 0 then -1 else 0, s)
               else (0, s));
            s = (if radio s then snd (io E Cancel_async s) else s);
            (j, s) = join_stream_thread E s;
            result = (if j \<noteq> 0 then -1 else result);
            result = (if stream_result s \<noteq> 0 then -1 else result)
        in (result, s\<lparr>stream_thread_started := False, streaming := False\<rparr>))"

definition close_radio :: "env \<Rightarrow> daemon_state \<Rightarrow> int \<times> daemon_state" where
  "close_radio E s =
     (if \<not> radio s then (0, s)
      else let (result, s) = io E Close_radio s; s = s\<lparr>radio := False\<rparr> in
        (result, if result = - EBUSY then s\<lparr>running := False\<rparr> else s))"

text \<open>A participant of the RSPduo session goes away; the last one takes the radio down.\<close>

definition release_duo_client :: "env \<Rightarrow> descriptor \<Rightarrow> daemon_state \<Rightarrow> daemon_state" where
  "release_duo_client E d s =
     (let (_, du, event) = openrspd_duo_disconnect (duo s) d;
          s = s\<lparr>duo := du\<rparr>;
          s = snd (send_duo_event E event s)
      in if \<not> master_selected (duo s) \<and> \<not> slave_selected (duo s) then
           let s = (if radio s then snd (stop_stream E s) else s);
               s = snd (close_radio E s)
           in s\<lparr>configured := False, dual_mode := False, duo_active := False,
                duo_config_a := False, duo_config_b := False, device_snapshot_valid := False\<rparr>
         else s)"

text \<open>The single owner goes away; the radio stays open unless it ran in dual mode or failed.\<close>

definition release_owner :: "env \<Rightarrow> daemon_state \<Rightarrow> daemon_state" where
  "release_owner E s =
     (let s = (if radio s then snd (stop_stream E s) else s);
          s = (if dual_mode s \<and> radio s then (snd (close_radio E s))\<lparr>configured := False\<rparr> else s);
          s = (if stream_error s \<and> radio s then (snd (close_radio E s))\<lparr>configured := False\<rparr> else s)
      in s\<lparr>owner := -1, streaming := False, stream_error := False, stream_result := 0,
           dual_mode := False, mode_swap_paused := False,
           removal := openrspd_removal_tracker_present (removal s)\<rparr>)"

definition release_client :: "env \<Rightarrow> descriptor \<Rightarrow> daemon_state \<Rightarrow> daemon_state" where
  "release_client E d s =
     (if duo_active s \<and> openrspd_duo_role_for_descriptor (duo s) d \<noteq> OPENRSPD_DUO_ROLE_NONE
      then release_duo_client E d s
      else if owner s \<noteq> d then s else release_owner E s)"

definition release_api_lock :: "descriptor \<Rightarrow> daemon_state \<Rightarrow> daemon_state" where
  "release_api_lock d s = (if api_lock_owner s \<noteq> d then s else s\<lparr>api_lock_owner := -1\<rparr>)"

definition shutdown_radio :: "env \<Rightarrow> daemon_state \<Rightarrow> daemon_state" where
  "shutdown_radio E s =
     (if \<not> radio s then s
      else let s = snd (stop_stream E s); s = snd (close_radio E s) in
        s\<lparr>owner := -1, configured := False, stream_error := False, stream_result := 0\<rparr>)"

subsection \<open>Controls\<close>

definition rspduo_control_flags :: "u32 \<Rightarrow> u32" where
  "rspduo_control_flags flags =
     (if has_flag flags OPENRSP_CHANGE_BIAS_TEE then 1 else 0) OR
     (if has_flag flags OPENRSP_CHANGE_RF_NOTCH then 2 else 0) OR
     (if has_flag flags OPENRSP_CHANGE_DAB_NOTCH then 4 else 0) OR
     (if has_flag flags OPENRSP_CHANGE_EXT_REF then 8 else 0) OR
     (if has_flag flags OPENRSP_CHANGE_AM_PORT then 16 else 0) OR
     (if has_flag flags OPENRSP_CHANGE_AM_NOTCH then 32 else 0)"

definition set_rspduo_controls ::
  "env \<Rightarrow> radio_config \<Rightarrow> u32 \<Rightarrow> daemon_state \<Rightarrow> int \<times> daemon_state" where
  "set_rspduo_controls E c flags s =
     (let flags = (if tuner c = OPENRSP_TUNER_B
                   then flags AND NOT (OPENRSP_CHANGE_AM_PORT OR OPENRSP_CHANGE_AM_NOTCH)
                   else flags);
          control_flags = rspduo_control_flags flags
      in if control_flags = 0 then (0, s)
         else io E (Set_rspduo_controls (tuner c) (bias_tee_enabled c) (rf_notch_enabled c)
                (dab_notch_enabled c) (external_reference_enabled c)
                (if am_port_select c \<noteq> 0 then 1 else 2) (am_notch_enabled c) control_flags) s)"

definition set_rspduo_sample_rate :: "env \<Rightarrow> radio_config \<Rightarrow> daemon_state \<Rightarrow> int \<times> daemon_state" where
  "set_rspduo_sample_rate E c s = io E (Set_sample_rate (sample_rate_hz c)) s"

definition apply_config :: "env \<Rightarrow> radio_config \<Rightarrow> daemon_state \<Rightarrow> openrsp_status \<times> daemon_state" where
  "apply_config E c s =
     (if \<not> openrspd_config_valid c then (OPENRSP_STATUS_BAD_REQUEST, s)
      else let (r, s) = io E (Configure_rspduo (sample_rate_hz c) (center_frequency_hz c)
                  (if_frequency_hz c) (bandwidth_hz c) (gain_reduction_db c) (lna_state c)) s
        in if r \<noteq> 0 then (OPENRSP_STATUS_IO_ERROR, s) else (OPENRSP_STATUS_OK, s))"

subsection \<open>The device inventory\<close>

text \<open>
  The inner loop of the bootstrap over the candidate indices: it ends with True when a
  receiver waiting for firmware was opened, which loads the firmware, and closed again.
\<close>

fun bootstrap_scan :: "env \<Rightarrow> u32 list \<Rightarrow> daemon_state \<Rightarrow> bool \<times> daemon_state" where
  "bootstrap_scan E [] s = (False, s)"
| "bootstrap_scan E (index # rest) s =
     (let (identity_state, s) = io E (Device_requires_firmware index) s in
      if identity_state \<noteq> MIRISDR_RSPDUO_IDENTITY_COLD then bootstrap_scan E rest s
      else let (open_result, s) = io E (Open_candidate index) s;
               s = (if open_result = 0 then snd (io E Close_candidate s) else s)
           in (open_result = 0, s))"

text \<open>\<open>mirisdr_get_device_count\<close> as the indices the loops run over.\<close>

definition device_indices :: "int \<Rightarrow> u32 list" where
  "device_indices count = map of_nat [0..<unat (of_int count :: u32)]"

fun bootstrap_passes :: "env \<Rightarrow> nat \<Rightarrow> daemon_state \<Rightarrow> daemon_state" where
  "bootstrap_passes E 0 s = s"
| "bootstrap_passes E (Suc passes) s =
     (if radio s then s
      else let (candidate_count, s) = io E Get_device_count s;
               (bootstrapped, s) = bootstrap_scan E (device_indices candidate_count) s
           in if \<not> bootstrapped then s else bootstrap_passes E passes s)"

definition make_record :: "daemon_state \<Rightarrow> u32 \<Rightarrow> u16 \<times> u16 \<times> u8 list \<times> u8 list \<Rightarrow> device_record" where
  "make_record s raw_index info =
     (case info of (vendor, pid, product_name, serial) \<Rightarrow>
       let serial64 = snprintf_s 64 serial;
           serial64 =
             (if radio s \<and> raw_index = id_device_index (acquired_identity s) \<and>
                 vendor = id_vendor_id (acquired_identity s) \<and>
                 pid = id_product_id (acquired_identity s) \<and>
                 id_serial (acquired_identity s) ! 0 \<noteq> 0
              then snprintf_s 64 (id_serial (acquired_identity s)) else serial64)
       in \<lparr>rec_device_index = raw_index, rec_vendor_id = vendor, rec_product_id = pid,
           rec_serial = serial64, rec_model = snprintf_s 64 product_name,
           rec_rspduo_mode_mask =
             (if pid = 0x3020
              then (if duo_active s \<and> master_selected (duo s) then OPENRSP_MODE_CAP_SLAVE
                    else OPENRSP_MODE_CAP_SINGLE OR OPENRSP_MODE_CAP_DUAL OR OPENRSP_MODE_CAP_MASTER)
              else 0),
           rec_rspduo_sample_rate_hz =
             (if pid = 0x3020 then (if duo_active s then duo_sample_rate_hz (duo s) else 0) else 0)\<rparr>)"

fun enumerate_devices ::
  "env \<Rightarrow> u32 list \<Rightarrow> device_record list \<Rightarrow> daemon_state \<Rightarrow> device_record list \<times> daemon_state" where
  "enumerate_devices E [] records s = (records, s)"
| "enumerate_devices E (raw_index # rest) records s =
     (let info = device_info E (trace s) raw_index;
          (r, s) = io E (Get_device_info raw_index) s
      in if r \<noteq> 0 \<or> fst info \<noteq> 0x1df7 then enumerate_devices E rest records s
         else if length records \<ge> OPENRSPD_MAX_DEVICES then (records, s)
         else enumerate_devices E rest (records @ [make_record s raw_index info]) s)"

text \<open>
  All callers pass a buffer of \<open>OPENRSPD_MAX_DEVICES\<close> records; the list returned holds the
  records filled in.
\<close>

definition snapshot_fresh :: "env \<Rightarrow> daemon_state \<Rightarrow> bool \<times> daemon_state" where
  "snapshot_fresh E s =
     (if \<not> device_snapshot_valid s then (False, s)
      else let now = clock E (trace s); (r, s) = io E Clock_gettime s in
        if r \<noteq> 0 then (False, s)
        else let seconds = fst now - fst (device_snapshot_time s);
                 nanoseconds = snd now - snd (device_snapshot_time s);
                 (seconds, nanoseconds) =
                   (if nanoseconds < 0 then (seconds - 1, nanoseconds + 1000000000)
                    else (seconds, nanoseconds))
             in (seconds = 0 \<and> nanoseconds < 1000000000, s))"

definition snapshot_sdrplay_devices :: "env \<Rightarrow> daemon_state \<Rightarrow> device_record list \<times> daemon_state" where
  "snapshot_sdrplay_devices E s =
     (if radio s \<and> device_snapshot_valid s then (device_snapshot s, s)
      else let (fresh, s) = snapshot_fresh E s in
        if fresh then (device_snapshot s, s)
        else let s = bootstrap_passes E OPENRSPD_MAX_DEVICES s;
                 (raw_count, s) = io E Get_device_count s;
                 (records, s) = enumerate_devices E (device_indices raw_count) [] s;
                 s = s\<lparr>device_snapshot := records\<rparr>;
                 now = clock E (trace s);
                 (r, s) = io E Clock_gettime s
             in (records,
                 if r = 0 then s\<lparr>device_snapshot_time := now, device_snapshot_valid := True\<rparr> else s))"

definition resolve_acquired_device :: "env \<Rightarrow> daemon_state \<Rightarrow> (identity_error + u32) \<times> daemon_state" where
  "resolve_acquired_device E s =
     (let (devices, s) = snapshot_sdrplay_devices E s in
      case openrsp_identity_resolve (acquired_identity s) devices of
        Inl e \<Rightarrow> (Inl e, s)
      | Inr index \<Rightarrow>
          (Inr index, s\<lparr>acquired_identity := (acquired_identity s)\<lparr>id_device_index := index\<rparr>\<rparr>))"

subsection \<open>Configuring the radio\<close>

text \<open>The attempts of \<open>configure_radio\<close>, by the number that are left.\<close>

fun configure_attempts ::
  "env \<Rightarrow> radio_config \<Rightarrow> nat \<Rightarrow> daemon_state \<Rightarrow> openrsp_status \<times> daemon_state" where
  "configure_attempts E c 0 s = (OPENRSP_STATUS_IO_ERROR, s)"
| "configure_attempts E c (Suc left) s =
     (let (resolved, s) = (if radio s then (Inr 0, s) else resolve_acquired_device E s) in
      case resolved of Inl _ \<Rightarrow> (OPENRSP_STATUS_BAD_REQUEST, s)
      | Inr resolved_index \<Rightarrow>
          let s = (if radio s then s
                   else let (r, s) = io E (Open_tuner resolved_index (tuner c)) s
                        in s\<lparr>radio := (r = 0)\<rparr>);
              (status, s) =
                (if radio s then apply_config E c s else (OPENRSP_STATUS_IO_ERROR, s))
          in if status = OPENRSP_STATUS_OK then (status, s\<lparr>dual_mode := False\<rparr>)
             else let (r, s) = (if radio s then close_radio E s else (0, s)) in
               if r = - EBUSY then (OPENRSP_STATUS_IO_ERROR, s)
               else configure_attempts E c left s)"

definition configure_radio ::
  "env \<Rightarrow> radio_config \<Rightarrow> nat \<Rightarrow> daemon_state \<Rightarrow> openrsp_status \<times> daemon_state" where
  "configure_radio E c max_attempts s =
     (if \<not> openrspd_config_valid c then (OPENRSP_STATUS_BAD_REQUEST, s)
      else
        let (r, s') = (if dual_mode s \<and> radio s then close_radio E s else (0, s)) in
        if r = - EBUSY then (OPENRSP_STATUS_IO_ERROR, s')
        else let s = (if dual_mode s \<and> radio s then s'\<lparr>configured := False\<rparr> else s') in
          configure_attempts E c (if max_attempts = 0 then 1 else max_attempts) s)"

text \<open>The part of \<open>configure_dual_radio\<close> that opens the radio on both tuners.\<close>

definition open_dual_radio :: "env \<Rightarrow> daemon_state \<Rightarrow> bool \<times> daemon_state" where
  "open_dual_radio E s =
     (if radio s then (True, s)
      else let (resolved, s) = resolve_acquired_device E s in
        case resolved of Inl _ \<Rightarrow> (False, s)
        | Inr resolved_index \<Rightarrow>
            let (r, s) = io E (Open_tuner resolved_index OPENRSP_TUNER_BOTH) s
            in (r = 0, s\<lparr>radio := (r = 0)\<rparr>))"

text \<open>The part that programs both channels.\<close>

definition program_dual_radio ::
  "env \<Rightarrow> Rsp_Protocol.dual_config \<Rightarrow> daemon_state \<Rightarrow> int \<times> daemon_state" where
  "program_dual_radio E c s =
     (let a = channel_a c; b = channel_b c;
          (result, s) =
            io E (Configure_rspduo_dual (dual_sample_rate_hz c) (center_frequency_hz a)
                   (center_frequency_hz b) (if_frequency_hz a) (bandwidth_hz a)
                   (gain_reduction_db a) (lna_state a) (gain_reduction_db b) (lna_state b)) s;
          (result, s) =
            (if result = 0
             then set_rspduo_controls E a OPENRSP_CHANGE_RSPDUO_CONTROLS s else (result, s))
      in if result = 0
         then set_rspduo_controls E b OPENRSP_CHANGE_RSPDUO_CONTROLS s else (result, s))"

definition configure_dual_radio ::
  "env \<Rightarrow> Rsp_Protocol.dual_config \<Rightarrow> daemon_state \<Rightarrow> openrsp_status \<times> daemon_state" where
  "configure_dual_radio E c s =
     (if \<not> valid_dual_config c then (OPENRSP_STATUS_BAD_REQUEST, s)
      else
        let (r, s') = (if \<not> dual_mode s \<and> radio s then close_radio E s else (0, s)) in
        if r = - EBUSY then (OPENRSP_STATUS_IO_ERROR, s')
        else
          let s = (if \<not> dual_mode s \<and> radio s then s'\<lparr>configured := False\<rparr> else s');
              (opened, s) = open_dual_radio E s
          in if \<not> opened then (OPENRSP_STATUS_IO_ERROR, s)
             else
               let (result, s) = program_dual_radio E c s in
               if result < 0 then (OPENRSP_STATUS_IO_ERROR, snd (close_radio E s))
               else (OPENRSP_STATUS_OK,
                     s\<lparr>dual_mode := True, dual_config := c, configured := True\<rparr>))"

subsection \<open>Recovery\<close>

text \<open>One removal notice; a failed write is remembered for the server loop.\<close>

definition send_removed :: "env \<Rightarrow> descriptor \<Rightarrow> u32 \<Rightarrow> daemon_state \<Rightarrow> daemon_state" where
  "send_removed E d t s =
     (let (r, s) = write_control_frame E d (command_code OPENRSP_EVENT_STATUS) 0
                     (u32s_bytes [OPENRSP_DEVICE_STATUS_REMOVED, t]) s
      in if r \<noteq> 0 then s\<lparr>client_write_error_fd := d, client_write_error := True\<rparr> else s)"

definition report_removed_device :: "env \<Rightarrow> daemon_state \<Rightarrow> daemon_state" where
  "report_removed_device E s =
     (if duo_active s then
        fold (\<lambda>(d, t) s. if d < 0 then s else send_removed E d t s)
          [(master_fd (duo s), master_tuner (duo s)), (slave_fd (duo s), slave_tuner (duo s))] s
      else if owner s \<ge> 0
      then send_removed E (owner s)
             (if dual_mode s then OPENRSP_TUNER_BOTH else tuner (config s)) s
      else s)"

text \<open>Restarting the stream thread at the end of a recovery, in dual and in single mode.\<close>

definition recover_dual_stream :: "env \<Rightarrow> daemon_state \<Rightarrow> daemon_state" where
  "recover_dual_stream E s =
     (let (dual_status, s) = configure_dual_radio E (dual_config s) s in
      if dual_status \<noteq> OPENRSP_STATUS_OK then s
      else let s = s\<lparr>logged_usb_iq := False, logged_socket_iq := False, first_iq_seen := False,
                     stream_error := False, stream_result := 0, streaming := True\<rparr>;
               (r, s) = create_stream_thread E s
           in if r \<noteq> 0 then s\<lparr>streaming := False, stream_error := True\<rparr>
              else s\<lparr>stream_thread_started := True\<rparr>)"

definition recover_single_stream :: "env \<Rightarrow> daemon_state \<Rightarrow> daemon_state" where
  "recover_single_stream E s =
     (let bootstrap = (if bootstrap_configured s then bootstrap_config s else config s);
          (status, s) = configure_radio E bootstrap 3 s
      in if status \<noteq> OPENRSP_STATUS_OK then snd (close_radio E s)
         else let s = s\<lparr>configured := True, logged_usb_iq := False, logged_socket_iq := False,
                        first_iq_seen := False, stream_error := False, stream_result := 0,
                        streaming := True\<rparr>;
                  (r, s) = create_stream_thread E s
              in if r \<noteq> 0
                 then snd (close_radio E (s\<lparr>streaming := False, stream_error := True\<rparr>))
                 else s\<lparr>stream_thread_started := True, recovery_config_pending := True\<rparr>)"

definition monotonic_milliseconds :: "env \<Rightarrow> daemon_state \<Rightarrow> u64 \<times> daemon_state" where
  "monotonic_milliseconds E s =
     (let now = clock E (trace s); (r, s) = io E Clock_gettime s in
      (if r \<noteq> 0 then 0 else of_int (fst now) * 1000 + of_int (snd now) div 1000000, s))"

text \<open>Joining the dead thread and closing the radio; the result of the close.\<close>

definition recover_teardown :: "env \<Rightarrow> daemon_state \<Rightarrow> int \<times> daemon_state" where
  "recover_teardown E s =
     (let s = (if stream_thread_started s
               then (snd (join_stream_thread E s))\<lparr>stream_thread_started := False\<rparr> else s)
      in if radio s then close_radio E s else (0, s))"

text \<open>The receiver could not be identified: removal is reported after the grace period.\<close>

definition recover_unresolved :: "env \<Rightarrow> identity_error \<Rightarrow> daemon_state \<Rightarrow> daemon_state" where
  "recover_unresolved E e s =
     (let s =
        (if e = OPENRSP_IDENTITY_NOT_FOUND then
           let (now_ms, s) = monotonic_milliseconds E s;
               (notice, tr) = openrspd_removal_tracker_absent (removal s) now_ms 5000;
               s = s\<lparr>removal := tr\<rparr>
           in if notice then report_removed_device E s else s
         else s\<lparr>removal := openrspd_removal_tracker_present (removal s)\<rparr>)
      in s\<lparr>recovery_identity_status := Some e\<rparr>)"

definition recover_resolved :: "env \<Rightarrow> u32 \<Rightarrow> daemon_state \<Rightarrow> daemon_state" where
  "recover_resolved E resolved_index s =
     (let s = s\<lparr>removal := openrspd_removal_tracker_present (removal s),
               recovery_identity_status := None,
               acquired_identity := (acquired_identity s)\<lparr>id_device_index := resolved_index\<rparr>\<rparr>
      in if dual_mode s then recover_dual_stream E s else recover_single_stream E s)"

definition recover_failed_stream :: "env \<Rightarrow> daemon_state \<Rightarrow> daemon_state" where
  "recover_failed_stream E s =
     (if \<not> stream_error s \<or> streaming s then s
      else
        let (r, s) = recover_teardown E s in
        if r = - EBUSY then s
        else
          let s = s\<lparr>configured := False, recovery_config_pending := False\<rparr> in
          if owner s < 0 \<and> \<not> (duo_active s \<and> master_selected (duo s)) then s
          else
            let (identity_result, s) =
                  resolve_acquired_device E (s\<lparr>device_snapshot_valid := False\<rparr>)
            in case identity_result of
                 Inl e \<Rightarrow> recover_unresolved E e s
               | Inr resolved_index \<Rightarrow> recover_resolved E resolved_index s)"

text \<open>\<open>if (result == 0 && changed) result |= call\<close> of \<open>finish_recovery_config\<close>.\<close>

definition try_step :: "bool \<Rightarrow> (daemon_state \<Rightarrow> int \<times> daemon_state) \<Rightarrow> int \<times> daemon_state \<Rightarrow> int \<times> daemon_state" where
  "try_step cond f x = (case x of (result, s) \<Rightarrow> if result = 0 \<and> cond then f s else (result, s))"

definition finish_recovery_config :: "env \<Rightarrow> daemon_state \<Rightarrow> daemon_state" where
  "finish_recovery_config E s =
     (if dual_mode s then s
      else if \<not> recovery_config_pending s \<or> \<not> first_iq_seen s \<or> \<not> radio s then s
      else
        let bootstrap = (if bootstrap_configured s then bootstrap_config s else config s);
            target = config s;
            (result, s) =
              try_step True (set_rspduo_controls E target OPENRSP_CHANGE_RSPDUO_CONTROLS)
              (try_step True (set_gain E target)
              (try_step (if_frequency_hz target \<noteq> if_frequency_hz bootstrap)
                 (io E (Set_if_freq (if_frequency_hz target)))
              (try_step (bandwidth_hz target \<noteq> bandwidth_hz bootstrap)
                 (io E (Set_bandwidth (bandwidth_hz target)))
              (try_step (center_frequency_hz target \<noteq> center_frequency_hz bootstrap)
                 (io E (Set_center_freq (center_frequency_hz target)))
              (try_step (sample_rate_hz target \<noteq> sample_rate_hz bootstrap)
                 (set_rspduo_sample_rate E target) (0, s))))));
            s = s\<lparr>recovery_config_pending := False\<rparr>
        in if result \<noteq> 0 then
             let s = s\<lparr>stream_error := True\<rparr> in
             if radio s then snd (io E Cancel_async s) else s
           else s)"

subsection \<open>Updates in place\<close>

text \<open>\<open>if (cond) result |= call\<close>.\<close>

definition or_step :: "bool \<Rightarrow> (daemon_state \<Rightarrow> int \<times> daemon_state) \<Rightarrow> int \<times> daemon_state \<Rightarrow> int \<times> daemon_state" where
  "or_step cond f x =
     (case x of (result, s) \<Rightarrow>
        if cond then (let (r, s) = f s in (result OR r, s)) else (result, s))"

definition apply_update_dual ::
  "env \<Rightarrow> update_request \<Rightarrow> daemon_state \<Rightarrow> openrsp_status \<times> daemon_state" where
  "apply_update_dual E u s =
     (let new = upd_config u; flags = upd_changed_flags u in
      if tuner new \<noteq> OPENRSP_TUNER_A \<and> tuner new \<noteq> OPENRSP_TUNER_B
      then (OPENRSP_STATUS_BAD_REQUEST, s)
      else
        let old_channel = (if tuner new = OPENRSP_TUNER_B then channel_b (dual_config s)
                           else channel_a (dual_config s)) in
        if sample_rate_hz new \<noteq> dual_sample_rate_hz (dual_config s) \<or>
           if_frequency_hz new \<noteq> if_frequency_hz old_channel \<or>
           bandwidth_hz new \<noteq> bandwidth_hz old_channel
        then (OPENRSP_STATUS_BAD_REQUEST, s)
        else if \<not> openrspd_config_valid new then (OPENRSP_STATUS_BAD_REQUEST, s)
        else
          let (dual_result, s) =
                or_step True (set_rspduo_controls E new flags)
                (or_step (has_flag flags (OPENRSP_CHANGE_RF OR OPENRSP_CHANGE_GAIN))
                   (io E (Update_rspduo_dual (tuner new) (center_frequency_hz new)
                            (gain_reduction_db new) (lna_state new))) (0, s))
          in if dual_result < 0 then (OPENRSP_STATUS_IO_ERROR, s)
             else (OPENRSP_STATUS_OK,
                   s\<lparr>dual_config :=
                       (if tuner new = OPENRSP_TUNER_B then (dual_config s)\<lparr>channel_b := new\<rparr>
                        else (dual_config s)\<lparr>channel_a := new\<rparr>)\<rparr>))"

definition apply_update ::
  "env \<Rightarrow> update_request \<Rightarrow> daemon_state \<Rightarrow> openrsp_status \<times> daemon_state" where
  "apply_update E u s =
     (let new = upd_config u; old = config s; flags = upd_changed_flags u in
      if tuner new = OPENRSP_TUNER_B \<and>
         has_flag flags (OPENRSP_CHANGE_AM_PORT OR OPENRSP_CHANGE_AM_NOTCH)
      then (OPENRSP_STATUS_BAD_REQUEST, s)
      else if dual_mode s then apply_update_dual E u s
      else if tuner new \<noteq> tuner old then (OPENRSP_STATUS_BAD_REQUEST, s)
      else if \<not> openrspd_config_valid new then (OPENRSP_STATUS_BAD_REQUEST, s)
      else
        let (result, s) =
              or_step True (set_rspduo_controls E new flags)
              (or_step (has_flag flags (OPENRSP_CHANGE_GAIN OR OPENRSP_CHANGE_RF)) (set_gain E new)
              (or_step (has_flag flags OPENRSP_CHANGE_IF \<and> if_frequency_hz new \<noteq> if_frequency_hz old)
                 (io E (Set_if_freq (if_frequency_hz new)))
              (or_step (has_flag flags OPENRSP_CHANGE_BANDWIDTH \<and> bandwidth_hz new \<noteq> bandwidth_hz old)
                 (io E (Set_bandwidth (bandwidth_hz new)))
              (or_step (has_flag flags OPENRSP_CHANGE_RF \<and> center_frequency_hz new \<noteq> center_frequency_hz old)
                 (io E (Set_center_freq (center_frequency_hz new)))
              (or_step (has_flag flags OPENRSP_CHANGE_SAMPLE_RATE \<and> sample_rate_hz new \<noteq> sample_rate_hz old)
                 (set_rspduo_sample_rate E new) (0, s))))))
        in if result < 0 then (OPENRSP_STATUS_IO_ERROR, s)
           else (OPENRSP_STATUS_OK, s\<lparr>config := new\<rparr>))"

subsection \<open>RSPduo helpers\<close>

text \<open>The role, when the descriptor has one in an active session.\<close>

definition duo_role_descriptor :: "daemon_state \<Rightarrow> descriptor \<Rightarrow> u32 option" where
  "duo_role_descriptor s d =
     (if \<not> duo_active s then None
      else let found = openrspd_duo_role_for_descriptor (duo s) d in
        if found \<noteq> OPENRSPD_DUO_ROLE_NONE then Some found else None)"

definition duo_prepare_config :: "daemon_state \<Rightarrow> bool \<times> daemon_state" where
  "duo_prepare_config s =
     (if \<not> duo_config_a s \<and> \<not> duo_config_b s then (False, s)
      else
        let dc = duo_config s;
            dc = (if \<not> duo_config_a s
                  then dc\<lparr>channel_a := (channel_b dc)\<lparr>tuner := OPENRSP_TUNER_A, bias_tee_enabled := 0,
                                                   am_port_select := 0, am_notch_enabled := 0\<rparr>\<rparr>
                  else dc);
            dc = (if \<not> duo_config_b s
                  then dc\<lparr>channel_b := (channel_a dc)\<lparr>tuner := OPENRSP_TUNER_B, bias_tee_enabled := 0,
                                                   am_port_select := 0, am_notch_enabled := 0\<rparr>\<rparr>
                  else dc);
            rate = duo_sample_rate_hz (duo s);
            required_if = (if rate = 6000000 then 1620000 else 2048000);
            dc = dc\<lparr>dual_sample_rate_hz := rate,
                    channel_a := (channel_a dc)\<lparr>sample_rate_hz := rate, if_frequency_hz := required_if,
                      bandwidth_hz := (if bandwidth_hz (channel_a dc) > 1536000 then 1536000
                                       else bandwidth_hz (channel_a dc))\<rparr>,
                    channel_b := (channel_b dc)\<lparr>sample_rate_hz := rate, if_frequency_hz := required_if,
                      bandwidth_hz := (if bandwidth_hz (channel_b dc) > 1536000 then 1536000
                                       else bandwidth_hz (channel_b dc))\<rparr>\<rparr>
        in (valid_dual_config dc, s\<lparr>duo_config := dc\<rparr>))"

definition duo_reset_hardware :: "env \<Rightarrow> daemon_state \<Rightarrow> openrsp_status \<times> daemon_state" where
  "duo_reset_hardware E s =
     (let (stopped, s) = (if radio s then stop_stream E s else (0, s));
          (closed, s) = close_radio E s
      in (if stopped = 0 \<and> closed = 0 then OPENRSP_STATUS_OK else OPENRSP_STATUS_IO_ERROR,
          s\<lparr>configured := False, dual_mode := False\<rparr>))"

definition duo_apply_running_config ::
  "env \<Rightarrow> radio_config \<Rightarrow> daemon_state \<Rightarrow> openrsp_status \<times> daemon_state" where
  "duo_apply_running_config E c s =
     (if \<not> radio s \<or> \<not> configured s \<or> \<not> dual_mode s then (OPENRSP_STATUS_OK, s)
      else
        let current = (if tuner c = OPENRSP_TUNER_B then channel_b (duo_config s)
                       else channel_a (duo_config s)) in
        if sample_rate_hz c \<noteq> dual_sample_rate_hz (duo_config s) \<or>
           if_frequency_hz c \<noteq> if_frequency_hz current \<or> bandwidth_hz c \<noteq> bandwidth_hz current
        then (OPENRSP_STATUS_BAD_REQUEST, s)
        else
          let (result, s) =
                or_step True (set_rspduo_controls E c OPENRSP_CHANGE_RSPDUO_CONTROLS)
                (or_step (center_frequency_hz c \<noteq> center_frequency_hz current \<or>
                          gain_reduction_db c \<noteq> gain_reduction_db current \<or>
                          lna_state c \<noteq> lna_state current)
                   (io E (Update_rspduo_dual (tuner c) (center_frequency_hz c)
                            (gain_reduction_db c) (lna_state c))) (0, s))
          in if result < 0 then (OPENRSP_STATUS_IO_ERROR, s)
             else (OPENRSP_STATUS_OK,
                   s\<lparr>duo_config :=
                       (if tuner c = OPENRSP_TUNER_B then (duo_config s)\<lparr>channel_b := c\<rparr>
                        else (duo_config s)\<lparr>channel_a := c\<rparr>)\<rparr>))"

fun duo_result_status :: "duo_result \<Rightarrow> openrsp_status" where
  "duo_result_status OPENRSPD_DUO_OK = OPENRSP_STATUS_OK"
| "duo_result_status OPENRSPD_DUO_START_PENDING = OPENRSP_STATUS_START_PENDING"
| "duo_result_status OPENRSPD_DUO_STOP_PENDING = OPENRSP_STATUS_STOP_PENDING"
| "duo_result_status OPENRSPD_DUO_BUSY = OPENRSP_STATUS_BUSY"
| "duo_result_status OPENRSPD_DUO_INVALID = OPENRSP_STATUS_BAD_REQUEST"

definition duo_identity_equal :: "acquire_request \<Rightarrow> acquire_request \<Rightarrow> bool" where
  "duo_identity_equal l r \<longleftrightarrow>
     id_vendor_id l = id_vendor_id r \<and> id_product_id l = id_product_id r \<and>
     c_str (id_serial l) = c_str (id_serial r)"

end
