(* ===== verification/Rsp_Serve.thy ===== *)
theory Rsp_Serve
  imports Rsp_Daemon Rsp_Transport
begin

text \<open>
  \<open>serve_request\<close> of \<open>daemon/openrspd.c\<close>: one definition per branch of its dispatch,
  each returning the reply and the new state, then the part that writes the response and
  what follows it, and the client table with the server loop of \<open>run_server\<close>.
\<close>

subsection \<open>Replies\<close>

text \<open>The locals a branch of \<open>serve_request\<close> leaves for the part that answers.\<close>

record reply =
  rp_status :: openrsp_status
  rp_changed_flags :: u32
  rp_listed :: "device_record list"
  rp_start_stream_after_response :: bool
  rp_start_stream_after_error :: bool
  rp_duo_start_stream_after_response :: bool
  rp_duo_event :: duo_event

definition reply_with :: "openrsp_status \<Rightarrow> reply" where
  "reply_with st = \<lparr>rp_status = st, rp_changed_flags = 0, rp_listed = [],
     rp_start_stream_after_response = False, rp_start_stream_after_error = False,
     rp_duo_start_stream_after_response = False, rp_duo_event = clear_event\<rparr>"

lemma reply_with_simps [simp]:
  "rp_status (reply_with st) = st" "rp_changed_flags (reply_with st) = 0"
  "rp_listed (reply_with st) = []" "rp_start_stream_after_response (reply_with st) = False"
  "rp_start_stream_after_error (reply_with st) = False"
  "rp_duo_start_stream_after_response (reply_with st) = False"
  "rp_duo_event (reply_with st) = clear_event"
  by (simp_all add: reply_with_def)

text \<open>The reply to a client without a role in the RSPduo session.\<close>

definition no_role_status :: "daemon_state \<Rightarrow> openrsp_status" where
  "no_role_status s = (if owner s \<ge> 0 then OPENRSP_STATUS_BUSY else OPENRSP_STATUS_UNSUPPORTED)"

subsection \<open>Handlers\<close>

definition handle_list :: "env \<Rightarrow> daemon_state \<Rightarrow> reply \<times> daemon_state" where
  "handle_list E s =
     (let (listed, s) = snapshot_sdrplay_devices E s in
      ((reply_with OPENRSP_STATUS_OK)\<lparr>rp_listed := listed, rp_changed_flags := of_nat (length listed)\<rparr>, s))"

definition handle_lock_api :: "descriptor \<Rightarrow> daemon_state \<Rightarrow> reply \<times> daemon_state" where
  "handle_lock_api d s =
     (if api_lock_owner s \<ge> 0 \<and> api_lock_owner s \<noteq> d then (reply_with OPENRSP_STATUS_BUSY, s)
      else (reply_with OPENRSP_STATUS_OK, s\<lparr>api_lock_owner := d\<rparr>))"

definition handle_unlock_api :: "descriptor \<Rightarrow> daemon_state \<Rightarrow> reply \<times> daemon_state" where
  "handle_unlock_api d s = (reply_with OPENRSP_STATUS_OK, release_api_lock d s)"

text \<open>\<open>OPENRSP_CMD_DUO_ACQUIRE\<close>: identifying the receiver, then entering the session.\<close>

definition duo_acquire_identity ::
  "env \<Rightarrow> duo_acquire_request \<Rightarrow> daemon_state \<Rightarrow> (identity_error + u32) \<times> daemon_state" where
  "duo_acquire_identity E acquire s =
     (let identity = da_identity acquire;
          wrong = (id_vendor_id identity \<noteq> 0x1df7 \<or> id_product_id identity \<noteq> 0x3020)
      in if \<not> wrong \<and> da_role acquire = OPENRSP_DUO_ROLE_MASTER then
           let (devices, s) = snapshot_sdrplay_devices E s in
           (openrsp_identity_resolve identity devices, s)
         else if \<not> duo_active s \<or> \<not> master_selected (duo s) \<or>
                 \<not> duo_identity_equal (acquired_identity s) identity
         then (Inl OPENRSP_IDENTITY_NOT_FOUND, s)
         else (if wrong then Inl OPENRSP_IDENTITY_NOT_FOUND else Inr 0, s))"

definition duo_acquire_session ::
  "descriptor \<Rightarrow> duo_acquire_request \<Rightarrow> u32 \<Rightarrow> daemon_state \<Rightarrow> reply \<times> daemon_state" where
  "duo_acquire_session d acquire resolved_index s =
     (let (duo_result, du, event) =
            openrspd_duo_acquire (duo s) d
              (if da_role acquire = OPENRSP_DUO_ROLE_MASTER then OPENRSPD_DUO_ROLE_MASTER
               else OPENRSPD_DUO_ROLE_SLAVE)
              (da_tuner acquire) (da_sample_rate_hz acquire);
          s = s\<lparr>duo := du\<rparr>;
          s = (if duo_result = OPENRSPD_DUO_OK
               then s\<lparr>duo_active := True, device_snapshot_valid := False\<rparr> else s);
          s = (if duo_result = OPENRSPD_DUO_OK \<and> da_role acquire = OPENRSP_DUO_ROLE_MASTER
               then s\<lparr>acquired_identity := (da_identity acquire)\<lparr>id_device_index := resolved_index\<rparr>\<rparr>
               else s)
      in ((reply_with (duo_result_status duo_result))\<lparr>rp_duo_event := event\<rparr>, s))"

definition handle_duo_acquire ::
  "env \<Rightarrow> descriptor \<Rightarrow> duo_acquire_request \<Rightarrow> daemon_state \<Rightarrow> reply \<times> daemon_state" where
  "handle_duo_acquire E d acquire s =
     (if owner s \<ge> 0 \<or>
         (duo_active s \<and> da_role acquire = OPENRSP_DUO_ROLE_MASTER \<and> master_selected (duo s))
      then (reply_with OPENRSP_STATUS_BUSY, s)
      else if da_role acquire \<noteq> OPENRSP_DUO_ROLE_MASTER \<and> da_role acquire \<noteq> OPENRSP_DUO_ROLE_SLAVE
      then (reply_with OPENRSP_STATUS_BAD_REQUEST, s)
      else
        let (identity_result, s) = duo_acquire_identity E acquire s in
        case identity_result of Inl _ \<Rightarrow> (reply_with OPENRSP_STATUS_BAD_REQUEST, s)
        | Inr resolved_index \<Rightarrow> duo_acquire_session d acquire resolved_index s)"

definition handle_duo_configure ::
  "env \<Rightarrow> descriptor \<Rightarrow> radio_config \<Rightarrow> daemon_state \<Rightarrow> reply \<times> daemon_state" where
  "handle_duo_configure E d c s =
     (case duo_role_descriptor s d of None \<Rightarrow> (reply_with (no_role_status s), s)
      | Some role \<Rightarrow>
          let expected_tuner = (if role = OPENRSPD_DUO_ROLE_MASTER then master_tuner (duo s)
                                else slave_tuner (duo s)) in
          if \<not> openrspd_config_valid c \<or> tuner c \<noteq> expected_tuner \<or>
             sample_rate_hz c \<noteq> duo_sample_rate_hz (duo s)
          then (reply_with OPENRSP_STATUS_BAD_REQUEST, s)
          else
            let (status, s) = duo_apply_running_config E c s in
            (reply_with status,
             if status = OPENRSP_STATUS_OK then
               (if tuner c = OPENRSP_TUNER_A
                then s\<lparr>duo_config := (duo_config s)\<lparr>channel_a := c\<rparr>, duo_config_a := True\<rparr>
                else s\<lparr>duo_config := (duo_config s)\<lparr>channel_b := c\<rparr>, duo_config_b := True\<rparr>)
             else s))"

definition handle_duo_start :: "env \<Rightarrow> descriptor \<Rightarrow> daemon_state \<Rightarrow> reply \<times> daemon_state" where
  "handle_duo_start E d s =
     (case duo_role_descriptor s d of None \<Rightarrow> (reply_with (no_role_status s), s)
      | Some role \<Rightarrow>
          let (duo_result, du, event) = openrspd_duo_initialise (duo s) d;
              s = s\<lparr>duo := du\<rparr>;
              rp = (reply_with (duo_result_status duo_result))\<lparr>rp_duo_event := event\<rparr>
          in if duo_result = OPENRSPD_DUO_OK \<and> role = OPENRSPD_DUO_ROLE_MASTER then
               let (prepared, s) = duo_prepare_config s in
               if \<not> prepared then
                 (reply_with OPENRSP_STATUS_BAD_REQUEST, s\<lparr>duo := (duo s)\<lparr>master_initialised := False\<rparr>\<rparr>)
               else
                 let (status, s) = configure_dual_radio E (duo_config s) s;
                     rp = rp\<lparr>rp_status := status\<rparr>
                 in if status = OPENRSP_STATUS_OK
                    then (rp\<lparr>rp_duo_start_stream_after_response := True\<rparr>,
                          s\<lparr>duo_active := True, dual_mode := True\<rparr>)
                    else (rp, s\<lparr>duo := (duo s)\<lparr>master_initialised := False\<rparr>\<rparr>)
             else if duo_result = OPENRSPD_DUO_OK \<and> role = OPENRSPD_DUO_ROLE_SLAVE \<and>
                     (\<not> radio s \<or> \<not> configured s)
             then (reply_with OPENRSP_STATUS_IO_ERROR, s\<lparr>duo := (duo s)\<lparr>slave_initialised := False\<rparr>\<rparr>)
             else (rp, s))"

definition handle_duo_stop :: "env \<Rightarrow> descriptor \<Rightarrow> daemon_state \<Rightarrow> reply \<times> daemon_state" where
  "handle_duo_stop E d s =
     (case duo_role_descriptor s d of None \<Rightarrow> (reply_with (no_role_status s), s)
      | Some role \<Rightarrow>
          let (duo_result, du, event) = openrspd_duo_uninitialise (duo s) d;
              s = s\<lparr>duo := du\<rparr>;
              (status, s) =
                (if duo_result = OPENRSPD_DUO_OK \<and> role = OPENRSPD_DUO_ROLE_MASTER
                 then duo_reset_hardware E s else (duo_result_status duo_result, s))
          in ((reply_with status)\<lparr>rp_duo_event := event\<rparr>, s))"

definition handle_duo_release :: "env \<Rightarrow> descriptor \<Rightarrow> daemon_state \<Rightarrow> reply \<times> daemon_state" where
  "handle_duo_release E d s =
     (case duo_role_descriptor s d of None \<Rightarrow> (reply_with (no_role_status s), s)
      | Some role \<Rightarrow>
          let (duo_result, du, event) = openrspd_duo_release (duo s) d;
              s = s\<lparr>duo := du\<rparr>
          in if duo_result = OPENRSPD_DUO_OK then
               let s = s\<lparr>device_snapshot_valid := False\<rparr> in
               if \<not> master_selected (duo s) \<and> \<not> slave_selected (duo s) then
                 let (status, s) = duo_reset_hardware E s in
                 ((reply_with status)\<lparr>rp_duo_event := event\<rparr>,
                  s\<lparr>duo_active := False, duo_config_a := False, duo_config_b := False\<rparr>)
               else ((reply_with OPENRSP_STATUS_OK)\<lparr>rp_duo_event := event\<rparr>, s)
             else ((reply_with (duo_result_status duo_result))\<lparr>rp_duo_event := event\<rparr>, s))"

text \<open>
  \<open>OPENRSP_CMD_DUO_SWAP_RATE\<close>; the hardware part, entered once the shared configuration
  has been prepared, is \<open>duo_swap_rate_hardware\<close>.
\<close>

definition duo_swap_rate_hardware :: "env \<Rightarrow> u32 \<Rightarrow> daemon_state \<Rightarrow> reply \<times> daemon_state" where
  "duo_swap_rate_hardware E rate s =
     (let saved = duo_config s;
          saved_rate = duo_sample_rate_hz (duo s);
          was_streaming = stream_thread_started s;
          (stopped, s) = (if was_streaming then stop_stream E s else (0, s))
      in if stopped \<noteq> 0 then (reply_with OPENRSP_STATUS_IO_ERROR, s)
         else
           let s = s\<lparr>duo := (duo s)\<lparr>duo_sample_rate_hz := rate\<rparr>\<rparr>;
               (prepared, s) = duo_prepare_config s
           in if \<not> prepared
              then (reply_with OPENRSP_STATUS_BAD_REQUEST,
                    s\<lparr>duo := (duo s)\<lparr>duo_sample_rate_hz := saved_rate\<rparr>, duo_config := saved\<rparr>)
              else
                let (reset_status, s) = duo_reset_hardware E s;
                    (status, s) = (if reset_status = OPENRSP_STATUS_OK
                                   then configure_dual_radio E (duo_config s) s
                                   else (reset_status, s))
                in if status = OPENRSP_STATUS_OK
                   then ((reply_with status)\<lparr>rp_duo_start_stream_after_response := was_streaming\<rparr>,
                         s\<lparr>dual_mode := True\<rparr>)
                   else
                     let s = s\<lparr>duo := (duo s)\<lparr>duo_sample_rate_hz := saved_rate\<rparr>, duo_config := saved\<rparr>
                     in (reply_with status,
                         if reset_status = OPENRSP_STATUS_OK
                         then snd (configure_dual_radio E saved s) else s))"

definition handle_duo_swap_rate ::
  "env \<Rightarrow> descriptor \<Rightarrow> u32 \<Rightarrow> daemon_state \<Rightarrow> reply \<times> daemon_state" where
  "handle_duo_swap_rate E d rate s =
     (case duo_role_descriptor s d of None \<Rightarrow> (reply_with (no_role_status s), s)
      | Some role \<Rightarrow>
          if role \<noteq> OPENRSPD_DUO_ROLE_MASTER then (reply_with OPENRSP_STATUS_BAD_REQUEST, s)
          else if \<not> master_initialised (duo s) then (reply_with OPENRSP_STATUS_START_PENDING, s)
          else if rate \<noteq> 6000000 \<and> rate \<noteq> 8000000 then (reply_with OPENRSP_STATUS_BAD_REQUEST, s)
          else if slave_initialised (duo s) then (reply_with OPENRSP_STATUS_STOP_PENDING, s)
          else if rate = duo_sample_rate_hz (duo s) then (reply_with OPENRSP_STATUS_OK, s)
          else
            let (prepared, s) = (if \<not> duo_config_a s \<and> \<not> duo_config_b s then (False, s)
                                 else duo_prepare_config s)
            in if \<not> prepared then (reply_with OPENRSP_STATUS_BAD_REQUEST, s)
               else duo_swap_rate_hardware E rate s)"

definition handle_duo_update ::
  "env \<Rightarrow> descriptor \<Rightarrow> update_request \<Rightarrow> daemon_state \<Rightarrow> reply \<times> daemon_state" where
  "handle_duo_update E d update s =
     (case duo_role_descriptor s d of None \<Rightarrow> (reply_with (no_role_status s), s)
      | Some role \<Rightarrow>
          if \<not> radio s \<or> \<not> configured s \<or> \<not> master_initialised (duo s)
          then (reply_with OPENRSP_STATUS_START_PENDING, s)
          else
            let expected_tuner = (if role = OPENRSPD_DUO_ROLE_MASTER then master_tuner (duo s)
                                  else slave_tuner (duo s)) in
            if tuner (upd_config update) \<noteq> expected_tuner
            then (reply_with OPENRSP_STATUS_BAD_REQUEST, s)
            else let (status, s) = apply_update E update s in (reply_with status, s))"

definition handle_acquire ::
  "env \<Rightarrow> descriptor \<Rightarrow> acquire_request \<Rightarrow> daemon_state \<Rightarrow> reply \<times> daemon_state" where
  "handle_acquire E d acquire s =
     (if duo_active s then (reply_with OPENRSP_STATUS_BUSY, s)
      else if owner s \<ge> 0 \<and> owner s \<noteq> d then (reply_with OPENRSP_STATUS_BUSY, s)
      else if owner s = d then (reply_with OPENRSP_STATUS_OK, s)
      else
        let (devices, s) = snapshot_sdrplay_devices E s in
        case openrsp_identity_resolve acquire devices of
          Inl _ \<Rightarrow> (reply_with OPENRSP_STATUS_BAD_REQUEST, s)
        | Inr resolved_index \<Rightarrow>
            let selected = find (\<lambda>r. rec_device_index r = resolved_index) devices;
                s = (if radio s \<and>
                        (case selected of None \<Rightarrow> True
                         | Some r \<Rightarrow> \<not> openrsp_identity_matches (acquired_identity s) r)
                     then (snd (close_radio E s))\<lparr>configured := False\<rparr> else s)
            in if running s
               then (reply_with OPENRSP_STATUS_OK,
                     s\<lparr>owner := d, acquired_identity := acquire\<lparr>id_device_index := resolved_index\<rparr>\<rparr>)
               else (reply_with OPENRSP_STATUS_IO_ERROR, s))"

definition handle_start :: "daemon_state \<Rightarrow> reply \<times> daemon_state" where
  "handle_start s =
     (reply_with OPENRSP_STATUS_OK,
      s\<lparr>streaming := True, stream_error := False, stream_result := 0,
        stream_sequence := (stream_sequence s)[0 := 0, 1 := 0]\<rparr>)"

definition handle_stop :: "env \<Rightarrow> daemon_state \<Rightarrow> reply \<times> daemon_state" where
  "handle_stop E s =
     (let (r, s) = stop_stream E s in
      (reply_with (if r = 0 then OPENRSP_STATUS_OK else OPENRSP_STATUS_IO_ERROR), s))"

definition handle_release :: "env \<Rightarrow> descriptor \<Rightarrow> daemon_state \<Rightarrow> reply \<times> daemon_state" where
  "handle_release E d s = (reply_with OPENRSP_STATUS_OK, release_client E d s)"

definition handle_configure :: "env \<Rightarrow> radio_config \<Rightarrow> daemon_state \<Rightarrow> reply \<times> daemon_state" where
  "handle_configure E c s =
     (let (status, s) = configure_radio E c 3 s in
      (reply_with status,
       if status = OPENRSP_STATUS_OK
       then s\<lparr>config := c, bootstrap_config := c, bootstrap_configured := True, configured := True\<rparr>
       else s))"

definition handle_configure_dual ::
  "env \<Rightarrow> Rsp_Protocol.dual_config \<Rightarrow> daemon_state \<Rightarrow> reply \<times> daemon_state" where
  "handle_configure_dual E c s =
     (let (status, s) = configure_dual_radio E c s in
      (reply_with status,
       if status = OPENRSP_STATUS_OK then s\<lparr>bootstrap_configured := False\<rparr> else s))"

text \<open>Stopping the stream and closing the radio before a swap; the status so far.\<close>

definition stop_and_close :: "env \<Rightarrow> bool \<Rightarrow> daemon_state \<Rightarrow> openrsp_status \<times> daemon_state" where
  "stop_and_close E was_streaming s =
     (let (stopped, s) = (if was_streaming then stop_stream E s else (0, s)) in
      if stopped \<noteq> 0 then (OPENRSP_STATUS_IO_ERROR, s)
      else if radio s then
        let (r, s) = close_radio E s in
        (if r \<noteq> 0 then OPENRSP_STATUS_IO_ERROR else OPENRSP_STATUS_OK, s)
      else (OPENRSP_STATUS_OK, s))"

definition handle_swap_tuner :: "env \<Rightarrow> swap_request \<Rightarrow> daemon_state \<Rightarrow> reply \<times> daemon_state" where
  "handle_swap_tuner E swap s =
     (if (swp_tuner swap \<noteq> OPENRSP_TUNER_A \<and> swp_tuner swap \<noteq> OPENRSP_TUNER_B) \<or>
         \<not> openrspd_config_valid (swp_config swap) \<or> tuner (swp_config swap) \<noteq> swp_tuner swap
      then (reply_with OPENRSP_STATUS_BAD_REQUEST, s)
      else
        let was_streaming = stream_thread_started s;
            (status, s) = stop_and_close E was_streaming s;
            (status, s) = (if status = OPENRSP_STATUS_OK
                           then configure_radio E (swp_config swap) 3 s else (status, s))
        in (reply_with status,
            if status = OPENRSP_STATUS_OK
            then s\<lparr>config := swp_config swap, bootstrap_config := swp_config swap,
                   bootstrap_configured := True, configured := True,
                   mode_swap_paused := was_streaming,
                   stream_sequence := (stream_sequence s)[0 := 0]\<rparr>
            else s))"

definition handle_swap_mode :: "env \<Rightarrow> mode_swap_request \<Rightarrow> daemon_state \<Rightarrow> reply \<times> daemon_state" where
  "handle_swap_mode E swap s =
     (let valid_target =
            (if msr_mode swap = OPENRSP_MODE_SINGLE then openrspd_config_valid (msr_single swap)
             else if msr_mode swap = OPENRSP_MODE_DUAL then valid_dual_config (msr_dual swap)
             else False)
      in if \<not> valid_target then (reply_with OPENRSP_STATUS_BAD_REQUEST, s)
         else
           let was_streaming = stream_thread_started s;
               old_dual_mode = dual_mode s;
               old_config = config s;
               old_bootstrap = bootstrap_config s;
               old_dual_config = dual_config s;
               old_bootstrap_configured = bootstrap_configured s;
               (status, s) = stop_and_close E was_streaming s;
               (status, s) =
                 (if status = OPENRSP_STATUS_OK then
                    (if msr_mode swap = OPENRSP_MODE_DUAL
                     then configure_dual_radio E (msr_dual swap) s
                     else configure_radio E (msr_single swap) 3 s)
                  else (status, s))
           in if status = OPENRSP_STATUS_OK then
                (reply_with status,
                 let s = (if msr_mode swap = OPENRSP_MODE_DUAL
                          then s\<lparr>dual_config := msr_dual swap, bootstrap_configured := False\<rparr>
                          else s\<lparr>config := msr_single swap, bootstrap_config := msr_single swap,
                                 bootstrap_configured := True\<rparr>)
                 in s\<lparr>configured := True, recovery_config_pending := False,
                      mode_swap_paused := was_streaming,
                      stream_sequence := (stream_sequence s)[0 := 0, 1 := 0]\<rparr>)
              else if was_streaming then
                let (rollback, s) =
                      (if old_dual_mode then configure_dual_radio E old_dual_config s
                       else configure_radio E old_config 3 s)
                in if rollback = OPENRSP_STATUS_OK
                   then ((reply_with status)\<lparr>rp_start_stream_after_response := True,
                                            rp_start_stream_after_error := True\<rparr>,
                         s\<lparr>dual_mode := old_dual_mode, config := old_config,
                           dual_config := old_dual_config, bootstrap_config := old_bootstrap,
                           bootstrap_configured := old_bootstrap_configured, configured := True,
                           mode_swap_paused := False\<rparr>)
                   else (reply_with status, s)
              else (reply_with status, s))"

definition handle_resume_mode :: "daemon_state \<Rightarrow> reply \<times> daemon_state" where
  "handle_resume_mode s =
     ((reply_with OPENRSP_STATUS_OK)\<lparr>rp_start_stream_after_response := True\<rparr>,
      s\<lparr>mode_swap_paused := False\<rparr>)"

definition handle_update :: "env \<Rightarrow> update_request \<Rightarrow> daemon_state \<Rightarrow> reply \<times> daemon_state" where
  "handle_update E update s =
     (if \<not> openrspd_config_valid (upd_config update) then (reply_with OPENRSP_STATUS_BAD_REQUEST, s)
      else if \<not> radio s \<or> \<not> configured s \<or> stream_error s then
        ((reply_with OPENRSP_STATUS_OK)\<lparr>rp_changed_flags := OPENRSP_RESPONSE_RECOVERY_QUEUED\<rparr>,
         s\<lparr>config := upd_config update\<rparr>)
      else
        let restart_for_sample_rate =
              (stream_thread_started s \<and>
               has_flag (upd_changed_flags update) OPENRSP_CHANGE_SAMPLE_RATE \<and>
               sample_rate_hz (upd_config update) \<noteq> sample_rate_hz (config s));
            (stopped, s) = (if restart_for_sample_rate then stop_stream E s else (0, s));
            (status, s) = (if stopped \<noteq> 0 then (OPENRSP_STATUS_IO_ERROR, s)
                           else apply_update E update s);
            restart = (status = OPENRSP_STATUS_OK \<and> restart_for_sample_rate)
        in if status = OPENRSP_STATUS_IO_ERROR then
             let s = s\<lparr>config := upd_config update, stream_error := True\<rparr>;
                 s = (if radio s then snd (io E Cancel_async s) else s)
             in ((reply_with OPENRSP_STATUS_OK)\<lparr>rp_changed_flags := OPENRSP_RESPONSE_RECOVERY_QUEUED,
                                               rp_start_stream_after_response := restart\<rparr>, s)
           else ((reply_with status)\<lparr>rp_start_stream_after_response := restart\<rparr>, s))"

subsection \<open>Dispatch\<close>

text \<open>A command code with the payload size it requires.\<close>

definition is_request :: "message_header \<Rightarrow> openrsp_command_type \<Rightarrow> u32 \<Rightarrow> bool" where
  "is_request h cmd bytes \<longleftrightarrow> hdr_type h = command_code cmd \<and> hdr_payload_bytes h = bytes"

definition dispatch ::
  "env \<Rightarrow> descriptor \<Rightarrow> message_header \<Rightarrow> u8 list \<Rightarrow> daemon_state \<Rightarrow> reply \<times> daemon_state" where
  "dispatch E d h payload s =
     (if hdr_magic h \<noteq> OPENRSP_PROTOCOL_MAGIC \<or> hdr_version h \<noteq> OPENRSP_PROTOCOL_VERSION
      then (reply_with OPENRSP_STATUS_BAD_REQUEST, s)
      else if is_request h OPENRSP_CMD_PING 0 then (reply_with OPENRSP_STATUS_OK, s)
      else if is_request h OPENRSP_CMD_LIST 0 then handle_list E s
      else if is_request h OPENRSP_CMD_LOCK_API 0 then handle_lock_api d s
      else if is_request h OPENRSP_CMD_UNLOCK_API 0 \<and> api_lock_owner s = d
      then handle_unlock_api d s
      else if is_request h OPENRSP_CMD_DUO_ACQUIRE 84
      then handle_duo_acquire E d (decode_duo_acquire_request payload) s
      else if is_request h OPENRSP_CMD_DUO_CONFIGURE 60
      then handle_duo_configure E d (decode_radio_config payload) s
      else if is_request h OPENRSP_CMD_DUO_START 0 then handle_duo_start E d s
      else if is_request h OPENRSP_CMD_DUO_STOP 0 then handle_duo_stop E d s
      else if is_request h OPENRSP_CMD_DUO_RELEASE 0 then handle_duo_release E d s
      else if is_request h OPENRSP_CMD_DUO_SWAP_RATE 4
      then handle_duo_swap_rate E d (le32s payload ! 0) s
      else if is_request h OPENRSP_CMD_DUO_UPDATE 68
      then handle_duo_update E d (decode_update_request payload) s
      else if is_request h OPENRSP_CMD_ACQUIRE 72
      then handle_acquire E d (decode_acquire_request payload) s
      else if is_request h OPENRSP_CMD_START 0 \<and> owner s = d \<and> radio s \<and>
              \<not> stream_thread_started s \<and> \<not> mode_swap_paused s
      then handle_start s
      else if is_request h OPENRSP_CMD_STOP 0 \<and> owner s = d \<and> radio s then handle_stop E s
      else if is_request h OPENRSP_CMD_RELEASE 0 \<and> owner s = d then handle_release E d s
      else if is_request h OPENRSP_CMD_CONFIGURE 60 \<and> owner s = d
      then handle_configure E (decode_radio_config payload) s
      else if is_request h OPENRSP_CMD_CONFIGURE_DUAL 128 \<and> owner s = d
      then handle_configure_dual E (decode_dual_config payload) s
      else if is_request h OPENRSP_CMD_SWAP_TUNER 68 \<and> owner s = d \<and> configured s \<and> \<not> dual_mode s
      then handle_swap_tuner E (decode_swap_request payload) s
      else if is_request h OPENRSP_CMD_SWAP_MODE 196 \<and> owner s = d \<and> configured s
      then handle_swap_mode E (decode_mode_swap_request payload) s
      else if is_request h OPENRSP_CMD_RESUME_MODE 0 \<and> owner s = d \<and> configured s \<and> mode_swap_paused s
      then handle_resume_mode s
      else if is_request h OPENRSP_CMD_UPDATE 68 \<and> owner s = d
      then handle_update E (decode_update_request payload) s
      else (reply_with (if owner s \<ge> 0 \<and> owner s \<noteq> d then OPENRSP_STATUS_BUSY
                        else OPENRSP_STATUS_UNSUPPORTED), s))"

subsection \<open>Answering\<close>

fun send_listed :: "env \<Rightarrow> descriptor \<Rightarrow> u32 \<Rightarrow> device_record list \<Rightarrow> daemon_state \<Rightarrow> bool \<times> daemon_state" where
  "send_listed E d sequence [] s = (True, s)"
| "send_listed E d sequence (r # rs) s =
     (let (w, s) = write_control_frame E d (command_code OPENRSP_EVENT_DEVICE) sequence
                     (encode_device_record r) s
      in if w \<noteq> 0 then (False, s) else send_listed E d sequence rs s)"

text \<open>
  The three places at which the part after the response starts the stream thread. The
  first component is False where the source returns -1.
\<close>

definition start_after_duo :: "env \<Rightarrow> reply \<Rightarrow> daemon_state \<Rightarrow> bool \<times> daemon_state" where
  "start_after_duo E rp s =
     (if rp_duo_start_stream_after_response rp \<and> rp_status rp = OPENRSP_STATUS_OK then
        let s = s\<lparr>logged_usb_iq := False, logged_socket_iq := False, first_iq_seen := False,
                  streaming := True, stream_error := False,
                  stream_sequence := (stream_sequence s)[0 := 0, 1 := 0]\<rparr>;
            (r, s) = create_stream_thread E s
        in if r \<noteq> 0 then (False, s) else (True, s\<lparr>stream_thread_started := True\<rparr>)
      else (True, s))"

definition start_after_start :: "env \<Rightarrow> message_header \<Rightarrow> reply \<Rightarrow> daemon_state \<Rightarrow> bool \<times> daemon_state" where
  "start_after_start E h rp s =
     (if hdr_type h = command_code OPENRSP_CMD_START \<and> rp_status rp = OPENRSP_STATUS_OK then
        let s = s\<lparr>logged_usb_iq := False, logged_socket_iq := False\<rparr>;
            (r, s) = create_stream_thread E s
        in if r \<noteq> 0 then (False, s\<lparr>streaming := False\<rparr>)
           else (True, s\<lparr>stream_thread_started := True\<rparr>)
      else (True, s))"

definition start_after_change :: "env \<Rightarrow> message_header \<Rightarrow> reply \<Rightarrow> daemon_state \<Rightarrow> bool \<times> daemon_state" where
  "start_after_change E h rp s =
     (if rp_start_stream_after_response rp \<and>
         (rp_status rp = OPENRSP_STATUS_OK \<or> rp_start_stream_after_error rp) then
        let s = s\<lparr>logged_usb_iq := False, logged_socket_iq := False, first_iq_seen := False,
                  streaming := True, stream_error := False,
                  recovery_config_pending := (hdr_type h = command_code OPENRSP_CMD_SWAP_TUNER)\<rparr>;
            (r, s) = create_stream_thread E s
        in if r \<noteq> 0 then (False, s) else (True, s\<lparr>stream_thread_started := True\<rparr>)
      else (True, s))"

definition respond ::
  "env \<Rightarrow> descriptor \<Rightarrow> message_header \<Rightarrow> reply \<Rightarrow> daemon_state \<Rightarrow> bool \<times> daemon_state" where
  "respond E d h rp s =
     (let (w, s) = write_control_frame E d (command_code OPENRSP_MSG_RESPONSE) (hdr_sequence h)
                     (encode_response \<lparr>rsp_status = status_code (rp_status rp),
                        rsp_sequence = hdr_sequence h, rsp_changed_flags = rp_changed_flags rp,
                        rsp_reserved = 0\<rparr>) s
      in if w \<noteq> 0 then (False, s)
         else
           let (ok, s) = (if hdr_type h = command_code OPENRSP_CMD_LIST \<and>
                             rp_status rp = OPENRSP_STATUS_OK
                          then send_listed E d (hdr_sequence h) (rp_listed rp) s else (True, s))
           in if \<not> ok then (False, s)
              else
                let (w, s) = (if rp_status rp = OPENRSP_STATUS_OK
                              then send_duo_event E (rp_duo_event rp) s else (0, s))
                in if w \<noteq> 0 then (False, s)
                   else let (ok, s) = start_after_duo E rp s in
                     if \<not> ok then (False, s)
                     else let (ok, s) = start_after_start E h rp s in
                       if \<not> ok then (False, s) else start_after_change E h rp s)"

text \<open>
  A request that has been read completely: True is the result 1, False the result -1 that
  makes the server loop drop the client.
\<close>

definition serve_request ::
  "env \<Rightarrow> descriptor \<Rightarrow> message_header \<Rightarrow> u8 list \<Rightarrow> daemon_state \<Rightarrow> bool \<times> daemon_state" where
  "serve_request E d h payload s =
     (let (rp, s) = dispatch E d h payload s in respond E d h rp s)"

subsection \<open>Clients and the server loop\<close>

text \<open>The daemon state with the table of client descriptors; a free slot holds -1.\<close>

type_synonym server = "daemon_state \<times> descriptor list"

abbreviation (input) OPENRSP_INVALID_SOCKET :: descriptor where "OPENRSP_INVALID_SOCKET \<equiv> -1"

definition server_init :: server where
  "server_init = (daemon_init, replicate OPENRSPD_MAX_CLIENTS OPENRSP_INVALID_SOCKET)"

definition remove_client :: "env \<Rightarrow> nat \<Rightarrow> server \<Rightarrow> server" where
  "remove_client E index sv =
     (case sv of (s, clients) \<Rightarrow>
        let d = clients ! index in
        if d < 0 then (s, clients)
        else (release_api_lock d (release_client E d s), clients[index := OPENRSP_INVALID_SOCKET]))"

definition close_clients :: "env \<Rightarrow> server \<Rightarrow> server" where
  "close_clients E sv = fold (remove_client E) [0..<OPENRSPD_MAX_CLIENTS] sv"

text \<open>
  The tail of \<open>accept_clients\<close> for a descriptor that was accepted and set up: it goes into
  the first free slot, or is closed when there is none.
\<close>

definition first_index :: "('a \<Rightarrow> bool) \<Rightarrow> 'a list \<Rightarrow> nat option" where
  "first_index P xs = find (\<lambda>i. P (xs ! i)) [0..<length xs]"

definition accept_client :: "descriptor \<Rightarrow> server \<Rightarrow> server" where
  "accept_client client sv =
     (case sv of (s, clients) \<Rightarrow>
        case first_index (\<lambda>d. \<not> d \<ge> 0) clients of None \<Rightarrow> (s, clients)
        | Some index \<Rightarrow> (s, clients[index := client]))"

text \<open>Eviction of the client whose frame could not be written.\<close>

definition evict_failed_client :: "env \<Rightarrow> server \<Rightarrow> server" where
  "evict_failed_client E sv =
     (case sv of (s, clients) \<Rightarrow>
        let failed_fd = client_write_error_fd s;
            s = s\<lparr>client_write_error := False, client_write_error_fd := OPENRSP_INVALID_SOCKET\<rparr>
        in case first_index (\<lambda>d. d = failed_fd \<or> (failed_fd < 0 \<and> d = owner s)) clients of
             None \<Rightarrow> (s, clients)
           | Some index \<Rightarrow> remove_client E index (s, clients))"

text \<open>
  What the loop finds on a ready descriptor: the outcome of the receiving half of
  \<open>serve_request\<close>.
\<close>

definition serve_slot :: "env \<Rightarrow> nat \<Rightarrow> int + message_header \<times> u8 list \<Rightarrow> server \<Rightarrow> server" where
  "serve_slot E slot received sv =
     (case sv of (s, clients) \<Rightarrow>
        if clients ! slot < 0 then (s, clients)
        else case received of
          Inl _ \<Rightarrow> remove_client E slot (s, clients)
        | Inr (h, payload) \<Rightarrow>
            let (ok, s) = serve_request E (clients ! slot) h payload s in
            if ok then (s, clients) else remove_client E slot (s, clients))"

text \<open>
  One turn of the loop, given what \<open>poll\<close> reports: the descriptors accepted, the slots
  that hung up, and what the readable slots deliver.
\<close>

record poll_outcome =
  po_accepted :: "descriptor list"
  po_hung :: "nat list"
  po_ready :: "(nat \<times> (int + message_header \<times> u8 list)) list"

definition server_turn :: "env \<Rightarrow> poll_outcome \<Rightarrow> server \<Rightarrow> server" where
  "server_turn E po sv =
     (if client_write_error (fst sv) then evict_failed_client E sv
      else
        let (s, clients) = sv;
            s = recover_failed_stream E s;
            s = finish_recovery_config E s;
            sv = fold accept_client (po_accepted po) (s, clients);
            sv = fold (remove_client E) (po_hung po) sv
        in fold (\<lambda>(slot, received). serve_slot E slot received) (po_ready po) sv)"

text \<open>What follows the loop.\<close>

definition server_shutdown :: "env \<Rightarrow> server \<Rightarrow> server" where
  "server_shutdown E sv =
     (case close_clients E sv of (s, clients) \<Rightarrow> (shutdown_radio E s, clients))"

subsection \<open>Steps\<close>

text \<open>
  The pieces of a turn, and the steps of the stream thread, as one labelled relation. The
  steps of the stream thread may fall between any two pieces. A descriptor that \<open>accept\<close>
  returns is not negative and not one that is still open.
\<close>

datatype daemon_action =
    Evict
  | Recover
  | Finish_recovery
  | Accepted descriptor
  | Hangup nat
  | Serve nat "int + message_header \<times> u8 list"
  | Stream_buffer u32 "u8 list"
  | Stream_end

inductive daemon_step :: "env \<Rightarrow> server \<Rightarrow> daemon_action \<Rightarrow> server \<Rightarrow> bool" for E :: env where
  step_evict: "client_write_error s \<Longrightarrow>
    daemon_step E (s, clients) Evict (evict_failed_client E (s, clients))"
| step_recover: "daemon_step E (s, clients) Recover (recover_failed_stream E s, clients)"
| step_finish: "daemon_step E (s, clients) Finish_recovery (finish_recovery_config E s, clients)"
| step_accept: "0 \<le> d \<Longrightarrow> d \<notin> set clients \<Longrightarrow>
    daemon_step E (s, clients) (Accepted d) (accept_client d (s, clients))"
| step_hangup: "slot < length clients \<Longrightarrow>
    daemon_step E (s, clients) (Hangup slot) (remove_client E slot (s, clients))"
| step_serve: "slot < length clients \<Longrightarrow>
    daemon_step E (s, clients) (Serve slot received) (serve_slot E slot received (s, clients))"
| step_buffer: "thread_alive s \<Longrightarrow>
    daemon_step E (s, clients) (Stream_buffer t buffer)
      (if thread_dual s then dual_stream_callback E t buffer s else stream_callback E buffer s, clients)"
| step_end: "thread_alive s \<Longrightarrow>
    daemon_step E (s, clients) Stream_end (stream_main_return E s, clients)"

inductive_cases daemon_stepE: "daemon_step E sv a sv'"

end
