(* ===== verification/Rsp_Frame.thy ===== *)
theory Rsp_Frame
  imports Rsp_Serve
begin

text \<open>
  What the operations of the daemon leave alone: every operation below the request
  handlers keeps the single owner, the API lock, the RSPduo session and its activity.
  Stated per operation and given to the simplifier, so that the handlers' proofs see
  only the changes a handler makes itself.
\<close>

lemma write_control_frame_frame [simp]:
  "owner (snd (write_control_frame E d t q p s)) = owner s" "api_lock_owner (snd (write_control_frame E d t q p s)) = api_lock_owner s"
  "duo (snd (write_control_frame E d t q p s)) = duo s" "duo_active (snd (write_control_frame E d t q p s)) = duo_active s"
  by (simp_all add: write_control_frame_def)

lemma send_duo_event_frame [simp]:
  "owner (snd (send_duo_event E e s)) = owner s" "api_lock_owner (snd (send_duo_event E e s)) = api_lock_owner s"
  "duo (snd (send_duo_event E e s)) = duo s" "duo_active (snd (send_duo_event E e s)) = duo_active s"
  by (simp_all add: send_duo_event_def)

lemma stream_main_return_frame [simp]:
  "owner (stream_main_return E s) = owner s" "api_lock_owner (stream_main_return E s) = api_lock_owner s"
  "duo (stream_main_return E s) = duo s" "duo_active (stream_main_return E s) = duo_active s"
  by (simp_all add: stream_main_return_def op_simps)

lemma create_stream_thread_frame [simp]:
  "owner (snd (create_stream_thread E s)) = owner s" "api_lock_owner (snd (create_stream_thread E s)) = api_lock_owner s"
  "duo (snd (create_stream_thread E s)) = duo s" "duo_active (snd (create_stream_thread E s)) = duo_active s"
  by (simp_all add: create_stream_thread_def op_simps)

lemma join_stream_thread_frame [simp]:
  "owner (snd (join_stream_thread E s)) = owner s" "api_lock_owner (snd (join_stream_thread E s)) = api_lock_owner s"
  "duo (snd (join_stream_thread E s)) = duo s" "duo_active (snd (join_stream_thread E s)) = duo_active s"
  by (simp_all add: join_stream_thread_def)

lemma set_gain_frame [simp]:
  "owner (snd (set_gain E c s)) = owner s" "api_lock_owner (snd (set_gain E c s)) = api_lock_owner s"
  "duo (snd (set_gain E c s)) = duo s" "duo_active (snd (set_gain E c s)) = duo_active s"
  by (simp_all add: set_gain_def)

lemma stop_stream_frame [simp]:
  "owner (snd (stop_stream E s)) = owner s" "api_lock_owner (snd (stop_stream E s)) = api_lock_owner s"
  "duo (snd (stop_stream E s)) = duo s" "duo_active (snd (stop_stream E s)) = duo_active s"
  by (simp_all add: stop_stream_def op_simps)

lemma close_radio_frame [simp]:
  "owner (snd (close_radio E s)) = owner s" "api_lock_owner (snd (close_radio E s)) = api_lock_owner s"
  "duo (snd (close_radio E s)) = duo s" "duo_active (snd (close_radio E s)) = duo_active s"
  by (simp_all add: close_radio_def op_simps)

lemma set_rspduo_controls_frame [simp]:
  "owner (snd (set_rspduo_controls E c fl s)) = owner s" "api_lock_owner (snd (set_rspduo_controls E c fl s)) = api_lock_owner s"
  "duo (snd (set_rspduo_controls E c fl s)) = duo s" "duo_active (snd (set_rspduo_controls E c fl s)) = duo_active s"
  by (simp_all add: set_rspduo_controls_def op_simps)

lemma set_rspduo_sample_rate_frame [simp]:
  "owner (snd (set_rspduo_sample_rate E c s)) = owner s" "api_lock_owner (snd (set_rspduo_sample_rate E c s)) = api_lock_owner s"
  "duo (snd (set_rspduo_sample_rate E c s)) = duo s" "duo_active (snd (set_rspduo_sample_rate E c s)) = duo_active s"
  by (simp_all add: set_rspduo_sample_rate_def)

lemma apply_config_frame [simp]:
  "owner (snd (apply_config E c s)) = owner s" "api_lock_owner (snd (apply_config E c s)) = api_lock_owner s"
  "duo (snd (apply_config E c s)) = duo s" "duo_active (snd (apply_config E c s)) = duo_active s"
  by (simp_all add: apply_config_def op_simps)

lemma bootstrap_scan_frame [simp]:
  "owner (snd (bootstrap_scan E ix s)) = owner s \<and> api_lock_owner (snd (bootstrap_scan E ix s)) = api_lock_owner s \<and>
   duo (snd (bootstrap_scan E ix s)) = duo s \<and> duo_active (snd (bootstrap_scan E ix s)) = duo_active s"
  by (induction ix arbitrary: s) (simp_all add: op_simps)

lemma bootstrap_passes_frame [simp]:
  "owner (bootstrap_passes E n s) = owner s \<and> api_lock_owner (bootstrap_passes E n s) = api_lock_owner s \<and>
   duo (bootstrap_passes E n s) = duo s \<and> duo_active (bootstrap_passes E n s) = duo_active s"
  by (induction n arbitrary: s) (simp_all add: op_simps)

lemma enumerate_devices_frame [simp]:
  "owner (snd (enumerate_devices E ix rs s)) = owner s \<and> api_lock_owner (snd (enumerate_devices E ix rs s)) = api_lock_owner s \<and>
   duo (snd (enumerate_devices E ix rs s)) = duo s \<and> duo_active (snd (enumerate_devices E ix rs s)) = duo_active s"
  by (induction ix arbitrary: rs s) (simp_all add: op_simps)

lemma snapshot_fresh_frame [simp]:
  "owner (snd (snapshot_fresh E s)) = owner s" "api_lock_owner (snd (snapshot_fresh E s)) = api_lock_owner s"
  "duo (snd (snapshot_fresh E s)) = duo s" "duo_active (snd (snapshot_fresh E s)) = duo_active s"
  by (simp_all add: snapshot_fresh_def op_simps)

lemma snapshot_sdrplay_devices_frame [simp]:
  "owner (snd (snapshot_sdrplay_devices E s)) = owner s" "api_lock_owner (snd (snapshot_sdrplay_devices E s)) = api_lock_owner s"
  "duo (snd (snapshot_sdrplay_devices E s)) = duo s" "duo_active (snd (snapshot_sdrplay_devices E s)) = duo_active s"
  by (simp_all add: snapshot_sdrplay_devices_def op_simps)

lemma resolve_acquired_device_frame [simp]:
  "owner (snd (resolve_acquired_device E s)) = owner s" "api_lock_owner (snd (resolve_acquired_device E s)) = api_lock_owner s"
  "duo (snd (resolve_acquired_device E s)) = duo s" "duo_active (snd (resolve_acquired_device E s)) = duo_active s"
  by (simp_all add: resolve_acquired_device_def op_simps split: sum.split)

lemma configure_attempts_frame [simp]:
  "owner (snd (configure_attempts E c n s)) = owner s \<and> api_lock_owner (snd (configure_attempts E c n s)) = api_lock_owner s \<and>
   duo (snd (configure_attempts E c n s)) = duo s \<and> duo_active (snd (configure_attempts E c n s)) = duo_active s"
  by (induction n arbitrary: s) (simp_all add: op_simps split: sum.split)

lemma configure_radio_frame [simp]:
  "owner (snd (configure_radio E c n s)) = owner s" "api_lock_owner (snd (configure_radio E c n s)) = api_lock_owner s"
  "duo (snd (configure_radio E c n s)) = duo s" "duo_active (snd (configure_radio E c n s)) = duo_active s"
  by (simp_all add: configure_radio_def op_simps)

lemma open_dual_radio_frame [simp]:
  "owner (snd (open_dual_radio E s)) = owner s" "api_lock_owner (snd (open_dual_radio E s)) = api_lock_owner s"
  "duo (snd (open_dual_radio E s)) = duo s" "duo_active (snd (open_dual_radio E s)) = duo_active s"
  by (simp_all add: open_dual_radio_def op_simps split: sum.split)

lemma program_dual_radio_frame [simp]:
  "owner (snd (program_dual_radio E dc s)) = owner s" "api_lock_owner (snd (program_dual_radio E dc s)) = api_lock_owner s"
  "duo (snd (program_dual_radio E dc s)) = duo s" "duo_active (snd (program_dual_radio E dc s)) = duo_active s"
  by (simp_all add: program_dual_radio_def op_simps)

lemma configure_dual_radio_frame [simp]:
  "owner (snd (configure_dual_radio E dc s)) = owner s" "api_lock_owner (snd (configure_dual_radio E dc s)) = api_lock_owner s"
  "duo (snd (configure_dual_radio E dc s)) = duo s" "duo_active (snd (configure_dual_radio E dc s)) = duo_active s"
  by (simp_all add: configure_dual_radio_def op_simps)

lemma send_removed_frame [simp]:
  "owner (send_removed E d t s) = owner s" "api_lock_owner (send_removed E d t s) = api_lock_owner s"
  "duo (send_removed E d t s) = duo s" "duo_active (send_removed E d t s) = duo_active s"
  by (simp_all add: send_removed_def op_simps)

lemma report_removed_device_frame [simp]:
  "owner (report_removed_device E s) = owner s" "api_lock_owner (report_removed_device E s) = api_lock_owner s"
  "duo (report_removed_device E s) = duo s" "duo_active (report_removed_device E s) = duo_active s"
  by (simp_all add: report_removed_device_def)

lemma recover_dual_stream_frame [simp]:
  "owner (recover_dual_stream E s) = owner s" "api_lock_owner (recover_dual_stream E s) = api_lock_owner s"
  "duo (recover_dual_stream E s) = duo s" "duo_active (recover_dual_stream E s) = duo_active s"
  by (simp_all add: recover_dual_stream_def op_simps)

lemma recover_single_stream_frame [simp]:
  "owner (recover_single_stream E s) = owner s" "api_lock_owner (recover_single_stream E s) = api_lock_owner s"
  "duo (recover_single_stream E s) = duo s" "duo_active (recover_single_stream E s) = duo_active s"
  by (simp_all add: recover_single_stream_def op_simps)

lemma monotonic_milliseconds_frame [simp]:
  "owner (snd (monotonic_milliseconds E s)) = owner s" "api_lock_owner (snd (monotonic_milliseconds E s)) = api_lock_owner s"
  "duo (snd (monotonic_milliseconds E s)) = duo s" "duo_active (snd (monotonic_milliseconds E s)) = duo_active s"
  by (simp_all add: monotonic_milliseconds_def op_simps)

lemma recover_teardown_frame [simp]:
  "owner (snd (recover_teardown E s)) = owner s" "api_lock_owner (snd (recover_teardown E s)) = api_lock_owner s"
  "duo (snd (recover_teardown E s)) = duo s" "duo_active (snd (recover_teardown E s)) = duo_active s"
  by (simp_all add: recover_teardown_def op_simps)

lemma recover_unresolved_frame [simp]:
  "owner (recover_unresolved E e s) = owner s" "api_lock_owner (recover_unresolved E e s) = api_lock_owner s"
  "duo (recover_unresolved E e s) = duo s" "duo_active (recover_unresolved E e s) = duo_active s"
  by (simp_all add: recover_unresolved_def op_simps)

lemma recover_resolved_frame [simp]:
  "owner (recover_resolved E i s) = owner s" "api_lock_owner (recover_resolved E i s) = api_lock_owner s"
  "duo (recover_resolved E i s) = duo s" "duo_active (recover_resolved E i s) = duo_active s"
  by (simp_all add: recover_resolved_def op_simps)

lemma recover_failed_stream_frame [simp]:
  "owner (recover_failed_stream E s) = owner s" "api_lock_owner (recover_failed_stream E s) = api_lock_owner s"
  "duo (recover_failed_stream E s) = duo s" "duo_active (recover_failed_stream E s) = duo_active s"
  by (simp_all add: recover_failed_stream_def op_simps split: sum.split)

lemma or_step_frame [simp]:
  "(\<And>s. owner (snd (f s)) = owner s) \<Longrightarrow> owner (snd (or_step b f x)) = owner (snd x)"
  "(\<And>s. api_lock_owner (snd (f s)) = api_lock_owner s) \<Longrightarrow> api_lock_owner (snd (or_step b f x)) = api_lock_owner (snd x)"
  "(\<And>s. duo (snd (f s)) = duo s) \<Longrightarrow> duo (snd (or_step b f x)) = duo (snd x)"
  "(\<And>s. duo_active (snd (f s)) = duo_active s) \<Longrightarrow> duo_active (snd (or_step b f x)) = duo_active (snd x)"
  by (simp_all add: or_step_def op_simps)

lemma try_step_frame [simp]:
  "(\<And>s. owner (snd (f s)) = owner s) \<Longrightarrow> owner (snd (try_step b f x)) = owner (snd x)"
  "(\<And>s. api_lock_owner (snd (f s)) = api_lock_owner s) \<Longrightarrow> api_lock_owner (snd (try_step b f x)) = api_lock_owner (snd x)"
  "(\<And>s. duo (snd (f s)) = duo s) \<Longrightarrow> duo (snd (try_step b f x)) = duo (snd x)"
  "(\<And>s. duo_active (snd (f s)) = duo_active s) \<Longrightarrow> duo_active (snd (try_step b f x)) = duo_active (snd x)"
  by (simp_all add: try_step_def op_simps)

lemma finish_recovery_config_frame [simp]:
  "owner (finish_recovery_config E s) = owner s" "api_lock_owner (finish_recovery_config E s) = api_lock_owner s"
  "duo (finish_recovery_config E s) = duo s" "duo_active (finish_recovery_config E s) = duo_active s"
  by (simp_all add: finish_recovery_config_def op_simps)

lemma apply_update_dual_frame [simp]:
  "owner (snd (apply_update_dual E u s)) = owner s" "api_lock_owner (snd (apply_update_dual E u s)) = api_lock_owner s"
  "duo (snd (apply_update_dual E u s)) = duo s" "duo_active (snd (apply_update_dual E u s)) = duo_active s"
  by (simp_all add: apply_update_dual_def op_simps)

lemma apply_update_frame [simp]:
  "owner (snd (apply_update E u s)) = owner s" "api_lock_owner (snd (apply_update E u s)) = api_lock_owner s"
  "duo (snd (apply_update E u s)) = duo s" "duo_active (snd (apply_update E u s)) = duo_active s"
  by (simp_all add: apply_update_def op_simps)

lemma duo_prepare_config_frame [simp]:
  "owner (snd (duo_prepare_config s)) = owner s" "api_lock_owner (snd (duo_prepare_config s)) = api_lock_owner s"
  "duo (snd (duo_prepare_config s)) = duo s" "duo_active (snd (duo_prepare_config s)) = duo_active s"
  by (simp_all add: duo_prepare_config_def op_simps)

lemma duo_reset_hardware_frame [simp]:
  "owner (snd (duo_reset_hardware E s)) = owner s" "api_lock_owner (snd (duo_reset_hardware E s)) = api_lock_owner s"
  "duo (snd (duo_reset_hardware E s)) = duo s" "duo_active (snd (duo_reset_hardware E s)) = duo_active s"
  by (simp_all add: duo_reset_hardware_def op_simps)

lemma duo_apply_running_config_frame [simp]:
  "owner (snd (duo_apply_running_config E c s)) = owner s" "api_lock_owner (snd (duo_apply_running_config E c s)) = api_lock_owner s"
  "duo (snd (duo_apply_running_config E c s)) = duo s" "duo_active (snd (duo_apply_running_config E c s)) = duo_active s"
  by (simp_all add: duo_apply_running_config_def op_simps)

lemma duo_acquire_identity_frame [simp]:
  "owner (snd (duo_acquire_identity E a s)) = owner s"
  "api_lock_owner (snd (duo_acquire_identity E a s)) = api_lock_owner s"
  "duo (snd (duo_acquire_identity E a s)) = duo s"
  "duo_active (snd (duo_acquire_identity E a s)) = duo_active s"
  by (simp_all add: duo_acquire_identity_def op_simps)

lemma deliver_iq_frame [simp]:
  "owner (deliver_iq E d ev q b s) = owner s"
  "api_lock_owner (deliver_iq E d ev q b s) = api_lock_owner s"
  "duo (deliver_iq E d ev q b s) = duo s" "duo_active (deliver_iq E d ev q b s) = duo_active s"
  by (simp_all add: deliver_iq_def op_simps)

lemma send_stream_frame [simp]:
  "owner (send_stream E t b s) = owner s" "api_lock_owner (send_stream E t b s) = api_lock_owner s"
  "duo (send_stream E t b s) = duo s" "duo_active (send_stream E t b s) = duo_active s"
  by (simp_all add: send_stream_def op_simps)

subsection \<open>Dispatch\<close>

lemma if_intro: "(c \<Longrightarrow> P a) \<Longrightarrow> (\<not> c \<Longrightarrow> P b) \<Longrightarrow> P (if c then a else b)"
  by simp

text \<open>A property of the outcome of a request is shown branch by branch.\<close>

lemma dispatch_rule:
  assumes "\<And>st. P (reply_with st, s)" "P (handle_list E s)" "P (handle_lock_api d s)"
    "api_lock_owner s = d \<Longrightarrow> P (handle_unlock_api d s)"
    "\<And>a. P (handle_duo_acquire E d a s)" "\<And>c. P (handle_duo_configure E d c s)"
    "P (handle_duo_start E d s)" "P (handle_duo_stop E d s)" "P (handle_duo_release E d s)"
    "\<And>r. P (handle_duo_swap_rate E d r s)" "\<And>u. P (handle_duo_update E d u s)"
    "\<And>a. P (handle_acquire E d a s)"
    "owner s = d \<Longrightarrow> radio s \<Longrightarrow> \<not> stream_thread_started s \<Longrightarrow> \<not> mode_swap_paused s \<Longrightarrow> P (handle_start s)"
    "owner s = d \<Longrightarrow> radio s \<Longrightarrow> P (handle_stop E s)"
    "owner s = d \<Longrightarrow> P (handle_release E d s)"
    "\<And>c. owner s = d \<Longrightarrow> P (handle_configure E c s)"
    "\<And>c. owner s = d \<Longrightarrow> P (handle_configure_dual E c s)"
    "\<And>w. owner s = d \<Longrightarrow> configured s \<Longrightarrow> \<not> dual_mode s \<Longrightarrow> P (handle_swap_tuner E w s)"
    "\<And>w. owner s = d \<Longrightarrow> configured s \<Longrightarrow> P (handle_swap_mode E w s)"
    "owner s = d \<Longrightarrow> configured s \<Longrightarrow> mode_swap_paused s \<Longrightarrow> P (handle_resume_mode s)"
    "\<And>u. owner s = d \<Longrightarrow> P (handle_update E u s)"
  shows "P (dispatch E d h p s)"
  unfolding dispatch_def
  by (intro if_intro [where P = P]; (elim conjE)?; rule assms; assumption)

end
