(* ===== verification/Rsp_Owner.thy ===== *)
theory Rsp_Owner
  imports Rsp_Frame
begin

text \<open>
  Who may use the receiver: the invariant that ties the single owner, the API lock, the
  RSPduo session and the client table together, and its preservation by every request,
  disconnection, eviction, recovery and stream step.
\<close>

subsection \<open>The invariant\<close>

text \<open>A descriptor field is unset or names a connected client.\<close>

definition fd_known :: "descriptor set \<Rightarrow> descriptor \<Rightarrow> bool" where
  "fd_known C d \<longleftrightarrow> d = -1 \<or> (0 \<le> d \<and> d \<in> C)"

text \<open>
  The session is well formed; it is active exactly while a master holds it; an active
  session excludes a single owner; and every descriptor remembered belongs to a client.
\<close>

definition own_fields :: "descriptor set \<Rightarrow> descriptor \<Rightarrow> descriptor \<Rightarrow> duo_session \<Rightarrow> bool \<Rightarrow> bool" where
  "own_fields C own lock du active \<longleftrightarrow>
     duo_inv du \<and> (active \<longleftrightarrow> master_selected du) \<and> (active \<longrightarrow> own = -1) \<and>
     fd_known C own \<and> fd_known C lock \<and> fd_known C (master_fd du) \<and> fd_known C (slave_fd du)"

abbreviation own_ok :: "descriptor set \<Rightarrow> daemon_state \<Rightarrow> bool" where
  "own_ok C s \<equiv> own_fields C (owner s) (api_lock_owner s) (duo s) (duo_active s)"

text \<open>No two slots of the client table hold the same descriptor.\<close>

definition table_ok :: "descriptor list \<Rightarrow> bool" where
  "table_ok clients \<longleftrightarrow> length clients = OPENRSPD_MAX_CLIENTS \<and>
     (\<forall>i < length clients. \<forall>j < length clients.
        i \<noteq> j \<and> 0 \<le> clients ! i \<longrightarrow> clients ! i \<noteq> clients ! j)"

definition own_inv :: "server \<Rightarrow> bool" where
  "own_inv sv \<longleftrightarrow> (case sv of (s, clients) \<Rightarrow> table_ok clients \<and> own_ok (set clients) s)"

lemma fd_known_unset [simp]: "fd_known C (-1)"
  by (simp add: fd_known_def)

lemma fd_known_client: "0 \<le> d \<Longrightarrow> d \<in> C \<Longrightarrow> fd_known C d"
  by (simp add: fd_known_def)

subsection \<open>The session operations\<close>

lemma duo_acquire_unchanged:
  "fst (openrspd_duo_acquire s d role t rate) \<noteq> OPENRSPD_DUO_OK \<Longrightarrow>
   fst (snd (openrspd_duo_acquire s d role t rate)) = s"
  by (auto simp: openrspd_duo_acquire_def split: if_splits)

lemma duo_acquire_selected:
  "fst (openrspd_duo_acquire s d role t rate) = OPENRSPD_DUO_OK \<Longrightarrow>
   master_selected (fst (snd (openrspd_duo_acquire s d role t rate)))"
  by (auto simp: openrspd_duo_acquire_def split: if_splits)

lemma duo_acquire_fds:
  "master_fd (fst (snd (openrspd_duo_acquire s d role t rate))) \<in> {master_fd s, d}"
  "slave_fd (fst (snd (openrspd_duo_acquire s d role t rate))) \<in> {slave_fd s, d}"
  by (simp_all add: openrspd_duo_acquire_def)

lemma duo_initialise_fields [simp]:
  "master_fd (fst (snd (openrspd_duo_initialise s d))) = master_fd s"
  "slave_fd (fst (snd (openrspd_duo_initialise s d))) = slave_fd s"
  "master_selected (fst (snd (openrspd_duo_initialise s d))) = master_selected s"
  by (simp_all add: openrspd_duo_initialise_def)

lemma duo_uninitialise_fields [simp]:
  "master_fd (fst (snd (openrspd_duo_uninitialise s d))) = master_fd s"
  "slave_fd (fst (snd (openrspd_duo_uninitialise s d))) = slave_fd s"
  "master_selected (fst (snd (openrspd_duo_uninitialise s d))) = master_selected s"
  by (simp_all add: openrspd_duo_uninitialise_def)

text \<open>Withdrawing an initialisation that cannot be completed restores the session.\<close>

lemma duo_initialise_master_undo:
  "fst (openrspd_duo_initialise s d) = OPENRSPD_DUO_OK \<Longrightarrow> descriptor_is_master s d \<Longrightarrow>
   (fst (snd (openrspd_duo_initialise s d)))\<lparr>master_initialised := False\<rparr> = s"
  by (cases s) (simp add: openrspd_duo_initialise_def split: if_splits)

lemma duo_initialise_slave_undo:
  "fst (openrspd_duo_initialise s d) = OPENRSPD_DUO_OK \<Longrightarrow> \<not> descriptor_is_master s d \<Longrightarrow>
   (fst (snd (openrspd_duo_initialise s d)))\<lparr>slave_initialised := False\<rparr> = s"
  by (cases s) (simp add: openrspd_duo_initialise_def split: if_splits)

lemma role_master_iff:
  "duo_role_descriptor s d = Some role \<Longrightarrow>
   duo_active s \<and> (role = OPENRSPD_DUO_ROLE_MASTER \<longleftrightarrow> descriptor_is_master (duo s) d) \<and>
   (role = OPENRSPD_DUO_ROLE_SLAVE \<longleftrightarrow> \<not> descriptor_is_master (duo s) d \<and> descriptor_is_slave (duo s) d)"
  by (auto simp: duo_role_descriptor_def openrspd_duo_role_for_descriptor_def Let_def split: if_splits)

lemma own_fields_acquire:
  assumes "own_fields C own lock du active" "own = -1" "0 \<le> d" "d \<in> C"
  shows "own_fields C own lock (fst (snd (openrspd_duo_acquire du d role t rate)))
    (if fst (openrspd_duo_acquire du d role t rate) = OPENRSPD_DUO_OK then True else active)"
proof -
  let ?r = "openrspd_duo_acquire du d role t rate"
  have "duo_inv (fst (snd ?r))" using assms(1) by (auto simp: own_fields_def)
  moreover have "fd_known C (master_fd (fst (snd ?r)))" "fd_known C (slave_fd (fst (snd ?r)))"
    using duo_acquire_fds [of du d role t rate] assms fd_known_client [OF assms(3,4)]
    by (auto simp: own_fields_def)
  ultimately show ?thesis
    using assms(1,2) duo_acquire_selected [of du d role t rate] duo_acquire_unchanged [of du d role t rate]
    by (auto simp: own_fields_def)
qed

lemma own_fields_initialise:
  "own_fields C own lock du active \<Longrightarrow>
   own_fields C own lock (fst (snd (openrspd_duo_initialise du d))) active"
  by (auto simp: own_fields_def)

lemma own_fields_uninitialise:
  "own_fields C own lock du active \<Longrightarrow>
   own_fields C own lock (fst (snd (openrspd_duo_uninitialise du d))) active"
  by (auto simp: own_fields_def)

lemma duo_session_init_fields [simp]:
  "master_selected openrspd_duo_session_init = False"
  "slave_selected openrspd_duo_session_init = False"
  "master_fd openrspd_duo_session_init = -1" "slave_fd openrspd_duo_session_init = -1"
  by (simp_all add: openrspd_duo_session_init_def)

lemma own_fields_init:
  "own_fields C own lock du active \<Longrightarrow> own_fields C own lock openrspd_duo_session_init False"
  by (auto simp: own_fields_def)

lemma duo_release_cases:
  "openrspd_duo_release du d = (r, du', e) \<Longrightarrow>
   du' = du \<and> r \<noteq> OPENRSPD_DUO_OK \<or> r = OPENRSPD_DUO_OK \<and> (du' = openrspd_duo_session_init \<or>
     du' = du\<lparr>slave_fd := -1, slave_tuner := 0, slave_selected := False, slave_initialised := False\<rparr>)"
  by (auto simp: openrspd_duo_release_def split: if_splits)

lemma own_fields_slave_gone:
  "own_fields C own lock du active \<Longrightarrow>
   own_fields C own lock
     (du\<lparr>slave_fd := -1, slave_tuner := 0, slave_selected := False, slave_initialised := False\<rparr>) active"
  by (auto simp: own_fields_def duo_inv_def split: if_splits)

lemma own_fields_rate:
  "own_fields C own lock du active \<Longrightarrow> active \<Longrightarrow> rate = 6000000 \<or> rate = 8000000 \<Longrightarrow>
   own_fields C own lock (du\<lparr>duo_sample_rate_hz := rate\<rparr>) active"
  by (auto simp: own_fields_def duo_inv_def valid_rate_def)

lemma own_fields_active: "own_fields C own lock du active \<Longrightarrow> active \<longleftrightarrow> master_selected du"
  by (simp add: own_fields_def)

subsection \<open>Handlers\<close>

lemma handle_list_own [simp]: "own_ok C s \<Longrightarrow> own_ok C (snd (handle_list E s))"
  by (simp add: handle_list_def op_simps)

lemma handle_lock_api_own [simp]:
  "own_ok C s \<Longrightarrow> 0 \<le> d \<Longrightarrow> d \<in> C \<Longrightarrow> own_ok C (snd (handle_lock_api d s))"
  by (auto simp: handle_lock_api_def own_fields_def fd_known_def)

lemma handle_unlock_api_own [simp]: "own_ok C s \<Longrightarrow> own_ok C (snd (handle_unlock_api d s))"
  by (auto simp: handle_unlock_api_def release_api_lock_def own_fields_def)

lemma duo_acquire_session_own:
  assumes "own_ok C s" "owner s = -1" "0 \<le> d" "d \<in> C"
  shows "own_ok C (snd (duo_acquire_session d a i s))"
proof -
  obtain q du e where eq: "openrspd_duo_acquire (duo s) d
      (if da_role a = OPENRSP_DUO_ROLE_MASTER then OPENRSPD_DUO_ROLE_MASTER
       else OPENRSPD_DUO_ROLE_SLAVE) (da_tuner a) (da_sample_rate_hz a) = (q, du, e)"
    by (metis prod_cases3)
  have "own_fields C (owner s) (api_lock_owner s) du
      (if q = OPENRSPD_DUO_OK then True else duo_active s)"
    using own_fields_acquire [OF assms, of "if da_role a = 1 then 1 else 2" "da_tuner a"
        "da_sample_rate_hz a"] unfolding eq by simp
  then show ?thesis
    unfolding duo_acquire_session_def eq by (cases "q = OPENRSPD_DUO_OK") (simp_all add: Let_def)
qed

lemma handle_duo_acquire_own [simp]:
  assumes "own_ok C s" "0 \<le> d" "d \<in> C"
  shows "own_ok C (snd (handle_duo_acquire E d a s))"
proof (cases "owner s \<ge> 0")
  case False
  with assms(1) have "owner s = -1" by (auto simp: own_fields_def fd_known_def)
  with assms show ?thesis
    by (auto simp: handle_duo_acquire_def op_simps duo_acquire_session_own split: sum.split)
qed (use assms in \<open>simp add: handle_duo_acquire_def\<close>)

lemma handle_duo_configure_own [simp]: "own_ok C s \<Longrightarrow> own_ok C (snd (handle_duo_configure E d c s))"
  by (simp add: handle_duo_configure_def op_simps split: option.split)

lemma handle_duo_start_own [simp]:
  assumes "own_ok C s"
  shows "own_ok C (snd (handle_duo_start E d s))"
proof (cases "duo_role_descriptor s d")
  case (Some role)
  note r = role_master_iff [OF Some]
  note i = own_fields_initialise [OF assms, of d]
  show ?thesis
    using assms i r duo_initialise_master_undo [of "duo s" d] duo_initialise_slave_undo [of "duo s" d]
    by (auto simp: handle_duo_start_def Some op_simps)
qed (use assms in \<open>simp add: handle_duo_start_def\<close>)

lemma handle_duo_stop_own [simp]: "own_ok C s \<Longrightarrow> own_ok C (snd (handle_duo_stop E d s))"
  by (simp add: handle_duo_stop_def op_simps own_fields_uninitialise split: option.split)

lemma handle_duo_release_own [simp]:
  assumes "own_ok C s"
  shows "own_ok C (snd (handle_duo_release E d s))"
proof (cases "duo_role_descriptor s d")
  case (Some role)
  obtain r du' e where rel: "openrspd_duo_release (duo s) d = (r, du', e)" by (metis prod_cases3)
  note a = own_fields_active [OF assms] role_master_iff [OF Some]
  show ?thesis
    using duo_release_cases [OF rel] own_fields_init [OF assms] own_fields_slave_gone [OF assms] assms a
    by (auto simp: handle_duo_release_def Some rel op_simps)
qed (use assms in \<open>simp add: handle_duo_release_def\<close>)

lemma duo_swap_rate_hardware_own:
  assumes "own_ok C s" "duo_active s" "rate = 6000000 \<or> rate = 8000000"
  shows "own_ok C (snd (duo_swap_rate_hardware E rate s))"
proof -
  have "own_fields C (owner s) (api_lock_owner s) (duo s\<lparr>duo_sample_rate_hz := rate\<rparr>) (duo_active s)"
    using assms by (rule own_fields_rate)
  with assms(1) show ?thesis
    by (simp add: duo_swap_rate_hardware_def op_simps)
qed

lemma handle_duo_swap_rate_own [simp]:
  assumes "own_ok C s"
  shows "own_ok C (snd (handle_duo_swap_rate E d rate s))"
proof (cases "duo_role_descriptor s d")
  case (Some role)
  with assms role_master_iff [OF Some] show ?thesis
    by (auto simp: handle_duo_swap_rate_def op_simps intro: duo_swap_rate_hardware_own)
qed (use assms in \<open>simp add: handle_duo_swap_rate_def\<close>)

lemma handle_duo_update_own [simp]: "own_ok C s \<Longrightarrow> own_ok C (snd (handle_duo_update E d u s))"
  by (simp add: handle_duo_update_def op_simps split: option.split)

lemma own_fields_owner:
  "own_fields C own lock du False \<Longrightarrow> 0 \<le> d \<Longrightarrow> d \<in> C \<Longrightarrow> own_fields C d lock du False"
  by (simp add: own_fields_def fd_known_def)

lemma own_fields_no_owner: "own_fields C own lock du active \<Longrightarrow> own_fields C (-1) lock du active"
  by (simp add: own_fields_def)

lemma handle_acquire_own [simp]:
  assumes "own_ok C s" "0 \<le> d" "d \<in> C"
  shows "own_ok C (snd (handle_acquire E d a s))"
proof (cases "duo_active s")
  case False
  with assms have "own_fields C d (api_lock_owner s) (duo s) False"
    by (auto intro: own_fields_owner)
  with assms False show ?thesis
    by (simp add: handle_acquire_def op_simps split: sum.split)
qed (use assms in \<open>simp add: handle_acquire_def\<close>)

lemma duo_disconnect_cases:
  "openrspd_duo_disconnect du d = (r, du', e) \<Longrightarrow>
   du' = du \<or> du' = openrspd_duo_session_init \<or>
     du' = du\<lparr>slave_fd := -1, slave_tuner := 0, slave_selected := False, slave_initialised := False\<rparr>"
  by (auto simp: openrspd_duo_disconnect_def split: if_splits)

lemma release_duo_client_own [simp]:
  assumes "own_ok C s" "duo_active s"
  shows "own_ok C (release_duo_client E d s)"
proof -
  obtain r du' e where dis: "openrspd_duo_disconnect (duo s) d = (r, du', e)" by (metis prod_cases3)
  show ?thesis
    using duo_disconnect_cases [OF dis] own_fields_init [OF assms(1)]
      own_fields_slave_gone [OF assms(1)] assms own_fields_active [OF assms(1)]
    by (auto simp: release_duo_client_def dis op_simps)
qed

lemma release_owner_own [simp]: "own_ok C s \<Longrightarrow> own_ok C (release_owner E s)"
  by (simp add: release_owner_def Let_def own_fields_no_owner)

lemma release_client_own [simp]: "own_ok C s \<Longrightarrow> own_ok C (release_client E d s)"
  by (auto simp: release_client_def intro: release_duo_client_own release_owner_own
      simp del: release_duo_client_own release_owner_own)

lemma handle_start_own [simp]: "own_ok C s \<Longrightarrow> own_ok C (snd (handle_start s))"
  by (simp add: handle_start_def)

lemma handle_stop_own [simp]: "own_ok C s \<Longrightarrow> own_ok C (snd (handle_stop E s))"
  by (simp add: handle_stop_def op_simps)

lemma handle_release_own [simp]: "own_ok C s \<Longrightarrow> own_ok C (snd (handle_release E d s))"
  by (simp add: handle_release_def)

lemma handle_configure_own [simp]: "own_ok C s \<Longrightarrow> own_ok C (snd (handle_configure E c s))"
  by (simp add: handle_configure_def op_simps)

lemma handle_configure_dual_own [simp]: "own_ok C s \<Longrightarrow> own_ok C (snd (handle_configure_dual E dc s))"
  by (simp add: handle_configure_dual_def op_simps)

lemma stop_and_close_frame [simp]:
  "owner (snd (stop_and_close E w s)) = owner s"
  "api_lock_owner (snd (stop_and_close E w s)) = api_lock_owner s"
  "duo (snd (stop_and_close E w s)) = duo s" "duo_active (snd (stop_and_close E w s)) = duo_active s"
  by (simp_all add: stop_and_close_def op_simps)

lemma handle_swap_tuner_own [simp]: "own_ok C s \<Longrightarrow> own_ok C (snd (handle_swap_tuner E sw s))"
  by (simp add: handle_swap_tuner_def op_simps)

lemma handle_swap_mode_own [simp]: "own_ok C s \<Longrightarrow> own_ok C (snd (handle_swap_mode E sw s))"
  by (simp add: handle_swap_mode_def op_simps)

lemma handle_resume_mode_own [simp]: "own_ok C s \<Longrightarrow> own_ok C (snd (handle_resume_mode s))"
  by (simp add: handle_resume_mode_def)

lemma handle_update_own [simp]: "own_ok C s \<Longrightarrow> own_ok C (snd (handle_update E u s))"
  by (simp add: handle_update_def op_simps)

lemma dispatch_own [simp]:
  "own_ok C s \<Longrightarrow> 0 \<le> d \<Longrightarrow> d \<in> C \<Longrightarrow> own_ok C (snd (dispatch E d h p s))"
  by (rule dispatch_rule [where P = "\<lambda>x. own_ok C (snd x)"]) simp_all

subsection \<open>Answering, clients and steps\<close>

lemma send_listed_frame [simp]:
  "owner (snd (send_listed E d q rs s)) = owner s \<and>
   api_lock_owner (snd (send_listed E d q rs s)) = api_lock_owner s \<and>
   duo (snd (send_listed E d q rs s)) = duo s \<and> duo_active (snd (send_listed E d q rs s)) = duo_active s"
  by (induction rs arbitrary: s) (simp_all add: op_simps)

lemma start_after_frame [simp]:
  "own_ok C (snd (start_after_duo E rp s)) = own_ok C s"
  "own_ok C (snd (start_after_start E h rp s)) = own_ok C s"
  "own_ok C (snd (start_after_change E h rp s)) = own_ok C s"
  by (simp_all add: start_after_duo_def start_after_start_def start_after_change_def op_simps)

lemma respond_own [simp]: "own_ok C (snd (respond E d h rp s)) = own_ok C s"
  by (simp add: respond_def op_simps)

lemma serve_request_own [simp]:
  "own_ok C s \<Longrightarrow> 0 \<le> d \<Longrightarrow> d \<in> C \<Longrightarrow> own_ok C (snd (serve_request E d h p s))"
  by (simp add: serve_request_def op_simps)

text \<open>Once a client is released, nothing refers to it any more.\<close>

lemma release_client_forgets:
  assumes "own_ok C s" "0 \<le> d"
  shows "owner (release_client E d s) \<noteq> d" "master_fd (duo (release_client E d s)) \<noteq> d"
    "slave_fd (duo (release_client E d s)) \<noteq> d"
proof -
  have inv: "duo_inv (duo s)" and act: "duo_active s \<longleftrightarrow> master_selected (duo s)"
    and own: "duo_active s \<longrightarrow> owner s = -1"
    using assms(1) by (auto simp: own_fields_def)
  have "owner (release_client E d s) \<noteq> d \<and> master_fd (duo (release_client E d s)) \<noteq> d \<and>
    slave_fd (duo (release_client E d s)) \<noteq> d"
  proof (cases "duo_active s")
    case True
    show ?thesis
    proof (cases "openrspd_duo_role_for_descriptor (duo s) d = OPENRSPD_DUO_ROLE_NONE")
      case True
      with \<open>duo_active s\<close> inv act own assms(2) show ?thesis
        by (auto simp: release_client_def openrspd_duo_role_for_descriptor_def duo_inv_def rsp_defs
            split: if_splits)
    next
      case False
      with \<open>duo_active s\<close> inv act own assms(2) show ?thesis
        by (auto simp: release_client_def release_duo_client_def op_simps
            openrspd_duo_disconnect_def openrspd_duo_role_for_descriptor_def duo_inv_def rsp_defs
            split: if_splits)
    qed
  next
    case False
    with inv act assms(2) have "master_fd (duo s) = -1" "slave_fd (duo s) = -1"
      by (auto simp: duo_inv_def split: if_splits)
    with False assms(2) show ?thesis
      by (simp add: release_client_def release_owner_def Let_def)
  qed
  then show "owner (release_client E d s) \<noteq> d" "master_fd (duo (release_client E d s)) \<noteq> d"
    "slave_fd (duo (release_client E d s)) \<noteq> d" by simp_all
qed

lemma own_fields_without:
  "own_fields C own lock du active \<Longrightarrow> own \<noteq> d \<Longrightarrow> lock \<noteq> d \<Longrightarrow> master_fd du \<noteq> d \<Longrightarrow>
   slave_fd du \<noteq> d \<Longrightarrow> C - {d} \<subseteq> C' \<Longrightarrow> own_fields C' own lock du active"
  by (auto simp: own_fields_def fd_known_def)

lemma own_fields_known:
  "own_fields C own lock du active \<Longrightarrow> (\<And>d. fd_known C d \<Longrightarrow> fd_known C' d) \<Longrightarrow>
   own_fields C' own lock du active"
  by (simp add: own_fields_def)

lemma own_fields_unlock: "own_fields C own lock du active \<Longrightarrow> own_fields C own (-1) du active"
  by (simp add: own_fields_def)

lemma set_update_superset: "i < length xs \<Longrightarrow> set xs - {xs ! i} \<subseteq> set (xs[i := x])"
  by (auto simp: in_set_conv_nth nth_list_update) metis

lemma table_ok_free [simp]:
  assumes "table_ok clients"
  shows "table_ok (clients[i := -1])"
proof (cases "i < length clients")
  case True
  with assms show ?thesis by (auto simp: table_ok_def nth_list_update)
qed (use assms in \<open>simp add: list_update_beyond\<close>)

lemma remove_client_own [simp]:
  assumes "own_inv sv" "i < length (snd sv)"
  shows "own_inv (remove_client E i sv)"
proof -
  obtain s clients where sv: "sv = (s, clients)" by (cases sv)
  let ?d = "clients ! i" let ?s = "release_api_lock ?d (release_client E ?d s)"
  show ?thesis
  proof (cases "?d < 0")
    case False
    have ok: "own_ok (set clients) (release_client E ?d s)"
      using assms by (simp add: own_inv_def sv)
    then have ok': "own_ok (set clients) ?s" by (simp add: release_api_lock_def own_fields_unlock)
    have forgot: "owner ?s \<noteq> ?d" "master_fd (duo ?s) \<noteq> ?d" "slave_fd (duo ?s) \<noteq> ?d"
      using release_client_forgets [of "set clients" s ?d E] assms False
      by (simp_all add: release_api_lock_def own_inv_def sv)
    have lock: "api_lock_owner ?s \<noteq> ?d" using False by (simp add: release_api_lock_def)
    have "set clients - {?d} \<subseteq> set (clients[i := -1])"
      using assms(2) by (simp add: sv set_update_superset)
    then have "own_ok (set (clients[i := -1])) ?s"
      by (rule own_fields_without [OF ok' forgot(1) lock forgot(2,3)])
    with False assms show ?thesis by (simp add: sv remove_client_def own_inv_def Let_def)
  qed (use assms in \<open>simp add: sv remove_client_def\<close>)
qed

lemma remove_client_length [simp]: "length (snd (remove_client E i sv)) = length (snd sv)"
  by (cases sv) (simp add: remove_client_def Let_def)

lemma first_index_Some:
  assumes "first_index P xs = Some i"
  shows "i < length xs" "P (xs ! i)"
  using assms by (auto simp: first_index_def find_Some_iff)

lemma accept_client_own [simp]:
  assumes "own_inv sv" "0 \<le> d" "d \<notin> set (snd sv)"
  shows "own_inv (accept_client d sv)"
proof -
  obtain s clients where sv: "sv = (s, clients)" by (cases sv)
  show ?thesis
  proof (cases "first_index (\<lambda>d. \<not> d \<ge> 0) clients")
    case (Some i)
    note i = first_index_Some [OF Some]
    from assms(1) have ok: "own_ok (set clients) s" "table_ok clients" by (simp_all add: own_inv_def sv)
    have "fd_known (set (clients[i := d])) x" if "fd_known (set clients) x" for x
      using that i(2) set_update_superset [OF i(1), of d] by (auto simp: fd_known_def)
    with ok(1) have "own_ok (set (clients[i := d])) s" by (rule own_fields_known)
    moreover have "table_ok (clients[i := d])"
      using ok(2) assms(2,3) i(1) by (auto simp: table_ok_def nth_list_update sv)
    ultimately show ?thesis by (simp add: sv accept_client_def Some own_inv_def)
  qed (use assms in \<open>simp add: sv accept_client_def\<close>)
qed

lemma serve_slot_own [simp]:
  assumes "own_inv sv" "i < length (snd sv)"
  shows "own_inv (serve_slot E i rcv sv)"
proof -
  obtain s clients where sv: "sv = (s, clients)" by (cases sv)
  have "own_inv (snd (serve_request E (clients ! i) h p s), clients)" if "\<not> clients ! i < 0" for h p
    using assms that by (simp add: sv own_inv_def)
  with assms show ?thesis
    by (auto simp: sv serve_slot_def op_simps split: sum.split)
qed

lemma evict_failed_client_own [simp]:
  assumes "own_inv sv"
  shows "own_inv (evict_failed_client E sv)"
proof -
  obtain s clients where sv: "sv = (s, clients)" by (cases sv)
  let ?s = "s\<lparr>client_write_error := False, client_write_error_fd := -1\<rparr>"
  have "own_inv (?s, clients)" using assms by (simp add: sv own_inv_def)
  then show ?thesis
    by (auto simp: sv evict_failed_client_def Let_def dest: first_index_Some split: option.split)
qed

lemma daemon_step_own: "own_inv sv \<Longrightarrow> daemon_step E sv a sv' \<Longrightarrow> own_inv sv'"
  by (erule daemon_stepE)
     (simp_all add: evict_failed_client_own, simp_all add: own_inv_def stream_callback_def dual_stream_callback_def)

lemma own_inv_init: "own_inv server_init"
  by (simp add: own_inv_def server_init_def table_ok_def own_fields_def daemon_init_def fd_known_def)

interpretation owner_sys: invariant_system "daemon_step E" own_inv
  by unfold_locales (rule daemon_step_own)

end
