(* ===== verification/Rsp_Radio.thy ===== *)
theory Rsp_Radio
  imports Rsp_Frame
begin

text \<open>
  The discipline the daemon keeps towards the radio handle: it opens only when it holds
  none, and it uses and closes only the handle it holds. A monitor reads the trace of
  calls with their results; every operation takes a state in which the monitor agrees
  with \<open>radio\<close> to such a state.
\<close>

subsection \<open>The monitor\<close>

fun radio_use :: "io_call \<Rightarrow> bool" where
  "radio_use (Configure_rspduo _ _ _ _ _ _) = True"
| "radio_use (Configure_rspduo_dual _ _ _ _ _ _ _ _ _) = True"
| "radio_use (Set_rspduo_controls _ _ _ _ _ _ _ _) = True"
| "radio_use (Set_rspduo_gain _ _) = True"
| "radio_use (Set_sample_rate _) = True"
| "radio_use (Set_center_freq _) = True"
| "radio_use (Set_bandwidth _) = True"
| "radio_use (Set_if_freq _) = True"
| "radio_use (Update_rspduo_dual _ _ _ _) = True"
| "radio_use Streaming_stop = True"
| "radio_use Cancel_async = True"
| "radio_use _ = False"

text \<open>
  \<open>Some (opened, kept)\<close>: no violation so far; the handle opened last has been neither
  closed nor given up iff \<open>opened\<close>; and some close was answered \<open>-EBUSY\<close> iff \<open>kept\<close>. Such a
  close leaves the handle with the library, whose transfers could not be ended; the daemon
  has given it up, so a later use or close of it would be a violation, as for a handle that
  was closed.
\<close>

fun hw_step :: "(bool \<times> bool) option \<Rightarrow> io_call \<times> int \<Rightarrow> (bool \<times> bool) option" where
  "hw_step None _ = None"
| "hw_step (Some (opened, kept)) (Open_tuner i t, r) = (if opened then None else Some (r = 0, kept))"
| "hw_step (Some (opened, kept)) (Close_radio, r) =
     (if opened then Some (False, kept \<or> r = - EBUSY) else None)"
| "hw_step (Some (opened, kept)) (c, r) = (if radio_use c \<and> \<not> opened then None else Some (opened, kept))"

definition hw_state :: "io_trace \<Rightarrow> (bool \<times> bool) option" where
  "hw_state tr = foldl hw_step (Some (False, False)) tr"

lemma hw_state_Nil [simp]: "hw_state [] = Some (False, False)"
  by (simp add: hw_state_def)

lemma hw_state_append [simp]: "hw_state (tr @ xs) = foldl hw_step (hw_state tr) xs"
  by (simp add: hw_state_def)

text \<open>The daemon's pointer and its loop flag agree with the monitor.\<close>

abbreviation hw_ok :: "daemon_state \<Rightarrow> bool" where
  "hw_ok s \<equiv> hw_state (trace s) = Some (radio s, \<not> running s)"

subsection \<open>Operations that keep the handle\<close>

lemma write_control_frame_radio [simp]: "radio (snd (write_control_frame E d t q p s)) = radio s"
  by (simp add: write_control_frame_def)

lemma send_duo_event_radio [simp]: "radio (snd (send_duo_event E e s)) = radio s"
  by (simp add: send_duo_event_def)

lemma stream_main_return_radio [simp]: "radio (stream_main_return E s) = radio s"
  by (simp add: stream_main_return_def op_simps)

lemma create_stream_thread_radio [simp]: "radio (snd (create_stream_thread E s)) = radio s"
  by (simp add: create_stream_thread_def op_simps)

lemma join_stream_thread_radio [simp]: "radio (snd (join_stream_thread E s)) = radio s"
  by (simp add: join_stream_thread_def)

lemma set_gain_radio [simp]: "radio (snd (set_gain E c s)) = radio s"
  by (simp add: set_gain_def)

lemma stop_stream_radio [simp]: "radio (snd (stop_stream E s)) = radio s"
  by (simp add: stop_stream_def op_simps)

lemma set_rspduo_controls_radio [simp]: "radio (snd (set_rspduo_controls E c fl s)) = radio s"
  by (simp add: set_rspduo_controls_def op_simps)

lemma set_rspduo_sample_rate_radio [simp]: "radio (snd (set_rspduo_sample_rate E c s)) = radio s"
  by (simp add: set_rspduo_sample_rate_def)

lemma apply_config_radio [simp]: "radio (snd (apply_config E c s)) = radio s"
  by (simp add: apply_config_def op_simps)

lemma bootstrap_scan_radio [simp]: "radio (snd (bootstrap_scan E ix s)) = radio s"
  by (induction ix arbitrary: s) (simp_all add: op_simps)

lemma bootstrap_passes_radio [simp]: "radio (bootstrap_passes E n s) = radio s"
  by (induction n arbitrary: s) (simp_all add: op_simps)

lemma enumerate_devices_radio [simp]: "radio (snd (enumerate_devices E ix rs s)) = radio s"
  by (induction ix arbitrary: rs s) (simp_all add: op_simps)

lemma snapshot_fresh_radio [simp]: "radio (snd (snapshot_fresh E s)) = radio s"
  by (simp add: snapshot_fresh_def op_simps)

lemma snapshot_sdrplay_devices_radio [simp]: "radio (snd (snapshot_sdrplay_devices E s)) = radio s"
  by (simp add: snapshot_sdrplay_devices_def op_simps)

lemma resolve_acquired_device_radio [simp]: "radio (snd (resolve_acquired_device E s)) = radio s"
  by (simp add: resolve_acquired_device_def op_simps split: sum.split)

lemma program_dual_radio_radio [simp]: "radio (snd (program_dual_radio E dc s)) = radio s"
  by (simp add: program_dual_radio_def op_simps)

lemma send_removed_radio [simp]: "radio (send_removed E d t s) = radio s"
  by (simp add: send_removed_def op_simps)

lemma report_removed_device_radio [simp]: "radio (report_removed_device E s) = radio s"
  by (simp add: report_removed_device_def)

lemma monotonic_milliseconds_radio [simp]: "radio (snd (monotonic_milliseconds E s)) = radio s"
  by (simp add: monotonic_milliseconds_def op_simps)

lemma or_step_radio [simp]:
  "(\<And>s. radio (snd (f s)) = radio s) \<Longrightarrow> radio (snd (or_step b f x)) = radio (snd x)"
  by (simp add: or_step_def op_simps)

lemma try_step_radio [simp]:
  "(\<And>s. radio (snd (f s)) = radio s) \<Longrightarrow> radio (snd (try_step b f x)) = radio (snd x)"
  by (simp add: try_step_def op_simps)

lemma finish_recovery_config_radio [simp]: "radio (finish_recovery_config E s) = radio s"
  by (simp add: finish_recovery_config_def op_simps)

lemma apply_update_dual_radio [simp]: "radio (snd (apply_update_dual E u s)) = radio s"
  by (simp add: apply_update_dual_def op_simps)

lemma apply_update_radio [simp]: "radio (snd (apply_update E u s)) = radio s"
  by (simp add: apply_update_def op_simps)

lemma duo_prepare_config_radio [simp]: "radio (snd (duo_prepare_config s)) = radio s"
  by (simp add: duo_prepare_config_def op_simps)

lemma duo_apply_running_config_radio [simp]: "radio (snd (duo_apply_running_config E c s)) = radio s"
  by (simp add: duo_apply_running_config_def op_simps)

lemma deliver_iq_radio [simp]: "radio (deliver_iq E d ev q b s) = radio s"
  by (simp add: deliver_iq_def op_simps)

lemma send_stream_radio [simp]: "radio (send_stream E t b s) = radio s"
  by (simp add: send_stream_def op_simps)

lemma close_radio_radio [simp]: "radio (snd (close_radio E s)) = False"
  by (simp add: close_radio_def op_simps)

subsection \<open>Operations keep the discipline\<close>

lemma write_control_frame_hw [simp]: "hw_ok s \<Longrightarrow> hw_ok (snd (write_control_frame E d t q p s))"
  by (simp add: write_control_frame_def)

lemma send_duo_event_hw [simp]: "hw_ok s \<Longrightarrow> hw_ok (snd (send_duo_event E e s))"
  by (simp add: send_duo_event_def)

lemma stream_main_return_hw [simp]: "hw_ok s \<Longrightarrow> hw_ok (stream_main_return E s)"
  by (simp add: stream_main_return_def op_simps)

lemma create_stream_thread_hw [simp]: "hw_ok s \<Longrightarrow> hw_ok (snd (create_stream_thread E s))"
  by (simp add: create_stream_thread_def op_simps)

lemma join_stream_thread_hw [simp]: "hw_ok s \<Longrightarrow> hw_ok (snd (join_stream_thread E s))"
  by (simp add: join_stream_thread_def)

lemma set_gain_hw [simp]: "hw_ok s \<Longrightarrow> radio s \<Longrightarrow> hw_ok (snd (set_gain E c s))"
  by (simp add: set_gain_def)

lemma stop_stream_hw [simp]: "hw_ok s \<Longrightarrow> hw_ok (snd (stop_stream E s))"
  by (simp add: stop_stream_def op_simps)

lemma close_radio_hw [simp]: "hw_ok s \<Longrightarrow> hw_ok (snd (close_radio E s))"
  by (simp add: close_radio_def op_simps)

lemma set_rspduo_controls_hw [simp]: "hw_ok s \<Longrightarrow> radio s \<Longrightarrow> hw_ok (snd (set_rspduo_controls E c fl s))"
  by (simp add: set_rspduo_controls_def op_simps)

lemma set_rspduo_sample_rate_hw [simp]: "hw_ok s \<Longrightarrow> radio s \<Longrightarrow> hw_ok (snd (set_rspduo_sample_rate E c s))"
  by (simp add: set_rspduo_sample_rate_def)

lemma apply_config_hw [simp]: "hw_ok s \<Longrightarrow> radio s \<Longrightarrow> hw_ok (snd (apply_config E c s))"
  by (simp add: apply_config_def op_simps)

lemma bootstrap_scan_hw [simp]: "hw_ok s \<Longrightarrow> hw_ok (snd (bootstrap_scan E ix s))"
  by (induction ix arbitrary: s) (simp_all add: op_simps)

lemma bootstrap_passes_hw [simp]: "hw_ok s \<Longrightarrow> hw_ok (bootstrap_passes E n s)"
  by (induction n arbitrary: s) (simp_all add: op_simps)

lemma enumerate_devices_hw [simp]: "hw_ok s \<Longrightarrow> hw_ok (snd (enumerate_devices E ix rs s))"
  by (induction ix arbitrary: rs s) (simp_all add: op_simps)

lemma snapshot_fresh_hw [simp]: "hw_ok s \<Longrightarrow> hw_ok (snd (snapshot_fresh E s))"
  by (simp add: snapshot_fresh_def op_simps)

lemma snapshot_sdrplay_devices_hw [simp]: "hw_ok s \<Longrightarrow> hw_ok (snd (snapshot_sdrplay_devices E s))"
  by (simp add: snapshot_sdrplay_devices_def op_simps)

lemma resolve_acquired_device_hw [simp]: "hw_ok s \<Longrightarrow> hw_ok (snd (resolve_acquired_device E s))"
  by (simp add: resolve_acquired_device_def op_simps split: sum.split)

lemma configure_attempts_hw [simp]: "hw_ok s \<Longrightarrow> hw_ok (snd (configure_attempts E c n s))"
  by (induction n arbitrary: s) (simp_all add: op_simps split: sum.split)

lemma configure_radio_hw [simp]: "hw_ok s \<Longrightarrow> hw_ok (snd (configure_radio E c n s))"
  by (simp add: configure_radio_def op_simps)

lemma open_dual_radio_hw [simp]: "hw_ok s \<Longrightarrow> hw_ok (snd (open_dual_radio E s))"
  by (simp add: open_dual_radio_def op_simps split: sum.split)

lemma program_dual_radio_hw [simp]: "hw_ok s \<Longrightarrow> radio s \<Longrightarrow> hw_ok (snd (program_dual_radio E dc s))"
  by (simp add: program_dual_radio_def op_simps)

lemma open_dual_radio_opened: "fst (open_dual_radio E s) \<Longrightarrow> radio (snd (open_dual_radio E s))"
  by (simp add: open_dual_radio_def op_simps split: if_splits sum.splits)

lemma configure_dual_radio_hw [simp]: "hw_ok s \<Longrightarrow> hw_ok (snd (configure_dual_radio E dc s))"
  by (simp add: configure_dual_radio_def op_simps open_dual_radio_opened)

lemma send_removed_hw [simp]: "hw_ok s \<Longrightarrow> hw_ok (send_removed E d t s)"
  by (simp add: send_removed_def op_simps)

lemma report_removed_device_hw [simp]: "hw_ok s \<Longrightarrow> hw_ok (report_removed_device E s)"
  by (simp add: report_removed_device_def)

lemma recover_dual_stream_hw [simp]: "hw_ok s \<Longrightarrow> hw_ok (recover_dual_stream E s)"
  by (simp add: recover_dual_stream_def op_simps)

lemma recover_single_stream_hw [simp]: "hw_ok s \<Longrightarrow> hw_ok (recover_single_stream E s)"
  by (simp add: recover_single_stream_def op_simps)

lemma monotonic_milliseconds_hw [simp]: "hw_ok s \<Longrightarrow> hw_ok (snd (monotonic_milliseconds E s))"
  by (simp add: monotonic_milliseconds_def op_simps)

lemma recover_teardown_hw [simp]: "hw_ok s \<Longrightarrow> hw_ok (snd (recover_teardown E s))"
  by (simp add: recover_teardown_def op_simps)

lemma recover_unresolved_hw [simp]: "hw_ok s \<Longrightarrow> hw_ok (recover_unresolved E e s)"
  by (simp add: recover_unresolved_def op_simps)

lemma recover_resolved_hw [simp]: "hw_ok s \<Longrightarrow> hw_ok (recover_resolved E i s)"
  by (simp add: recover_resolved_def op_simps)

lemma recover_failed_stream_hw [simp]: "hw_ok s \<Longrightarrow> hw_ok (recover_failed_stream E s)"
  by (simp add: recover_failed_stream_def op_simps split: sum.split)

lemma or_step_hw [simp]:
  "hw_ok (snd x) \<Longrightarrow> radio (snd x) \<Longrightarrow> (\<And>s. hw_ok s \<Longrightarrow> radio s \<Longrightarrow> hw_ok (snd (f s))) \<Longrightarrow>
   hw_ok (snd (or_step b f x))"
  by (simp add: or_step_def op_simps)

lemma try_step_hw [simp]:
  "hw_ok (snd x) \<Longrightarrow> radio (snd x) \<Longrightarrow> (\<And>s. hw_ok s \<Longrightarrow> radio s \<Longrightarrow> hw_ok (snd (f s))) \<Longrightarrow>
   hw_ok (snd (try_step b f x))"
  by (simp add: try_step_def op_simps)

lemma finish_recovery_config_hw [simp]: "hw_ok s \<Longrightarrow> hw_ok (finish_recovery_config E s)"
  by (simp add: finish_recovery_config_def op_simps)

lemma apply_update_dual_hw [simp]: "hw_ok s \<Longrightarrow> radio s \<Longrightarrow> hw_ok (snd (apply_update_dual E u s))"
  by (simp add: apply_update_dual_def op_simps)

lemma apply_update_hw [simp]: "hw_ok s \<Longrightarrow> radio s \<Longrightarrow> hw_ok (snd (apply_update E u s))"
  by (simp add: apply_update_def op_simps)

lemma duo_prepare_config_hw [simp]: "hw_ok s \<Longrightarrow> hw_ok (snd (duo_prepare_config s))"
  by (simp add: duo_prepare_config_def op_simps)

lemma duo_reset_hardware_hw [simp]: "hw_ok s \<Longrightarrow> hw_ok (snd (duo_reset_hardware E s))"
  by (simp add: duo_reset_hardware_def op_simps)

lemma duo_apply_running_config_hw [simp]: "hw_ok s \<Longrightarrow> hw_ok (snd (duo_apply_running_config E c s))"
  by (simp add: duo_apply_running_config_def op_simps)

lemma deliver_iq_hw [simp]: "hw_ok s \<Longrightarrow> hw_ok (deliver_iq E d ev q b s)"
  by (simp add: deliver_iq_def op_simps)

lemma send_stream_hw [simp]: "hw_ok s \<Longrightarrow> hw_ok (send_stream E t b s)"
  by (simp add: send_stream_def op_simps)

lemma release_duo_client_hw [simp]: "hw_ok s \<Longrightarrow> hw_ok (release_duo_client E d s)"
  by (simp add: release_duo_client_def op_simps)

lemma release_owner_hw [simp]: "hw_ok s \<Longrightarrow> hw_ok (release_owner E s)"
  by (simp add: release_owner_def Let_def)

lemma release_client_hw [simp]: "hw_ok s \<Longrightarrow> hw_ok (release_client E d s)"
  by (simp add: release_client_def)

lemma release_api_lock_hw [simp]: "hw_ok s \<Longrightarrow> hw_ok (release_api_lock d s)"
  by (simp add: release_api_lock_def)

lemma shutdown_radio_hw [simp]: "hw_ok s \<Longrightarrow> hw_ok (shutdown_radio E s)"
  by (simp add: shutdown_radio_def op_simps)

subsection \<open>Handlers keep the discipline\<close>

lemma handle_list_hw [simp]: "hw_ok s \<Longrightarrow> hw_ok (snd (handle_list E s))"
  by (simp add: handle_list_def op_simps)

lemma handle_lock_api_hw [simp]: "hw_ok s \<Longrightarrow> hw_ok (snd (handle_lock_api d s))"
  by (simp add: handle_lock_api_def)

lemma handle_unlock_api_hw [simp]: "hw_ok s \<Longrightarrow> hw_ok (snd (handle_unlock_api d s))"
  by (simp add: handle_unlock_api_def)

lemma duo_acquire_identity_hw [simp]: "hw_ok s \<Longrightarrow> hw_ok (snd (duo_acquire_identity E a s))"
  by (simp add: duo_acquire_identity_def op_simps)

lemma duo_acquire_session_hw [simp]: "hw_ok s \<Longrightarrow> hw_ok (snd (duo_acquire_session d a i s))"
  by (simp add: duo_acquire_session_def op_simps)

lemma handle_duo_acquire_hw [simp]: "hw_ok s \<Longrightarrow> hw_ok (snd (handle_duo_acquire E d a s))"
  by (simp add: handle_duo_acquire_def op_simps split: sum.split)

lemma handle_duo_configure_hw [simp]: "hw_ok s \<Longrightarrow> hw_ok (snd (handle_duo_configure E d c s))"
  by (simp add: handle_duo_configure_def op_simps split: option.split)

lemma handle_duo_start_hw [simp]: "hw_ok s \<Longrightarrow> hw_ok (snd (handle_duo_start E d s))"
  by (simp add: handle_duo_start_def op_simps split: option.split)

lemma handle_duo_stop_hw [simp]: "hw_ok s \<Longrightarrow> hw_ok (snd (handle_duo_stop E d s))"
  by (simp add: handle_duo_stop_def op_simps split: option.split)

lemma handle_duo_release_hw [simp]: "hw_ok s \<Longrightarrow> hw_ok (snd (handle_duo_release E d s))"
  by (simp add: handle_duo_release_def op_simps split: option.split)

lemma duo_swap_rate_hardware_hw [simp]: "hw_ok s \<Longrightarrow> hw_ok (snd (duo_swap_rate_hardware E r s))"
  by (simp add: duo_swap_rate_hardware_def op_simps)

lemma handle_duo_swap_rate_hw [simp]: "hw_ok s \<Longrightarrow> hw_ok (snd (handle_duo_swap_rate E d r s))"
  by (simp add: handle_duo_swap_rate_def op_simps split: option.split)

lemma handle_duo_update_hw [simp]: "hw_ok s \<Longrightarrow> hw_ok (snd (handle_duo_update E d u s))"
  by (simp add: handle_duo_update_def op_simps split: option.split)

lemma handle_acquire_hw [simp]: "hw_ok s \<Longrightarrow> hw_ok (snd (handle_acquire E d a s))"
  by (simp add: handle_acquire_def op_simps split: sum.split)

lemma handle_start_hw [simp]: "hw_ok s \<Longrightarrow> hw_ok (snd (handle_start s))"
  by (simp add: handle_start_def)

lemma handle_stop_hw [simp]: "hw_ok s \<Longrightarrow> hw_ok (snd (handle_stop E s))"
  by (simp add: handle_stop_def op_simps)

lemma handle_release_hw [simp]: "hw_ok s \<Longrightarrow> hw_ok (snd (handle_release E d s))"
  by (simp add: handle_release_def)

lemma handle_configure_hw [simp]: "hw_ok s \<Longrightarrow> hw_ok (snd (handle_configure E c s))"
  by (simp add: handle_configure_def op_simps)

lemma handle_configure_dual_hw [simp]: "hw_ok s \<Longrightarrow> hw_ok (snd (handle_configure_dual E dc s))"
  by (simp add: handle_configure_dual_def op_simps)

lemma stop_and_close_hw [simp]: "hw_ok s \<Longrightarrow> hw_ok (snd (stop_and_close E w s))"
  by (simp add: stop_and_close_def op_simps)

lemma handle_swap_tuner_hw [simp]: "hw_ok s \<Longrightarrow> hw_ok (snd (handle_swap_tuner E sw s))"
  by (simp add: handle_swap_tuner_def op_simps)

lemma handle_swap_mode_hw [simp]: "hw_ok s \<Longrightarrow> hw_ok (snd (handle_swap_mode E sw s))"
  by (simp add: handle_swap_mode_def op_simps)

lemma handle_resume_mode_hw [simp]: "hw_ok s \<Longrightarrow> hw_ok (snd (handle_resume_mode s))"
  by (simp add: handle_resume_mode_def)

lemma handle_update_hw [simp]: "hw_ok s \<Longrightarrow> hw_ok (snd (handle_update E u s))"
  by (simp add: handle_update_def op_simps)

lemma dispatch_hw [simp]: "hw_ok s \<Longrightarrow> hw_ok (snd (dispatch E d h p s))"
  by (simp add: dispatch_def)

lemma send_listed_hw [simp]: "hw_ok s \<Longrightarrow> hw_ok (snd (send_listed E d q rs s))"
  by (induction rs arbitrary: s) (simp_all add: op_simps)

lemma start_after_duo_hw [simp]: "hw_ok s \<Longrightarrow> hw_ok (snd (start_after_duo E rp s))"
  by (simp add: start_after_duo_def op_simps)

lemma start_after_start_hw [simp]: "hw_ok s \<Longrightarrow> hw_ok (snd (start_after_start E h rp s))"
  by (simp add: start_after_start_def op_simps)

lemma start_after_change_hw [simp]: "hw_ok s \<Longrightarrow> hw_ok (snd (start_after_change E h rp s))"
  by (simp add: start_after_change_def op_simps)

lemma respond_hw [simp]: "hw_ok s \<Longrightarrow> hw_ok (snd (respond E d h rp s))"
  by (simp add: respond_def op_simps)

lemma serve_request_hw [simp]: "hw_ok s \<Longrightarrow> hw_ok (snd (serve_request E d h p s))"
  by (simp add: serve_request_def op_simps)

lemma remove_client_hw [simp]: "hw_ok (fst sv) \<Longrightarrow> hw_ok (fst (remove_client E i sv))"
  by (cases sv) (simp add: remove_client_def Let_def)

lemma serve_slot_hw [simp]: "hw_ok (fst sv) \<Longrightarrow> hw_ok (fst (serve_slot E i rcv sv))"
  by (cases sv) (simp add: serve_slot_def op_simps split: sum.split)

lemma accept_client_fst [simp]: "fst (accept_client d sv) = fst sv"
  by (cases sv) (simp add: accept_client_def split: option.split)

lemma evict_failed_client_hw [simp]: "hw_ok (fst sv) \<Longrightarrow> hw_ok (fst (evict_failed_client E sv))"
  by (cases sv) (simp add: evict_failed_client_def Let_def split: option.split)

lemma daemon_step_hw: "daemon_step E sv a sv' \<Longrightarrow> hw_ok (fst sv) \<Longrightarrow> hw_ok (fst sv')"
  by (erule daemon_stepE) (simp_all add: stream_callback_def dual_stream_callback_def)

interpretation radio_sys: invariant_system "daemon_step E" "\<lambda>sv. hw_ok (fst sv)"
  by unfold_locales (rule daemon_step_hw)

end
