(* ===== verification/Rsp_Response.thy ===== *)
theory Rsp_Response
  imports Rsp_Frame
begin

text \<open>
  The order of what a request sends: no handler writes a response or starts the stream
  thread; the part that answers writes exactly one response and only then the listed
  devices, the event for the peer and, last, starts the stream thread.
\<close>

subsection \<open>Marks\<close>

text \<open>The responses written and the threads started, in the order of the trace.\<close>

definition is_mark :: "io_call \<times> int \<Rightarrow> bool" where
  "is_mark x = (case fst x of Thread_create \<Rightarrow> True
     | Send d t q p \<Rightarrow> t = command_code OPENRSP_MSG_RESPONSE
     | _ \<Rightarrow> False)"

definition marks :: "io_trace \<Rightarrow> io_trace" where
  "marks tr = filter is_mark tr"

lemma marks_append [simp]: "marks (xs @ ys) = marks xs @ marks ys"
  by (simp add: marks_def)

lemma marks_Nil [simp]: "marks [] = []"
  by (simp add: marks_def)

lemma marks_Cons [simp]: "marks (x # xs) = (if is_mark x then x # marks xs else marks xs)"
  by (simp add: marks_def)

lemma is_mark_simps [simp]:
  "is_mark (Open_tuner i t, r) = False" "is_mark (Close_radio, r) = False"
  "is_mark (Open_candidate i, r) = False" "is_mark (Close_candidate, r) = False"
  "is_mark (Configure_rspduo a b c e f g, r) = False"
  "is_mark (Configure_rspduo_dual a b c e f g h j k, r) = False"
  "is_mark (Set_rspduo_controls a b c e f g h j, r) = False"
  "is_mark (Set_rspduo_gain a b, r) = False" "is_mark (Set_sample_rate a, r) = False"
  "is_mark (Set_center_freq a, r) = False" "is_mark (Set_bandwidth a, r) = False"
  "is_mark (Set_if_freq a, r) = False" "is_mark (Update_rspduo_dual a b c e, r) = False"
  "is_mark (Streaming_stop, r) = False" "is_mark (Cancel_async, r) = False"
  "is_mark (Get_device_count, r) = False" "is_mark (Device_requires_firmware i, r) = False"
  "is_mark (Get_device_info i, r) = False" "is_mark (Clock_gettime, r) = False"
  "is_mark (Thread_join, r) = False" "is_mark (Stream_return, r) = False"
  "is_mark (Thread_create, r) = True"
  "is_mark (Send d ty q p, r) = (ty = command_code OPENRSP_MSG_RESPONSE)"
  by (simp_all add: is_mark_def)

subsection \<open>Handlers leave no mark\<close>

lemma send_duo_event_marks [simp]: "marks (trace (snd (send_duo_event E e s))) = marks (trace s)"
  by (simp add: send_duo_event_def write_control_frame_def)

lemma stream_main_return_marks [simp]: "marks (trace (stream_main_return E s)) = marks (trace s)"
  by (simp add: stream_main_return_def op_simps)

lemma join_stream_thread_marks [simp]: "marks (trace (snd (join_stream_thread E s))) = marks (trace s)"
  by (simp add: join_stream_thread_def)

lemma set_gain_marks [simp]: "marks (trace (snd (set_gain E c s))) = marks (trace s)"
  by (simp add: set_gain_def)

lemma stop_stream_marks [simp]: "marks (trace (snd (stop_stream E s))) = marks (trace s)"
  by (simp add: stop_stream_def op_simps)

lemma close_radio_marks [simp]: "marks (trace (snd (close_radio E s))) = marks (trace s)"
  by (simp add: close_radio_def op_simps)

lemma set_rspduo_controls_marks [simp]: "marks (trace (snd (set_rspduo_controls E c fl s))) = marks (trace s)"
  by (simp add: set_rspduo_controls_def op_simps)

lemma set_rspduo_sample_rate_marks [simp]: "marks (trace (snd (set_rspduo_sample_rate E c s))) = marks (trace s)"
  by (simp add: set_rspduo_sample_rate_def)

lemma apply_config_marks [simp]: "marks (trace (snd (apply_config E c s))) = marks (trace s)"
  by (simp add: apply_config_def op_simps)

lemma bootstrap_scan_marks [simp]: "marks (trace (snd (bootstrap_scan E ix s))) = marks (trace s)"
  by (induction ix arbitrary: s) (simp_all add: op_simps)

lemma bootstrap_passes_marks [simp]: "marks (trace (bootstrap_passes E n s)) = marks (trace s)"
  by (induction n arbitrary: s) (simp_all add: op_simps)

lemma enumerate_devices_marks [simp]: "marks (trace (snd (enumerate_devices E ix rs s))) = marks (trace s)"
  by (induction ix arbitrary: rs s) (simp_all add: op_simps)

lemma snapshot_fresh_marks [simp]: "marks (trace (snd (snapshot_fresh E s))) = marks (trace s)"
  by (simp add: snapshot_fresh_def op_simps)

lemma snapshot_sdrplay_devices_marks [simp]: "marks (trace (snd (snapshot_sdrplay_devices E s))) = marks (trace s)"
  by (simp add: snapshot_sdrplay_devices_def op_simps)

lemma resolve_acquired_device_marks [simp]: "marks (trace (snd (resolve_acquired_device E s))) = marks (trace s)"
  by (simp add: resolve_acquired_device_def op_simps split: sum.split)

lemma configure_attempts_marks [simp]: "marks (trace (snd (configure_attempts E c n s))) = marks (trace s)"
  by (induction n arbitrary: s) (simp_all add: op_simps split: sum.split)

lemma configure_radio_marks [simp]: "marks (trace (snd (configure_radio E c n s))) = marks (trace s)"
  by (simp add: configure_radio_def op_simps)

lemma open_dual_radio_marks [simp]: "marks (trace (snd (open_dual_radio E s))) = marks (trace s)"
  by (simp add: open_dual_radio_def op_simps split: sum.split)

lemma program_dual_radio_marks [simp]: "marks (trace (snd (program_dual_radio E dc s))) = marks (trace s)"
  by (simp add: program_dual_radio_def op_simps)

lemma configure_dual_radio_marks [simp]: "marks (trace (snd (configure_dual_radio E dc s))) = marks (trace s)"
  by (simp add: configure_dual_radio_def op_simps)

lemma or_step_marks [simp]:
  "(\<And>s. marks (trace (snd (f s))) = marks (trace s)) \<Longrightarrow>
   marks (trace (snd (or_step b f x))) = marks (trace (snd x))"
  by (simp add: or_step_def op_simps)

lemma apply_update_dual_marks [simp]: "marks (trace (snd (apply_update_dual E u s))) = marks (trace s)"
  by (simp add: apply_update_dual_def op_simps)

lemma apply_update_marks [simp]: "marks (trace (snd (apply_update E u s))) = marks (trace s)"
  by (simp add: apply_update_def op_simps)

lemma duo_prepare_config_marks [simp]: "marks (trace (snd (duo_prepare_config s))) = marks (trace s)"
  by (simp add: duo_prepare_config_def op_simps)

lemma duo_reset_hardware_marks [simp]: "marks (trace (snd (duo_reset_hardware E s))) = marks (trace s)"
  by (simp add: duo_reset_hardware_def op_simps)

lemma duo_apply_running_config_marks [simp]: "marks (trace (snd (duo_apply_running_config E c s))) = marks (trace s)"
  by (simp add: duo_apply_running_config_def op_simps)

lemma release_duo_client_marks [simp]: "marks (trace (release_duo_client E d s)) = marks (trace s)"
  by (simp add: release_duo_client_def op_simps)

lemma release_owner_marks [simp]: "marks (trace (release_owner E s)) = marks (trace s)"
  by (simp add: release_owner_def Let_def)

lemma release_client_marks [simp]: "marks (trace (release_client E d s)) = marks (trace s)"
  by (simp add: release_client_def)

lemma handle_list_marks [simp]: "marks (trace (snd (handle_list E s))) = marks (trace s)"
  by (simp add: handle_list_def op_simps)

lemma handle_lock_api_marks [simp]: "marks (trace (snd (handle_lock_api d s))) = marks (trace s)"
  by (simp add: handle_lock_api_def)

lemma handle_unlock_api_marks [simp]: "marks (trace (snd (handle_unlock_api d s))) = marks (trace s)"
  by (simp add: handle_unlock_api_def release_api_lock_def)

lemma duo_acquire_identity_marks [simp]: "marks (trace (snd (duo_acquire_identity E a s))) = marks (trace s)"
  by (simp add: duo_acquire_identity_def op_simps)

lemma duo_acquire_session_marks [simp]: "marks (trace (snd (duo_acquire_session d a i s))) = marks (trace s)"
  by (simp add: duo_acquire_session_def op_simps)

lemma handle_duo_acquire_marks [simp]: "marks (trace (snd (handle_duo_acquire E d a s))) = marks (trace s)"
  by (simp add: handle_duo_acquire_def op_simps split: sum.split)

lemma handle_duo_configure_marks [simp]: "marks (trace (snd (handle_duo_configure E d c s))) = marks (trace s)"
  by (simp add: handle_duo_configure_def op_simps split: option.split)

lemma handle_duo_start_marks [simp]: "marks (trace (snd (handle_duo_start E d s))) = marks (trace s)"
  by (simp add: handle_duo_start_def op_simps split: option.split)

lemma handle_duo_stop_marks [simp]: "marks (trace (snd (handle_duo_stop E d s))) = marks (trace s)"
  by (simp add: handle_duo_stop_def op_simps split: option.split)

lemma handle_duo_release_marks [simp]: "marks (trace (snd (handle_duo_release E d s))) = marks (trace s)"
  by (simp add: handle_duo_release_def op_simps split: option.split)

lemma duo_swap_rate_hardware_marks [simp]: "marks (trace (snd (duo_swap_rate_hardware E r s))) = marks (trace s)"
  by (simp add: duo_swap_rate_hardware_def op_simps)

lemma handle_duo_swap_rate_marks [simp]: "marks (trace (snd (handle_duo_swap_rate E d r s))) = marks (trace s)"
  by (simp add: handle_duo_swap_rate_def op_simps split: option.split)

lemma handle_duo_update_marks [simp]: "marks (trace (snd (handle_duo_update E d u s))) = marks (trace s)"
  by (simp add: handle_duo_update_def op_simps split: option.split)

lemma handle_acquire_marks [simp]: "marks (trace (snd (handle_acquire E d a s))) = marks (trace s)"
  by (simp add: handle_acquire_def op_simps split: sum.split)

lemma handle_start_marks [simp]: "marks (trace (snd (handle_start s))) = marks (trace s)"
  by (simp add: handle_start_def)

lemma handle_stop_marks [simp]: "marks (trace (snd (handle_stop E s))) = marks (trace s)"
  by (simp add: handle_stop_def op_simps)

lemma handle_release_marks [simp]: "marks (trace (snd (handle_release E d s))) = marks (trace s)"
  by (simp add: handle_release_def)

lemma handle_configure_marks [simp]: "marks (trace (snd (handle_configure E c s))) = marks (trace s)"
  by (simp add: handle_configure_def op_simps)

lemma handle_configure_dual_marks [simp]: "marks (trace (snd (handle_configure_dual E dc s))) = marks (trace s)"
  by (simp add: handle_configure_dual_def op_simps)

lemma stop_and_close_marks [simp]: "marks (trace (snd (stop_and_close E w s))) = marks (trace s)"
  by (simp add: stop_and_close_def op_simps)

lemma handle_swap_tuner_marks [simp]: "marks (trace (snd (handle_swap_tuner E sw s))) = marks (trace s)"
  by (simp add: handle_swap_tuner_def op_simps)

lemma handle_swap_mode_marks [simp]: "marks (trace (snd (handle_swap_mode E sw s))) = marks (trace s)"
  by (simp add: handle_swap_mode_def op_simps)

lemma handle_resume_mode_marks [simp]: "marks (trace (snd (handle_resume_mode s))) = marks (trace s)"
  by (simp add: handle_resume_mode_def)

lemma handle_update_marks [simp]: "marks (trace (snd (handle_update E u s))) = marks (trace s)"
  by (simp add: handle_update_def op_simps)

lemma dispatch_marks [simp]: "marks (trace (snd (dispatch E d h p s))) = marks (trace s)"
  by (rule dispatch_rule [where P = "\<lambda>x. marks (trace (snd x)) = marks (trace s)"]) simp_all

subsection \<open>At most one reason to start the stream\<close>

lemma dispatch_start_type:
  assumes "hdr_type h = command_code OPENRSP_CMD_START"
  shows "\<not> rp_start_stream_after_response (fst (dispatch E d h p s)) \<and>
    \<not> rp_duo_start_stream_after_response (fst (dispatch E d h p s))"
    "rp_status (fst (dispatch E d h p s)) = OPENRSP_STATUS_OK \<Longrightarrow>
      owner s = d \<and> radio s \<and> \<not> stream_thread_started s"
proof -
  have "dispatch E d h p s =
    (if hdr_magic h \<noteq> OPENRSP_PROTOCOL_MAGIC \<or> hdr_version h \<noteq> OPENRSP_PROTOCOL_VERSION
     then (reply_with OPENRSP_STATUS_BAD_REQUEST, s)
     else if hdr_payload_bytes h = 0 \<and> owner s = d \<and> radio s \<and> \<not> stream_thread_started s \<and>
             \<not> mode_swap_paused s
     then handle_start s
     else (reply_with (if owner s \<ge> 0 \<and> owner s \<noteq> d then OPENRSP_STATUS_BUSY
                       else OPENRSP_STATUS_UNSUPPORTED), s))"
    using assms unfolding dispatch_def is_request_def
    by (simp only: command_code_inj openrsp_command_type.distinct simp_thms if_False if_True)
  then show "\<not> rp_start_stream_after_response (fst (dispatch E d h p s)) \<and>
    \<not> rp_duo_start_stream_after_response (fst (dispatch E d h p s))"
    "rp_status (fst (dispatch E d h p s)) = OPENRSP_STATUS_OK \<Longrightarrow>
      owner s = d \<and> radio s \<and> \<not> stream_thread_started s"
    by (auto simp: handle_start_def split: if_splits)
qed

lemma dispatch_one_start:
  "\<not> (rp_start_stream_after_response (fst (dispatch E d h p s)) \<and>
      rp_duo_start_stream_after_response (fst (dispatch E d h p s)))"
proof (rule dispatch_rule [where P = "\<lambda>x. \<not> (rp_start_stream_after_response (fst x) \<and>
      rp_duo_start_stream_after_response (fst x))"])
  show "\<not> (rp_start_stream_after_response (fst (handle_duo_start E d s)) \<and>
      rp_duo_start_stream_after_response (fst (handle_duo_start E d s)))"
    by (simp add: handle_duo_start_def op_simps split: option.split)
  show "\<not> (rp_start_stream_after_response (fst (handle_duo_swap_rate E d r s)) \<and>
      rp_duo_start_stream_after_response (fst (handle_duo_swap_rate E d r s)))" for r
    by (simp add: handle_duo_swap_rate_def duo_swap_rate_hardware_def op_simps split: option.split)
qed (simp_all add: handle_list_def handle_lock_api_def handle_unlock_api_def handle_duo_acquire_def
  duo_acquire_session_def handle_duo_configure_def handle_duo_stop_def handle_duo_release_def
  handle_duo_update_def handle_acquire_def handle_start_def handle_stop_def handle_release_def
  handle_configure_def handle_configure_dual_def handle_swap_tuner_def handle_swap_mode_def
  handle_resume_mode_def handle_update_def op_simps split: option.split sum.split)

lemma create_stream_thread_marks [simp]:
  "marks (trace (snd (create_stream_thread E s))) = marks (trace s) @ [(Thread_create, fst (create_stream_thread E s))]"
  by (simp add: create_stream_thread_def op_simps)

lemma send_listed_marks [simp]: "marks (trace (snd (send_listed E d q rs s))) = marks (trace s)"
  by (induction rs arbitrary: s) (simp_all add: op_simps write_control_frame_def)

lemma start_after_duo_marks:
  "\<exists>r. marks (trace (snd (start_after_duo E rp s))) = marks (trace s) @
     (if rp_duo_start_stream_after_response rp \<and> rp_status rp = OPENRSP_STATUS_OK
      then [(Thread_create, r)] else [])"
  by (simp add: start_after_duo_def op_simps)

lemma start_after_start_marks:
  "\<exists>r. marks (trace (snd (start_after_start E h rp s))) = marks (trace s) @
     (if hdr_type h = command_code OPENRSP_CMD_START \<and> rp_status rp = OPENRSP_STATUS_OK
      then [(Thread_create, r)] else [])"
  by (simp add: start_after_start_def op_simps)

lemma start_after_change_marks:
  "\<exists>r. marks (trace (snd (start_after_change E h rp s))) = marks (trace s) @
     (if rp_start_stream_after_response rp \<and>
         (rp_status rp = OPENRSP_STATUS_OK \<or> rp_start_stream_after_error rp)
      then [(Thread_create, r)] else [])"
  by (simp add: start_after_change_def op_simps)

definition response_frame :: "descriptor \<Rightarrow> message_header \<Rightarrow> reply \<Rightarrow> io_call" where
  "response_frame d h rp = Send d (command_code OPENRSP_MSG_RESPONSE) (hdr_sequence h)
     (encode_response \<lparr>rsp_status = status_code (rp_status rp), rsp_sequence = hdr_sequence h,
        rsp_changed_flags = rp_changed_flags rp, rsp_reserved = 0\<rparr>)"

lemma start_tail_marks:
  assumes "\<not> (rp_start_stream_after_response rp \<and> rp_duo_start_stream_after_response rp)"
    "hdr_type h = command_code OPENRSP_CMD_START \<Longrightarrow>
       \<not> rp_start_stream_after_response rp \<and> \<not> rp_duo_start_stream_after_response rp"
  shows "\<exists>started. marks (trace (snd (
      let (ok, s) = start_after_duo E rp s in
      if \<not> ok then (False, s)
      else let (ok, s) = start_after_start E h rp s in
        if \<not> ok then (False, s) else start_after_change E h rp s))) = marks (trace s) @ started \<and>
    length started \<le> 1 \<and> list_all (\<lambda>x. fst x = Thread_create) started"
proof -
  obtain r1 where 1: "marks (trace (snd (start_after_duo E rp s))) = marks (trace s) @
     (if rp_duo_start_stream_after_response rp \<and> rp_status rp = OPENRSP_STATUS_OK
      then [(Thread_create, r1)] else [])"
    using start_after_duo_marks by blast
  let ?s1 = "snd (start_after_duo E rp s)"
  obtain r2 where 2: "marks (trace (snd (start_after_start E h rp ?s1))) = marks (trace ?s1) @
     (if hdr_type h = command_code OPENRSP_CMD_START \<and> rp_status rp = OPENRSP_STATUS_OK
      then [(Thread_create, r2)] else [])"
    using start_after_start_marks by blast
  let ?s2 = "snd (start_after_start E h rp ?s1)"
  obtain r3 where 3: "marks (trace (snd (start_after_change E h rp ?s2))) = marks (trace ?s2) @
     (if rp_start_stream_after_response rp \<and>
         (rp_status rp = OPENRSP_STATUS_OK \<or> rp_start_stream_after_error rp)
      then [(Thread_create, r3)] else [])"
    using start_after_change_marks by blast
  from 1 2 3 assms show ?thesis
    by (auto simp: op_simps)
qed

lemma respond_marks:
  assumes "\<not> (rp_start_stream_after_response rp \<and> rp_duo_start_stream_after_response rp)"
    "hdr_type h = command_code OPENRSP_CMD_START \<Longrightarrow>
       \<not> rp_start_stream_after_response rp \<and> \<not> rp_duo_start_stream_after_response rp"
  shows "\<exists>started w. marks (trace (snd (respond E d h rp s))) =
      marks (trace s) @ (response_frame d h rp, w) # started \<and>
    length started \<le> 1 \<and> list_all (\<lambda>x. fst x = Thread_create) started \<and> (started \<noteq> [] \<longrightarrow> w = 0)"
proof -
  define s1 where "s1 = snd (io E (response_frame d h rp) s)"
  define w where "w = answer E (trace s) (response_frame d h rp)"
  define s2 where "s2 = (if hdr_type h = command_code OPENRSP_CMD_LIST \<and> rp_status rp = OPENRSP_STATUS_OK
      then send_listed E d (hdr_sequence h) (rp_listed rp) s1 else (True, s1))"
  define s3 where "s3 = (if rp_status rp = OPENRSP_STATUS_OK
      then send_duo_event E (rp_duo_event rp) (snd s2) else (0, snd s2))"
  have m: "marks (trace s1) = marks (trace s) @ [(response_frame d h rp, w)]"
    "marks (trace (snd s2)) = marks (trace s1)" "marks (trace (snd s3)) = marks (trace (snd s2))"
    by (simp_all add: s1_def w_def s2_def s3_def response_frame_def)
  have r: "respond E d h rp s =
    (if w \<noteq> 0 then (False, s1) else if \<not> fst s2 then (False, snd s2)
     else if fst s3 \<noteq> 0 then (False, snd s3)
     else let (ok, s) = start_after_duo E rp (snd s3) in
       if \<not> ok then (False, s)
       else let (ok, s) = start_after_start E h rp s in
         if \<not> ok then (False, s) else start_after_change E h rp s)"
    by (simp only: respond_def write_control_frame_def response_frame_def [symmetric] io_result
        case_prod_beta Let_def s1_def [symmetric] w_def [symmetric] s2_def [symmetric] s3_def [symmetric])
  obtain started where t: "marks (trace (snd (
      let (ok, s) = start_after_duo E rp (snd s3) in
      if \<not> ok then (False, s)
      else let (ok, s) = start_after_start E h rp s in
        if \<not> ok then (False, s) else start_after_change E h rp s))) = marks (trace (snd s3)) @ started"
    "length started \<le> 1" "list_all (\<lambda>x. fst x = Thread_create) started"
    using start_tail_marks [OF assms] by blast
  show ?thesis
  proof (cases "w \<noteq> 0 \<or> \<not> fst s2 \<or> fst s3 \<noteq> 0")
    case True
    then have "marks (trace (snd (respond E d h rp s))) = marks (trace s) @ (response_frame d h rp, w) # []"
      by (auto simp: r m)
    then show ?thesis by (intro exI [of _ "[]"] exI [of _ w]) simp
  next
    case False
    then have "marks (trace (snd (respond E d h rp s))) = marks (trace s) @ (response_frame d h rp, w) # started"
      using t(1) by (simp add: r m)
    then show ?thesis using t(2,3) False by blast
  qed
qed

subsection \<open>Properties\<close>

text \<open>
  C4. Serving a request writes exactly one response, to the client that asked and with its
  sequence number, whatever the radio library and the sockets answer; at most one stream
  thread is started, and only after the response has been written successfully.
\<close>

theorem one_response_then_stream:
  "\<exists>started w. marks (trace (snd (serve_request E d h p s))) =
      marks (trace s) @ (response_frame d h (fst (dispatch E d h p s)), w) # started \<and>
    length started \<le> 1 \<and> list_all (\<lambda>x. fst x = Thread_create) started \<and> (started = [] \<or> w = 0)"
  using respond_marks [of "fst (dispatch E d h p s)" h E d "snd (dispatch E d h p s)"]
    dispatch_one_start [of E d h p s] dispatch_start_type(1) [of h E d p s]
  by (auto simp: serve_request_def op_simps)

end
