(* ===== verification/Rsp_Bench.thy ===== *)
theory Rsp_Bench
  imports Rsp_Serve
begin

text \<open>
  A concrete environment and a concrete session, on which the theorems about the daemon
  are applied: one RSPduo is attached and every call succeeds; a client connects, acquires
  the receiver, configures it and starts the stream.
\<close>

definition bench_env :: env where
  "bench_env = \<lparr>answer = (\<lambda>_ c. if c = Get_device_count then 1 else 0),
     device_info = (\<lambda>_ _. (0x1df7, 0x3020, [82], [65])), clock = (\<lambda>_. (1, 0))\<rparr>"

definition bench_identity :: acquire_request where
  "bench_identity = \<lparr>id_device_index = 0, id_vendor_id = 0x1df7, id_product_id = 0x3020,
     id_serial = 65 # replicate 63 0\<rparr>"

definition bench_config :: radio_config where
  "bench_config = words_radio_config [2000000, 100000000, 1536000, 0, 40, 4, 0, -30, 1, 0, 0, 0, 0, 0, 0]"

definition bench_header :: "openrsp_command_type \<Rightarrow> u32 \<Rightarrow> message_header" where
  "bench_header cmd bytes = frame_header (command_code cmd) 1 bytes"

definition bench_clients :: "descriptor list" where
  "bench_clients = (replicate 32 (-1))[0 := 5]"

definition bench_acquired :: daemon_state where
  "bench_acquired = snd (serve_request bench_env 5 (bench_header OPENRSP_CMD_ACQUIRE 72)
     (encode_acquire_request bench_identity) daemon_init)"

definition bench_configured :: daemon_state where
  "bench_configured = snd (serve_request bench_env 5 (bench_header OPENRSP_CMD_CONFIGURE 60)
     (encode_radio_config bench_config) bench_acquired)"

definition bench_streaming :: daemon_state where
  "bench_streaming = snd (serve_request bench_env 5 (bench_header OPENRSP_CMD_START 0) [] bench_configured)"

definition bench_actions :: "daemon_action list" where
  "bench_actions =
     [Accepted 5,
      Serve 0 (Inr (bench_header OPENRSP_CMD_ACQUIRE 72, encode_acquire_request bench_identity)),
      Serve 0 (Inr (bench_header OPENRSP_CMD_CONFIGURE 60, encode_radio_config bench_config)),
      Serve 0 (Inr (bench_header OPENRSP_CMD_START 0, []))]"

lemma step_serve_ok:
  assumes "fst (serve_request E (clients ! slot) h p s)" "0 \<le> clients ! slot" "slot < length clients"
  shows "daemon_step E (s, clients) (Serve slot (Inr (h, p)))
    (snd (serve_request E (clients ! slot) h p s), clients)"
  using step_serve [OF assms(3), of E s "Inr (h, p)"] assms(1,2)
  by (simp add: serve_slot_def case_prod_beta Let_def)

lemma bench_clients_simps [simp]: "bench_clients ! 0 = 5" "length bench_clients = 32"
  by (simp_all add: bench_clients_def)

lemma bench_served:
  "fst (serve_request bench_env 5 (bench_header OPENRSP_CMD_ACQUIRE 72)
     (encode_acquire_request bench_identity) daemon_init)"
  "fst (serve_request bench_env 5 (bench_header OPENRSP_CMD_CONFIGURE 60)
     (encode_radio_config bench_config) bench_acquired)"
  "fst (serve_request bench_env 5 (bench_header OPENRSP_CMD_START 0) [] bench_configured)"
  by code_simp+

lemma bench_accept: "accept_client 5 server_init = (daemon_init, bench_clients)"
  by (simp add: accept_client_def server_init_def first_index_def bench_clients_def upt_rec)

lemma bench_runs: "runs (daemon_step bench_env) server_init bench_actions (bench_streaming, bench_clients)"
proof -
  have "daemon_step bench_env server_init (Accepted 5) (daemon_init, bench_clients)"
    using step_accept [of 5 "replicate 32 (-1)" bench_env daemon_init] bench_accept
    by (simp add: server_init_def)
  note accepted = this
  note served = bench_served [THEN step_serve_ok [of bench_env bench_clients 0, simplified],
      folded bench_acquired_def, folded bench_configured_def, folded bench_streaming_def]
  show ?thesis
    unfolding bench_actions_def
    using accepted served by (simp add: runs_Cons_iff) blast
qed

lemma bench_streaming_state:
  "radio bench_streaming" "owner bench_streaming = 5" "thread_alive bench_streaming"
  by code_simp+

end
