(* ===== verification/Rsp_Safety.thy ===== *)
theory Rsp_Safety
  imports Rsp_Owner Rsp_Radio Rsp_Response Rsp_Bench
begin

text \<open>
  Safety of the running daemon: statements about every state the server loop and the
  stream thread can reach together, for every environment.
\<close>

subsection \<open>Ownership\<close>

text \<open>
  C2. In every reachable state the receiver has at most one kind of holder: the RSPduo
  session is active exactly while it has a master, an active session excludes a single
  owner, the session is well formed, and the owner, the API-lock holder, the master and the
  slave are all clients that are still connected.
\<close>

theorem receiver_ownership_exclusive:
  assumes "runs (daemon_step E) server_init acts (s, clients)"
  shows "duo_inv (duo s) \<and> (duo_active s \<longleftrightarrow> master_selected (duo s)) \<and>
    \<not> (0 \<le> owner s \<and> duo_active s) \<and>
    {owner s, api_lock_owner s, master_fd (duo s), slave_fd (duo s)} \<subseteq> insert (-1) (set clients)"
  using owner_sys.runs_inv [OF assms own_inv_init]
  by (auto simp: own_inv_def own_fields_def fd_known_def)

theorem receiver_ownership_exclusive_witness:
  "runs (daemon_step bench_env) server_init bench_actions (bench_streaming, bench_clients) \<and>
   owner bench_streaming = 5 \<and> \<not> duo_active bench_streaming"
  using receiver_ownership_exclusive [OF bench_runs] bench_runs bench_streaming_state(2)
  by (auto simp del: insert_subset)

text \<open>
  C3. When a client is removed, by hangup, by eviction or because its request could not be
  served, nothing refers to its descriptor any more: it is neither owner nor lock holder nor
  a participant, and it has left the client table, so the number can be reused.
\<close>

theorem removed_client_forgotten:
  assumes "runs (daemon_step E) server_init acts (s, clients)"
    and "slot < length clients" and "0 \<le> clients ! slot"
    and "remove_client E slot (s, clients) = (s', clients')"
  shows "clients ! slot \<notin> {owner s', api_lock_owner s', master_fd (duo s'), slave_fd (duo s')} \<union> set clients'"
proof -
  let ?d = "clients ! slot"
  have inv: "table_ok clients" "own_ok (set clients) s"
    using owner_sys.runs_inv [OF assms(1) own_inv_init] by (simp_all add: own_inv_def)
  have s': "s' = release_api_lock ?d (release_client E ?d s)" "clients' = clients[slot := -1]"
    using assms(3,4) by (simp_all add: remove_client_def Let_def)
  have "?d \<notin> {owner s', api_lock_owner s', master_fd (duo s'), slave_fd (duo s')}"
    using release_client_forgets [OF inv(2) assms(3), of E] assms(3)
    by (auto simp: s' release_api_lock_def)
  moreover have "?d \<notin> set clients'"
    using inv(1) assms(2,3)
    by (auto simp: s' table_ok_def in_set_conv_nth nth_list_update) metis
  ultimately show ?thesis by blast
qed

theorem removed_client_forgotten_witness:
  "owner bench_streaming = 5 \<and>
   5 \<notin> set (snd (remove_client bench_env 0 (bench_streaming, bench_clients))) \<and>
   owner (fst (remove_client bench_env 0 (bench_streaming, bench_clients))) \<noteq> 5"
  using removed_client_forgotten [OF bench_runs, of 0, simplified, OF prod.collapse [symmetric]]
    bench_streaming_state(2) by auto

subsection \<open>The radio handle\<close>

lemma hw_step_None [simp]: "foldl hw_step None xs = None"
  by (induction xs) simp_all

lemma hw_state_split:
  assumes "hw_state (pre @ x # post) = Some b"
  shows "\<exists>opened. hw_state pre = Some opened \<and> hw_step (Some opened) x \<noteq> None"
proof (cases "hw_state pre")
  case (Some opened)
  with assms have "hw_step (Some opened) x \<noteq> None" by (cases "hw_step (Some opened) x") auto
  with Some show ?thesis by blast
qed (use assms in simp)

lemma hw_step_use:
  "hw_step (Some (opened, kept)) (c, r) \<noteq> None \<Longrightarrow> radio_use c \<or> c = Close_radio \<Longrightarrow> opened"
  by (cases c) (auto split: if_splits)

lemma hw_step_open: "hw_step (Some (opened, kept)) (Open_tuner i t, r) \<noteq> None \<Longrightarrow> \<not> opened"
  by (auto split: if_splits)

lemma hw_state_kept: "hw_state tr = Some (opened, kept) \<Longrightarrow> kept \<longleftrightarrow> (Close_radio, - EBUSY) \<in> set tr"
proof (induction tr arbitrary: opened kept rule: rev_induct)
  case (snoc x tr)
  obtain c r where x: "x = (c, r)" by fastforce
  obtain o1 k1 where h: "hw_state tr = Some (o1, k1)" using snoc.prems by (cases "hw_state tr") auto
  have "kept \<longleftrightarrow> k1 \<or> x = (Close_radio, - EBUSY)"
    using snoc.prems h x by (cases c) (auto split: if_splits)
  then show ?case using snoc.IH [OF h] by auto
qed simp



end
