(* ===== verification/Rsp_Ring.thy ===== *)
theory Rsp_Ring
  imports Rsp_Prelude "HOL-Library.Sublist"
begin

text \<open>
  The bounded queues of the client library. Three of them are ring buffers with a head
  index and a count (the IQ queue of \<open>compat/daemon_backend.c\<close>, the event queue and the
  stream-callback queue of \<open>compat/sdrplay_api_compat.c\<close>). This theory relates such a
  ring to the list of its items, and gives the interface the three share as a locale:
  what a push and a pop do to the items, and what follows for a whole run of them.
\<close>

subsection \<open>Rings as lists\<close>

definition ring_items :: "nat \<Rightarrow> 'a list \<Rightarrow> nat \<Rightarrow> nat \<Rightarrow> 'a list" where
  "ring_items cap buf head count = map (\<lambda>i. buf ! ((head + i) mod cap)) [0..<count]"

definition ring_wf :: "nat \<Rightarrow> 'a list \<Rightarrow> nat \<Rightarrow> nat \<Rightarrow> bool" where
  "ring_wf cap buf head count \<longleftrightarrow> cap \<le> length buf \<and> head < cap \<and> count \<le> cap"

lemma length_ring_items [simp]: "length (ring_items cap buf head count) = count"
  by (simp add: ring_items_def)

lemma ring_items_0 [simp]: "ring_items cap buf head 0 = []"
  by (simp add: ring_items_def)

lemma ring_items_push:
  assumes "ring_wf cap buf head count" "count < cap"
  shows "ring_items cap (buf[(head + count) mod cap := x]) head (Suc count) =
    ring_items cap buf head count @ [x]"
proof -
  have "(head + count) mod cap \<noteq> (head + i) mod cap" if "i < count" for i
    using ring_index_inj [of count cap i head] that assms(2) by auto
  moreover have "(head + count) mod cap < length buf"
    using assms mod_less_divisor [of cap "head + count"]
    unfolding ring_wf_def by linarith
  ultimately show ?thesis by (simp add: ring_items_def nth_list_update)
qed

lemma ring_items_pop:
  assumes "ring_wf cap buf head count" "0 < count"
  shows "ring_items cap buf head count =
    buf ! head # ring_items cap buf ((head + 1) mod cap) (count - 1)"
proof -
  obtain n where n: "count = Suc n" using assms(2) gr0_implies_Suc by blast
  have "(head + Suc i) mod cap = ((head + 1) mod cap + i) mod cap" for i
    by (simp add: mod_add_left_eq)
  moreover have "head mod cap = head" using assms(1) by (simp add: ring_wf_def)
  ultimately show ?thesis
    by (simp add: ring_items_def n upt_conv_Cons map_Suc_upt [symmetric] comp_def
        del: upt_Suc map_Suc_upt)
qed

lemma ring_wf_push: "ring_wf cap buf head count \<Longrightarrow> count < cap \<Longrightarrow> ring_wf cap (buf[i := x]) head (Suc count)"
  by (simp add: ring_wf_def)

lemma ring_wf_pop: "ring_wf cap buf head count \<Longrightarrow> ring_wf cap buf ((head + 1) mod cap) (count - 1)"
  by (auto simp: ring_wf_def)

lemma ring_wf_clear: "ring_wf cap buf head count \<Longrightarrow> ring_wf cap buf 0 0"
  by (auto simp: ring_wf_def)

lemma ring_wf_count_le: "ring_wf cap buf head count \<Longrightarrow> count \<le> cap"
  by (simp add: ring_wf_def)

subsection \<open>Bounded first-in first-out queues\<close>

text \<open>
  A producer pushes, a consumer pops. An item is followed by its \<open>key\<close>, because one of the
  queues merges flags of a dropped item into the pushed one. A queue that is not accepting
  ignores the push; a full queue either rejects the item or drops its oldest one.
\<close>

datatype 'a queue_op = Push 'a | Pop

fun pushed :: "('a \<Rightarrow> 'k) \<Rightarrow> 'a queue_op list \<Rightarrow> 'k list" where
  "pushed key [] = []"
| "pushed key (Push x # ops) = key x # pushed key ops"
| "pushed key (Pop # ops) = pushed key ops"

locale bounded_fifo =
  fixes cap :: nat
    and invar :: "'s \<Rightarrow> bool"
    and items :: "'s \<Rightarrow> 'a list"
    and key :: "'a \<Rightarrow> 'k"
    and accepts :: "'s \<Rightarrow> bool"
    and push :: "'a \<Rightarrow> 's \<Rightarrow> 's"
    and pop :: "'s \<Rightarrow> 's"
  assumes items_bound: "invar s \<Longrightarrow> length (items s) \<le> cap"
    and invar_push: "invar s \<Longrightarrow> invar (push x s)"
    and invar_pop: "invar s \<Longrightarrow> items s \<noteq> [] \<Longrightarrow> invar (pop s)"
    and accepts_push: "invar s \<Longrightarrow> accepts (push x s) = accepts s"
    and accepts_pop: "invar s \<Longrightarrow> items s \<noteq> [] \<Longrightarrow> accepts (pop s) = accepts s"
    and push_closed: "invar s \<Longrightarrow> \<not> accepts s \<Longrightarrow> items (push x s) = items s"
    and push_room: "invar s \<Longrightarrow> accepts s \<Longrightarrow> length (items s) < cap \<Longrightarrow>
      map key (items (push x s)) = map key (items s) @ [key x]"
    and push_full: "invar s \<Longrightarrow> accepts s \<Longrightarrow> length (items s) = cap \<Longrightarrow>
      map key (items (push x s)) = map key (items s) \<or>
      map key (items (push x s)) = tl (map key (items s)) @ [key x]"
    and pop_items: "invar s \<Longrightarrow> items s \<noteq> [] \<Longrightarrow> items (pop s) = tl (items s)"
begin

text \<open>The keys handed to the consumer by a sequence of operations, and the final state.\<close>

fun serve :: "'a queue_op list \<Rightarrow> 's \<Rightarrow> 'k list \<times> 's" where
  "serve [] s = ([], s)"
| "serve (Push x # ops) s = serve ops (push x s)"
| "serve (Pop # ops) s =
     (if items s = [] then serve ops s
      else let (out, s') = serve ops (pop s) in (key (hd (items s)) # out, s'))"

lemma push_subseq:
  assumes "invar s"
  shows "subseq (map key (items (push x s))) (map key (items s) @ [key x])"
proof (cases "accepts s")
  case True
  consider "length (items s) < cap" | "length (items s) = cap"
    using items_bound [OF assms] by linarith
  then show ?thesis
  proof cases
    case 1
    then show ?thesis using push_room [OF assms True] by simp
  next
    case 2
    have "subseq (tl (map key (items s)) @ [key x]) (map key (items s) @ [key x])"
      by (cases "items s") (auto intro: list_emb_append_mono)
    then show ?thesis using push_full [OF assms True 2, of x] by auto
  qed
next
  case False
  then show ?thesis using push_closed [OF assms] by (simp add: subseq_rev_drop_many)
qed

lemma serve_invar: "invar s \<Longrightarrow> invar (snd (serve ops s))"
  by (induction ops s rule: serve.induct) (auto simp: invar_push invar_pop split: prod.splits)

lemma serve_bound: "invar s \<Longrightarrow> length (items (snd (serve ops s))) \<le> cap"
  using serve_invar items_bound by blast

theorem serve_in_order:
  "invar s \<Longrightarrow>
   subseq (fst (serve ops s) @ map key (items (snd (serve ops s)))) (map key (items s) @ pushed key ops)"
proof (induction ops s rule: serve.induct)
  case (2 x ops s)
  have "subseq (map key (items (push x s)) @ pushed key ops) ((map key (items s) @ [key x]) @ pushed key ops)"
    using push_subseq [OF 2(2)] by (rule list_emb_append_mono) simp
  with 2(1) [OF invar_push [OF 2(2)]] show ?case
    by (simp add: subseq_order.order_trans)
next
  case (3 ops s)
  show ?case
  proof (cases "items s")
    case (Cons y ys)
    with 3(3) have p: "invar (pop s)" "items (pop s) = ys"
      by (simp_all add: invar_pop pop_items)
    with 3(2) Cons show ?thesis by (auto split: prod.splits)
  qed (use 3 in simp)
qed simp

theorem serve_lossless:
  "invar s \<Longrightarrow> accepts s \<Longrightarrow> length (items s) + length (pushed key ops) \<le> cap \<Longrightarrow>
   fst (serve ops s) @ map key (items (snd (serve ops s))) = map key (items s) @ pushed key ops"
proof (induction ops s rule: serve.induct)
  case (2 x ops s)
  have m: "map key (items (push x s)) = map key (items s) @ [key x]"
    using push_room [OF 2(2,3)] 2(4) by simp
  then have "length (items (push x s)) = Suc (length (items s))"
    by (metis length_append_singleton length_map)
  with 2 m show ?case by (simp add: invar_push accepts_push)
next
  case (3 ops s)
  show ?case
  proof (cases "items s")
    case (Cons y ys)
    with 3(3,4) have p: "invar (pop s)" "accepts (pop s)" "items (pop s) = ys"
      by (simp_all add: invar_pop pop_items accepts_pop)
    with 3(2,5) Cons show ?thesis by (auto split: prod.splits)
  qed (use 3 in simp)
qed simp

end

end
