(* ===== verification/Rsp_Float.thy ===== *)
theory Rsp_Float
  imports Complex_Main Rsp_Prelude
begin

text \<open>
  The floating-point side of the client library. A \<open>double\<close> that an application can set
  to anything is a value of type \<open>double\<close>, with the infinities and NaN; arithmetic inside
  the signal path is over reals, with the rounding of each operation and the functions of
  the mathematical library as parameters (\<open>fpu\<close>), because C leaves both to the
  implementation. \<open>ieee\<close> states what IEEE 754 promises of the roundings on values that
  neither overflow nor underflow.
\<close>

subsection \<open>Values an application can store\<close>

datatype double = Fin real | PInf | MInf | NaN

fun isfinite :: "double \<Rightarrow> bool" where
  "isfinite (Fin x) = True"
| "isfinite _ = False"

fun d_less :: "double \<Rightarrow> double \<Rightarrow> bool" where
  "d_less (Fin a) (Fin b) = (a < b)"
| "d_less (Fin a) PInf = True"
| "d_less MInf (Fin b) = True"
| "d_less MInf PInf = True"
| "d_less _ _ = False"

fun d_eq :: "double \<Rightarrow> double \<Rightarrow> bool" where
  "d_eq (Fin a) (Fin b) = (a = b)"
| "d_eq PInf PInf = True"
| "d_eq MInf MInf = True"
| "d_eq _ _ = False"

definition d_le :: "double \<Rightarrow> double \<Rightarrow> bool" where
  "d_le a b \<longleftrightarrow> d_less a b \<or> d_eq a b"

lemma d_le_Fin [simp]: "d_le (Fin a) (Fin b) = (a \<le> b)"
  by (auto simp: d_le_def)

lemma d_le_NaN [simp]: "\<not> d_le NaN d" "\<not> d_le d NaN"
  by (cases d; simp add: d_le_def)+

fun d_value :: "double \<Rightarrow> real" where
  "d_value (Fin x) = x"
| "d_value _ = 0"

lemma isfinite_cases: "isfinite d \<Longrightarrow> \<exists>x. d = Fin x"
  by (cases d) simp_all

text \<open>
  \<open>(uint32_t)d\<close>: truncation towards zero where the result fits; outside that range the
  conversion is undefined in C, and unspecified here.
\<close>

definition u32_of_real :: "real \<Rightarrow> u32" where
  "u32_of_real x =
     (if -1 < x \<and> x < 4294967296 then of_int (if 0 \<le> x then \<lfloor>x\<rfloor> else \<lceil>x\<rceil>) else undefined)"

fun u32_of_double :: "double \<Rightarrow> u32" where
  "u32_of_double (Fin x) = u32_of_real x"
| "u32_of_double _ = undefined"

lemma u32_of_real_nat: "0 \<le> x \<Longrightarrow> x < 4294967296 \<Longrightarrow> u32_of_real x = of_int \<lfloor>x\<rfloor>"
  by (simp add: u32_of_real_def)

subsection \<open>Rounded arithmetic and the mathematical library\<close>

record fpu =
  fl :: "real \<Rightarrow> real"
  fl32 :: "real \<Rightarrow> real"
  fsin :: "real \<Rightarrow> real"
  fcos :: "real \<Rightarrow> real"
  fsqrt :: "real \<Rightarrow> real"
  fhypot :: "real \<Rightarrow> real \<Rightarrow> real"
  flog10 :: "real \<Rightarrow> real"

definition ieee :: "fpu \<Rightarrow> bool" where
  "ieee P \<longleftrightarrow> mono (fl P) \<and> mono (fl32 P) \<and>
     (\<forall>x. fl P (- x) = - fl P x) \<and>
     (\<forall>n. \<bar>n\<bar> \<le> 2 ^ 53 \<longrightarrow> fl P (of_int n) = of_int n) \<and>
     (\<forall>x. \<bar>fl P x - x\<bar> \<le> \<bar>x\<bar> / 2 ^ 53) \<and>
     (\<forall>x. fl32 P (fl32 P x) = fl32 P x) \<and> (\<forall>x. fl P (fl32 P x) = fl32 P x) \<and>
     fl32 P 0 = 0"

text \<open>One operation of \<open>double\<close> arithmetic each, and \<open>3.14159265358979323846\<close>.\<close>

definition dadd :: "fpu \<Rightarrow> real \<Rightarrow> real \<Rightarrow> real" where "dadd P a b = fl P (a + b)"
definition dsub :: "fpu \<Rightarrow> real \<Rightarrow> real \<Rightarrow> real" where "dsub P a b = fl P (a - b)"
definition dmul :: "fpu \<Rightarrow> real \<Rightarrow> real \<Rightarrow> real" where "dmul P a b = fl P (a * b)"
definition ddiv :: "fpu \<Rightarrow> real \<Rightarrow> real \<Rightarrow> real" where "ddiv P a b = fl P (a / b)"
definition dpi :: "fpu \<Rightarrow> real" where "dpi P = fl P 3.14159265358979323846"

lemmas double_ops = dadd_def dsub_def dmul_def ddiv_def

text \<open>Exact arithmetic is one such environment.\<close>

definition exact_fpu :: fpu where
  "exact_fpu = \<lparr>fl = (\<lambda>x. x), fl32 = (\<lambda>x. x), fsin = sin, fcos = cos, fsqrt = sqrt,
     fhypot = (\<lambda>a b. sqrt (a\<^sup>2 + b\<^sup>2)), flog10 = log 10\<rparr>"

lemma exact_fpu_simps [simp]: "fl exact_fpu x = x" "fl32 exact_fpu x = x"
  by (simp_all add: exact_fpu_def)

lemma ieee_exact_fpu: "ieee exact_fpu"
  by (simp add: ieee_def mono_def)

lemma ieee_fl_mono: "ieee P \<Longrightarrow> x \<le> y \<Longrightarrow> fl P x \<le> fl P y"
  by (simp add: ieee_def mono_def)

lemma ieee_fl32_mono: "ieee P \<Longrightarrow> x \<le> y \<Longrightarrow> fl32 P x \<le> fl32 P y"
  by (simp add: ieee_def mono_def)

lemma ieee_fl_int: "ieee P \<Longrightarrow> \<bar>n\<bar> \<le> 2 ^ 53 \<Longrightarrow> fl P (of_int n) = of_int n"
  by (simp add: ieee_def)

lemma ieee_fl_numeral: "ieee P \<Longrightarrow> (numeral n :: int) \<le> 2 ^ 53 \<Longrightarrow> fl P (numeral n) = numeral n"
  using ieee_fl_int [of P "numeral n"] by simp

lemma ieee_fl_0: "ieee P \<Longrightarrow> fl P 0 = 0"
  using ieee_fl_int [of P 0] by simp

lemma ieee_fl_1: "ieee P \<Longrightarrow> fl P 1 = 1"
  using ieee_fl_int [of P 1] by simp

lemma ieee_fl32_0: "ieee P \<Longrightarrow> fl32 P 0 = 0"
  by (simp add: ieee_def)

lemma ieee_fl_uminus: "ieee P \<Longrightarrow> fl P (- x) = - fl P x"
  by (simp add: ieee_def)

lemma ieee_fl_fl32: "ieee P \<Longrightarrow> fl P (fl32 P x) = fl32 P x"
  by (simp add: ieee_def)

lemma ieee_fl32_fl32: "ieee P \<Longrightarrow> fl32 P (fl32 P x) = fl32 P x"
  by (simp add: ieee_def)

lemma ieee_fl_error: "ieee P \<Longrightarrow> \<bar>fl P x - x\<bar> \<le> \<bar>x\<bar> / 2 ^ 53"
  unfolding ieee_def by blast

lemma ieee_fl_upper: "ieee P \<Longrightarrow> 0 \<le> x \<Longrightarrow> fl P x \<le> x + x / 2 ^ 53"
  using ieee_fl_error [of P x] by linarith

lemma ieee_fl32_nonneg: "ieee P \<Longrightarrow> 0 \<le> x \<Longrightarrow> 0 \<le> fl32 P x"
  using ieee_fl32_mono [of P 0 x] by (simp add: ieee_fl32_0)

lemma ieee_fl_nonneg: "ieee P \<Longrightarrow> 0 \<le> x \<Longrightarrow> 0 \<le> fl P x"
  using ieee_fl_mono [of P 0 x] by (simp add: ieee_fl_0)

end
