(* ===== verification/Rsp_Fir.thy ===== *)
theory Rsp_Fir
  imports Rsp_Ring Rsp_Float
begin

text \<open>
  What the filters of the signal path share. Their loops write results into the buffer they
  read from, at an index that trails the read index; \<open>inplace_loop\<close> is that loop and
  \<open>inplace_loop_stream\<close> shows that it computes the same as a pass over the original
  samples. Their sample histories are arrays with a write position, stored once (the
  decimator) or twice (the other two filters) so that the newest samples are contiguous;
  the locale \<open>sample_history\<close> states what such an array provides: the window of the
  latest samples.
\<close>

subsection \<open>Conversions of the mathematical library\<close>

definition lround :: "real \<Rightarrow> int" where
  "lround x = (if 0 \<le> x then \<lfloor>x + 1 / 2\<rfloor> else \<lceil>x - 1 / 2\<rceil>)"

lemma lround_of_int [simp]: "lround (of_int n) = n"
proof -
  have "\<lfloor>of_int n + 1 / 2 :: real\<rfloor> = n" by (rule floor_unique) simp_all
  moreover have "\<lceil>of_int n - 1 / 2 :: real\<rceil> = n" by (rule ceiling_unique) simp_all
  ultimately show ?thesis by (simp add: lround_def)
qed

lemma lround_mono:
  assumes "x \<le> y"
  shows "lround x \<le> lround y"
proof -
  have "lround z \<le> 0" if "z < 0" for z
    using that by (simp add: lround_def ceiling_le_iff)
  moreover have "0 \<le> lround z" if "0 \<le> z" for z
    using that by (simp add: lround_def)
  moreover have "lround x \<le> lround y" if "(0 \<le> x) = (0 \<le> y)"
    using that assms by (auto simp: lround_def intro!: floor_mono ceiling_mono)
  ultimately show ?thesis using assms by (meson less_le_not_le linorder_not_less order_trans)
qed

abbreviation (input) int16_range :: "int \<Rightarrow> bool" where
  "int16_range v \<equiv> -32768 \<le> v \<and> v \<le> 32767"

subsection \<open>In-place loops\<close>

text \<open>
  One iteration maps the state and the sample read to a new state and, when the filter
  produces one, a sample to write.
\<close>

fun inplace_loop ::
  "('s \<Rightarrow> 'a \<Rightarrow> 's \<times> 'a option) \<Rightarrow> nat \<Rightarrow> nat \<Rightarrow> nat \<Rightarrow> 'a list \<Rightarrow> 's \<Rightarrow> 's \<times> 'a list \<times> nat" where
  "inplace_loop step 0 rd wr buf s = (s, buf, wr)"
| "inplace_loop step (Suc left) rd wr buf s =
     (case step s (buf ! rd) of
        (s', None) \<Rightarrow> inplace_loop step left (rd + 1) wr buf s'
      | (s', Some y) \<Rightarrow> inplace_loop step left (rd + 1) (wr + 1) (buf[wr := y]) s')"

fun stream_run :: "('s \<Rightarrow> 'a \<Rightarrow> 's \<times> 'a option) \<Rightarrow> 's \<Rightarrow> 'a list \<Rightarrow> 's \<times> 'a list" where
  "stream_run step s [] = (s, [])"
| "stream_run step s (x # xs) =
     (case step s x of
        (s', None) \<Rightarrow> stream_run step s' xs
      | (s', Some y) \<Rightarrow> let (s'', ys) = stream_run step s' xs in (s'', y # ys))"

lemma stream_run_append:
  "stream_run step s (xs @ ys) =
     (let (s1, out1) = stream_run step s xs; (s2, out2) = stream_run step s1 ys in (s2, out1 @ out2))"
  by (induction step s xs rule: stream_run.induct) (simp_all split: prod.splits option.splits)

lemma length_stream_run: "length (snd (stream_run step s xs)) \<le> length xs"
  by (induction xs arbitrary: s) (auto simp: case_prod_beta Let_def split: option.splits intro: le_SucI)

lemma inplace_loop_stream:
  assumes "wr \<le> rd" "rd + left \<le> length buf"
    and "inplace_loop step left rd wr buf s = (s', buf', wr')"
  shows "wr' \<le> rd + left \<and> length buf' = length buf \<and>
    stream_run step s (take left (drop rd buf)) = (s', drop wr (take wr' buf')) \<and>
    wr \<le> wr' \<and> take wr buf' = take wr buf \<and>
    drop (rd + left) buf' = drop (rd + left) buf"
  using assms
proof (induction step left rd wr buf s arbitrary: s' buf' wr' rule: inplace_loop.induct)
  case (2 step left rd wr buf s)
  have hd: "take (Suc left) (drop rd buf) = buf ! rd # take left (drop (Suc rd) buf)"
    using 2(4) by (simp add: Cons_nth_drop_Suc [symmetric])
  obtain s1 r where step: "step s (buf ! rd) = (s1, r)" by (cases "step s (buf ! rd)")
  show ?case
  proof (cases r)
    case None
    have "inplace_loop step left (rd + 1) wr buf s1 = (s', buf', wr')"
      using 2(5) step None by simp
    from 2(1) [OF step [symmetric] None _ _ this] 2(3,4) show ?thesis
      by (simp add: hd step None)
  next
    case (Some y)
    let ?buf = "buf[wr := y]"
    have run: "inplace_loop step left (rd + 1) (wr + 1) ?buf s1 = (s', buf', wr')"
      using 2(5) step Some by simp
    have IH: "wr' \<le> rd + 1 + left \<and> length buf' = length ?buf \<and>
        stream_run step s1 (take left (drop (rd + 1) ?buf)) = (s', drop (wr + 1) (take wr' buf')) \<and>
        wr + 1 \<le> wr' \<and> take (wr + 1) buf' = take (wr + 1) ?buf \<and>
        drop (rd + 1 + left) buf' = drop (rd + 1 + left) ?buf"
      using 2(2) [OF step [symmetric] Some _ _ run] 2(3,4) by simp
    have "drop (rd + 1) ?buf = drop (rd + 1) buf" using 2(3) by simp
    moreover have "take wr buf' = take wr buf"
      using IH 2(3) by (metis le_add1 min.absorb1 take_take take_update_cancel order_refl)
    moreover have "buf' ! wr = y"
      using IH 2(3,4) by (metis add.commute less_add_one nth_list_update_eq nth_take
          order.strict_trans1 Suc_le_eq add_Suc_right le_add1 less_le_trans plus_1_eq_Suc)
    moreover have "drop wr (take wr' buf') = y # drop (wr + 1) (take wr' buf')"
    proof -
      have "wr < length (take wr' buf')" using IH 2(3,4) by simp
      then show ?thesis using \<open>buf' ! wr = y\<close> IH
        by (simp add: Cons_nth_drop_Suc [symmetric])
    qed
    ultimately show ?thesis using IH 2(3) by (simp add: hd step Some)
  qed
qed simp

text \<open>A filter that produces a sample for every sample it reads.\<close>

lemma stream_run_every:
  assumes "\<And>s x. step s x = (nxt s x, Some (out s x))"
  shows "stream_run step s xs =
    (foldl nxt s xs, map (\<lambda>k. out (foldl nxt s (take k xs)) (xs ! k)) [0..<length xs])"
proof (induction xs arbitrary: s)
  case (Cons x xs)
  then show ?case
    by (simp add: assms upt_conv_Cons map_Suc_upt [symmetric] comp_def del: upt_Suc map_Suc_upt)
qed simp

lemma stream_run_every_length:
  "(\<And>s x. \<exists>s' y. step s x = (s', Some y)) \<Longrightarrow> length (snd (stream_run step s xs)) = length xs"
proof (induction xs arbitrary: s)
  case (Cons x xs)
  obtain s' y where "step s x = (s', Some y)" using Cons(2) by blast
  with Cons show ?case by (simp add: case_prod_beta Let_def)
qed simp

subsection \<open>Histories\<close>

text \<open>A history array with the position the next sample is written to.\<close>

type_synonym 'a history = "'a list \<times> nat"

definition ring_push :: "nat \<Rightarrow> 'a \<Rightarrow> 'a history \<Rightarrow> 'a history" where
  "ring_push taps x h = ((fst h)[snd h := x], (snd h + 1) mod taps)"

definition ring_window :: "nat \<Rightarrow> 'a history \<Rightarrow> 'a list" where
  "ring_window taps h = ring_items taps (fst h) (snd h) taps"

definition doubled_push :: "nat \<Rightarrow> 'a \<Rightarrow> 'a history \<Rightarrow> 'a history" where
  "doubled_push taps x h = ((fst h)[snd h := x, snd h + taps := x], (snd h + 1) mod taps)"

definition doubled_window :: "nat \<Rightarrow> 'a history \<Rightarrow> 'a list" where
  "doubled_window taps h = map (\<lambda>i. fst h ! (snd h + i)) [0..<taps]"

definition ring_ok :: "nat \<Rightarrow> 'a history \<Rightarrow> bool" where
  "ring_ok taps h \<longleftrightarrow> ring_wf taps (fst h) (snd h) taps"

definition doubled_ok :: "nat \<Rightarrow> 'a history \<Rightarrow> bool" where
  "doubled_ok taps h \<longleftrightarrow> 2 * taps \<le> length (fst h) \<and> snd h < taps \<and>
     (\<forall>i < taps. fst h ! (i + taps) = fst h ! i)"

locale sample_history =
  fixes taps :: nat
    and invar :: "'h \<Rightarrow> bool"
    and window :: "'h \<Rightarrow> 'a list"
    and push :: "'a \<Rightarrow> 'h \<Rightarrow> 'h"
  assumes length_window: "invar h \<Longrightarrow> length (window h) = taps"
    and invar_push: "invar h \<Longrightarrow> invar (push x h)"
    and window_push: "invar h \<Longrightarrow> window (push x h) = tl (window h) @ [x]"
    and taps_pos: "0 < taps"
begin

lemma invar_fold: "invar h \<Longrightarrow> invar (fold push xs h)"
  by (induction xs arbitrary: h) (simp_all add: invar_push)

text \<open>After any number of samples the window holds the latest ones.\<close>

lemma window_fold: "invar h \<Longrightarrow> window (fold push xs h) = drop (length xs) (window h @ xs)"
proof (induction xs arbitrary: h)
  case (Cons x xs)
  obtain w ws where w: "window h = w # ws"
    using length_window [OF Cons(2)] taps_pos by (cases "window h") auto
  show ?case
    using Cons.IH [OF invar_push [OF Cons(2)], of x] window_push [OF Cons(2), of x] by (simp add: w)
qed simp

end

lemma ring_window_push:
  assumes "ring_ok taps h" "0 < taps"
  shows "ring_window taps (ring_push taps x h) = tl (ring_window taps h) @ [x]"
proof -
  obtain buf pos where h: "h = (buf, pos)" by (cases h)
  have wf: "ring_wf taps buf pos taps" using assms(1) by (simp add: ring_ok_def h)
  obtain n where n: "taps = Suc n" using assms(2) gr0_implies_Suc by blast
  have wf': "ring_wf taps buf ((pos + 1) mod taps) n"
    using ring_wf_pop [OF wf] by (simp add: n)
  have "((pos + 1) mod taps + n) mod taps = (pos + taps) mod taps"
    by (simp add: n mod_add_left_eq del: mod_add_self2)
  also have "\<dots> = pos" using wf by (simp add: ring_wf_def)
  finally have tail: "((pos + 1) mod taps + n) mod taps = pos" .
  show ?thesis
    using ring_items_push [OF wf', of x] ring_items_pop [OF wf assms(2)] tail
    by (simp add: h ring_window_def ring_push_def n)
qed

lemma ring_ok_push: "ring_ok taps h \<Longrightarrow> 0 < taps \<Longrightarrow> ring_ok taps (ring_push taps x h)"
  by (simp add: ring_ok_def ring_push_def ring_wf_def)

lemma doubled_window_ring:
  assumes "doubled_ok taps h"
  shows "doubled_window taps h = ring_window taps h"
proof -
  have "fst h ! (snd h + i) = fst h ! ((snd h + i) mod taps)" if "i < taps" for i
  proof (cases "snd h + i < taps")
    case False
    then have "(snd h + i) mod taps = snd h + i - taps" "snd h + i - taps < taps"
      using assms that by (auto simp: doubled_ok_def mod_if)
    moreover have "fst h ! ((snd h + i - taps) + taps) = fst h ! (snd h + i - taps)"
      using assms calculation(2) unfolding doubled_ok_def by blast
    ultimately show ?thesis using False by simp
  qed simp
  then show ?thesis by (simp add: doubled_window_def ring_window_def ring_items_def)
qed

lemma doubled_ok_push: "doubled_ok taps h \<Longrightarrow> 0 < taps \<Longrightarrow> doubled_ok taps (doubled_push taps x h)"
  by (auto simp: doubled_ok_def doubled_push_def nth_list_update)

lemma ring_items_outside:
  assumes "head < cap" "cap \<le> i"
  shows "ring_items cap (buf[i := x]) head count = ring_items cap buf head count"
proof -
  have "i \<noteq> (head + k) mod cap" for k
    using mod_less_divisor [of cap "head + k"] assms by linarith
  then show ?thesis by (simp add: ring_items_def)
qed

lemma doubled_window_push:
  assumes "doubled_ok taps h" "0 < taps"
  shows "doubled_window taps (doubled_push taps x h) = tl (doubled_window taps h) @ [x]"
proof -
  have ok: "ring_ok taps h" using assms by (auto simp: ring_ok_def ring_wf_def doubled_ok_def)
  have "ring_window taps (doubled_push taps x h) = ring_window taps (ring_push taps x h)"
    using assms by (simp add: ring_window_def doubled_push_def ring_push_def ring_items_outside doubled_ok_def)
  then show ?thesis
    by (simp add: doubled_window_ring assms doubled_ok_push ring_window_push ok)
qed

interpretation ring_hist: sample_history "Suc n" "ring_ok (Suc n)" "ring_window (Suc n)" "ring_push (Suc n)"
  for n :: nat
  by unfold_locales
    (simp_all add: ring_window_def ring_ok_push ring_window_push [unfolded ring_window_def])

interpretation doubled_hist: sample_history "Suc n" "doubled_ok (Suc n)" "doubled_window (Suc n)"
  "doubled_push (Suc n)"
  for n :: nat
  by unfold_locales (simp_all add: doubled_window_push doubled_ok_push, simp add: doubled_window_def)

lemma window_of_padded:
  assumes "k < length xs"
  shows "drop (Suc k) (replicate (Suc n) z @ take (Suc k) xs) =
    map (\<lambda>t. (replicate n z @ xs) ! (k + t)) [0..<Suc n]"
proof -
  let ?ws = "replicate n z @ take (Suc k) xs"
  have "drop (Suc k) (replicate (Suc n) z @ take (Suc k) xs) = drop k ?ws"
    by simp
  also have "\<dots> = map (\<lambda>t. ?ws ! (k + t)) [0..<Suc n]"
    using assms by (intro nth_equalityI) (auto simp del: drop_append upt_Suc)
  also have "\<dots> = map (\<lambda>t. (replicate n z @ xs) ! (k + t)) [0..<Suc n]"
    using assms by (intro map_cong) (auto simp: nth_append)
  finally show ?thesis .
qed

lemma doubled_ok_zero: "0 < taps \<Longrightarrow> 2 * taps \<le> n \<Longrightarrow> doubled_ok taps (replicate n z, 0)"
  by (simp add: doubled_ok_def)

lemma doubled_window_zero: "2 * taps \<le> n \<Longrightarrow> doubled_window taps (replicate n z, 0) = replicate taps z"
  by (simp add: doubled_window_def list_eq_iff_nth_eq)

text \<open>Entry by entry, the latest sample last.\<close>

lemma padded_nth:
  "tap \<le> n \<Longrightarrow> k < length xs \<Longrightarrow>
   (replicate n z @ xs) ! (k + (n - tap)) = (if tap \<le> k then xs ! (k - tap) else z)"
  by (auto simp: nth_append)

lemma window_fold_nth:
  assumes "k < length xs" "tap \<le> n"
  shows "drop (Suc k) (replicate (Suc n) z @ take (Suc k) xs) ! (n - tap) =
    (if tap \<le> k then xs ! (k - tap) else z)"
  unfolding window_of_padded [OF assms(1)]
  using assms padded_nth [OF assms(2,1), of z] by (simp del: upt_Suc)

lemma ring_window_nth: "i < taps \<Longrightarrow> ring_window taps h ! i = fst h ! ((snd h + i) mod taps)"
  by (simp add: ring_window_def ring_items_def)

lemma doubled_window_nth: "i < taps \<Longrightarrow> doubled_window taps h ! i = fst h ! (snd h + i)"
  by (simp add: doubled_window_def)

lemma ring_ok_zero: "0 < taps \<Longrightarrow> taps \<le> n \<Longrightarrow> ring_ok taps (replicate n z, 0)"
  by (simp add: ring_ok_def ring_wf_def)

lemma ring_window_zero: "0 < taps \<Longrightarrow> taps \<le> n \<Longrightarrow> ring_window taps (replicate n z, 0) = replicate taps z"
  by (simp add: ring_window_def ring_items_def list_eq_iff_nth_eq)

subsection \<open>Decimating filters\<close>

text \<open>
  Two filters keep one result of every \<open>factor\<close>: they store each sample, count a phase
  modulo \<open>factor\<close> and compute a result when the phase is zero.
\<close>

locale decimating_filter =
  fixes factor :: nat
    and invar :: "'s \<Rightarrow> bool"
    and phase :: "'s \<Rightarrow> nat"
    and store :: "'s \<Rightarrow> 'a \<Rightarrow> 's"
    and emit :: "'s \<Rightarrow> 'a \<Rightarrow> 'a"
    and step :: "'s \<Rightarrow> 'a \<Rightarrow> 's \<times> 'a option"
  assumes factor_pos: "0 < factor"
    and invar_store: "invar s \<Longrightarrow> invar (store s x)"
    and phase_store: "invar s \<Longrightarrow> phase (store s x) = (phase s + 1) mod factor"
    and step: "invar s \<Longrightarrow> step s x = (store s x, if phase s = 0 then Some (emit s x) else None)"
begin

lemma invar_run: "invar s \<Longrightarrow> invar (foldl store s xs)"
  by (induction xs arbitrary: s) (simp_all add: invar_store)

lemma phase_run: "invar s \<Longrightarrow> phase s < factor \<Longrightarrow> phase (foldl store s xs) = (phase s + length xs) mod factor"
  by (induction xs arbitrary: s) (simp_all add: invar_store phase_store factor_pos mod_add_left_eq)

lemma run_filter:
  "invar s \<Longrightarrow> phase s < factor \<Longrightarrow>
   stream_run step s xs =
     (foldl store s xs,
      map (\<lambda>i. emit (foldl store s (take i xs)) (xs ! i))
        (filter (\<lambda>i. (phase s + i) mod factor = 0) [0..<length xs]))"
proof (induction xs arbitrary: s)
  case (Cons x xs)
  have p: "((phase s + 1) mod factor + i) mod factor = (phase s + Suc i) mod factor" for i
    by (simp add: mod_add_left_eq)
  have "stream_run step (store s x) xs =
      (foldl store s (x # xs), map (\<lambda>i. emit (foldl store s (take (Suc i) (x # xs))) ((x # xs) ! Suc i))
        (filter (\<lambda>i. (phase s + Suc i) mod factor = 0) [0..<length xs]))"
    using Cons.IH [OF invar_store [OF Cons(2)], of x] Cons(2) p
    by (simp add: phase_store factor_pos)
  moreover have "[0..<length (x # xs)] = 0 # map Suc [0..<length xs]"
    by (simp add: upt_conv_Cons map_Suc_upt del: upt_Suc)
  ultimately show ?case
    using Cons(2,3) by (simp add: step filter_map comp_def del: upt_Suc)
qed simp

lemma multiples:
  "filter (\<lambda>i. i mod factor = 0) [0..<n] = map (\<lambda>j. j * factor) [0..<(n + factor - 1) div factor]"
proof (induction n)
  case 0
  then show ?case using factor_pos by simp
next
  case (Suc n)
  show ?case
  proof (cases "n mod factor = 0")
    case True
    then obtain q where "n = q * factor" by (metis dvd_def mod_0_imp_dvd mult.commute)
    then have "(n + factor - 1) div factor = q" "(Suc n + factor - 1) div factor = Suc q" "n = q * factor"
      using factor_pos by (simp_all add: div_add1_eq div_nat_eqI algebra_simps)
    then show ?thesis using Suc True by simp
  next
    case False
    define q r where "q = n div factor" and "r = n mod factor"
    have n: "n = q * factor + r" "r < factor" "0 < r"
      using False factor_pos by (simp_all add: q_def r_def)
    then have "(n + factor - 1) div factor = Suc q" "(Suc n + factor - 1) div factor = Suc q"
      by (intro div_nat_eqI; simp add: algebra_simps)+
    then show ?thesis using Suc False by simp
  qed
qed

lemma run_from_zero:
  "invar s \<Longrightarrow> phase s = 0 \<Longrightarrow>
   stream_run step s xs =
     (foldl store s xs,
      map (\<lambda>j. emit (foldl store s (take (j * factor) xs)) (xs ! (j * factor)))
        [0..<(length xs + factor - 1) div factor])"
  using run_filter [of s xs] multiples [of "length xs"] factor_pos by (simp add: comp_def)

end

end
