(* ===== verification/Rsp_Gain.thy ===== *)
theory Rsp_Gain
  imports Rsp_Float
begin

text \<open>
  The gain tables of the client library: the calibration table and lookup of
  \<open>compat/gain_values.c\<close>, and the integer LNA table \<open>rspduo_lna_gain_reduction\<close> of
  \<open>compat/sdrplay_api_compat.c\<close> that validates a state before the daemon is asked for it.
  The lemmas relate the two tables, which are kept apart in the source.
\<close>

subsection \<open>Calibration tables\<close>

datatype rspduo_gain_knot =
  Knot (knot_rf: real) (knot_maximum: real) (knot_minimum: real) (state_count: nat)
       (knot_lna_reduction: "real list")

definition gain_knots :: "rspduo_gain_knot list" where
  "gain_knots =
    [Knot 0 68.6600037 (-30.6000004) 7
       [0, 6.0200049, 12.3100052, 18.640007, 36.9100037, 42.0700035, 60.2500038],
     Knot 1000 68.6755066 (-30.5810013) 7
       [0, 6.0250092, 12.3150101, 18.6430054, 36.9165039, 42.0730057, 60.2565079],
     Knot 100000 70.2100067 (-28.7000008) 7
       [0, 5.5300064, 11.8200073, 17.9500046, 36.5700073, 41.3800049, 59.9100075],
     Knot 1000000 76.3600006 (-24) 7
       [0, 6.0299988, 12.8199997, 18.6500015, 37.8199997, 43.5800018, 61.3600006],
     Knot 5000000 75.9749985 (-24.6049995) 7
       [0, 6.2900009, 13.2049942, 18.9449997, 38.2149964, 42.8199997, 61.579998],
     Knot 10000000 75.0749969 (-26.1549988) 7
       [0, 6.5, 13.9149932, 19.7949981, 38.7149963, 43.5699958, 62.2299957],
     Knot 11999000 74.3203735 (-26.3598976) 7
       [0, 6.4300308, 13.6401367, 19.4501648, 38.1702652, 43.3900871, 61.6802711],
     Knot 12000000 75.1999969 (-26.2799988) 7
       [0, 6.8399963, 14.0199966, 19.8600006, 38.9399986, 43.5999984, 62.4799957],
     Knot 20000000 75.2444458 (-26.2799988) 7
       [0, 6.7955551, 13.9488907, 19.8511124, 38.8511124, 43.5822258, 62.5244446],
     Knot 29999000 74.7900543 (-26.2999954) 7
       [0, 6.4100494, 14.2199707, 20.0999756, 38.4100494, 43.140049, 62.0900497],
     Knot 30000000 74.0999985 (-26.7700005) 7
       [0, 6.6899948, 13.4399948, 19.5599976, 38.4599991, 43.4899979, 61.869999],
     Knot 50000000 73.1333313 (-29.1399994) 7
       [0, 7.0500031, 14.3966675, 20.3433304, 39.3933296, 44.5299988, 63.2733307],
     Knot 59999000 71.5001602 (-31.4997635) 7
       [0, 7.2299805, 14.8699493, 20.8299484, 39.9199409, 45.0899429, 63.9999237],
     Knot 60000000 101.410004 (-4.18000031) 10
       [0, 6.3000034, 13.2100071, 19.0900043, 24.8100055, 31.2300037, 37.9800037, 43.8500064, 62.3400043, 66.5900043],
     Knot 80000000 102.510002 (-3.1388855) 10
       [0, 5.877777, 12.7133406, 19.0077742, 24.9966658, 30.7577818, 38.0222243, 43.8866652, 62.3877791, 66.6488875],
     Knot 100000000 101.43 (-3.65444183) 10
       [0, 6.1488873, 12.9666669, 18.9588849, 24.3433301, 30.3888852, 37.391113, 43.1933362, 61.7788884, 66.0844418],
     Knot 101100000 101.370598 (-3.68279648) 10
       [0, 6.1637956, 12.9805986, 18.9561922, 24.3073961, 30.3685991, 37.3563995, 43.1551971, 61.7453958, 66.0533945],
     Knot 119999000 100.350052 (-4.16997147) 10
       [0, 6.419983, 13.2199861, 18.9099962, 23.6900254, 30.020012, 36.7600328, 42.5000306, 61.1700288, 65.5200235],
     Knot 120000000 102.68 (-3.09999847) 10
       [0, 6.5400006, 12.9800031, 19.2799985, 24.5699994, 30.5599973, 37.1299969, 42.8600003, 61.3799969, 66.7799985],
     Knot 150000000 102.110001 (-2.97999954) 10
       [0, 6.7300037, 13.4599995, 19.1999973, 24.6900028, 30.2399983, 36.7300037, 42.3799976, 61.3899998, 66.0900005],
     Knot 200000000 101.445717 (-2.47285843) 10
       [0, 6.2814332, 12.8128587, 18.5599977, 22.4571458, 29.1814348, 35.7442857, 41.4442903, 59.9157182, 64.9185754],
     Knot 249999000 98.9600525 (-3.77997208) 10
       [0, 6.3099976, 12.320015, 17.9100113, 22.0000153, 28.8600082, 35.280014, 40.8300171, 59.280014, 63.7400246],
     Knot 250000000 87.5500031 (-18.4399986) 10
       [0, 6.2100068, 12.4400025, 18.1100007, 22.5600052, 28.5699997, 34.6700058, 40.3600007, 59.6800042, 66.9900017],
     Knot 299999000 85.4400558 (-21.0799751) 10
       [0, 6.4199905, 12.3500137, 18.050003, 21.5700225, 28.4999923, 34.9999847, 40.4899826, 59.7899932, 67.5200309],
     Knot 300000000 85.3899994 (-20.3800011) 10
       [0, 6.0699997, 12.5999985, 18.2099991, 21.909996, 28.2200012, 34.7600021, 40.3199997, 59.2999992, 66.7700005],
     Knot 350000000 81.4574966 (-23.625) 10
       [0, 5.9349975, 12.6299972, 18.3174972, 21.5724945, 28.2249984, 34.7999954, 40.4424972, 59.0749969, 66.0824966],
     Knot 379999000 74.6602783 (-28.6798038) 10
       [0, 6.4099731, 13.2999649, 19.0499649, 22.4199524, 28.3399963, 35.0499878, 40.7799873, 59.2299881, 64.3400821],
     Knot 380000000 83.2300034 (-21.9799995) 10
       [0, 6.2200013, 12.8800049, 18.540001, 21.790001, 28.0100022, 34.6300049, 40.2100068, 59.2900048, 66.2100029],
     Knot 400000000 81.7200012 (-22.8033333) 10
       [0, 6.0766678, 12.6966705, 18.3400039, 21.3966675, 27.7400055, 34.2933349, 39.9133339, 59.0600014, 65.5233345],
     Knot 419999000 81.0600128 (-23.7699471) 10
       [0, 6.2199859, 13.0299682, 18.8399505, 21.7299652, 27.9699783, 34.5399933, 40.3299637, 59.030014, 65.8299599],
     Knot 420000000 99.5800018 (-7.38000107) 10
       [0, 7.800003, 14.2700042, 21.25, 22.6399994, 30.1300049, 36.1399994, 42.9300003, 48.8400039, 67.9600029],
     Knot 500000000 100.459999 (-5.22000122) 10
       [0, 7.7499999, 13.5599975, 20.4899978, 21.4799956, 28.9300002, 35.1299972, 41.8799972, 47.6399993, 66.6800002],
     Knot 700000000 98.7099991 (-6.15000153) 10
       [0, 7.7999954, 14, 20.7600022, 20.4700012, 28.4000015, 34.5100022, 41.1200028, 46.8300018, 65.8600006],
     Knot 853863000 95.7283096 (-9.07783127) 10
       [0, 7.6169967, 14.7331314, 21.6439666, 19.2830505, 27.0199585, 33.8376007, 40.7860946, 46.8053665, 65.8061409],
     Knot 900000000 95.2900009 (-9.47000122) 10
       [0, 7.8199997, 14.8899994, 21.9899978, 19.2000046, 26.9000015, 33.5699997, 40.6200027, 46.75, 65.7600021],
     Knot 999999000 91.4600372 (-10.519989) 10
       [0, 7.5800018, 14.1600036, 20.8400116, 17.3800125, 25.030014, 31.5600204, 38.2800216, 44.3200226, 62.9800262],
     Knot 1000000000 81.3399963 (-14.6399994) 9
       [0, 6.8699951, 13.7599945, 17.3399963, 24.2599945, 31.0599975, 36.959999, 37.6099929, 56.9799957],
     Knot 1200000000 84.4199982 (-11.2599983) 9
       [0, 7.3899994, 14.2999955, 16.8699951, 23.1199951, 29.949997, 36.2699967, 37.4300003, 56.6799965],
     Knot 1500000000 87.0722275 (-11.5900002) 9
       [0, 6.7522278, 13.8000107, 17.3422241, 24.5755615, 31.551117, 37.6788941, 40.4044495, 59.6622277],
     Knot 1800000000 88.0559998 (-12.4280014) 9
       [0, 6.5380021, 13.6299973, 17.142006, 24.2299958, 31.2099991, 37.604004, 42.25, 61.4840012],
     Knot 2000000000 75.8399963 (-18.5600014) 9
       [0, 6.6399994, 13.3699951, 15.6399994, 22, 28.6199951, 34.909996, 36.2699966, 55.3999977]]"

definition high_impedance_gain_knots :: "rspduo_gain_knot list" where
  "high_impedance_gain_knots =
    [Knot 0 89.2200012 13.5199966 5 [0, 5.1900024, 10.9500046, 17.8800049, 36.7000046],
     Knot 1000 89.2187042 13.5182953 5 [0, 5.1909027, 10.9511108, 17.88031, 36.7004089],
     Knot 100000 89.090004 13.3499985 5 [0, 5.2800064, 11.0600052, 17.9100113, 36.7400055],
     Knot 1000000 87.9199982 11.8199997 5 [0, 6.0899964, 12.0499955, 18.1800003, 37.0999985],
     Knot 5000000 85.3139954 8.81999969 5 [0, 6.211998, 12.3659974, 18.4919968, 37.4939957],
     Knot 10000000 83.8971405 7.37571716 5 [0, 6.1942825, 12.2999954, 18.4914246, 37.5214233],
     Knot 11999000 83.6486969 7.21294403 5 [0, 6.1371765, 12.2000504, 18.4057541, 37.4357529],
     Knot 12000000 83.6485748 7.21286011 5 [0, 6.137146, 12.2000045, 18.4057159, 37.4357147],
     Knot 15000000 83.7300034 7.34500122 5 [0, 6.1350022, 12.1500016, 18.3625031, 37.3850022],
     Knot 20000000 84.9599991 7.55999756 5 [0, 6.5, 13.0899964, 19.2299957, 38.4000015],
     Knot 25000000 81.2700043 5.23999786 5 [0, 5.6000061, 11.8650055, 18.0149994, 37.0300064],
     Knot 29999000 77.5807419 2.92046356 5 [0, 4.7001877, 10.6402435, 16.8002472, 35.6602783],
     Knot 29999500 77.580368 2.92023087 5 [0, 4.7000885, 10.6401214, 16.8001251, 35.6601371]]"

subsection \<open>Lookup\<close>

definition interpolate :: "fpu \<Rightarrow> real \<Rightarrow> real \<Rightarrow> real \<Rightarrow> real" where
  "interpolate P a b fraction = fl32 P (fl P (a + fl P (fl P (b - a) * fraction)))"

text \<open>
  The search loop: \<open>prev\<close> is the knot visited last, and the pair is \<open>(low, high)\<close>.
\<close>

fun bracket :: "real \<Rightarrow> rspduo_gain_knot \<Rightarrow> rspduo_gain_knot list \<Rightarrow> rspduo_gain_knot \<times> rspduo_gain_knot" where
  "bracket hz prev [] = (prev, prev)"
| "bracket hz prev (k # ks) =
     (if hz = knot_rf k then (k, k) else if hz < knot_rf k then (prev, k) else bracket hz k ks)"

definition lookup_hz :: "fpu \<Rightarrow> bool \<Rightarrow> real \<Rightarrow> real" where
  "lookup_hz P high_impedance_input rf_hz =
     (if high_impedance_input \<or> rf_hz < 1000 then rf_hz
      else fl P (of_int \<lfloor>fl P (fl P (rf_hz + 500) / 1000)\<rfloor> * 1000))"

text \<open>
  The table literals are floats, so each is rounded with \<open>fl32\<close> where it is read. The
  result is \<open>(current, maximum, minimum)\<close>, None where the source returns -1.
\<close>

definition calibrated_gain ::
  "fpu \<Rightarrow> rspduo_gain_knot \<Rightarrow> rspduo_gain_knot \<Rightarrow> real \<Rightarrow> nat \<Rightarrow> int \<Rightarrow> int \<Rightarrow> real \<times> real \<times> real" where
  "calibrated_gain P low high hz lna_state gain_reduction_db minimum_gain_reduction_db =
     (let fraction = (if high = low then 0
                      else fl P (fl P (hz - knot_rf low) / fl P (knot_rf high - knot_rf low)));
          calibrated_max = interpolate P (fl32 P (knot_maximum low)) (fl32 P (knot_maximum high)) fraction;
          calibrated_min = interpolate P (fl32 P (knot_minimum low)) (fl32 P (knot_minimum high)) fraction;
          lna_reduction = interpolate P (fl32 P (knot_lna_reduction low ! lna_state))
                            (fl32 P (knot_lna_reduction high ! lna_state)) fraction
      in (fl32 P (fl32 P (calibrated_max - of_int (gain_reduction_db - 20)) - lna_reduction),
          fl32 P (calibrated_max + of_int (20 - minimum_gain_reduction_db)),
          calibrated_min))"

definition openrsp_rspduo_gain_values ::
  "fpu \<Rightarrow> double \<Rightarrow> nat \<Rightarrow> int \<Rightarrow> int \<Rightarrow> bool \<Rightarrow> (real \<times> real \<times> real) option" where
  "openrsp_rspduo_gain_values P rf_hz lna_state gain_reduction_db minimum_gain_reduction_db
     high_impedance_input =
     (if \<not> isfinite rf_hz \<or> d_less rf_hz (Fin (knot_rf (gain_knots ! 0))) \<or>
         d_less (Fin (knot_rf (last gain_knots))) rf_hz \<or>
         (minimum_gain_reduction_db \<noteq> 0 \<and> minimum_gain_reduction_db \<noteq> 20) \<or>
         gain_reduction_db < minimum_gain_reduction_db \<or> 59 < gain_reduction_db
      then None
      else if high_impedance_input \<and> d_le (Fin 30000000) rf_hz
      then (if lna_state \<ge> 5 then None else Some (0, 0, 0))
      else
        let knots = (if high_impedance_input then high_impedance_gain_knots else gain_knots);
            hz = lookup_hz P high_impedance_input (d_value rf_hz);
            (low, high) = bracket hz (hd knots) knots
        in if lna_state \<ge> state_count low \<or> lna_state \<ge> state_count high then None
           else Some (calibrated_gain P low high hz lna_state gain_reduction_db
                        minimum_gain_reduction_db))"

subsection \<open>The LNA table\<close>

definition lna_gain_table :: "double \<Rightarrow> int list option" where
  "lna_gain_table rf_hz =
     (if d_less rf_hz (Fin 60000000) then Some [0, 6, 12, 18, 37, 42, 61]
      else if d_less rf_hz (Fin 420000000) then Some [0, 6, 12, 18, 20, 26, 32, 38, 57, 62]
      else if d_less rf_hz (Fin 1000000000) then Some [0, 7, 13, 19, 20, 27, 33, 39, 45, 64]
      else if d_le rf_hz (Fin 2000000000) then Some [0, 6, 12, 20, 26, 32, 38, 43, 62]
      else None)"

definition rspduo_lna_gain_reduction :: "double \<Rightarrow> nat \<Rightarrow> int option" where
  "rspduo_lna_gain_reduction rf_hz state =
     (case lna_gain_table rf_hz of None \<Rightarrow> None
      | Some table \<Rightarrow> if state \<ge> length table then None else Some (table ! state))"

subsection \<open>What the search finds\<close>

lemma bracket_bounds:
  assumes "sorted (map knot_rf (prev # ks))" "knot_rf prev \<le> hz"
    and "bracket hz prev ks = (low, high)"
  shows "low \<in> set (prev # ks) \<and> high \<in> set (prev # ks) \<and> knot_rf low \<le> hz \<and>
    (hz \<le> knot_rf high \<or> low = high) \<and>
    (\<forall>k \<in> set ks. hz \<le> knot_rf k \<longrightarrow> knot_rf high \<le> knot_rf k \<or> knot_rf high \<le> hz) \<and>
    (\<forall>k \<in> set (prev # ks). knot_rf k \<le> hz \<longrightarrow> knot_rf k \<le> knot_rf low)"
  using assms
proof (induction hz prev ks rule: bracket.induct)
  case (2 hz prev k ks)
  show ?case
  proof (cases "knot_rf k < hz")
    case True
    then have b: "bracket hz k ks = (low, high)" using 2(4) by simp
    have "knot_rf prev \<le> knot_rf k" using 2(2) by simp
    have IH: "low \<in> set (k # ks) \<and> high \<in> set (k # ks) \<and> knot_rf low \<le> hz \<and>
      (hz \<le> knot_rf high \<or> low = high) \<and>
      (\<forall>k' \<in> set ks. hz \<le> knot_rf k' \<longrightarrow> knot_rf high \<le> knot_rf k' \<or> knot_rf high \<le> hz) \<and>
      (\<forall>k' \<in> set (k # ks). knot_rf k' \<le> hz \<longrightarrow> knot_rf k' \<le> knot_rf low)"
      using 2(1) [OF _ _ _ _ b] 2(2) True by simp
    moreover have "knot_rf prev \<le> knot_rf low"
      using IH True \<open>knot_rf prev \<le> knot_rf k\<close> by (meson less_le_not_le list.set_intros(1) order_trans)
    ultimately show ?thesis using True by simp
  next
    case False
    with 2(2-4) show ?thesis by (auto split: if_splits)
  qed
qed auto

text \<open>The frequencies and state counts of the table, which are all the search depends on.\<close>

lemma gain_knots_rows:
  "map (\<lambda>k. (knot_rf k, state_count k)) gain_knots =
     [(0, 7), (1000, 7), (100000, 7), (1000000, 7), (5000000, 7), (10000000, 7),
      (11999000, 7), (12000000, 7), (20000000, 7), (29999000, 7), (30000000, 7),
      (50000000, 7), (59999000, 7), (60000000, 10), (80000000, 10), (100000000, 10),
      (101100000, 10), (119999000, 10), (120000000, 10), (150000000, 10), (200000000, 10),
      (249999000, 10), (250000000, 10), (299999000, 10), (300000000, 10), (350000000, 10),
      (379999000, 10), (380000000, 10), (400000000, 10), (419999000, 10), (420000000, 10),
      (500000000, 10), (700000000, 10), (853863000, 10), (900000000, 10), (999999000, 10),
      (1000000000, 9), (1200000000, 9), (1500000000, 9), (1800000000, 9), (2000000000, 9)]"
  unfolding gain_knots_def list.map rspduo_gain_knot.sel ..

lemma gain_knots_rf: "map knot_rf gain_knots = map fst (map (\<lambda>k. (knot_rf k, state_count k)) gain_knots)"
  by simp

lemma gain_knots_row: "k \<in> set gain_knots \<Longrightarrow>
    (knot_rf k, state_count k) \<in> set (map (\<lambda>k. (knot_rf k, state_count k)) gain_knots)"
  by force

lemma gain_knots_Cons: "gain_knots \<noteq> []"
  by (simp add: gain_knots_def)

lemma sorted_map_hd: "sorted (map f xs) \<Longrightarrow> xs \<noteq> [] \<Longrightarrow> sorted (map f (hd xs # xs))"
  by (cases xs) simp_all

lemma gain_knots_sorted: "sorted (map knot_rf (hd gain_knots # gain_knots))"
proof (rule sorted_map_hd)
  show "sorted (map knot_rf gain_knots)"
    unfolding gain_knots_rf gain_knots_rows list.map fst_conv by (simp only: sorted2 sorted1) simp
qed (rule gain_knots_Cons)

lemma gain_knots_ends [simp]: "knot_rf (gain_knots ! 0) = 0" "knot_rf (hd gain_knots) = 0"
  "knot_rf (last gain_knots) = 2000000000" "hd gain_knots \<in> set gain_knots"
proof -
  have hd: "knot_rf (hd gain_knots) = hd (map knot_rf gain_knots)"
    using gain_knots_Cons by (simp add: hd_map)
  have "knot_rf (last gain_knots) = last (map knot_rf gain_knots)"
    using gain_knots_Cons by (simp add: last_map)
  then show "knot_rf (last gain_knots) = 2000000000"
    unfolding gain_knots_rf gain_knots_rows by simp
  show "knot_rf (hd gain_knots) = 0" unfolding hd gain_knots_rf gain_knots_rows by simp
  then show "knot_rf (gain_knots ! 0) = 0" using gain_knots_Cons by (simp add: hd_conv_nth)
  show "hd gain_knots \<in> set gain_knots" using gain_knots_Cons by simp
qed

lemma gain_knots_members:
  "{0, 59999000, 60000000, 999999000, 1000000000, 2000000000} \<subseteq> knot_rf ` set gain_knots"
proof -
  have "knot_rf ` set gain_knots = fst ` set (map (\<lambda>k. (knot_rf k, state_count k)) gain_knots)"
    by (simp add: image_image)
  then show ?thesis unfolding gain_knots_rows by simp
qed

lemma gain_knots_counts:
  assumes "k \<in> set gain_knots"
  shows "state_count k = (if knot_rf k \<le> 59999000 then 7 else if knot_rf k \<le> 999999000 then 10 else 9)"
proof -
  have "\<forall>row \<in> set (map (\<lambda>k. (knot_rf k, state_count k)) gain_knots).
      snd row = (if fst row \<le> 59999000 then 7 else if fst row \<le> 999999000 then 10 else 9)"
    unfolding gain_knots_rows by simp
  with gain_knots_row [OF assms] show ?thesis by fastforce
qed

text \<open>Two knots of the table enclose the knots the search returns.\<close>

lemma bracket_between:
  assumes "A \<in> knot_rf ` set gain_knots" "B \<in> knot_rf ` set gain_knots" "A \<le> hz" "hz \<le> B"
    and "bracket hz (hd gain_knots) gain_knots = (low, high)"
  shows "low \<in> set gain_knots \<and> high \<in> set gain_knots \<and>
    A \<le> knot_rf low \<and> knot_rf low \<le> B \<and> A \<le> knot_rf high \<and> knot_rf high \<le> B"
proof -
  obtain a b where ab: "a \<in> set gain_knots" "knot_rf a = A" "b \<in> set gain_knots" "knot_rf b = B"
    using assms(1,2) by auto
  have "\<forall>k \<in> set gain_knots. 0 \<le> knot_rf k" using gain_knots_sorted by simp
  then have "0 \<le> A" using ab(1,2) by blast
  then have "knot_rf (hd gain_knots) \<le> hz" using assms(3) by simp
  note br = bracket_bounds [OF gain_knots_sorted this assms(5)]
  have mem: "low \<in> set gain_knots" "high \<in> set gain_knots"
    using br gain_knots_ends(4) by (metis set_ConsD)+
  have "\<forall>k \<in> set gain_knots. knot_rf k \<le> hz \<longrightarrow> knot_rf k \<le> knot_rf low" "knot_rf low \<le> hz"
    using br by simp_all
  with ab(1,2) assms(3) have low: "A \<le> knot_rf low" "knot_rf low \<le> hz" by auto
  have "hz \<le> knot_rf high \<or> low = high" using br by blast
  then have "A \<le> knot_rf high" using low assms(3) by fastforce
  moreover have "knot_rf high \<le> B \<or> knot_rf high \<le> hz"
    using br ab(3,4) assms(4) by blast
  ultimately show ?thesis using mem low assms(4) by auto
qed

lemma bracket_state_count:
  assumes "0 \<le> hz" "hz \<le> 2000000000" "\<not> (59999000 < hz \<and> hz < 60000000)"
    "\<not> (999999000 < hz \<and> hz < 1000000000)"
    and "bracket hz (hd gain_knots) gain_knots = (low, high)"
  shows "state_count low = (if hz \<le> 59999000 then 7 else if hz \<le> 999999000 then 10 else 9) \<and>
    state_count high = state_count low"
proof -
  consider "hz \<le> 59999000" | "60000000 \<le> hz" "hz \<le> 999999000" | "1000000000 \<le> hz"
    using assms by linarith
  then show ?thesis
  proof cases
    case 1
    then show ?thesis
      using bracket_between [of 0 59999000, OF _ _ _ _ assms(5)] assms gain_knots_members
      by (auto simp: gain_knots_counts)
  next
    case 2
    then show ?thesis
      using bracket_between [of 60000000 999999000, OF _ _ _ _ assms(5)] assms gain_knots_members
      by (auto simp: gain_knots_counts)
  next
    case 3
    then show ?thesis
      using bracket_between [of 1000000000 2000000000, OF _ _ _ _ assms(5)] assms gain_knots_members
      by (auto simp: gain_knots_counts)
  qed
qed

subsection \<open>Rounding to the nearest kHz\<close>

text \<open>The frequency looked up is a multiple of 1 kHz from 1 kHz on, within these bounds.\<close>

definition lookup_khz :: "fpu \<Rightarrow> real \<Rightarrow> int" where
  "lookup_khz P x = \<lfloor>fl P (fl P (x + 500) / 1000)\<rfloor>"

lemma lookup_khz_ge:
  assumes "ieee P" "0 \<le> n" "n \<le> 2000001" "1000 * of_int n \<le> x + 500"
  shows "n \<le> lookup_khz P x"
proof -
  have "of_int (1000 * n) = fl P (of_int (1000 * n))"
    using assms by (intro ieee_fl_int [symmetric]) auto
  also have "\<dots> \<le> fl P (x + 500)" using assms by (intro ieee_fl_mono) auto
  finally have "of_int n \<le> fl P (x + 500) / 1000" by simp
  then have "fl P (of_int n) \<le> fl P (fl P (x + 500) / 1000)" by (intro ieee_fl_mono assms)
  then show ?thesis using assms by (simp add: ieee_fl_int lookup_khz_def le_floor_iff)
qed

lemma lookup_khz_less:
  assumes "ieee P" "1 \<le> n" "n \<le> 2000001" "x + 500 \<le> 1000 * of_int n - 1"
  shows "lookup_khz P x < n"
proof -
  have "fl P (x + 500) \<le> fl P (of_int (1000 * n - 1))" using assms by (intro ieee_fl_mono) auto
  also have "\<dots> = of_int (1000 * n - 1)" using assms by (intro ieee_fl_int) auto
  finally have "fl P (fl P (x + 500) / 1000) \<le> fl P (of_int n - 1 / 1000)"
    by (intro ieee_fl_mono assms) (simp add: field_simps)
  also have "\<dots> \<le> of_int n - 1 / 1000 + (of_int n - 1 / 1000) / 2 ^ 53"
    using assms by (intro ieee_fl_upper) (auto simp: field_simps)
  also have "\<dots> < of_int n"
  proof -
    have "(of_int n :: real) \<le> 2000001" using assms(3) by linarith
    then show ?thesis by simp
  qed
  finally show ?thesis by (simp add: lookup_khz_def floor_less_iff)
qed

lemma lookup_hz_khz:
  assumes "ieee P" "1000 \<le> x" "x \<le> 2000000000"
  shows "lookup_hz P False x = 1000 * of_int (lookup_khz P x)" "1 \<le> lookup_khz P x"
    "lookup_khz P x \<le> 2000000"
proof -
  show ge: "1 \<le> lookup_khz P x" using assms by (intro lookup_khz_ge) auto
  have "lookup_khz P x < 2000001" using assms by (intro lookup_khz_less) auto
  then show le: "lookup_khz P x \<le> 2000000" by simp
  have "fl P (of_int (lookup_khz P x * 1000)) = of_int (lookup_khz P x * 1000)"
    using assms ge le by (intro ieee_fl_int) auto
  then show "lookup_hz P False x = 1000 * of_int (lookup_khz P x)"
    using assms by (simp add: lookup_hz_def lookup_khz_def)
qed

text \<open>The number of LNA states the calibration table has at a frequency.\<close>

definition calibrated_states :: "fpu \<Rightarrow> real \<Rightarrow> nat" where
  "calibrated_states P x =
     (if lookup_hz P False x \<le> 59999000 then 7
      else if lookup_hz P False x \<le> 999999000 then 10 else 9)"

lemma lookup_state_counts:
  assumes "ieee P" "0 \<le> x" "x \<le> 2000000000"
    and "bracket (lookup_hz P False x) (hd gain_knots) gain_knots = (low, high)"
  shows "state_count low = calibrated_states P x" "state_count high = calibrated_states P x"
proof -
  have "0 \<le> lookup_hz P False x \<and> lookup_hz P False x \<le> 2000000000 \<and>
    \<not> (59999000 < lookup_hz P False x \<and> lookup_hz P False x < 60000000) \<and>
    \<not> (999999000 < lookup_hz P False x \<and> lookup_hz P False x < 1000000000)"
  proof (cases "x < 1000")
    case True
    then show ?thesis using assms(2) by (simp add: lookup_hz_def)
  next
    case False
    then show ?thesis using lookup_hz_khz [of P x] assms by simp
  qed
  with bracket_state_count [OF _ _ _ _ assms(4)]
  show "state_count low = calibrated_states P x" "state_count high = calibrated_states P x"
    by (simp_all add: calibrated_states_def)
qed

lemma gain_values_50_ohm:
  assumes "ieee P" "0 \<le> x" "x \<le> 2000000000" "m = 0 \<or> m = 20" "m \<le> g" "g \<le> 59"
  shows "(openrsp_rspduo_gain_values P (Fin x) state g m False \<noteq> None) =
    (state < calibrated_states P x)"
proof -
  obtain low high where b: "bracket (lookup_hz P False x) (hd gain_knots) gain_knots = (low, high)"
    by (cases "bracket (lookup_hz P False x) (hd gain_knots) gain_knots")
  note counts = lookup_state_counts [OF assms(1-3) b]
  show ?thesis
    using assms b by (auto simp: openrsp_rspduo_gain_values_def counts simp del: not_None_eq)
qed

lemma calibrated_states_bands:
  assumes "ieee P" "0 \<le> x" "x \<le> 2000000000"
  shows "x < 60000000 \<Longrightarrow> 7 \<le> calibrated_states P x"
    and "60000000 \<le> x \<Longrightarrow> x \<le> 999999499 \<Longrightarrow> calibrated_states P x = 10"
    and "999999500 \<le> x \<Longrightarrow> calibrated_states P x = 9"
    and "60000000 \<le> x \<Longrightarrow> 9 \<le> calibrated_states P x"
proof -
  show "7 \<le> calibrated_states P x" by (simp add: calibrated_states_def)
  show "9 \<le> calibrated_states P x" if "60000000 \<le> x"
  proof -
    have "60000 \<le> lookup_khz P x" using assms(1) that by (intro lookup_khz_ge) auto
    then show ?thesis
      using lookup_hz_khz [of P x] assms that by (simp add: calibrated_states_def)
  qed
  show "calibrated_states P x = 10" if "60000000 \<le> x" "x \<le> 999999499"
  proof -
    have "60000 \<le> lookup_khz P x" using assms(1) that by (intro lookup_khz_ge) auto
    moreover have "lookup_khz P x < 1000000" using assms(1) that by (intro lookup_khz_less) auto
    ultimately show ?thesis
      using lookup_hz_khz [of P x] assms that by (simp add: calibrated_states_def)
  qed
  show "calibrated_states P x = 9" if "999999500 \<le> x"
  proof -
    have "1000000 \<le> lookup_khz P x" using assms(1) that by (intro lookup_khz_ge) auto
    then show ?thesis
      using lookup_hz_khz [of P x] assms that by (simp add: calibrated_states_def)
  qed
qed

lemma lna_states:
  "(rspduo_lna_gain_reduction (Fin x) state \<noteq> None) =
     (x \<le> 2000000000 \<and>
      state < (if x < 60000000 then 7 else if x < 1000000000 then 10 else 9))"
  by (simp add: rspduo_lna_gain_reduction_def lna_gain_table_def)

subsection \<open>The two tables agree\<close>

lemma bracket_members:
  "bracket hz prev ks = (low, high) \<Longrightarrow> low \<in> insert prev (set ks) \<and> high \<in> insert prev (set ks)"
  by (induction hz prev ks rule: bracket.induct) (auto split: if_splits)

lemma high_impedance_states: "k \<in> set high_impedance_gain_knots \<Longrightarrow> state_count k = 5"
  by (auto simp: high_impedance_gain_knots_def)

lemma gain_values_high_impedance:
  assumes "0 \<le> x" "x \<le> 2000000000" "m = 0 \<or> m = 20" "m \<le> g" "g \<le> 59"
  shows "(openrsp_rspduo_gain_values P (Fin x) state g m True \<noteq> None) = (state < 5)"
proof -
  obtain low high where b: "bracket (lookup_hz P True x) (hd high_impedance_gain_knots) high_impedance_gain_knots = (low, high)"
    by (cases "bracket (lookup_hz P True x) (hd high_impedance_gain_knots) high_impedance_gain_knots")
  have "hd high_impedance_gain_knots \<in> set high_impedance_gain_knots"
    by (simp add: high_impedance_gain_knots_def)
  then have "state_count low = 5" "state_count high = 5"
    using bracket_members [OF b] high_impedance_states by auto
  then show ?thesis
    using assms b by (auto simp: openrsp_rspduo_gain_values_def simp del: not_None_eq)
qed



text \<open>
  C39. Just below 1 GHz the tables disagree: from 500 Hz below it, the lookup rounds the
  frequency up into the next band, whose calibration has 9 states, so state 9, which the LNA
  table admits with a reduction of 64 dB, has no gain values. An update to this state is
  validated and sent to the daemon and only then reported as failed.
\<close>

theorem gain_values_missing_below_1GHz:
  assumes "ieee P" and "999999500 \<le> x" and "x < 1000000000"
  shows "rspduo_lna_gain_reduction (Fin x) 9 = Some 64 \<and>
    openrsp_rspduo_gain_values P (Fin x) 9 g m False = None"
proof -
  have "calibrated_states P x = 9" using calibrated_states_bands(3) [OF assms(1)] assms by simp
  moreover have "openrsp_rspduo_gain_values P (Fin x) 9 g m False = None"
    if "\<not> ((m = 0 \<or> m = 20) \<and> m \<le> g \<and> g \<le> 59)"
    using that by (auto simp: openrsp_rspduo_gain_values_def)
  ultimately have "openrsp_rspduo_gain_values P (Fin x) 9 g m False = None"
    using gain_values_50_ohm [of P x m g 9] assms by fastforce
  then show ?thesis using assms by (simp add: rspduo_lna_gain_reduction_def lna_gain_table_def)
qed

theorem gain_values_missing_below_1GHz_witness:
  "rspduo_lna_gain_reduction (Fin 999999600) 9 = Some 64 \<and>
   openrsp_rspduo_gain_values exact_fpu (Fin 999999600) 9 40 20 False = None"
  using gain_values_missing_below_1GHz [OF ieee_exact_fpu, of 999999600 40 20] by simp

subsection \<open>Reported gains are ordered\<close>

lemma interpolate_nonneg:
  assumes "ieee P" "0 \<le> a" "0 \<le> b" "0 \<le> fraction" "fraction \<le> 1" "fl P a = a"
  shows "0 \<le> interpolate P a b fraction"
proof -
  have "- a \<le> fl P (b - a)"
    using ieee_fl_mono [OF assms(1), of "- a" "b - a"] assms by (simp add: ieee_fl_uminus)
  then have "- a \<le> fl P (b - a) * fraction"
    using assms(2,4,5) by (smt (verit) mult_left_le_one_le mult_right_mono minus_mult_left mult.commute)
  then have "- a \<le> fl P (fl P (b - a) * fraction)"
    using ieee_fl_mono [OF assms(1), of "- a" "fl P (b - a) * fraction"] assms
    by (simp add: ieee_fl_uminus)
  then show ?thesis unfolding interpolate_def
    using assms(1) by (intro ieee_fl32_nonneg ieee_fl_nonneg) auto
qed

text \<open>What both tables satisfy: every state has a reduction, and none is negative.\<close>

definition lna_rows_ok :: "rspduo_gain_knot list \<Rightarrow> bool" where
  "lna_rows_ok knots \<longleftrightarrow>
     list_all (\<lambda>k. length (knot_lna_reduction k) = state_count k \<and>
                   list_all (\<lambda>v. 0 \<le> v) (knot_lna_reduction k)) knots"

lemma lna_rows_ok_tables: "lna_rows_ok gain_knots" "lna_rows_ok high_impedance_gain_knots"
  unfolding lna_rows_ok_def gain_knots_def high_impedance_gain_knots_def
    list.pred_inject rspduo_gain_knot.sel
  by simp_all

lemma lna_rows_nonneg:
  "lna_rows_ok knots \<Longrightarrow> k \<in> set knots \<Longrightarrow> i < state_count k \<Longrightarrow> 0 \<le> knot_lna_reduction k ! i"
  by (auto simp: lna_rows_ok_def list_all_iff)

lemma high_impedance_knots_sorted:
  "sorted (map knot_rf (hd high_impedance_gain_knots # high_impedance_gain_knots))"
  "knot_rf (hd high_impedance_gain_knots) = 0" "high_impedance_gain_knots \<noteq> []"
  unfolding high_impedance_gain_knots_def list.map list.sel rspduo_gain_knot.sel
  by (simp_all only: sorted2 sorted1) simp_all

lemma calibrated_gain_ordered:
  assumes "ieee P" "lna_rows_ok knots" "low \<in> set knots" "high \<in> set knots"
    and "knot_rf low \<le> hz" "hz \<le> knot_rf high \<or> low = high"
    and "state < state_count low" "state < state_count high" "m \<le> g"
    and "calibrated_gain P low high hz state g m = (current, maximum, minimum)"
  shows "current \<le> maximum"
proof -
  define fraction where "fraction = (if high = low then 0
    else fl P (fl P (hz - knot_rf low) / fl P (knot_rf high - knot_rf low)))"
  have "0 \<le> fraction \<and> fraction \<le> 1"
  proof (cases "high = low")
    case False
    have n: "0 \<le> fl P (hz - knot_rf low)" using assms(5) by (intro ieee_fl_nonneg [OF assms(1)]) simp
    have "fl P (hz - knot_rf low) \<le> fl P (knot_rf high - knot_rf low)"
      using False assms(6) by (intro ieee_fl_mono [OF assms(1)]) auto
    with n have "fl P (hz - knot_rf low) / fl P (knot_rf high - knot_rf low) \<le> 1"
      by (auto simp: divide_le_eq_1)
    with n False show ?thesis
      using ieee_fl_mono [OF assms(1), of "fl P (hz - knot_rf low) / fl P (knot_rf high - knot_rf low)" 1]
        ieee_fl_nonneg [OF assms(1)] ieee_fl_1 [OF assms(1)]
        \<open>fl P (hz - knot_rf low) \<le> fl P (knot_rf high - knot_rf low)\<close>
      by (simp add: fraction_def)
  qed (simp add: fraction_def)
  then have lna: "0 \<le> interpolate P (fl32 P (knot_lna_reduction low ! state))
      (fl32 P (knot_lna_reduction high ! state)) fraction" (is "0 \<le> ?lna")
    using assms(1-4,7,8)
    by (intro interpolate_nonneg ieee_fl32_nonneg) (auto simp: ieee_fl_fl32 intro: lna_rows_nonneg)
  define cm where "cm = interpolate P (fl32 P (knot_maximum low)) (fl32 P (knot_maximum high)) fraction"
  have "fl32 P (fl32 P (cm - of_int (g - 20)) - ?lna) \<le> fl32 P (fl32 P (cm - of_int (g - 20)))"
    using lna by (intro ieee_fl32_mono [OF assms(1)]) simp
  also have "\<dots> \<le> fl32 P (cm + of_int (20 - m))"
    unfolding ieee_fl32_fl32 [OF assms(1)] using assms(9) by (intro ieee_fl32_mono [OF assms(1)]) simp
  finally show ?thesis
    using assms(10) unfolding calibrated_gain_def fraction_def [symmetric] cm_def [symmetric] Let_def
    by simp
qed

text \<open>
  Whenever gain values are reported, on either input, the current gain does not exceed
  the reported maximum.
\<close>

lemma gain_values_ordered:
  assumes "ieee P"
    and "openrsp_rspduo_gain_values P rf state g m high_impedance = Some (current, maximum, minimum)"
  shows "current \<le> maximum"
proof -
  obtain x where rf: "rf = Fin x" and x: "0 \<le> x"
    using assms(2) by (cases rf) (auto simp: openrsp_rspduo_gain_values_def split: if_splits)
  have m: "m \<le> g" using assms(2) by (auto simp: openrsp_rspduo_gain_values_def split: if_splits)
  show ?thesis
  proof (cases "high_impedance \<and> 30000000 \<le> x")
    case True
    then show ?thesis using assms(2) by (auto simp: openrsp_rspduo_gain_values_def rf split: if_splits)
  next
    case False
    define knots where "knots = (if high_impedance then high_impedance_gain_knots else gain_knots)"
    define hz where "hz = lookup_hz P high_impedance x"
    obtain low high where b: "bracket hz (hd knots) knots = (low, high)"
      by (cases "bracket hz (hd knots) knots")
    have s: "state < state_count low" "state < state_count high"
      and c: "calibrated_gain P low high hz state g m = (current, maximum, minimum)"
      using assms(2) False b
      by (auto simp: openrsp_rspduo_gain_values_def rf knots_def [symmetric] hz_def [symmetric] split: if_splits)
    have k: "lna_rows_ok knots" "sorted (map knot_rf (hd knots # knots))" "knot_rf (hd knots) = 0"
        "knots \<noteq> []"
      using lna_rows_ok_tables gain_knots_sorted high_impedance_knots_sorted gain_knots_Cons
      by (simp_all add: knots_def)
    have "0 \<le> hz"
    proof (cases "high_impedance \<or> x < 1000")
      case False
      have "0 \<le> lookup_khz P x"
        using False x by (intro lookup_khz_ge assms(1)) auto
      then show ?thesis
        using False by (auto simp: hz_def lookup_hz_def lookup_khz_def intro!: ieee_fl_nonneg assms(1))
    qed (use x in \<open>auto simp: hz_def lookup_hz_def\<close>)
    then have hd: "knot_rf (hd knots) \<le> hz" using k(3) by simp
    note br = bracket_bounds [OF k(2) hd b]
    have mem: "low \<in> set knots" "high \<in> set knots"
      using br hd_in_set [OF k(4)] by (metis set_ConsD)+
    have pos: "knot_rf low \<le> hz" "hz \<le> knot_rf high \<or> low = high" using br by blast+
    show ?thesis by (rule calibrated_gain_ordered [OF assms(1) k(1) mem pos s m c])
  qed
qed

end
