(* ===== verification/Rsp_Adsb.thy ===== *)
theory Rsp_Adsb
  imports Rsp_Fir
begin

text \<open>
  The ADS-B filter of \<open>compat/adsb_filter.c\<close>: a 17-tap FIR filter with fixed-point
  coefficients. \<open>int32_t\<close> and \<open>int16_t\<close> values are integers here; the sums of the inner
  loop are \<open>int64_t\<close> in the source, and \<open>adsb_sums_fit\<close> shows that they never leave that
  range, so that integers are exact. The two parallel sample arrays are one list of pairs.
\<close>

subsection \<open>State and configuration\<close>

record openrsp_adsb_filter =
  adsb_mode :: int
  adsb_sample_rate_hz :: double
  adsb_taps :: nat
  adsb_position :: nat
  adsb_coefficients :: "int list"
  adsb_history_i :: "int list"
  adsb_history_q :: "int list"

abbreviation (input) OPENRSP_ADSB_DECIMATION :: int where "OPENRSP_ADSB_DECIMATION \<equiv> 0"
abbreviation (input) OPENRSP_ADSB_MAX_TAPS :: nat where "OPENRSP_ADSB_MAX_TAPS \<equiv> 17"

definition valid_mode :: "int \<Rightarrow> bool" where
  "valid_mode mode \<longleftrightarrow> 0 \<le> mode \<and> mode \<le> 3"

definition i32_of_int :: "int \<Rightarrow> int" where
  "i32_of_int n = sint (of_int n :: i32)"

text \<open>\<open>sinc * window\<close> of one tap, Blackman-windowed.\<close>

definition adsb_tap :: "fpu \<Rightarrow> real \<Rightarrow> nat \<Rightarrow> real" where
  "adsb_tap P normalized_cutoff index =
     (let center = dmul P (dsub P 17 1) (1 / 2);
          offset = dsub P (of_nat index) center;
          sinc = (if offset = 0 then dmul P 2 normalized_cutoff
                  else ddiv P (fsin P (dmul P (dmul P (dmul P 2 (dpi P)) normalized_cutoff) offset))
                         (dmul P (dpi P) offset));
          window = dadd P (dsub P (fl P 0.42)
                       (dmul P (1 / 2) (fcos P (ddiv P (dmul P (dmul P 2 (dpi P)) (of_nat index)) 16))))
                     (dmul P (fl P 0.08) (fcos P (ddiv P (dmul P (dmul P 4 (dpi P)) (of_nat index)) 16)))
      in dmul P sinc window)"

definition adsb_tap_sum :: "fpu \<Rightarrow> real \<Rightarrow> real" where
  "adsb_tap_sum P normalized_cutoff =
     foldl (\<lambda>acc index. dadd P acc (adsb_tap P normalized_cutoff index)) 0 [0..<17]"

definition adsb_coefficient :: "fpu \<Rightarrow> real \<Rightarrow> nat \<Rightarrow> int" where
  "adsb_coefficient P normalized_cutoff index =
     i32_of_int (lround (dmul P (ddiv P (adsb_tap P normalized_cutoff index)
                                   (adsb_tap_sum P normalized_cutoff)) 1073741824))"

text \<open>The result and the filter; a failure after the checks leaves a cleared filter.\<close>

definition openrsp_adsb_filter_configure ::
  "fpu \<Rightarrow> openrsp_adsb_filter \<Rightarrow> double \<Rightarrow> int \<Rightarrow> int \<times> openrsp_adsb_filter" where
  "openrsp_adsb_filter_configure P f sample_rate_hz mode =
     (if \<not> isfinite sample_rate_hz \<or> d_le sample_rate_hz (Fin 0) \<or> \<not> valid_mode mode then (-1, f)
      else
        let f = \<lparr>adsb_mode = mode, adsb_sample_rate_hz = sample_rate_hz, adsb_taps = 0,
                 adsb_position = 0, adsb_coefficients = replicate 17 0,
                 adsb_history_i = replicate 34 0, adsb_history_q = replicate 34 0\<rparr>
        in if mode = OPENRSP_ADSB_DECIMATION
           then (0, f\<lparr>adsb_taps := 1, adsb_coefficients := (adsb_coefficients f)[0 := 1073741824]\<rparr>)
           else
             let bandwidth_hz = (if mode = 3 then 3000000 else 2000000);
                 nyquist_hz = dmul P (d_value sample_rate_hz) (1 / 2);
                 f = f\<lparr>adsb_taps := OPENRSP_ADSB_MAX_TAPS\<rparr>;
                 cutoff_hz = dmul P bandwidth_hz (1 / 2);
                 transition_hz = dmul P bandwidth_hz (fl P 0.1)
             in if dadd P cutoff_hz transition_hz \<ge> nyquist_hz then (-1, f)
                else
                  let normalized_cutoff = ddiv P (dadd P cutoff_hz transition_hz) (d_value sample_rate_hz)
                  in if \<bar>adsb_tap_sum P normalized_cutoff\<bar> < fl P (1 / 10 ^ 12) then (-1, f)
                     else (0, f\<lparr>adsb_coefficients := map (adsb_coefficient P normalized_cutoff) [0..<17]\<rparr>))"

definition openrsp_adsb_filter_reset :: "openrsp_adsb_filter \<Rightarrow> openrsp_adsb_filter" where
  "openrsp_adsb_filter_reset f =
     f\<lparr>adsb_history_i := replicate 34 0, adsb_history_q := replicate 34 0, adsb_position := 0\<rparr>"

subsection \<open>Processing\<close>

definition adsb_clamp_sample :: "int \<Rightarrow> int" where
  "adsb_clamp_sample scaled_value =
     (let v = (if scaled_value \<ge> 0 then scaled_value div 2 ^ 30 else - ((- scaled_value) div 2 ^ 30))
      in if v > 32767 then 32767 else if v < -32768 then -32768 else v)"

text \<open>The inner loop: the taps from the oldest sample of the window to the newest.\<close>

definition adsb_sum :: "int list \<Rightarrow> nat \<Rightarrow> int list \<Rightarrow> nat \<Rightarrow> int" where
  "adsb_sum coefficients taps history position =
     sum_list (map (\<lambda>tap. coefficients ! tap * history ! (position + tap)) [0..<taps])"

definition adsb_store :: "openrsp_adsb_filter \<Rightarrow> int \<times> int \<Rightarrow> openrsp_adsb_filter" where
  "adsb_store f x =
     (let taps = adsb_taps f;
          (history_i, position) = doubled_push taps (fst x) (adsb_history_i f, adsb_position f);
          (history_q, _) = doubled_push taps (snd x) (adsb_history_q f, adsb_position f)
      in f\<lparr>adsb_history_i := history_i, adsb_history_q := history_q, adsb_position := position\<rparr>)"

definition adsb_step ::
  "openrsp_adsb_filter \<Rightarrow> int \<times> int \<Rightarrow> openrsp_adsb_filter \<times> (int \<times> int) option" where
  "adsb_step f x =
     (let f = adsb_store f x in
      (f, Some (adsb_clamp_sample (adsb_sum (adsb_coefficients f) (adsb_taps f) (adsb_history_i f) (adsb_position f)),
                adsb_clamp_sample (adsb_sum (adsb_coefficients f) (adsb_taps f) (adsb_history_q f) (adsb_position f)))))"

definition openrsp_adsb_filter_process ::
  "openrsp_adsb_filter \<Rightarrow> (int \<times> int) list \<Rightarrow> nat \<Rightarrow> openrsp_adsb_filter \<times> (int \<times> int) list \<times> nat" where
  "openrsp_adsb_filter_process f buf samples =
     (if adsb_mode f = OPENRSP_ADSB_DECIMATION then (f, buf, samples)
      else inplace_loop adsb_step samples 0 0 buf f)"

subsection \<open>The window\<close>

lemma adsb_store_fields [simp]:
  "adsb_taps (adsb_store f x) = adsb_taps f" "adsb_mode (adsb_store f x) = adsb_mode f"
  "adsb_coefficients (adsb_store f x) = adsb_coefficients f"
  "(adsb_history_i (adsb_store f x), adsb_position (adsb_store f x)) =
     doubled_push (adsb_taps f) (fst x) (adsb_history_i f, adsb_position f)"
  "(adsb_history_q (adsb_store f x), adsb_position (adsb_store f x)) =
     doubled_push (adsb_taps f) (snd x) (adsb_history_q f, adsb_position f)"
  by (simp_all add: adsb_store_def doubled_push_def Let_def)

lemma adsb_store_fold [simp]:
  "adsb_taps (foldl adsb_store f xs) = adsb_taps f"
  "adsb_coefficients (foldl adsb_store f xs) = adsb_coefficients f"
  "(adsb_history_i (foldl adsb_store f xs), adsb_position (foldl adsb_store f xs)) =
     fold (doubled_push (adsb_taps f)) (map fst xs) (adsb_history_i f, adsb_position f)"
  "(adsb_history_q (foldl adsb_store f xs), adsb_position (foldl adsb_store f xs)) =
     fold (doubled_push (adsb_taps f)) (map snd xs) (adsb_history_q f, adsb_position f)"
  by (induction xs arbitrary: f) simp_all

lemma adsb_sum_window:
  "adsb_sum cs taps history position =
     sum_list (map (\<lambda>tap. cs ! tap * doubled_window taps (history, position) ! tap) [0..<taps])"
  unfolding adsb_sum_def doubled_window_def by (intro arg_cong [where f = sum_list] map_cong) simp_all

lemma adsb_configured:
  assumes "openrsp_adsb_filter_configure P f0 rate mode = (0, f)" "mode \<noteq> OPENRSP_ADSB_DECIMATION"
  shows "adsb_taps f = 17" "adsb_mode f = mode" "adsb_position f = 0"
    "adsb_history_i f = replicate 34 0" "adsb_history_q f = replicate 34 0"
    "length (adsb_coefficients f) = 17" "\<forall>c \<in> set (adsb_coefficients f). - (2 ^ 31) \<le> c \<and> c < 2 ^ 31"
  using assms unfolding openrsp_adsb_filter_configure_def
  by (auto simp: Let_def adsb_coefficient_def i32_of_int_def split: if_splits
      intro: sint_ge [where 'a = 32, simplified] sint_lt [where 'a = 32, simplified])

text \<open>Zeros before the first sample, then the samples.\<close>

definition padded :: "int list \<Rightarrow> int list" where
  "padded xs = replicate 16 0 @ xs"

definition convolution :: "int list \<Rightarrow> int list \<Rightarrow> nat \<Rightarrow> int" where
  "convolution coefficients xs k = (\<Sum>t < 17. coefficients ! t * padded xs ! (k + t))"

lemma adsb_sum_convolution:
  assumes "k < length xs"
    and "(history, position) = fold (doubled_push 17) (take (Suc k) xs) (replicate 34 0, 0)"
  shows "adsb_sum cs 17 history position = convolution cs xs k"
proof -
  have ok: "doubled_ok (Suc 16) (replicate 34 (0 :: int), 0)"
    by (rule doubled_ok_zero) simp_all
  have "doubled_window 17 (history, position) =
      drop (Suc k) (replicate 17 0 @ take (Suc k) xs)"
    using doubled_hist.window_fold [OF ok, of "take (Suc k) xs"] assms
    by (simp add: doubled_window_zero min_absorb2 Suc_leI)
  then have "doubled_window 17 (history, position) = map (\<lambda>t. padded xs ! (k + t)) [0..<17]"
    using window_of_padded [OF assms(1), of 16 0] by (simp add: padded_def)
  then show ?thesis
    unfolding adsb_sum_window convolution_def
    by (simp add: interv_sum_list_conv_sum_set_nat atLeast0LessThan cong: map_cong)
qed

subsection \<open>The filter is a convolution\<close>

lemma adsb_step_every:
  "adsb_step f x = (adsb_store f x,
     Some (adsb_clamp_sample (adsb_sum (adsb_coefficients f) (adsb_taps f)
             (adsb_history_i (adsb_store f x)) (adsb_position (adsb_store f x))),
           adsb_clamp_sample (adsb_sum (adsb_coefficients f) (adsb_taps f)
             (adsb_history_q (adsb_store f x)) (adsb_position (adsb_store f x)))))"
  by (simp add: adsb_step_def Let_def)

lemma adsb_process_stream:
  assumes "adsb_mode f \<noteq> OPENRSP_ADSB_DECIMATION"
    and "openrsp_adsb_filter_process f xs (length xs) = (f', ys, n)"
  shows "stream_run adsb_step f xs = (f', ys) \<and> n = length xs \<and> length ys = length xs"
proof -
  have "inplace_loop adsb_step (length xs) 0 0 xs f = (f', ys, n)"
    using assms by (simp add: openrsp_adsb_filter_process_def)
  from inplace_loop_stream [OF _ _ this] have run: "stream_run adsb_step f xs = (f', take n ys)"
    and len: "length ys = length xs" by simp_all
  have "length (snd (stream_run adsb_step f xs)) = length xs"
    by (rule stream_run_every_length) (use adsb_step_every in blast)
  then have "length (take n ys) = length xs" by (simp add: run)
  then have "take n ys = ys" "length xs \<le> n" using len by simp_all
  moreover have "n \<le> length xs"
    using inplace_loop_stream [OF _ _ \<open>inplace_loop adsb_step (length xs) 0 0 xs f = (f', ys, n)\<close>] by simp
  ultimately show ?thesis using run len by simp
qed

lemma adsb_output_nth:
  assumes "adsb_taps f = 17" "adsb_position f = 0" "adsb_history_i f = replicate 34 0"
    "adsb_history_q f = replicate 34 0" "stream_run adsb_step f xs = (f', ys)" "k < length xs"
  shows "ys ! k = (adsb_clamp_sample (convolution (adsb_coefficients f) (map fst xs) k),
                   adsb_clamp_sample (convolution (adsb_coefficients f) (map snd xs) k))"
proof -
  let ?f = "foldl adsb_store f (take (Suc k) xs)"
  have g: "adsb_store (foldl adsb_store f (take k xs)) (xs ! k) = ?f"
    using assms(6) by (simp add: take_Suc_conv_app_nth)
  have "ys = map (\<lambda>k. (adsb_clamp_sample (adsb_sum (adsb_coefficients f) 17
          (adsb_history_i (adsb_store (foldl adsb_store f (take k xs)) (xs ! k)))
          (adsb_position (adsb_store (foldl adsb_store f (take k xs)) (xs ! k)))),
        adsb_clamp_sample (adsb_sum (adsb_coefficients f) 17
          (adsb_history_q (adsb_store (foldl adsb_store f (take k xs)) (xs ! k)))
          (adsb_position (adsb_store (foldl adsb_store f (take k xs)) (xs ! k)))))) [0..<length xs]"
    using stream_run_every [of adsb_step, OF adsb_step_every] assms(1,5) by (simp del: adsb_store_fields(4,5))
  then have "ys ! k = (adsb_clamp_sample (adsb_sum (adsb_coefficients f) 17 (adsb_history_i ?f) (adsb_position ?f)),
      adsb_clamp_sample (adsb_sum (adsb_coefficients f) 17 (adsb_history_q ?f) (adsb_position ?f)))"
    using assms(6) by (simp add: g)
  moreover have "adsb_sum (adsb_coefficients f) 17 (adsb_history_i ?f) (adsb_position ?f) =
      convolution (adsb_coefficients f) (map fst xs) k"
    using assms by (intro adsb_sum_convolution) (simp_all add: take_map)
  moreover have "adsb_sum (adsb_coefficients f) 17 (adsb_history_q ?f) (adsb_position ?f) =
      convolution (adsb_coefficients f) (map snd xs) k"
    using assms by (intro adsb_sum_convolution) (simp_all add: take_map)
  ultimately show ?thesis by simp
qed

text \<open>
  C35. A freshly configured ADS-B filter computes a plain convolution: however the stream is
  cut into two buffers, the samples it writes back in place are, lane by lane, the clamped
  17-tap convolution of the whole input with the configured coefficients, zeros preceding
  the first sample; the doubled circular history and the in-place writes are not visible.
\<close>

theorem adsb_filter_is_convolution:
  assumes "openrsp_adsb_filter_configure P f0 rate mode = (0, f)" and "mode \<noteq> OPENRSP_ADSB_DECIMATION"
    and "openrsp_adsb_filter_process f xs (length xs) = (f', ys, n)"
    and "openrsp_adsb_filter_process f' xs' (length xs') = (f'', ys', n')"
    and "k < length (xs @ xs')"
  shows "n = length xs \<and> n' = length xs' \<and> length (ys @ ys') = length (xs @ xs') \<and>
    (ys @ ys') ! k =
      (adsb_clamp_sample (convolution (adsb_coefficients f) (map fst (xs @ xs')) k),
       adsb_clamp_sample (convolution (adsb_coefficients f) (map snd (xs @ xs')) k))"
proof -
  note conf = adsb_configured [OF assms(1,2)]
  have run: "stream_run adsb_step f xs = (f', ys)" "n = length xs" "length ys = length xs"
    using adsb_process_stream [OF _ assms(3)] conf(2) assms(2) by auto
  have "f' = foldl adsb_store f xs"
    using run(1) stream_run_every [of adsb_step, OF adsb_step_every] by simp
  moreover have "adsb_mode (foldl adsb_store f xs) = adsb_mode f" for xs
    by (induction xs arbitrary: f) simp_all
  ultimately have "adsb_mode f' \<noteq> OPENRSP_ADSB_DECIMATION" using conf(2) assms(2) by simp
  from adsb_process_stream [OF this assms(4)]
  have run': "stream_run adsb_step f' xs' = (f'', ys')" "n' = length xs'" "length ys' = length xs'" by auto
  have "stream_run adsb_step f (xs @ xs') = (f'', ys @ ys')"
    by (simp add: stream_run_append run run')
  from adsb_output_nth [OF conf(1,3,4,5) this assms(5)] show ?thesis using run run' by simp
qed

text \<open>
  The 64-bit accumulator of the filter never overflows: with coefficients as configured
  and 16-bit samples, every partial sum of every output stays within \<open>int64_t\<close>.
\<close>

lemma adsb_sums_fit:
  assumes "openrsp_adsb_filter_configure P f0 rate mode = (0, f)" and "mode \<noteq> OPENRSP_ADSB_DECIMATION"
    and "\<And>x. x \<in> set xs \<Longrightarrow> int16_range x" and "k < length xs" and "m \<le> 17"
  shows "\<bar>\<Sum>t < m. adsb_coefficients f ! t * padded xs ! (k + t)\<bar> < 2 ^ 63"
proof -
  note conf = adsb_configured [OF assms(1,2)]
  have "\<bar>adsb_coefficients f ! t * padded xs ! (k + t)\<bar> \<le> 2 ^ 31 * 2 ^ 15" if "t < m" for t
  proof -
    have "adsb_coefficients f ! t \<in> set (adsb_coefficients f)" using that conf(6) assms(5) by simp
    then have "- (2 ^ 31) \<le> adsb_coefficients f ! t \<and> adsb_coefficients f ! t < 2 ^ 31"
      using conf(7) by blast
    then have "\<bar>adsb_coefficients f ! t\<bar> \<le> 2 ^ 31" by (simp add: abs_le_iff)
    moreover have "padded xs ! (k + t) = 0 \<or> padded xs ! (k + t) \<in> set xs"
      using that assms(4,5) by (auto simp: padded_def nth_append)
    then have "int16_range (padded xs ! (k + t))" using assms(3) by auto
    then have "\<bar>padded xs ! (k + t)\<bar> \<le> 2 ^ 15" by (simp add: abs_le_iff)
    ultimately show ?thesis unfolding abs_mult by (intro mult_mono) simp_all
  qed
  then have "(\<Sum>t < m. \<bar>adsb_coefficients f ! t * padded xs ! (k + t)\<bar>) \<le> of_nat (card {..<m}) * (2 ^ 31 * 2 ^ 15)"
    by (intro sum_bounded_above) simp
  also have "\<dots> \<le> 17 * (2 ^ 31 * 2 ^ 15)" using assms(5) by simp
  also have "\<dots> < 2 ^ 63" by simp
  finally show ?thesis by (rule order.strict_trans1 [OF sum_abs])
qed

subsection \<open>A filter to evaluate\<close>

text \<open>
  With sine and cosine constantly zero only the centre tap is left, so the coefficients
  can be computed by rewriting.
\<close>

definition bench_fpu :: fpu where
  "bench_fpu = exact_fpu\<lparr>fsin := (\<lambda>_. 0), fcos := (\<lambda>_. 0)\<rparr>"

definition bench_coefficients :: "int list" where
  "bench_coefficients = [0, 0, 0, 0, 0, 0, 0, 0, 1073741824, 0, 0, 0, 0, 0, 0, 0, 0]"

definition bench_adsb :: "int \<Rightarrow> int list \<Rightarrow> openrsp_adsb_filter" where
  "bench_adsb mode coefficients =
     \<lparr>adsb_mode = mode, adsb_sample_rate_hz = Fin 8000000, adsb_taps = 17, adsb_position = 0,
      adsb_coefficients = coefficients, adsb_history_i = replicate 34 0, adsb_history_q = replicate 34 0\<rparr>"

lemma bench_adsb_coefficients [simp]: "adsb_coefficients (bench_adsb mode cs) = cs"
  by (simp add: bench_adsb_def)

lemma bench_fpu_simps [simp]:
  "fl bench_fpu x = x" "fl32 bench_fpu x = x" "fsin bench_fpu x = 0" "fcos bench_fpu x = 0"
  by (simp_all add: bench_fpu_def exact_fpu_def)

lemma bench_tap: "adsb_tap bench_fpu c i = (if i = 8 then 0.84 * c else 0)"
  by (simp add: adsb_tap_def double_ops)

lemma bench_tap_sum: "adsb_tap_sum bench_fpu c = 0.84 * c"
  by (simp add: adsb_tap_sum_def bench_tap double_ops upt_rec)

lemma bench_coefficient:
  "c \<noteq> 0 \<Longrightarrow> adsb_coefficient bench_fpu c i = (if i = 8 then 1073741824 else 0)"
  using lround_of_int [of 1073741824] lround_of_int [of 0]
  by (simp add: adsb_coefficient_def bench_tap bench_tap_sum double_ops i32_of_int_def)

lemma bench_adsb_configured:
  "openrsp_adsb_filter_configure bench_fpu f0 (Fin 8000000) 1 = (0, bench_adsb 1 bench_coefficients)"
  unfolding openrsp_adsb_filter_configure_def Let_def
  by (simp add: valid_mode_def double_ops bench_tap_sum bench_coefficient bench_adsb_def bench_coefficients_def upt_rec)

theorem adsb_filter_is_convolution_witness:
  "case openrsp_adsb_filter_process (bench_adsb 1 bench_coefficients) [(100, -7)] 1 of
     (f', ys, n) \<Rightarrow> case openrsp_adsb_filter_process f' (replicate 9 (0, 0)) 9 of
       (f'', ys', n') \<Rightarrow> n = 1 \<and> n' = 9 \<and> (ys @ ys') ! 8 = (100, -7)"
proof -
  have conv: "convolution bench_coefficients (z # replicate 9 0) 8 = 1073741824 * z" for z
    by (simp add: convolution_def bench_coefficients_def padded_def eval_nat_numeral)
  have clamp: "adsb_clamp_sample 107374182400 = 100" "adsb_clamp_sample (- 7516192768) = - 7"
    by (simp_all add: adsb_clamp_sample_def)
  obtain f' ys n where 1: "openrsp_adsb_filter_process (bench_adsb 1 bench_coefficients) [(100, -7)] 1 = (f', ys, n)"
    by (rule prod_cases3)
  obtain f'' ys' n' where 2: "openrsp_adsb_filter_process f' (replicate 9 (0, 0)) 9 = (f'', ys', n')"
    by (rule prod_cases3)
  show ?thesis
    using adsb_filter_is_convolution [OF bench_adsb_configured, of "[(100, -7)]" f' ys n "replicate 9 (0, 0)" f'' ys' n' 8]
    by (simp add: 1 1 [unfolded One_nat_def] 2 conv clamp)
qed

end
