(* ===== verification/Rsp_Decim.thy ===== *)
theory Rsp_Decim
  imports Rsp_Fir
begin

text \<open>
  The two decimating filters of the client library: the decimator of
  \<open>compat/sdrplay_api_compat.c\<close>, whose history is a plain ring of 16-bit samples, and the
  low-IF stage of \<open>compat/low_if_dsp.c\<close>, which first mixes the stream down with a rotating
  oscillator and keeps a doubled ring of \<open>double\<close> values. Both are shown to compute the
  same reference: every \<open>factor\<close>-th output of a direct-form FIR filter.
\<close>

subsection \<open>The reference filter\<close>

text \<open>The direct form, newest sample first, zeros before the first sample, each operation rounded.\<close>

definition fir_reference :: "fpu \<Rightarrow> real list \<Rightarrow> nat \<Rightarrow> real list \<Rightarrow> nat \<Rightarrow> real" where
  "fir_reference P coefficients taps xs k =
     foldl (\<lambda>acc tap. dadd P acc (dmul P (coefficients ! tap) (if tap \<le> k then xs ! (k - tap) else 0)))
       0 [0..<taps]"

lemma foldl_upt_cong:
  "(\<And>acc i. i < n \<Longrightarrow> f acc i = g acc i) \<Longrightarrow> foldl f a [0..<n] = foldl g a [0..<n]"
  by (rule foldl_cong) auto

subsection \<open>The decimator\<close>

record compat_decimator =
  dec_factor :: nat
  dec_taps :: nat
  dec_position :: nat
  dec_phase :: nat
  dec_coefficients :: "real list"
  dec_history_i :: "int list"
  dec_history_q :: "int list"

definition valid_decimation_factor :: "nat \<Rightarrow> bool" where
  "valid_decimation_factor factor \<longleftrightarrow> factor = 1 \<or> factor = 2 \<or> factor = 4 \<or> factor = 8 \<or>
     factor = 16 \<or> factor = 32"

definition clamp_int :: "int \<Rightarrow> int \<Rightarrow> int \<Rightarrow> int" where
  "clamp_int v minimum maximum = (if v < minimum then minimum else if v > maximum then maximum else v)"

text \<open>The Hamming-windowed taps of a low pass at \<open>0.45 / factor\<close>, before and after scaling.\<close>

definition decimator_tap :: "fpu \<Rightarrow> nat \<Rightarrow> nat \<Rightarrow> nat \<Rightarrow> real" where
  "decimator_tap P factor taps index =
     (let cutoff = ddiv P (fl P 0.45) (of_nat factor);
          center = ddiv P (dsub P (of_nat taps) 1) 2;
          offset = dsub P (of_nat index) center;
          sinc = (if offset = 0 then dmul P 2 cutoff
                  else ddiv P (fsin P (dmul P (dmul P (dmul P 2 (dpi P)) cutoff) offset))
                         (dmul P (dpi P) offset));
          window = dsub P (fl P 0.54)
                     (dmul P (fl P 0.46)
                        (fcos P (ddiv P (dmul P (dmul P 2 (dpi P)) (of_nat index)) (of_nat (taps - 1)))))
      in dmul P sinc window)"

definition decimator_coefficients :: "fpu \<Rightarrow> nat \<Rightarrow> nat \<Rightarrow> real list" where
  "decimator_coefficients P factor taps =
     (let raw = map (decimator_tap P factor taps) [0..<taps];
          tap_sum = foldl (dadd P) 0 raw
      in map (\<lambda>c. ddiv P c tap_sum) raw)"

definition configure_decimator :: "fpu \<Rightarrow> compat_decimator \<Rightarrow> nat \<Rightarrow> int \<times> compat_decimator" where
  "configure_decimator P d factor =
     (if \<not> valid_decimation_factor factor then (-1, d)
      else
        let taps = (if factor = 1 then 0 else 16 * factor + 1);
            d = d\<lparr>dec_history_i := replicate 513 0, dec_history_q := replicate 513 0,
                  dec_position := 0, dec_phase := 0, dec_taps := taps\<rparr>;
            d = (if factor > 1
                 then d\<lparr>dec_coefficients := decimator_coefficients P factor taps @ drop taps (dec_coefficients d)\<rparr>
                 else d)
        in (0, d\<lparr>dec_factor := factor\<rparr>))"

definition decimator_sum :: "fpu \<Rightarrow> real list \<Rightarrow> nat \<Rightarrow> int list \<Rightarrow> nat \<Rightarrow> real" where
  "decimator_sum P coefficients taps history position =
     foldl (\<lambda>acc tap. dadd P acc (dmul P (coefficients ! tap)
              (of_int (history ! ((position + taps - 1 - tap) mod taps))))) 0 [0..<taps]"

definition decimator_sample :: "real \<Rightarrow> int" where
  "decimator_sample v = clamp_int (sint (of_int (lround v) :: i32)) (-32768) 32767"

definition decimator_store :: "compat_decimator \<Rightarrow> int \<times> int \<Rightarrow> compat_decimator" where
  "decimator_store d x =
     (let (history_i, position) = ring_push (dec_taps d) (fst x) (dec_history_i d, dec_position d);
          (history_q, _) = ring_push (dec_taps d) (snd x) (dec_history_q d, dec_position d)
      in d\<lparr>dec_history_i := history_i, dec_history_q := history_q, dec_position := position\<rparr>)"

definition decimator_emit :: "fpu \<Rightarrow> compat_decimator \<Rightarrow> int \<times> int" where
  "decimator_emit P d =
     (decimator_sample (decimator_sum P (dec_coefficients d) (dec_taps d) (dec_history_i d) (dec_position d)),
      decimator_sample (decimator_sum P (dec_coefficients d) (dec_taps d) (dec_history_q d) (dec_position d)))"

definition decimator_step ::
  "fpu \<Rightarrow> compat_decimator \<Rightarrow> int \<times> int \<Rightarrow> compat_decimator \<times> (int \<times> int) option" where
  "decimator_step P d x =
     (let d = decimator_store d x;
          r = (if dec_phase d = 0 then Some (decimator_emit P d) else None)
      in (d\<lparr>dec_phase := (dec_phase d + 1) mod dec_factor d\<rparr>, r))"

definition decimate_iq ::
  "fpu \<Rightarrow> compat_decimator \<Rightarrow> (int \<times> int) list \<Rightarrow> nat \<Rightarrow> compat_decimator \<times> (int \<times> int) list \<times> nat" where
  "decimate_iq P d buf samples =
     (if dec_factor d = 1 then (d, buf, samples)
      else inplace_loop (decimator_step P) samples 0 0 buf d)"

subsection \<open>The low-IF stage\<close>

record openrsp_low_if_dsp =
  lif_factor :: nat
  lif_taps :: nat
  lif_position :: nat
  lif_phase :: nat
  oscillator_cosine :: real
  oscillator_sine :: real
  oscillator_cosine_step :: real
  oscillator_sine_step :: real
  oscillator_samples :: u32
  lif_coefficients :: "real list"
  lif_history_i :: "real list"
  lif_history_q :: "real list"

definition low_if_tap :: "fpu \<Rightarrow> nat \<Rightarrow> nat \<Rightarrow> nat \<Rightarrow> real" where
  "low_if_tap P factor taps index =
     (let cutoff = ddiv P (fl P 0.45) (of_nat factor);
          center = ddiv P (dsub P (of_nat taps) 1) 2;
          offset = dsub P (of_nat index) center;
          sinc = (if offset = 0 then dmul P 2 cutoff
                  else ddiv P (fsin P (dmul P (dmul P (dmul P 2 (dpi P)) cutoff) offset))
                         (dmul P (dpi P) offset));
          window = dsub P (fl P 0.54)
                     (dmul P (fl P 0.46)
                        (fcos P (ddiv P (dmul P (dmul P 2 (dpi P)) (of_nat index)) (of_nat (taps - 1)))))
      in dmul P sinc window)"

definition low_if_coefficients :: "fpu \<Rightarrow> nat \<Rightarrow> nat \<Rightarrow> real list" where
  "low_if_coefficients P factor taps =
     (let raw = map (low_if_tap P factor taps) [0..<taps];
          tap_sum = foldl (dadd P) 0 raw
      in map (\<lambda>c. ddiv P c tap_sum) raw)"

definition low_if_factor :: "double \<Rightarrow> int \<Rightarrow> nat" where
  "low_if_factor sample_rate_hz if_frequency_hz =
     (if d_eq sample_rate_hz (Fin 6000000) \<and> if_frequency_hz = 1620000 then 3
      else if d_eq sample_rate_hz (Fin 8000000) \<and> if_frequency_hz = 2048000 then 4
      else 1)"

definition openrsp_low_if_configure :: "fpu \<Rightarrow> double \<Rightarrow> int \<Rightarrow> int \<times> openrsp_low_if_dsp" where
  "openrsp_low_if_configure P sample_rate_hz if_frequency_hz =
     (let factor = low_if_factor sample_rate_hz if_frequency_hz;
          dsp = \<lparr>lif_factor = factor, lif_taps = 0, lif_position = 0, lif_phase = 0,
                 oscillator_cosine = 1, oscillator_sine = 0, oscillator_cosine_step = 0,
                 oscillator_sine_step = 0, oscillator_samples = 0, lif_coefficients = replicate 65 0,
                 lif_history_i = replicate 130 0, lif_history_q = replicate 130 0\<rparr>
      in if factor = 1 then (0, dsp)
         else
           let oscillator_step = ddiv P (dmul P (dmul P 2 (dpi P)) (of_int if_frequency_hz)) (d_value sample_rate_hz);
               taps = 16 * factor + 1
           in (0, dsp\<lparr>oscillator_cosine_step := fcos P oscillator_step,
                      oscillator_sine_step := fsin P oscillator_step,
                      lif_taps := taps,
                      lif_coefficients := low_if_coefficients P factor taps @ drop taps (lif_coefficients dsp)\<rparr>))"

definition low_if_clamp_sample :: "real \<Rightarrow> int" where
  "low_if_clamp_sample v = (if v > 32767 then 32767 else if v < -32768 then -32768 else lround v)"

definition low_if_mix :: "fpu \<Rightarrow> openrsp_low_if_dsp \<Rightarrow> int \<times> int \<Rightarrow> real \<times> real" where
  "low_if_mix P dsp x =
     (let cosine = oscillator_cosine dsp; sine = oscillator_sine dsp
      in (dadd P (dmul P (of_int (fst x)) cosine) (dmul P (of_int (snd x)) sine),
          dsub P (dmul P (of_int (snd x)) cosine) (dmul P (of_int (fst x)) sine)))"

definition low_if_oscillate :: "fpu \<Rightarrow> openrsp_low_if_dsp \<Rightarrow> openrsp_low_if_dsp" where
  "low_if_oscillate P dsp =
     (let cosine = oscillator_cosine dsp; sine = oscillator_sine dsp;
          dsp = dsp\<lparr>oscillator_cosine := dsub P (dmul P cosine (oscillator_cosine_step dsp))
                                           (dmul P sine (oscillator_sine_step dsp)),
                    oscillator_sine := dadd P (dmul P sine (oscillator_cosine_step dsp))
                                         (dmul P cosine (oscillator_sine_step dsp)),
                    oscillator_samples := oscillator_samples dsp + 1\<rparr>
      in if and (oscillator_samples dsp) 4095 = 0
         then let magnitude = fhypot P (oscillator_cosine dsp) (oscillator_sine dsp)
              in dsp\<lparr>oscillator_cosine := ddiv P (oscillator_cosine dsp) magnitude,
                     oscillator_sine := ddiv P (oscillator_sine dsp) magnitude\<rparr>
         else dsp)"

definition low_if_store :: "openrsp_low_if_dsp \<Rightarrow> real \<times> real \<Rightarrow> openrsp_low_if_dsp" where
  "low_if_store dsp mixed =
     (let (history_i, position) = doubled_push (lif_taps dsp) (fst mixed) (lif_history_i dsp, lif_position dsp);
          (history_q, _) = doubled_push (lif_taps dsp) (snd mixed) (lif_history_q dsp, lif_position dsp)
      in dsp\<lparr>lif_history_i := history_i, lif_history_q := history_q, lif_position := position\<rparr>)"

definition low_if_sum :: "fpu \<Rightarrow> real list \<Rightarrow> nat \<Rightarrow> real list \<Rightarrow> nat \<Rightarrow> real" where
  "low_if_sum P coefficients taps history position =
     (let newest = position + taps - 1
      in foldl (\<lambda>acc tap. dadd P acc (dmul P (coefficients ! tap) (history ! (newest - tap)))) 0 [0..<taps])"

definition low_if_emit :: "fpu \<Rightarrow> openrsp_low_if_dsp \<Rightarrow> int \<times> int" where
  "low_if_emit P dsp =
     (low_if_clamp_sample (low_if_sum P (lif_coefficients dsp) (lif_taps dsp) (lif_history_i dsp) (lif_position dsp)),
      low_if_clamp_sample (low_if_sum P (lif_coefficients dsp) (lif_taps dsp) (lif_history_q dsp) (lif_position dsp)))"

definition low_if_step ::
  "fpu \<Rightarrow> openrsp_low_if_dsp \<Rightarrow> int \<times> int \<Rightarrow> openrsp_low_if_dsp \<times> (int \<times> int) option" where
  "low_if_step P dsp x =
     (let mixed = low_if_mix P dsp x;
          dsp = low_if_oscillate P dsp;
          dsp = low_if_store dsp mixed;
          r = (if lif_phase dsp = 0 then Some (low_if_emit P dsp) else None)
      in (dsp\<lparr>lif_phase := (lif_phase dsp + 1) mod lif_factor dsp\<rparr>, r))"

definition openrsp_low_if_process ::
  "fpu \<Rightarrow> openrsp_low_if_dsp \<Rightarrow> (int \<times> int) list \<Rightarrow> nat \<Rightarrow> openrsp_low_if_dsp \<times> (int \<times> int) list \<times> nat" where
  "openrsp_low_if_process P dsp buf samples =
     (if lif_factor dsp \<le> 1 then (dsp, buf, samples)
      else inplace_loop (low_if_step P) samples 0 0 buf dsp)"

subsection \<open>The decimator computes the reference\<close>

definition decimator_next :: "compat_decimator \<Rightarrow> int \<times> int \<Rightarrow> compat_decimator" where
  "decimator_next d x =
     (decimator_store d x)\<lparr>dec_phase := (dec_phase d + 1) mod dec_factor d\<rparr>"

lemma decimator_store_fields [simp]:
  "dec_taps (decimator_store d x) = dec_taps d" "dec_factor (decimator_store d x) = dec_factor d"
  "dec_phase (decimator_store d x) = dec_phase d"
  "dec_coefficients (decimator_store d x) = dec_coefficients d"
  "(dec_history_i (decimator_store d x), dec_position (decimator_store d x)) =
     ring_push (dec_taps d) (fst x) (dec_history_i d, dec_position d)"
  "(dec_history_q (decimator_store d x), dec_position (decimator_store d x)) =
     ring_push (dec_taps d) (snd x) (dec_history_q d, dec_position d)"
  by (simp_all add: decimator_store_def ring_push_def Let_def)

lemma decimator_next_fields [simp]:
  "dec_taps (decimator_next d x) = dec_taps d" "dec_factor (decimator_next d x) = dec_factor d"
  "dec_coefficients (decimator_next d x) = dec_coefficients d"
  "(dec_history_i (decimator_next d x), dec_position (decimator_next d x)) =
     ring_push (dec_taps d) (fst x) (dec_history_i d, dec_position d)"
  "(dec_history_q (decimator_next d x), dec_position (decimator_next d x)) =
     ring_push (dec_taps d) (snd x) (dec_history_q d, dec_position d)"
  by (simp_all add: decimator_next_def)

lemma decimator_next_fold [simp]:
  "dec_taps (foldl decimator_next d xs) = dec_taps d"
  "dec_factor (foldl decimator_next d xs) = dec_factor d"
  "dec_coefficients (foldl decimator_next d xs) = dec_coefficients d"
  "(dec_history_i (foldl decimator_next d xs), dec_position (foldl decimator_next d xs)) =
     fold (ring_push (dec_taps d)) (map fst xs) (dec_history_i d, dec_position d)"
  "(dec_history_q (foldl decimator_next d xs), dec_position (foldl decimator_next d xs)) =
     fold (ring_push (dec_taps d)) (map snd xs) (dec_history_q d, dec_position d)"
  by (induction xs arbitrary: d) simp_all

interpretation dec: decimating_filter "Suc m" "\<lambda>d. dec_factor d = Suc m" dec_phase decimator_next
  "\<lambda>d x. decimator_emit P (decimator_store d x)" "decimator_step P"
  for m :: nat and P :: fpu
  by unfold_locales (simp_all add: decimator_next_def decimator_step_def Let_def)

lemma decimator_sum_reference:
  assumes "k < length xs" "Suc n \<le> len"
    and "(history, position) = fold (ring_push (Suc n)) (take (Suc k) xs) (replicate len 0, 0)"
  shows "decimator_sum P cs (Suc n) history position = fir_reference P cs (Suc n) (map of_int xs) k"
proof -
  have ok: "ring_ok (Suc n) (replicate len (0 :: int), 0)"
    using assms(2) by (intro ring_ok_zero) simp_all
  have "ring_window (Suc n) (history, position) = drop (Suc k) (replicate (Suc n) 0 @ take (Suc k) xs)"
    using ring_hist.window_fold [OF ok, of "take (Suc k) xs"] assms
    by (simp add: ring_window_zero min_absorb2 Suc_leI del: drop_append)
  then have "history ! ((position + (n - tap)) mod Suc n) = (if tap \<le> k then xs ! (k - tap) else 0)"
    if "tap \<le> n" for tap
    using window_fold_nth [OF assms(1) that] ring_window_nth [of "n - tap" "Suc n" "(history, position)"]
    by simp
  then have "history ! ((position + Suc n - 1 - tap) mod Suc n) = (if tap \<le> k then xs ! (k - tap) else 0)"
    if "tap < Suc n" for tap
    using that by simp
  then show ?thesis
    unfolding decimator_sum_def fir_reference_def
    by (intro foldl_upt_cong) (use assms(1) in auto)
qed

definition decimated_reference :: "fpu \<Rightarrow> real list \<Rightarrow> nat \<Rightarrow> nat \<Rightarrow> (int \<times> int) list \<Rightarrow> (int \<times> int) list" where
  "decimated_reference P coefficients taps factor xs =
     map (\<lambda>j. (decimator_sample (fir_reference P coefficients taps (map (of_int \<circ> fst) xs) (j * factor)),
               decimator_sample (fir_reference P coefficients taps (map (of_int \<circ> snd) xs) (j * factor))))
       [0..<(length xs + factor - 1) div factor]"

lemma fir_reference_prefix:
  "taps \<le> length cs \<Longrightarrow> fir_reference P (cs @ rest) taps xs k = fir_reference P cs taps xs k"
  unfolding fir_reference_def by (intro foldl_upt_cong) (simp add: nth_append)

lemma length_decimator_coefficients [simp]: "length (decimator_coefficients P factor taps) = taps"
  by (simp add: decimator_coefficients_def Let_def)

lemma decimator_configured:
  assumes "configure_decimator P d0 factor = (0, d)" "factor \<noteq> 1"
  shows "dec_factor d = factor" "dec_taps d = 16 * factor + 1" "dec_position d = 0" "dec_phase d = 0"
    "dec_history_i d = replicate 513 0" "dec_history_q d = replicate 513 0" "1 < factor" "factor \<le> 32"
    "\<exists>rest. dec_coefficients d = decimator_coefficients P factor (16 * factor + 1) @ rest"
  using assms unfolding configure_decimator_def valid_decimation_factor_def
  by (auto simp: Let_def split: if_splits)

lemma decimated_index:
  fixes factor :: nat
  assumes "j < (n + factor - 1) div factor" "0 < factor"
  shows "j * factor < n"
proof -
  have "Suc j * factor \<le> n + factor - 1"
    using assms by (metis Suc_leI less_eq_div_iff_mult_less_eq)
  then show ?thesis using assms(2) by simp
qed

lemma decimated_run:
  assumes "configure_decimator P d0 factor = (0, d)" "factor \<noteq> 1"
  shows "stream_run (decimator_step P) d xs =
    (foldl decimator_next d xs,
     decimated_reference P (decimator_coefficients P factor (16 * factor + 1)) (16 * factor + 1) factor xs)"
proof -
  note conf = decimator_configured [OF assms]
  obtain m where m: "factor = Suc m" using conf(7) gr0_implies_Suc [of factor] by auto
  obtain rest where rest: "dec_coefficients d = decimator_coefficients P factor (16 * factor + 1) @ rest"
    using conf(9) by blast
  have "decimator_emit P (decimator_store (foldl decimator_next d (take k xs)) (xs ! k)) =
      (decimator_sample (fir_reference P (decimator_coefficients P factor (16 * factor + 1)) (16 * factor + 1)
         (map (of_int \<circ> fst) xs) k),
       decimator_sample (fir_reference P (decimator_coefficients P factor (16 * factor + 1)) (16 * factor + 1)
         (map (of_int \<circ> snd) xs) k))" if k: "k < length xs" for k
  proof -
    let ?d = "decimator_store (foldl decimator_next d (take k xs)) (xs ! k)"
    have "(dec_history_i ?d, dec_position ?d) =
        fold (ring_push (Suc (16 * factor))) (take (Suc k) (map fst xs)) (replicate 513 0, 0)"
      "(dec_history_q ?d, dec_position ?d) =
        fold (ring_push (Suc (16 * factor))) (take (Suc k) (map snd xs)) (replicate 513 0, 0)"
      using k conf by (simp_all add: take_Suc_conv_app_nth take_map [symmetric])
    from decimator_sum_reference [OF _ _ this(1)] decimator_sum_reference [OF _ _ this(2)]
    show ?thesis using k conf(2,8) by (simp add: decimator_emit_def rest fir_reference_prefix)
  qed
  moreover have "j * factor < length xs" if "j < (length xs + factor - 1) div factor" for j
    using decimated_index [OF that] conf(7) by simp
  ultimately show ?thesis
    using dec.run_from_zero [of d m P xs] conf(1,4) by (auto simp: decimated_reference_def m)
qed

lemma inplace_outputs:
  assumes "inplace_loop step (length xs) 0 0 xs s = (s', buf, n)"
  shows "stream_run step s xs = (s', take n buf)"
  using inplace_loop_stream [OF _ _ assms] by simp

lemma decimate_iq_run:
  assumes "decimate_iq P d xs (length xs) = (d', buf, n)" "dec_factor d \<noteq> 1"
  shows "stream_run (decimator_step P) d xs = (d', take n buf)"
  using assms by (auto simp: decimate_iq_def intro: inplace_outputs)

text \<open>
  C32. A freshly configured decimator computes every \<open>factor\<close>-th output of the direct-form
  FIR filter with the configured coefficients over the whole stream, however the stream is
  cut into buffers: the samples left in the buffers, one buffer after the other, are the
  reference for the concatenated input, in number and in value.
\<close>

theorem decimate_iq_is_reference:
  assumes "configure_decimator P d0 factor = (0, d)" and "factor \<noteq> 1"
    and "decimate_iq P d xs (length xs) = (d', buf, n)"
    and "decimate_iq P d' xs' (length xs') = (d'', buf', n')"
  shows "take n buf @ take n' buf' =
    decimated_reference P (decimator_coefficients P factor (16 * factor + 1)) (16 * factor + 1) factor (xs @ xs')"
proof -
  note conf = decimator_configured [OF assms(1,2)]
  have 1: "stream_run (decimator_step P) d xs = (d', take n buf)"
    using decimate_iq_run [OF assms(3)] conf(1) assms(2) by simp
  then have "dec_factor d' = factor" using decimated_run [OF assms(1,2), of xs] conf(1) by auto
  then have 2: "stream_run (decimator_step P) d' xs' = (d'', take n' buf')"
    using decimate_iq_run [OF assms(4)] assms(2) by simp
  show ?thesis
    using decimated_run [OF assms(1,2), of "xs @ xs'"] by (simp add: stream_run_append 1 2)
qed

subsection \<open>The low-IF stage computes the reference on the mixed stream\<close>

text \<open>The oscillator runs by itself: its state after \<open>k\<close> samples does not depend on them.\<close>

definition oscillator :: "openrsp_low_if_dsp \<Rightarrow> real \<times> real \<times> real \<times> real \<times> u32" where
  "oscillator dsp = (oscillator_cosine dsp, oscillator_sine dsp, oscillator_cosine_step dsp,
     oscillator_sine_step dsp, oscillator_samples dsp)"

definition low_if_mixed :: "fpu \<Rightarrow> openrsp_low_if_dsp \<Rightarrow> (int \<times> int) list \<Rightarrow> (real \<times> real) list" where
  "low_if_mixed P dsp xs =
     map (\<lambda>k. low_if_mix P ((low_if_oscillate P ^^ k) dsp) (xs ! k)) [0..<length xs]"

definition low_if_next :: "fpu \<Rightarrow> openrsp_low_if_dsp \<Rightarrow> int \<times> int \<Rightarrow> openrsp_low_if_dsp" where
  "low_if_next P dsp x =
     (low_if_store (low_if_oscillate P dsp) (low_if_mix P dsp x))
       \<lparr>lif_phase := (lif_phase dsp + 1) mod lif_factor dsp\<rparr>"

lemma low_if_oscillate_fields [simp]:
  "lif_taps (low_if_oscillate P dsp) = lif_taps dsp" "lif_factor (low_if_oscillate P dsp) = lif_factor dsp"
  "lif_phase (low_if_oscillate P dsp) = lif_phase dsp" "lif_position (low_if_oscillate P dsp) = lif_position dsp"
  "lif_coefficients (low_if_oscillate P dsp) = lif_coefficients dsp"
  "lif_history_i (low_if_oscillate P dsp) = lif_history_i dsp"
  "lif_history_q (low_if_oscillate P dsp) = lif_history_q dsp"
  by (simp_all add: low_if_oscillate_def Let_def)

lemma low_if_store_fields [simp]:
  "lif_taps (low_if_store dsp y) = lif_taps dsp" "lif_factor (low_if_store dsp y) = lif_factor dsp"
  "lif_phase (low_if_store dsp y) = lif_phase dsp" "oscillator (low_if_store dsp y) = oscillator dsp"
  "lif_coefficients (low_if_store dsp y) = lif_coefficients dsp"
  "(lif_history_i (low_if_store dsp y), lif_position (low_if_store dsp y)) =
     doubled_push (lif_taps dsp) (fst y) (lif_history_i dsp, lif_position dsp)"
  "(lif_history_q (low_if_store dsp y), lif_position (low_if_store dsp y)) =
     doubled_push (lif_taps dsp) (snd y) (lif_history_q dsp, lif_position dsp)"
  by (simp_all add: low_if_store_def doubled_push_def oscillator_def Let_def)

lemma low_if_next_fields [simp]:
  "lif_taps (low_if_next P dsp x) = lif_taps dsp" "lif_factor (low_if_next P dsp x) = lif_factor dsp"
  "lif_coefficients (low_if_next P dsp x) = lif_coefficients dsp"
  "oscillator (low_if_next P dsp x) = oscillator (low_if_oscillate P dsp)"
  "(lif_history_i (low_if_next P dsp x), lif_position (low_if_next P dsp x)) =
     doubled_push (lif_taps dsp) (fst (low_if_mix P dsp x)) (lif_history_i dsp, lif_position dsp)"
  "(lif_history_q (low_if_next P dsp x), lif_position (low_if_next P dsp x)) =
     doubled_push (lif_taps dsp) (snd (low_if_mix P dsp x)) (lif_history_q dsp, lif_position dsp)"
proof -
  show "oscillator (low_if_next P dsp x) = oscillator (low_if_oscillate P dsp)"
    using low_if_store_fields(4) by (simp add: low_if_next_def oscillator_def)
qed (simp_all add: low_if_next_def)

lemma oscillate_cong: "oscillator d = oscillator e \<Longrightarrow> oscillator (low_if_oscillate P d) = oscillator (low_if_oscillate P e)"
  by (simp add: oscillator_def low_if_oscillate_def Let_def)

lemma mix_cong: "oscillator d = oscillator e \<Longrightarrow> low_if_mix P d x = low_if_mix P e x"
  by (simp add: oscillator_def low_if_mix_def)

lemma oscillator_run: "oscillator (foldl (low_if_next P) dsp xs) = oscillator ((low_if_oscillate P ^^ length xs) dsp)"
proof (induction xs rule: rev_induct)
  case (snoc x xs)
  then show ?case using oscillate_cong [OF snoc] by simp
qed simp

lemma low_if_mixed_snoc:
  "low_if_mixed P dsp (xs @ [x]) = low_if_mixed P dsp xs @ [low_if_mix P (foldl (low_if_next P) dsp xs) x]"
  by (simp add: low_if_mixed_def nth_append mix_cong [OF oscillator_run] cong: map_cong)

lemma length_low_if_mixed [simp]: "length (low_if_mixed P dsp xs) = length xs"
  by (simp add: low_if_mixed_def)

lemma low_if_mixed_take: "low_if_mixed P dsp (take k xs) = take k (low_if_mixed P dsp xs)"
  by (rule nth_equalityI) (simp_all add: low_if_mixed_def)

lemma low_if_next_fold [simp]:
  "lif_taps (foldl (low_if_next P) dsp xs) = lif_taps dsp"
  "lif_factor (foldl (low_if_next P) dsp xs) = lif_factor dsp"
  "lif_coefficients (foldl (low_if_next P) dsp xs) = lif_coefficients dsp"
  "(lif_history_i (foldl (low_if_next P) dsp xs), lif_position (foldl (low_if_next P) dsp xs)) =
     fold (doubled_push (lif_taps dsp)) (map fst (low_if_mixed P dsp xs)) (lif_history_i dsp, lif_position dsp)"
  "(lif_history_q (foldl (low_if_next P) dsp xs), lif_position (foldl (low_if_next P) dsp xs)) =
     fold (doubled_push (lif_taps dsp)) (map snd (low_if_mixed P dsp xs)) (lif_history_q dsp, lif_position dsp)"
  by (induction xs rule: rev_induct)
    (simp_all add: low_if_mixed_snoc, simp_all add: low_if_mixed_def)

interpretation lif: decimating_filter "Suc m" "\<lambda>d. lif_factor d = Suc m" lif_phase "low_if_next P"
  "\<lambda>d x. low_if_emit P (low_if_store (low_if_oscillate P d) (low_if_mix P d x))" "low_if_step P"
  for m :: nat and P :: fpu
  by unfold_locales (simp_all add: low_if_next_def low_if_step_def Let_def)

lemma low_if_sum_reference:
  assumes "k < length ys" "2 * Suc n \<le> len"
    and "(history, position) = fold (doubled_push (Suc n)) (take (Suc k) ys) (replicate len 0, 0)"
  shows "low_if_sum P cs (Suc n) history position = fir_reference P cs (Suc n) ys k"
proof -
  have ok: "doubled_ok (Suc n) (replicate len (0 :: real), 0)"
    using assms(2) by (intro doubled_ok_zero) simp_all
  have "doubled_window (Suc n) (history, position) = drop (Suc k) (replicate (Suc n) 0 @ take (Suc k) ys)"
    using doubled_hist.window_fold [OF ok, of "take (Suc k) ys"] assms
    by (simp add: doubled_window_zero min_absorb2 Suc_leI del: drop_append)
  then have "history ! (position + (n - tap)) = (if tap \<le> k then ys ! (k - tap) else 0)"
    if "tap \<le> n" for tap
    using window_fold_nth [OF assms(1) that] doubled_window_nth [of "n - tap" "Suc n" "(history, position)"]
    by simp
  then have "history ! (position + Suc n - 1 - tap) = (if tap \<le> k then ys ! (k - tap) else 0)"
    if "tap < Suc n" for tap
    using that by simp
  then show ?thesis
    unfolding low_if_sum_def fir_reference_def Let_def by (intro foldl_upt_cong) auto
qed

lemma length_low_if_coefficients [simp]: "length (low_if_coefficients P factor taps) = taps"
  by (simp add: low_if_coefficients_def Let_def)

lemma low_if_configured:
  assumes "openrsp_low_if_configure P rate if_hz = (0, dsp)" "low_if_factor rate if_hz = factor" "factor \<noteq> 1"
  shows "lif_factor dsp = factor" "lif_taps dsp = 16 * factor + 1" "lif_position dsp = 0" "lif_phase dsp = 0"
    "lif_history_i dsp = replicate 130 0" "lif_history_q dsp = replicate 130 0" "1 < factor" "factor \<le> 4"
    "\<exists>rest. lif_coefficients dsp = low_if_coefficients P factor (16 * factor + 1) @ rest"
  using assms unfolding openrsp_low_if_configure_def low_if_factor_def
  by (auto simp: Let_def split: if_splits)

definition low_if_reference :: "fpu \<Rightarrow> real list \<Rightarrow> nat \<Rightarrow> nat \<Rightarrow> (real \<times> real) list \<Rightarrow> (int \<times> int) list" where
  "low_if_reference P coefficients taps factor ys =
     map (\<lambda>j. (low_if_clamp_sample (fir_reference P coefficients taps (map fst ys) (j * factor)),
               low_if_clamp_sample (fir_reference P coefficients taps (map snd ys) (j * factor))))
       [0..<(length ys + factor - 1) div factor]"

lemma low_if_run:
  assumes "openrsp_low_if_configure P rate if_hz = (0, dsp)" "low_if_factor rate if_hz = factor" "factor \<noteq> 1"
  shows "stream_run (low_if_step P) dsp xs =
    (foldl (low_if_next P) dsp xs,
     low_if_reference P (low_if_coefficients P factor (16 * factor + 1)) (16 * factor + 1) factor
       (low_if_mixed P dsp xs))"
proof -
  note conf = low_if_configured [OF assms]
  let ?cs = "low_if_coefficients P factor (16 * factor + 1)"
  let ?ys = "low_if_mixed P dsp xs"
  obtain m where m: "factor = Suc m" using conf(7) gr0_implies_Suc [of factor] by auto
  obtain rest where rest: "lif_coefficients dsp = ?cs @ rest" using conf(9) by blast
  have "low_if_emit P (low_if_store (low_if_oscillate P (foldl (low_if_next P) dsp (take k xs)))
          (low_if_mix P (foldl (low_if_next P) dsp (take k xs)) (xs ! k))) =
      (low_if_clamp_sample (fir_reference P ?cs (16 * factor + 1) (map fst ?ys) k),
       low_if_clamp_sample (fir_reference P ?cs (16 * factor + 1) (map snd ?ys) k))" if k: "k < length xs" for k
  proof -
    let ?d = "low_if_store (low_if_oscillate P (foldl (low_if_next P) dsp (take k xs)))
          (low_if_mix P (foldl (low_if_next P) dsp (take k xs)) (xs ! k))"
    have "take (Suc k) ?ys = take k ?ys @ [low_if_mix P (foldl (low_if_next P) dsp (take k xs)) (xs ! k)]"
      using low_if_mixed_snoc [of P dsp "take k xs" "xs ! k"] k
      by (simp add: take_Suc_conv_app_nth [symmetric] low_if_mixed_take)
    then have "(lif_history_i ?d, lif_position ?d) =
        fold (doubled_push (Suc (16 * factor))) (take (Suc k) (map fst ?ys)) (replicate 130 0, 0)"
      "(lif_history_q ?d, lif_position ?d) =
        fold (doubled_push (Suc (16 * factor))) (take (Suc k) (map snd ?ys)) (replicate 130 0, 0)"
      using conf by (simp_all add: take_map low_if_mixed_take)
    from low_if_sum_reference [OF _ _ this(1)] low_if_sum_reference [OF _ _ this(2)]
    show ?thesis using k conf(2,8) by (simp add: low_if_emit_def rest fir_reference_prefix)
  qed
  moreover have "j * factor < length xs" if "j < (length xs + factor - 1) div factor" for j
    using decimated_index [OF that] conf(7) by simp
  ultimately show ?thesis
    using lif.run_from_zero [of dsp m P xs] conf(1,4) by (auto simp: low_if_reference_def m)
qed

lemma low_if_process_run:
  assumes "openrsp_low_if_process P dsp xs (length xs) = (dsp', buf, n)" "1 < lif_factor dsp"
  shows "stream_run (low_if_step P) dsp xs = (dsp', take n buf)"
  using assms by (auto simp: openrsp_low_if_process_def intro: inplace_outputs)

text \<open>
  C33. The low-IF stage, configured for one of its two rates, mixes the stream with its
  oscillator and keeps every third or fourth output of the direct-form FIR filter over the
  mixed stream, for any division of the stream into two buffers; the oscillator's state
  at sample \<open>k\<close> is \<open>k\<close> applications of its recurrence, whatever the samples are.
\<close>

theorem low_if_is_reference:
  assumes "openrsp_low_if_configure P rate if_hz = (0, dsp)"
    and "low_if_factor rate if_hz = factor" and "factor \<noteq> 1"
    and "openrsp_low_if_process P dsp xs (length xs) = (dsp', buf, n)"
    and "openrsp_low_if_process P dsp' xs' (length xs') = (dsp'', buf', n')"
  shows "take n buf @ take n' buf' =
    low_if_reference P (low_if_coefficients P factor (16 * factor + 1)) (16 * factor + 1) factor
      (low_if_mixed P dsp (xs @ xs'))"
proof -
  note conf = low_if_configured [OF assms(1-3)]
  have 1: "stream_run (low_if_step P) dsp xs = (dsp', take n buf)"
    using low_if_process_run [OF assms(4)] conf(1,7) by simp
  then have "lif_factor dsp' = factor" using low_if_run [OF assms(1-3), of xs] conf(1) by auto
  then have 2: "stream_run (low_if_step P) dsp' xs' = (dsp'', take n' buf')"
    using low_if_process_run [OF assms(5)] conf(7) by simp
  show ?thesis
    using low_if_run [OF assms(1-3), of "xs @ xs'"] by (simp add: stream_run_append 1 2)
qed

subsection \<open>The oscillator is a rotation\<close>

lemma oscillate_exact:
  assumes "oscillator dsp = (cos a, sin a, cos theta, sin theta, n)"
  shows "oscillator (low_if_oscillate exact_fpu dsp) =
    (cos (a + theta), sin (a + theta), cos theta, sin theta, n + 1)"
proof -
  have "cos a * cos theta - sin a * sin theta = cos (a + theta)"
    "sin a * cos theta + cos a * sin theta = sin (a + theta)"
    by (simp_all add: cos_add sin_add)
  moreover have "fhypot exact_fpu (cos (a + theta)) (sin (a + theta)) = 1"
    by (simp add: exact_fpu_def)
  ultimately show ?thesis
    using assms by (simp add: oscillator_def low_if_oscillate_def double_ops Let_def)
qed

lemma oscillator_rotation:
  assumes "oscillator dsp = (1, 0, cos theta, sin theta, n)"
  shows "\<exists>n'. oscillator ((low_if_oscillate exact_fpu ^^ k) dsp) =
    (cos (real k * theta), sin (real k * theta), cos theta, sin theta, n')"
proof (induction k)
  case (Suc k)
  then obtain n' where "oscillator ((low_if_oscillate exact_fpu ^^ k) dsp) =
    (cos (real k * theta), sin (real k * theta), cos theta, sin theta, n')" by blast
  from oscillate_exact [OF this] show ?case by (simp add: algebra_simps)
qed (use assms in simp)

text \<open>
  C34. In exact arithmetic the low-IF oscillator is a rotation: sample \<open>k\<close> is multiplied by
  \<open>exp (-i k theta)\<close>, where \<open>theta\<close> is the angle of the intermediate frequency per sample
  (with the code's value of pi); the amplitude corrections every 4096 samples change nothing.
\<close>

theorem low_if_mixer_rotates:
  assumes "openrsp_low_if_configure exact_fpu (Fin rate) if_hz = (0, dsp)"
    and "low_if_factor (Fin rate) if_hz \<noteq> 1" and "k < length xs"
  shows "let angle = real k * (2 * dpi exact_fpu * of_int if_hz / rate);
             i = of_int (fst (xs ! k)); q = of_int (snd (xs ! k))
    in low_if_mixed exact_fpu dsp xs ! k = (i * cos angle + q * sin angle, q * cos angle - i * sin angle)"
proof -
  let ?theta = "2 * dpi exact_fpu * of_int if_hz / rate"
  have "oscillator dsp = (1, 0, cos ?theta, sin ?theta, 0)"
    using assms(1,2) unfolding openrsp_low_if_configure_def
    by (auto simp: Let_def oscillator_def double_ops) (simp_all add: exact_fpu_def)
  from oscillator_rotation [OF this, of k] obtain n' where
    "oscillator ((low_if_oscillate exact_fpu ^^ k) dsp) =
      (cos (real k * ?theta), sin (real k * ?theta), cos ?theta, sin ?theta, n')" by blast
  then have "oscillator_cosine ((low_if_oscillate exact_fpu ^^ k) dsp) = cos (real k * ?theta)"
    "oscillator_sine ((low_if_oscillate exact_fpu ^^ k) dsp) = sin (real k * ?theta)"
    by (simp_all add: oscillator_def)
  then show ?thesis
    using assms(3) by (simp add: low_if_mixed_def low_if_mix_def double_ops Let_def)
qed

theorem low_if_mixer_rotates_witness:
  "let angle = 1 * (2 * dpi exact_fpu * 2048000 / 8000000) in
   low_if_mixed exact_fpu (snd (openrsp_low_if_configure exact_fpu (Fin 8000000) 2048000)) [(5, 6), (3, 4)] ! 1 =
     (3 * cos angle + 4 * sin angle, 4 * cos angle - 3 * sin angle)"
proof -
  have c: "openrsp_low_if_configure exact_fpu (Fin 8000000) 2048000 =
      (0, snd (openrsp_low_if_configure exact_fpu (Fin 8000000) 2048000))"
    by (simp add: openrsp_low_if_configure_def Let_def)
  have "low_if_factor (Fin 8000000) 2048000 \<noteq> 1" by (simp add: low_if_factor_def)
  from low_if_mixer_rotates [OF c this, of 1 "[(5, 6), (3, 4)]"] show ?thesis by (simp add: Let_def)
qed

subsection \<open>Filters to evaluate\<close>

text \<open>With sine zero and cosine one, the centre tap alone is left and the oscillator stands still.\<close>

definition still_fpu :: fpu where
  "still_fpu = exact_fpu\<lparr>fsin := (\<lambda>_. 0), fcos := (\<lambda>_. 1)\<rparr>"

lemma still_fpu_simps [simp]:
  "fl still_fpu x = x" "fl32 still_fpu x = x" "fsin still_fpu x = 0" "fcos still_fpu x = 1"
  by (simp_all add: still_fpu_def exact_fpu_def)

lemma foldl_add_indicator:
  "foldl (\<lambda>acc i. acc + (if i = c then 1 else 0) * g i) a [0..<n] = a + (if c < n then g c else (0 :: real))"
  by (induction n) (auto simp: less_Suc_eq)

lemma still_taps:
  assumes "0 < factor"
  shows "decimator_tap still_fpu factor (16 * factor + 1) = (\<lambda>i. if i = 8 * factor then 0.08 * (0.9 / real factor) else 0)"
    and "low_if_tap still_fpu factor (16 * factor + 1) = (\<lambda>i. if i = 8 * factor then 0.08 * (0.9 / real factor) else 0)"
  using assms by (auto simp: decimator_tap_def low_if_tap_def double_ops Let_def)

lemma foldl_dadd_still:
  "foldl (dadd still_fpu) a (map (\<lambda>i. if i = c then v else 0) [0..<n]) = a + (if c < n then v else (0 :: real))"
  by (induction n) (auto simp: dadd_def)

lemma still_coefficients:
  assumes "0 < factor"
  shows "decimator_coefficients still_fpu factor (16 * factor + 1) =
      map (\<lambda>i. if i = 8 * factor then 1 else 0) [0..<16 * factor + 1]"
    and "low_if_coefficients still_fpu factor (16 * factor + 1) =
      map (\<lambda>i. if i = 8 * factor then 1 else 0) [0..<16 * factor + 1]"
  using assms
  unfolding decimator_coefficients_def low_if_coefficients_def Let_def still_taps [OF assms] foldl_dadd_still
  by (simp_all add: ddiv_def del: upt_Suc)

lemma still_reference:
  "c < taps \<Longrightarrow>
   fir_reference still_fpu (map (\<lambda>i. if i = c then 1 else 0) [0..<taps]) taps xs k =
     (if c \<le> k then xs ! (k - c) else 0)"
proof -
  assume c: "c < taps"
  have "fir_reference still_fpu (map (\<lambda>i. if i = c then 1 else 0) [0..<taps]) taps xs k =
      foldl (\<lambda>acc i. acc + (if i = c then 1 else 0) * (if i \<le> k then xs ! (k - i) else 0)) 0 [0..<taps]"
    unfolding fir_reference_def by (intro foldl_upt_cong) (simp add: double_ops)
  then show ?thesis using c foldl_add_indicator [of c "\<lambda>i. if i \<le> k then xs ! (k - i) else 0" 0 taps] by simp
qed

lemma lround_witness: "lround 100 = 100" "lround (- 7) = - 7"
  using lround_of_int [of 100] lround_of_int [of "- 7"] by simp_all

theorem decimate_iq_is_reference_witness:
  "case configure_decimator still_fpu
          \<lparr>dec_factor = 1, dec_taps = 0, dec_position = 0, dec_phase = 0, dec_coefficients = replicate 513 0,
           dec_history_i = replicate 513 0, dec_history_q = replicate 513 0\<rparr> 2 of (r, d) \<Rightarrow>
   case decimate_iq still_fpu d [(100, -7)] 1 of (d', buf, n) \<Rightarrow>
   case decimate_iq still_fpu d' (replicate 16 (0, 0)) 16 of (d'', buf', n') \<Rightarrow>
     r = 0 \<and> length (take n buf @ take n' buf') = 9 \<and> (take n buf @ take n' buf') ! 8 = (100, -7)"
proof -
  let ?d0 = "\<lparr>dec_factor = 1, dec_taps = 0, dec_position = 0, dec_phase = 0, dec_coefficients = replicate 513 0,
           dec_history_i = replicate 513 0, dec_history_q = replicate 513 0\<rparr>"
  obtain r d where d: "configure_decimator still_fpu ?d0 2 = (r, d)" by (rule prod.exhaust)
  have r: "r = 0" using d by (simp add: configure_decimator_def valid_decimation_factor_def Let_def)
  obtain d' buf n where 1: "decimate_iq still_fpu d [(100, -7)] 1 = (d', buf, n)" by (rule prod_cases3)
  obtain d'' buf' n' where 2: "decimate_iq still_fpu d' (replicate 16 (0, 0)) 16 = (d'', buf', n')"
    by (rule prod_cases3)
  have "take n buf @ take n' buf' =
      decimated_reference still_fpu (map (\<lambda>i. if i = 16 then 1 else 0) [0..<33]) 33 2
        ((100, -7) # replicate 16 (0, 0))"
    using decimate_iq_is_reference [OF d [unfolded r], of "[(100, -7)]" d' buf n "replicate 16 (0, 0)" d'' buf' n']
      1 2 still_coefficients(1) [of 2] by simp
  then show ?thesis
    unfolding d prod.case 1 2
    by (simp add: r decimated_reference_def still_reference decimator_sample_def lround_witness clamp_int_def del: upt_Suc)
qed

theorem low_if_is_reference_witness:
  "case openrsp_low_if_configure still_fpu (Fin 6000000) 1620000 of (r, d) \<Rightarrow>
   case openrsp_low_if_process still_fpu d [(100, -7)] 1 of (d', buf, n) \<Rightarrow>
   case openrsp_low_if_process still_fpu d' (replicate 24 (0, 0)) 24 of (d'', buf', n') \<Rightarrow>
     r = 0 \<and> length (take n buf @ take n' buf') = 9 \<and> (take n buf @ take n' buf') ! 8 = (100, -7)"
proof -
  obtain r d where d: "openrsp_low_if_configure still_fpu (Fin 6000000) 1620000 = (r, d)" by (rule prod.exhaust)
  have r: "r = 0" and f: "low_if_factor (Fin 6000000) 1620000 = 3" and
    o: "oscillator_cosine d = 1" "oscillator_sine d = 0"
    using d by (auto simp: openrsp_low_if_configure_def low_if_factor_def Let_def)
  obtain d' buf n where 1: "openrsp_low_if_process still_fpu d [(100, -7)] 1 = (d', buf, n)" by (rule prod_cases3)
  obtain d'' buf' n' where 2: "openrsp_low_if_process still_fpu d' (replicate 24 (0, 0)) 24 = (d'', buf', n')"
    by (rule prod_cases3)
  have "take n buf @ take n' buf' =
      low_if_reference still_fpu (map (\<lambda>i. if i = 24 then 1 else 0) [0..<49]) 49 3
        (low_if_mixed still_fpu d ((100, -7) # replicate 24 (0, 0)))"
    using low_if_is_reference [OF d [unfolded r] f, of "[(100, -7)]" d' buf n "replicate 24 (0, 0)" d'' buf' n']
      1 2 still_coefficients(2) [of 3] by simp
  moreover have "low_if_mixed still_fpu d ((100, -7) # replicate 24 (0, 0)) ! 0 = (100, -7)"
    by (simp add: low_if_mixed_def low_if_mix_def o double_ops del: upt_Suc)
  ultimately show ?thesis
    unfolding d prod.case 1 2
    by (simp add: r low_if_reference_def still_reference low_if_clamp_sample_def lround_witness del: upt_Suc)
qed

end
