(* ===== verification/Rsp_Iq.thy ===== *)
theory Rsp_Iq
  imports Rsp_Fir
begin

text \<open>
  The DC-offset and IQ-imbalance correction of \<open>compat/iq_correction.c\<close>. Its estimators are
  exponential averages of rounded \<open>double\<close> arithmetic; \<open>ema_between\<close> shows that one such
  update stays between the old estimate and the new value, whatever the roundings, and
  the bounds of all estimates follow.
\<close>

subsection \<open>State and configuration\<close>

record openrsp_iq_correction =
  dc_enabled :: int
  iq_enabled :: int
  dc_i :: real
  dc_q :: real
  power_i :: real
  power_q :: real
  cross_iq :: real
  leakage :: real
  iq_gain :: real
  coefficient_samples :: u64
  dc_cal :: u8
  speed_up :: u8
  track_time :: int
  refresh_rate_time :: int
  iq_sample_rate_hz :: double
  dc_alpha :: real
  samples_since_refresh :: u64
  calibration_window_samples :: u64
  refresh_samples :: u64

abbreviation (input) OPENRSP_IQ_ESTIMATOR_ALPHA :: real where
  "OPENRSP_IQ_ESTIMATOR_ALPHA \<equiv> 1 / 256"

text \<open>\<open>(uint64_t)x\<close>, undefined in C outside the range of the type.\<close>

definition u64_of_real :: "real \<Rightarrow> u64" where
  "u64_of_real x = (if 0 \<le> x \<and> x < 2 ^ 64 then of_int \<lfloor>x\<rfloor> else undefined)"

definition reset_estimates :: "openrsp_iq_correction \<Rightarrow> openrsp_iq_correction" where
  "reset_estimates c =
     c\<lparr>dc_i := 0, dc_q := 0, power_i := 0, power_q := 0, cross_iq := 0, leakage := 0, iq_gain := 1,
       coefficient_samples := 0, samples_since_refresh := 0\<rparr>"

definition openrsp_iq_correction_reset :: "openrsp_iq_correction \<Rightarrow> openrsp_iq_correction" where
  "openrsp_iq_correction_reset c =
     (let dc = dc_enabled c; iq = iq_enabled c; c = reset_estimates c
      in c\<lparr>dc_enabled := dc, iq_enabled := iq\<rparr>)"

definition openrsp_iq_correction_configure ::
  "openrsp_iq_correction \<Rightarrow> int \<Rightarrow> int \<Rightarrow> int \<times> openrsp_iq_correction" where
  "openrsp_iq_correction_configure c dc_enable iq_enable =
     (if (dc_enable \<noteq> 0 \<and> dc_enable \<noteq> 1) \<or> (iq_enable \<noteq> 0 \<and> iq_enable \<noteq> 1) then (-1, c)
      else (0, \<lparr>dc_enabled = dc_enable, iq_enabled = iq_enable, dc_i = 0, dc_q = 0, power_i = 0,
                power_q = 0, cross_iq = 0, leakage = 0, iq_gain = 0, coefficient_samples = 0,
                dc_cal = 3, speed_up = 0, track_time = 1, refresh_rate_time = 2048,
                iq_sample_rate_hz = Fin 0, dc_alpha = OPENRSP_IQ_ESTIMATOR_ALPHA,
                samples_since_refresh = 0, calibration_window_samples = 0, refresh_samples = 0\<rparr>))"

definition calibration_us :: "fpu \<Rightarrow> u8 \<Rightarrow> int \<Rightarrow> real" where
  "calibration_us P cal t =
     dmul P (dmul P (of_nat (unat (if cal = 0 then 1 else cal))) 3) (of_int t)"

definition calibration_samples :: "fpu \<Rightarrow> double \<Rightarrow> u8 \<Rightarrow> int \<Rightarrow> real" where
  "calibration_samples P sample_rate_hz cal t =
     ddiv P (dmul P (d_value sample_rate_hz) (calibration_us P cal t)) 1000000"

definition openrsp_iq_correction_configure_calibration ::
  "fpu \<Rightarrow> openrsp_iq_correction \<Rightarrow> double \<Rightarrow> u8 \<Rightarrow> u8 \<Rightarrow> int \<Rightarrow> int \<Rightarrow> int \<times> openrsp_iq_correction" where
  "openrsp_iq_correction_configure_calibration P c sample_rate_hz cal speed track refresh =
     (if \<not> isfinite sample_rate_hz \<or> d_le sample_rate_hz (Fin 0) \<or> speed > 1 \<or> track \<le> 0 \<or> refresh \<le> 0
      then (-1, c)
      else
        let tracking_samples = max 16 (calibration_samples P sample_rate_hz cal track);
            alpha = ddiv P (if speed \<noteq> 0 then 4 else 1) tracking_samples;
            refreshes = u64_of_real (calibration_samples P sample_rate_hz cal refresh)
        in (0, reset_estimates
              (c\<lparr>dc_cal := cal, speed_up := speed, track_time := track, refresh_rate_time := refresh,
                 iq_sample_rate_hz := sample_rate_hz,
                 calibration_window_samples := u64_of_real tracking_samples,
                 dc_alpha := (if alpha > 1 / 4 then 1 / 4 else alpha),
                 refresh_samples := (if refreshes < 1 then 1 else refreshes)\<rparr>)))"

subsection \<open>Processing\<close>

definition iq_clamp_sample :: "real \<Rightarrow> int" where
  "iq_clamp_sample v = (if v > 32767 then 32767 else if v < -32768 then -32768 else lround v)"

definition ema :: "fpu \<Rightarrow> real \<Rightarrow> real \<Rightarrow> real \<Rightarrow> real" where
  "ema P alpha estimate x = dadd P estimate (dmul P alpha (dsub P x estimate))"

definition iq_track_dc :: "fpu \<Rightarrow> openrsp_iq_correction \<Rightarrow> real \<Rightarrow> real \<Rightarrow> openrsp_iq_correction" where
  "iq_track_dc P c input_i input_q =
     (if dc_enabled c \<noteq> 0
      then
        let c = (if dc_cal c \<noteq> 0 \<and> refresh_samples c \<noteq> 0
                 then let since = samples_since_refresh c + 1
                      in c\<lparr>samples_since_refresh := (if since \<ge> refresh_samples c then 0 else since)\<rparr>
                 else c);
            alpha = (if dc_cal c = 0 then 0 else dc_alpha c);
            alpha = (if dc_cal c \<noteq> 0 \<and> samples_since_refresh c > calibration_window_samples c then 0 else alpha)
        in c\<lparr>dc_i := ema P alpha (dc_i c) input_i, dc_q := ema P alpha (dc_q c) input_q\<rparr>
      else c\<lparr>dc_i := 0, dc_q := 0\<rparr>)"

definition iq_update_coefficients :: "fpu \<Rightarrow> openrsp_iq_correction \<Rightarrow> openrsp_iq_correction" where
  "iq_update_coefficients P c =
     (if and (coefficient_samples c) 255 = 0 \<and> power_i c > 1 \<and> power_q c > 1
      then let g = fsqrt P (ddiv P (power_i c) (power_q c));
               g = (if g < 1 / 4 then 1 / 4 else g);
               g = (if g > 4 then 4 else g)
           in c\<lparr>leakage := ddiv P (cross_iq c) (power_i c), iq_gain := g\<rparr>
      else c)"

definition iq_balance ::
  "fpu \<Rightarrow> openrsp_iq_correction \<Rightarrow> real \<Rightarrow> real \<Rightarrow> openrsp_iq_correction \<times> real" where
  "iq_balance P c output_i output_q =
     (if iq_enabled c \<noteq> 0
      then
        let c = c\<lparr>power_i := ema P OPENRSP_IQ_ESTIMATOR_ALPHA (power_i c) (dmul P output_i output_i),
                  power_q := ema P OPENRSP_IQ_ESTIMATOR_ALPHA (power_q c) (dmul P output_q output_q),
                  cross_iq := ema P OPENRSP_IQ_ESTIMATOR_ALPHA (cross_iq c) (dmul P output_i output_q),
                  coefficient_samples := coefficient_samples c + 1\<rparr>;
            c = iq_update_coefficients P c
        in (c, dmul P (dsub P output_q (dmul P (leakage c) output_i)) (iq_gain c))
      else
        (c\<lparr>power_i := 0, power_q := 0, cross_iq := 0, leakage := 0, iq_gain := 1, coefficient_samples := 0\<rparr>,
         output_q))"

definition iq_step ::
  "fpu \<Rightarrow> openrsp_iq_correction \<Rightarrow> int \<times> int \<Rightarrow> openrsp_iq_correction \<times> (int \<times> int) option" where
  "iq_step P c x =
     (let input_i = of_int (fst x); input_q = of_int (snd x);
          c = iq_track_dc P c input_i input_q;
          output_i = dsub P input_i (dc_i c);
          output_q = dsub P input_q (dc_q c);
          (c, output_q) = iq_balance P c output_i output_q
      in (c, Some (iq_clamp_sample output_i, iq_clamp_sample output_q)))"

definition openrsp_iq_correction_process ::
  "fpu \<Rightarrow> openrsp_iq_correction \<Rightarrow> (int \<times> int) list \<Rightarrow> nat \<Rightarrow> openrsp_iq_correction \<times> (int \<times> int) list \<times> nat" where
  "openrsp_iq_correction_process P c buf samples = inplace_loop (iq_step P) samples 0 0 buf c"

subsection \<open>Exponential averages\<close>

lemma fl_small_scale:
  assumes "ieee P" "0 \<le> alpha" "alpha \<le> 1 / 4" "0 \<le> z"
  shows "0 \<le> fl P (alpha * fl P z)" "fl P (alpha * fl P z) \<le> z"
proof -
  let ?e = "1 / 2 ^ 53 :: real"
  have d: "0 \<le> fl P z" "fl P z \<le> 2 * z"
    using ieee_fl_nonneg [OF assms(1,4)] ieee_fl_upper [OF assms(1,4)] assms(4) by simp_all
  have m: "0 \<le> alpha * fl P z" using d assms(2) by simp
  have "alpha * fl P z \<le> (1 / 4) * (2 * z)" by (rule mult_mono) (use assms d in simp_all)
  then have "fl P (alpha * fl P z) \<le> z / 2 + z / 2 / 2 ^ 53"
    using ieee_fl_upper [OF assms(1) m] by simp
  also have "\<dots> \<le> z" using assms(4) by simp
  finally show "fl P (alpha * fl P z) \<le> z" .
  show "0 \<le> fl P (alpha * fl P z)" by (rule ieee_fl_nonneg [OF assms(1) m])
qed

lemma ema_between:
  assumes "ieee P" "0 \<le> alpha" "alpha \<le> 1 / 4"
  shows "fl P (min e x) \<le> ema P alpha e x" "ema P alpha e x \<le> fl P (max e x)"
proof -
  have "min e x \<le> e + fl P (alpha * fl P (x - e)) \<and> e + fl P (alpha * fl P (x - e)) \<le> max e x"
  proof (cases "e \<le> x")
    case True
    then show ?thesis using fl_small_scale [OF assms, of "x - e"] by simp
  next
    case False
    have "fl P (x - e) = - fl P (e - x)" using ieee_fl_uminus [OF assms(1), of "e - x"] by simp
    then have "fl P (alpha * fl P (x - e)) = - fl P (alpha * fl P (e - x))"
      using ieee_fl_uminus [OF assms(1), of "alpha * fl P (e - x)"] by simp
    then show ?thesis using False fl_small_scale [OF assms, of "e - x"] by simp
  qed
  then show "fl P (min e x) \<le> ema P alpha e x" "ema P alpha e x \<le> fl P (max e x)"
    unfolding ema_def double_ops by (simp_all add: ieee_fl_mono [OF assms(1)])
qed

lemma ema_bounds:
  assumes "ieee P" "0 \<le> alpha" "alpha \<le> 1 / 4"
    and "of_int l \<le> e" "e \<le> of_int u" "of_int l \<le> x" "x \<le> of_int u" "\<bar>l\<bar> \<le> 2 ^ 53" "\<bar>u\<bar> \<le> 2 ^ 53"
  shows "of_int l \<le> ema P alpha e x" "ema P alpha e x \<le> of_int u"
proof -
  have "of_int l \<le> fl P (min e x)" "fl P (max e x) \<le> of_int u"
    using ieee_fl_mono [OF assms(1), of "of_int l" "min e x"] ieee_fl_mono [OF assms(1), of "max e x" "of_int u"]
      ieee_fl_int [OF assms(1) assms(8)] ieee_fl_int [OF assms(1) assms(9)] assms(4-7) by simp_all
  then show "of_int l \<le> ema P alpha e x" "ema P alpha e x \<le> of_int u"
    using ema_between [OF assms(1-3), of e x] by simp_all
qed

subsection \<open>The estimates stay bounded\<close>

definition iq_ok :: "openrsp_iq_correction \<Rightarrow> bool" where
  "iq_ok c \<longleftrightarrow> \<bar>dc_i c\<bar> \<le> 32768 \<and> \<bar>dc_q c\<bar> \<le> 32768 \<and>
     0 \<le> power_i c \<and> power_i c \<le> 2 ^ 32 \<and> 0 \<le> power_q c \<and> power_q c \<le> 2 ^ 32 \<and>
     \<bar>cross_iq c\<bar> \<le> 2 ^ 32 \<and> \<bar>leakage c\<bar> \<le> 2 ^ 32 \<and> 1 / 4 \<le> iq_gain c \<and> iq_gain c \<le> 4 \<and>
     0 \<le> dc_alpha c \<and> dc_alpha c \<le> 1 / 4"

lemma iq_okD:
  assumes "iq_ok c"
  shows "-32768 \<le> dc_i c" "dc_i c \<le> 32768" "-32768 \<le> dc_q c" "dc_q c \<le> 32768"
    "0 \<le> power_i c" "power_i c \<le> 2 ^ 32" "0 \<le> power_q c" "power_q c \<le> 2 ^ 32"
    "- (2 ^ 32) \<le> cross_iq c" "cross_iq c \<le> 2 ^ 32" "\<bar>leakage c\<bar> \<le> 2 ^ 32"
    "1 / 4 \<le> iq_gain c" "iq_gain c \<le> 4" "0 \<le> dc_alpha c" "dc_alpha c \<le> 1 / 4"
  using assms by (simp_all add: iq_ok_def abs_le_iff)

lemma fl_abs_bound:
  assumes "ieee P" "\<bar>x\<bar> \<le> of_int n" "n \<le> 2 ^ 53"
  shows "\<bar>fl P x\<bar> \<le> of_int n"
proof -
  have "0 \<le> n" using assms(2) by linarith
  then have n: "fl P (of_int n) = of_int n" using ieee_fl_int [OF assms(1), of n] assms(3) by simp
  have "fl P x \<le> of_int n" using ieee_fl_mono [OF assms(1), of x "of_int n"] assms(2) n by simp
  moreover have "- of_int n \<le> fl P x"
    using ieee_fl_mono [OF assms(1), of "- of_int n" x] assms(2) n ieee_fl_uminus [OF assms(1), of "of_int n"] by simp
  ultimately show ?thesis by (simp add: abs_le_iff)
qed

lemma iq_track_dc_fields [simp]:
  "power_i (iq_track_dc P c a b) = power_i c" "power_q (iq_track_dc P c a b) = power_q c"
  "cross_iq (iq_track_dc P c a b) = cross_iq c" "leakage (iq_track_dc P c a b) = leakage c"
  "iq_gain (iq_track_dc P c a b) = iq_gain c" "dc_alpha (iq_track_dc P c a b) = dc_alpha c"
  "iq_enabled (iq_track_dc P c a b) = iq_enabled c" "dc_enabled (iq_track_dc P c a b) = dc_enabled c"
  by (simp_all add: iq_track_dc_def Let_def)

lemma iq_track_dc_value:
  "\<exists>alpha. (alpha = 0 \<or> alpha = dc_alpha c) \<and>
     (dc_enabled c \<noteq> 0 \<longrightarrow> dc_i (iq_track_dc P c a b) = ema P alpha (dc_i c) a \<and>
        dc_q (iq_track_dc P c a b) = ema P alpha (dc_q c) b) \<and>
     (dc_enabled c = 0 \<longrightarrow> dc_i (iq_track_dc P c a b) = 0 \<and> dc_q (iq_track_dc P c a b) = 0)"
  unfolding iq_track_dc_def Let_def by auto

lemma ema_dc:
  assumes "ieee P" "0 \<le> alpha" "alpha \<le> 1 / 4" "-32768 \<le> e" "e \<le> 32768" "int16_range x"
  shows "\<bar>ema P alpha e (of_int x)\<bar> \<le> 32768"
  using ema_bounds [OF assms(1-3), of "-32768" e 32768 "of_int x"] assms(4-6) by (simp add: abs_le_iff)

lemma iq_track_dc_ok:
  assumes "ieee P" "iq_ok c" "int16_range a" "int16_range b"
  shows "iq_ok (iq_track_dc P c (of_int a) (of_int b))"
proof -
  note ok = iq_okD [OF assms(2)]
  obtain alpha where alpha: "alpha = 0 \<or> alpha = dc_alpha c"
    and on: "dc_enabled c \<noteq> 0 \<longrightarrow> dc_i (iq_track_dc P c a b) = ema P alpha (dc_i c) a \<and>
        dc_q (iq_track_dc P c a b) = ema P alpha (dc_q c) b"
    and off: "dc_enabled c = 0 \<longrightarrow> dc_i (iq_track_dc P c a b) = 0 \<and> dc_q (iq_track_dc P c a b) = 0"
    using iq_track_dc_value [of c P "of_int a" "of_int b"] by blast
  have "0 \<le> alpha" "alpha \<le> 1 / 4" using alpha ok(14,15) by auto
  note dc = ema_dc [OF assms(1) this ok(1,2) assms(3)] ema_dc [OF assms(1) this ok(3,4) assms(4)]
  have "\<bar>dc_i (iq_track_dc P c a b)\<bar> \<le> 32768 \<and> \<bar>dc_q (iq_track_dc P c a b)\<bar> \<le> 32768"
    using on off dc by (cases "dc_enabled c = 0") simp_all
  then show ?thesis using assms(2) by (simp add: iq_ok_def)
qed

lemma iq_update_coefficients_ok:
  assumes "ieee P" "iq_ok c"
  shows "iq_ok (iq_update_coefficients P c)"
proof -
  have "\<bar>ddiv P (cross_iq c) (power_i c)\<bar> \<le> 2 ^ 32" if p: "1 < power_i c"
  proof -
    have cross: "\<bar>cross_iq c\<bar> \<le> 2 ^ 32" using assms(2) by (simp add: iq_ok_def)
    have "\<bar>cross_iq c / power_i c\<bar> = \<bar>cross_iq c\<bar> / power_i c" using p by (simp add: abs_divide)
    also have "\<dots> \<le> \<bar>cross_iq c\<bar> / 1" by (rule divide_left_mono) (use p in simp_all)
    finally show ?thesis using fl_abs_bound [OF assms(1), of "cross_iq c / power_i c" "2 ^ 32"] cross
      by (simp add: ddiv_def)
  qed
  then show ?thesis using assms(2) by (simp add: iq_update_coefficients_def Let_def iq_ok_def)
qed

lemma square_bound: "\<bar>a\<bar> \<le> (65536 :: real) \<Longrightarrow> \<bar>b\<bar> \<le> 65536 \<Longrightarrow> \<bar>a * b\<bar> \<le> 2 ^ 32"
  using mult_mono [of "\<bar>a\<bar>" 65536 "\<bar>b\<bar>" 65536] by (simp add: abs_mult)

lemma iq_balance_ok:
  assumes "ieee P" "iq_ok c" "\<bar>oi\<bar> \<le> 65536" "\<bar>oq\<bar> \<le> 65536"
  shows "iq_ok (fst (iq_balance P c oi oq))"
proof (cases "iq_enabled c = 0")
  case True
  then show ?thesis using assms(2) by (simp add: iq_balance_def iq_ok_def)
next
  case False
  note ok = iq_okD [OF assms(2)]
  have b: "\<bar>dmul P x y\<bar> \<le> 2 ^ 32" if "\<bar>x\<bar> \<le> 65536" "\<bar>y\<bar> \<le> 65536" for x y
    using fl_abs_bound [OF assms(1), of "x * y" "2 ^ 32"] square_bound [OF that] by (simp add: dmul_def)
  have sq: "0 \<le> dmul P x x" for x unfolding dmul_def by (rule ieee_fl_nonneg [OF assms(1)]) simp
  have power: "0 \<le> ema P (1 / 256) e (dmul P x x) \<and> ema P (1 / 256) e (dmul P x x) \<le> 2 ^ 32"
    if "0 \<le> e" "e \<le> 2 ^ 32" "\<bar>x\<bar> \<le> 65536" for e x
    using ema_bounds [OF assms(1), of "1 / 256" 0 e "2 ^ 32" "dmul P x x"] that sq [of x] b [of x x] by simp
  have cross: "\<bar>ema P (1 / 256) e (dmul P oi oq)\<bar> \<le> 2 ^ 32" if "- (2 ^ 32) \<le> e" "e \<le> 2 ^ 32" for e
    using ema_bounds [OF assms(1), of "1 / 256" "- (2 ^ 32)" e "2 ^ 32" "dmul P oi oq"] that b [OF assms(3,4)]
    by (simp add: abs_le_iff)
  let ?c = "c\<lparr>power_i := ema P (1 / 256) (power_i c) (dmul P oi oi),
              power_q := ema P (1 / 256) (power_q c) (dmul P oq oq),
              cross_iq := ema P (1 / 256) (cross_iq c) (dmul P oi oq),
              coefficient_samples := coefficient_samples c + 1\<rparr>"
  have "iq_ok ?c"
    using assms(2) power [OF ok(5,6) assms(3)] power [OF ok(7,8) assms(4)] cross [OF ok(9,10)]
    by (simp add: iq_ok_def)
  then have "iq_ok (iq_update_coefficients P ?c)" by (rule iq_update_coefficients_ok [OF assms(1)])
  then show ?thesis using False by (simp add: iq_balance_def Let_def)
qed

lemma iq_clamp_sample_range: "int16_range (iq_clamp_sample v)"
proof -
  have "lround (of_int (-32768)) \<le> lround v" if "-32768 \<le> v" by (rule lround_mono) (use that in simp)
  moreover have "lround v \<le> lround (of_int 32767)" if "v \<le> 32767" by (rule lround_mono) (use that in simp)
  ultimately show ?thesis unfolding lround_of_int by (auto simp: iq_clamp_sample_def)
qed

lemma iq_step_ok:
  assumes "ieee P" "iq_ok c" "int16_range (fst x)" "int16_range (snd x)"
  shows "iq_ok (fst (iq_step P c x))"
proof -
  let ?c = "iq_track_dc P c (of_int (fst x)) (of_int (snd x))"
  have ok: "iq_ok ?c" by (rule iq_track_dc_ok [OF assms])
  have "\<bar>dsub P (of_int (fst x)) (dc_i ?c)\<bar> \<le> 65536" "\<bar>dsub P (of_int (snd x)) (dc_q ?c)\<bar> \<le> 65536"
    unfolding dsub_def
    using fl_abs_bound [OF assms(1), of "of_int (fst x) - dc_i ?c" 65536]
      fl_abs_bound [OF assms(1), of "of_int (snd x) - dc_q ?c" 65536] iq_okD(1-4) [OF ok] assms(3,4)
    by (simp_all add: abs_le_iff)
  from iq_balance_ok [OF assms(1) ok this] show ?thesis
    by (simp add: iq_step_def case_prod_beta Let_def)
qed

definition iq_next :: "fpu \<Rightarrow> openrsp_iq_correction \<Rightarrow> int \<times> int \<Rightarrow> openrsp_iq_correction" where
  "iq_next P c x = fst (iq_step P c x)"

definition iq_out :: "fpu \<Rightarrow> openrsp_iq_correction \<Rightarrow> int \<times> int \<Rightarrow> int \<times> int" where
  "iq_out P c x = the (snd (iq_step P c x))"

lemma iq_step_every: "iq_step P c x = (iq_next P c x, Some (iq_out P c x))"
  by (simp add: iq_next_def iq_out_def iq_step_def case_prod_beta Let_def)

lemma iq_process:
  assumes "openrsp_iq_correction_process P c xs (length xs) = (c', ys, n)"
  shows "c' = foldl (iq_next P) c xs" "n = length xs" "length ys = length xs"
    "ys = map (\<lambda>k. iq_out P (foldl (iq_next P) c (take k xs)) (xs ! k)) [0..<length xs]"
proof -
  have loop: "inplace_loop (iq_step P) (length xs) 0 0 xs c = (c', ys, n)"
    using assms by (simp add: openrsp_iq_correction_process_def)
  have run: "stream_run (iq_step P) c xs = (c', take n ys)" "n \<le> length xs" "length ys = length xs"
    using inplace_loop_stream [OF _ _ loop] by simp_all
  have every: "stream_run (iq_step P) c xs =
      (foldl (iq_next P) c xs, map (\<lambda>k. iq_out P (foldl (iq_next P) c (take k xs)) (xs ! k)) [0..<length xs])"
    by (rule stream_run_every) (rule iq_step_every)
  then have "length (take n ys) = length xs" using run(1) by simp
  with run show n: "n = length xs" and "length ys = length xs" by simp_all
  show "c' = foldl (iq_next P) c xs"
    "ys = map (\<lambda>k. iq_out P (foldl (iq_next P) c (take k xs)) (xs ! k)) [0..<length xs]"
    using run every n by simp_all
qed

lemma iq_run_ok:
  "ieee P \<Longrightarrow> iq_ok c \<Longrightarrow> (\<And>x. x \<in> set xs \<Longrightarrow> int16_range (fst x) \<and> int16_range (snd x)) \<Longrightarrow>
   iq_ok (foldl (iq_next P) c xs)"
  by (induction xs arbitrary: c) (simp_all add: iq_next_def iq_step_ok)

lemma iq_out_range: "int16_range (fst (iq_out P c x)) \<and> int16_range (snd (iq_out P c x))"
  using iq_clamp_sample_range by (simp add: iq_out_def iq_step_def case_prod_beta Let_def)

lemma calibration_alpha:
  assumes "ieee P"
  shows "0 \<le> ddiv P 4 (max 16 z)" "0 \<le> ddiv P 1 (max 16 z)"
  unfolding ddiv_def by (rule ieee_fl_nonneg [OF assms]; simp)+

lemma calibrated_ok:
  assumes "ieee P" "openrsp_iq_correction_configure_calibration P c rate cal speed track refresh = (0, c')"
  shows "iq_ok c'"
  using assms(2) calibration_alpha [OF assms(1)]
  unfolding openrsp_iq_correction_configure_calibration_def
  by (auto simp: Let_def iq_ok_def reset_estimates_def split: if_splits)

text \<open>
  C36. Once calibrated, the correction keeps all its estimates bounded however long it runs
  and whatever 16-bit samples it is fed: the DC estimates by the sample range, the powers
  (never negative) and the cross term by \<open>2^32\<close>, the leakage by \<open>2^32\<close>, the gain between
  1/4 and 4; it returns as many samples as it is given, all of them in the 16-bit range.
  This holds for every monotone rounding with the relative error of IEEE doubles.
\<close>

theorem iq_correction_bounded:
  assumes "ieee P"
    and "openrsp_iq_correction_configure_calibration P c0 rate cal speed track refresh = (0, c1)"
    and "\<And>x. x \<in> set (earlier @ xs) \<Longrightarrow> int16_range (fst x) \<and> int16_range (snd x)"
    and "openrsp_iq_correction_process P c1 earlier (length earlier) = (c2, ws, m)"
    and "openrsp_iq_correction_process P c2 xs (length xs) = (c3, ys, n)"
  shows "iq_ok c2 \<and> iq_ok c3 \<and> n = length xs \<and> length ys = length xs \<and>
    list_all (\<lambda>y. int16_range (fst y) \<and> int16_range (snd y)) ys"
proof -
  have "iq_ok c1" by (rule calibrated_ok [OF assms(1,2)])
  then have 2: "iq_ok c2"
    unfolding iq_process(1) [OF assms(4)] using assms(1,3) by (intro iq_run_ok) auto
  then have "iq_ok c3"
    unfolding iq_process(1) [OF assms(5)] using assms(1,3) by (intro iq_run_ok) auto
  with 2 iq_process [OF assms(5)] iq_out_range show ?thesis by (simp add: list_all_iff)
qed

lemma iq_out_off:
  assumes "ieee P" "dc_enabled c = 0" "iq_enabled c = 0" "int16_range (fst x)" "int16_range (snd x)"
  shows "iq_out P c x = x"
proof -
  have "fl P (of_int v) = of_int v \<and> iq_clamp_sample (of_int v) = v" if "int16_range v" for v :: int
    using ieee_fl_int [OF assms(1), of v] that by (auto simp: iq_clamp_sample_def)
  then show ?thesis
    using assms(2-5) by (simp add: iq_out_def iq_step_def iq_balance_def iq_track_dc_def dsub_def Let_def prod_eq_iff)
qed

lemma iq_update_coefficients_fields [simp]:
  "dc_enabled (iq_update_coefficients P c) = dc_enabled c" "iq_enabled (iq_update_coefficients P c) = iq_enabled c"
  "dc_i (iq_update_coefficients P c) = dc_i c" "dc_q (iq_update_coefficients P c) = dc_q c"
  "dc_alpha (iq_update_coefficients P c) = dc_alpha c" "dc_cal (iq_update_coefficients P c) = dc_cal c"
  "samples_since_refresh (iq_update_coefficients P c) = samples_since_refresh c"
  "calibration_window_samples (iq_update_coefficients P c) = calibration_window_samples c"
  "refresh_samples (iq_update_coefficients P c) = refresh_samples c"
  by (simp_all add: iq_update_coefficients_def Let_def)

lemma iq_balance_fields [simp]:
  "dc_enabled (fst (iq_balance P c a b)) = dc_enabled c" "iq_enabled (fst (iq_balance P c a b)) = iq_enabled c"
  "dc_i (fst (iq_balance P c a b)) = dc_i c" "dc_q (fst (iq_balance P c a b)) = dc_q c"
  "dc_alpha (fst (iq_balance P c a b)) = dc_alpha c" "dc_cal (fst (iq_balance P c a b)) = dc_cal c"
  "samples_since_refresh (fst (iq_balance P c a b)) = samples_since_refresh c"
  "calibration_window_samples (fst (iq_balance P c a b)) = calibration_window_samples c"
  "refresh_samples (fst (iq_balance P c a b)) = refresh_samples c"
  by (simp_all add: iq_balance_def Let_def)

lemma iq_next_track:
  "iq_next P c x = fst (iq_balance P (iq_track_dc P c (of_int (fst x)) (of_int (snd x)))
     (dsub P (of_int (fst x)) (dc_i (iq_track_dc P c (of_int (fst x)) (of_int (snd x)))))
     (dsub P (of_int (snd x)) (dc_q (iq_track_dc P c (of_int (fst x)) (of_int (snd x))))))"
  by (simp add: iq_next_def iq_step_def case_prod_beta Let_def)

lemma iq_next_flags [simp]: "dc_enabled (iq_next P c x) = dc_enabled c" "iq_enabled (iq_next P c x) = iq_enabled c"
  by (simp_all add: iq_next_track)

lemma iq_run_flags [simp]:
  "dc_enabled (foldl (iq_next P) c xs) = dc_enabled c" "iq_enabled (foldl (iq_next P) c xs) = iq_enabled c"
  by (induction xs arbitrary: c) simp_all

text \<open>
  With both corrections switched off the stage is transparent: every buffer of 16-bit
  samples comes back unchanged, whatever was configured and calibrated before.
\<close>

lemma iq_correction_transparent:
  assumes "ieee P" and "openrsp_iq_correction_configure c0 0 0 = (0, c1)"
    and "openrsp_iq_correction_configure_calibration P c1 rate cal speed track refresh = (0, c2)"
    and "openrsp_iq_correction_process P c2 earlier (length earlier) = (c3, ws, m)"
    and "\<And>x. x \<in> set xs \<Longrightarrow> int16_range (fst x) \<and> int16_range (snd x)"
  shows "snd (openrsp_iq_correction_process P c3 xs (length xs)) = (xs, length xs)"
proof -
  obtain c4 ys n where p: "openrsp_iq_correction_process P c3 xs (length xs) = (c4, ys, n)" by (rule prod_cases3)
  have "dc_enabled c2 = 0" "iq_enabled c2 = 0"
    using assms(2,3) unfolding openrsp_iq_correction_configure_def openrsp_iq_correction_configure_calibration_def
    by (auto simp: Let_def reset_estimates_def split: if_splits)
  then have off: "dc_enabled c3 = 0" "iq_enabled c3 = 0" by (simp_all add: iq_process(1) [OF assms(4)])
  have "ys = xs"
    unfolding iq_process(4) [OF p]
    by (rule nth_equalityI) (use off assms(1,5) in \<open>simp_all add: iq_out_off\<close>)
  then show ?thesis using p iq_process(2) [OF p] by simp
qed

subsection \<open>Convergence of the DC estimate\<close>

lemma iq_next_fields [simp]:
  "dc_alpha (iq_next P c x) = dc_alpha c" "dc_cal (iq_next P c x) = dc_cal c"
  "calibration_window_samples (iq_next P c x) = calibration_window_samples c"
  "refresh_samples (iq_next P c x) = refresh_samples c"
  by (simp_all add: iq_next_track) (simp_all add: iq_track_dc_def Let_def)

lemma iq_next_dc:
  assumes "dc_enabled c \<noteq> 0" "dc_cal c \<noteq> 0" "refresh_samples c \<noteq> 0"
  defines "since \<equiv> (if samples_since_refresh c + 1 \<ge> refresh_samples c then 0 else samples_since_refresh c + 1)"
  shows "samples_since_refresh (iq_next P c x) = since"
    "dc_i (iq_next P c x) = ema P (if since > calibration_window_samples c then 0 else dc_alpha c) (dc_i c) (of_int (fst x))"
    "dc_q (iq_next P c x) = ema P (if since > calibration_window_samples c then 0 else dc_alpha c) (dc_q c) (of_int (snd x))"
  using assms(1-3) unfolding since_def by (simp_all add: iq_next_track) (auto simp: iq_track_dc_def Let_def)

lemma iq_next_dc_frozen:
  assumes "dc_enabled c \<noteq> 0" "dc_cal c = 0"
  shows "dc_i (iq_next P c x) = ema P 0 (dc_i c) (of_int (fst x))"
    "dc_q (iq_next P c x) = ema P 0 (dc_q c) (of_int (snd x))"
  using assms by (simp_all add: iq_next_track) (auto simp: iq_track_dc_def Let_def)

text \<open>How many of the first \<open>n\<close> samples fall into a calibration window.\<close>

definition tracked_samples :: "openrsp_iq_correction \<Rightarrow> nat \<Rightarrow> nat" where
  "tracked_samples c n =
     (if dc_cal c = 0 then 0
      else length (filter (\<lambda>k. k mod unat (refresh_samples c) \<le> unat (calibration_window_samples c)) [1..<Suc n]))"

lemma ema_exact: "ema exact_fpu alpha e x = x - (1 - alpha) * (x - e)"
  by (simp add: ema_def double_ops algebra_simps)

lemma refresh_count:
  fixes s r :: u64
  assumes "r \<noteq> 0" "unat s = n mod unat r"
  shows "unat (if s + 1 \<ge> r then 0 else s + 1) = Suc n mod unat r"
proof -
  have "0 < unat r" using assms(1) by (simp add: unat_gt_0)
  then have lt: "unat s < unat r" using assms(2) by simp
  moreover have "unat r < 2 ^ 64" using unsigned_less [of r] by simp
  ultimately have "unat (s + 1) = Suc (unat s)" by (simp add: unat_word_ariths)
  then show ?thesis using assms(2) lt by (auto simp: word_le_nat_alt mod_Suc)
qed

lemma dc_run:
  assumes "dc_enabled c \<noteq> 0" "refresh_samples c \<noteq> 0" "samples_since_refresh c = 0" "dc_i c = 0" "dc_q c = 0"
  shows "let c' = foldl (iq_next exact_fpu) c (replicate n (a, b)) in
    (dc_cal c \<noteq> 0 \<longrightarrow> unat (samples_since_refresh c') = n mod unat (refresh_samples c)) \<and>
    dc_enabled c' = dc_enabled c \<and> dc_cal c' = dc_cal c \<and> dc_alpha c' = dc_alpha c \<and>
    calibration_window_samples c' = calibration_window_samples c \<and> refresh_samples c' = refresh_samples c \<and>
    of_int a - dc_i c' = of_int a * (1 - dc_alpha c) ^ tracked_samples c n \<and>
    of_int b - dc_q c' = of_int b * (1 - dc_alpha c) ^ tracked_samples c n"
proof (induction n)
  case 0
  then show ?case using assms by (simp add: tracked_samples_def)
next
  case (Suc n)
  let ?c = "foldl (iq_next exact_fpu) c (replicate n (a, b))"
  have IH: "dc_cal c \<noteq> 0 \<Longrightarrow> unat (samples_since_refresh ?c) = n mod unat (refresh_samples c)"
    "dc_enabled ?c = dc_enabled c" "dc_cal ?c = dc_cal c"
    "dc_alpha ?c = dc_alpha c" "calibration_window_samples ?c = calibration_window_samples c"
    "refresh_samples ?c = refresh_samples c"
    "of_int a - dc_i ?c = of_int a * (1 - dc_alpha c) ^ tracked_samples c n"
    "of_int b - dc_q ?c = of_int b * (1 - dc_alpha c) ^ tracked_samples c n"
    using Suc by (simp_all add: Let_def)
  have fold: "foldl (iq_next exact_fpu) c (replicate (Suc n) (a, b)) = iq_next exact_fpu ?c (a, b)"
    unfolding replicate_Suc replicate_append_same [symmetric] by simp
  show ?case
  proof (cases "dc_cal c = 0")
    case True
    with IH assms(1) iq_next_dc_frozen [of ?c exact_fpu "(a, b)"] show ?thesis
      unfolding fold Let_def by (simp add: ema_exact tracked_samples_def)
  next
    case False
    define since where
      "since = (if samples_since_refresh ?c + 1 \<ge> refresh_samples ?c then 0 else samples_since_refresh ?c + 1)"
    have since: "unat since = Suc n mod unat (refresh_samples c)"
      unfolding since_def using refresh_count [OF assms(2) IH(1) [OF False]] by (simp only: IH(6))
    have grows: "tracked_samples c (Suc n) =
        tracked_samples c n + (if since > calibration_window_samples c then 0 else 1)"
      using False since by (simp add: tracked_samples_def word_less_nat_alt)
    have "dc_enabled ?c \<noteq> 0" "dc_cal ?c \<noteq> 0" "refresh_samples ?c \<noteq> 0" using assms(1,2) False IH by simp_all
    note next_dc = iq_next_dc [OF this, of exact_fpu "(a, b)", folded since_def]
    show ?thesis
      unfolding fold Let_def grows by (simp add: next_dc since IH ema_exact)
  qed
qed

lemma exact_dc_alpha:
  assumes "openrsp_iq_correction_configure_calibration exact_fpu c rate cal speed track refresh = (0, c')"
  shows "0 < dc_alpha c'" "dc_alpha c' \<le> 1 / 4" "refresh_samples c' \<noteq> 0" "dc_cal c' = cal"
    "samples_since_refresh c' = 0" "dc_i c' = 0" "dc_q c' = 0" "dc_enabled c' = dc_enabled c"
  using assms unfolding openrsp_iq_correction_configure_calibration_def
  by (auto simp: Let_def reset_estimates_def double_ops split: if_splits)


subsection \<open>A calibration to evaluate\<close>

definition blank_iq :: "int \<Rightarrow> int \<Rightarrow> openrsp_iq_correction" where
  "blank_iq dc iq = snd (openrsp_iq_correction_configure undefined dc iq)"

definition bench_iq :: "int \<Rightarrow> int \<Rightarrow> openrsp_iq_correction" where
  "bench_iq dc iq =
     snd (openrsp_iq_correction_configure_calibration exact_fpu (blank_iq dc iq) (Fin 2000000) 3 0 1 2048)"

lemma bench_iq_configured:
  "openrsp_iq_correction_configure undefined 0 0 = (0, blank_iq 0 0)"
  "openrsp_iq_correction_configure undefined 1 0 = (0, blank_iq 1 0)"
  by (simp_all add: blank_iq_def openrsp_iq_correction_configure_def)

lemma bench_iq_calibrated:
  "openrsp_iq_correction_configure_calibration exact_fpu (blank_iq dc iq) (Fin 2000000) 3 0 1 2048 = (0, bench_iq dc iq)"
  by (simp add: bench_iq_def openrsp_iq_correction_configure_calibration_def Let_def)

lemma bench_iq_fields:
  "dc_alpha (bench_iq dc iq) = 1 / 18" "calibration_window_samples (bench_iq dc iq) = 18"
  "refresh_samples (bench_iq dc iq) = 36864"
  by (simp_all add: bench_iq_def openrsp_iq_correction_configure_calibration_def Let_def calibration_samples_def
      calibration_us_def double_ops reset_estimates_def u64_of_real_def)

theorem iq_correction_bounded_witness:
  "case openrsp_iq_correction_process exact_fpu (bench_iq 1 0) [(1, 2)] 1 of (c2, ws, m) \<Rightarrow>
   case openrsp_iq_correction_process exact_fpu c2 [(32767, -32768)] 1 of (c3, ys, n) \<Rightarrow>
     iq_ok c2 \<and> iq_ok c3 \<and> n = 1 \<and> length ys = 1"
proof -
  obtain c2 ws m where 1: "openrsp_iq_correction_process exact_fpu (bench_iq 1 0) [(1, 2)] 1 = (c2, ws, m)"
    by (rule prod_cases3)
  obtain c3 ys n where 2: "openrsp_iq_correction_process exact_fpu c2 [(32767, -32768)] 1 = (c3, ys, n)"
    by (rule prod_cases3)
  have "int16_range (fst x) \<and> int16_range (snd x)" if "x \<in> set ([(1, 2)] @ [(32767, -32768)])" for x :: "int \<times> int"
    using that by auto
  from iq_correction_bounded [where earlier = "[(1, 2)]" and xs = "[(32767, -32768)]",
      OF ieee_exact_fpu bench_iq_calibrated this, of 1 0 c2 ws m c3 ys n] 1 2
  show ?thesis by simp
qed


end
