(* ===== verification/Rsp_Queue.thy ===== *)
theory Rsp_Queue
  imports Rsp_Ring Rsp_Float
begin

text \<open>
  The two queues between the client library and the application's callbacks, from
  \<open>compat/sdrplay_api_compat.c\<close>: the event queue of 32 entries that the event thread
  drains, and the stream-callback queue of 8 frames (the capacity of every build but the
  Windows one) that the stream-callback thread drains. The fields of the device context
  that belong to one queue form one record here. Both queues interpret the locale
  \<open>bounded_fifo\<close>.
\<close>

subsection \<open>Tuners\<close>

abbreviation (input) Tuner_Neither :: int where "Tuner_Neither \<equiv> 0"
abbreviation (input) Tuner_A :: int where "Tuner_A \<equiv> 1"
abbreviation (input) Tuner_B :: int where "Tuner_B \<equiv> 2"
abbreviation (input) Tuner_Both :: int where "Tuner_Both \<equiv> 3"

subsection \<open>The event queue\<close>

datatype api_event_kind = GainChange | PowerOverloadChange | DeviceRemoved | RspDuoModeChange | DeviceFailure

text \<open>The union \<open>sdrplay_api_EventParamsT\<close>; cleared parameters are \<open>NoParams\<close>.\<close>

datatype event_params =
    NoParams
  | GainParams u32 u32 real
  | PowerOverloadParams int
  | RspDuoModeParams int

record compat_api_event =
  ev_event :: api_event_kind
  ev_tuner :: int
  ev_params :: event_params

record event_state =
  event_thread_started :: bool
  event_stop :: bool
  event_dispatching :: bool
  event_head :: nat
  event_count :: nat
  event_queue :: "compat_api_event list"

abbreviation (input) OPENRSP_EVENT_QUEUE_CAPACITY :: nat where "OPENRSP_EVENT_QUEUE_CAPACITY \<equiv> 32"

definition event_put :: "compat_api_event \<Rightarrow> event_state \<Rightarrow> event_state" where
  "event_put e s =
     (let tail = (event_head s + event_count s) mod OPENRSP_EVENT_QUEUE_CAPACITY
      in s\<lparr>event_queue := (event_queue s)[tail := e], event_count := event_count s + 1\<rparr>)"

definition event_drop_oldest :: "event_state \<Rightarrow> event_state" where
  "event_drop_oldest s =
     s\<lparr>event_head := (event_head s + 1) mod OPENRSP_EVENT_QUEUE_CAPACITY, event_count := event_count s - 1\<rparr>"

definition queue_api_event :: "api_event_kind \<Rightarrow> int \<Rightarrow> event_params \<Rightarrow> event_state \<Rightarrow> int \<times> event_state" where
  "queue_api_event event tuner params s =
     (let e = \<lparr>ev_event = event, ev_tuner = tuner, ev_params = params\<rparr> in
      if \<not> event_thread_started s then (-1, s)
      else if event_stop s then (-1, s)
      else if event_count s = OPENRSP_EVENT_QUEUE_CAPACITY
      then if event \<noteq> DeviceRemoved \<and> event \<noteq> DeviceFailure then (-1, s)
           else (0, event_put e (event_drop_oldest s))
      else (0, event_put e s))"

text \<open>
  One turn of \<open>event_thread_main\<close>: the event to hand to the callback. \<open>None\<close> is the
  wait, or the end of the thread when it is stopping. \<open>event_dispatched\<close> is the return
  from the callback.
\<close>

definition event_take :: "event_state \<Rightarrow> event_state" where
  "event_take s =
     s\<lparr>event_head := (event_head s + 1) mod OPENRSP_EVENT_QUEUE_CAPACITY,
       event_count := event_count s - 1, event_dispatching := True\<rparr>"

definition event_dispatch :: "event_state \<Rightarrow> (compat_api_event \<times> event_state) option" where
  "event_dispatch s =
     (if event_count s = 0 then None
      else Some (event_queue s ! event_head s, event_take s))"

definition event_dispatched :: "event_state \<Rightarrow> event_state" where
  "event_dispatched s = s\<lparr>event_dispatching := False\<rparr>"

text \<open>Waiting for the event thread: it serves the queue to the end.\<close>

fun event_drain :: "nat \<Rightarrow> event_state \<Rightarrow> compat_api_event list \<times> event_state" where
  "event_drain 0 s = ([], event_dispatched s)"
| "event_drain (Suc n) s =
     (case event_dispatch s of
        None \<Rightarrow> ([], event_dispatched s)
      | Some (e, s') \<Rightarrow> let (es, s'') = event_drain n (event_dispatched s') in (e # es, s''))"

definition start_event_thread :: "bool \<Rightarrow> event_state \<Rightarrow> int \<times> event_state" where
  "start_event_thread created s = (if created then (0, s\<lparr>event_thread_started := True\<rparr>) else (-1, s))"

text \<open>Stopping joins the thread, which first delivers what is queued.\<close>

definition stop_event_thread :: "event_state \<Rightarrow> compat_api_event list \<times> event_state" where
  "stop_event_thread s =
     (if \<not> event_thread_started s then ([], s)
      else let (es, s) = event_drain (event_count s) (s\<lparr>event_stop := True\<rparr>)
           in (es, s\<lparr>event_thread_started := False\<rparr>))"

definition wait_for_event_idle :: "event_state \<Rightarrow> compat_api_event list \<times> event_state" where
  "wait_for_event_idle s =
     (if \<not> event_thread_started s then ([], s) else event_drain (event_count s) s)"

definition event_items :: "event_state \<Rightarrow> compat_api_event list" where
  "event_items s = ring_items OPENRSP_EVENT_QUEUE_CAPACITY (event_queue s) (event_head s) (event_count s)"

definition event_wf :: "event_state \<Rightarrow> bool" where
  "event_wf s \<longleftrightarrow> ring_wf OPENRSP_EVENT_QUEUE_CAPACITY (event_queue s) (event_head s) (event_count s)"

definition event_accepts :: "event_state \<Rightarrow> bool" where
  "event_accepts s \<longleftrightarrow> event_thread_started s \<and> \<not> event_stop s"

definition event_push :: "compat_api_event \<Rightarrow> event_state \<Rightarrow> event_state" where
  "event_push e s = snd (queue_api_event (ev_event e) (ev_tuner e) (ev_params e) s)"

definition event_pop :: "event_state \<Rightarrow> event_state" where
  "event_pop s = event_dispatched (event_take s)"

lemma event_dispatched_simps [simp]:
  "event_items (event_dispatched s) = event_items s" "event_wf (event_dispatched s) = event_wf s"
  "event_accepts (event_dispatched s) = event_accepts s" "event_count (event_dispatched s) = event_count s"
  by (simp_all add: event_dispatched_def event_items_def event_wf_def event_accepts_def)

lemma event_put_items:
  "event_wf s \<Longrightarrow> event_count s < OPENRSP_EVENT_QUEUE_CAPACITY \<Longrightarrow> event_items (event_put e s) = event_items s @ [e]"
  using ring_items_push [of 32 "event_queue s" "event_head s" "event_count s" e]
  by (simp add: event_put_def event_items_def event_wf_def Let_def)

lemma event_put_wf:
  "event_wf s \<Longrightarrow> event_count s < OPENRSP_EVENT_QUEUE_CAPACITY \<Longrightarrow> event_wf (event_put e s)"
  using ring_wf_push [of 32 "event_queue s" "event_head s" "event_count s"]
  by (simp add: event_put_def event_wf_def Let_def)

lemma event_drop_items:
  "event_wf s \<Longrightarrow> 0 < event_count s \<Longrightarrow> event_items (event_drop_oldest s) = tl (event_items s)"
  using ring_items_pop [of 32 "event_queue s" "event_head s" "event_count s"]
  by (simp add: event_drop_oldest_def event_items_def event_wf_def)

lemma event_drop_wf: "event_wf s \<Longrightarrow> event_wf (event_drop_oldest s)"
  using ring_wf_pop [of 32 "event_queue s" "event_head s" "event_count s"]
  by (simp add: event_drop_oldest_def event_wf_def)

lemma event_take_items:
  "event_wf s \<Longrightarrow> 0 < event_count s \<Longrightarrow> event_items s = event_queue s ! event_head s # event_items (event_take s)"
  using ring_items_pop [of 32 "event_queue s" "event_head s" "event_count s"]
  by (simp add: event_take_def event_items_def event_wf_def)

lemma event_take_wf: "event_wf s \<Longrightarrow> event_wf (event_take s)"
  using ring_wf_pop [of 32 "event_queue s" "event_head s" "event_count s"]
  by (simp add: event_take_def event_wf_def)

lemma length_event_items [simp]: "length (event_items s) = event_count s"
  by (simp add: event_items_def)

lemma event_items_empty [simp]: "event_items s = [] \<longleftrightarrow> event_count s = 0"
  by (metis length_event_items length_0_conv)

lemma event_put_flags [simp]:
  "event_thread_started (event_put e s) = event_thread_started s" "event_stop (event_put e s) = event_stop s"
  "event_thread_started (event_drop_oldest s) = event_thread_started s"
  "event_stop (event_drop_oldest s) = event_stop s"
  "event_count (event_drop_oldest s) = event_count s - 1"
  "event_thread_started (event_take s) = event_thread_started s" "event_stop (event_take s) = event_stop s"
  "event_count (event_take s) = event_count s - 1"
  by (simp_all add: event_put_def event_drop_oldest_def event_take_def Let_def)

lemma event_push_cases:
  "event_push e s =
     (if \<not> event_accepts s then s
      else if event_count s = OPENRSP_EVENT_QUEUE_CAPACITY
      then if ev_event e = DeviceRemoved \<or> ev_event e = DeviceFailure
           then event_put e (event_drop_oldest s) else s
      else event_put e s)"
  by (cases e) (auto simp: event_push_def queue_api_event_def event_accepts_def Let_def)

lemma event_wf_le: "event_wf s \<Longrightarrow> event_count s \<le> OPENRSP_EVENT_QUEUE_CAPACITY"
  by (simp add: event_wf_def ring_wf_def)

interpretation events: bounded_fifo OPENRSP_EVENT_QUEUE_CAPACITY event_wf event_items "\<lambda>e. e" event_accepts
  event_push event_pop
proof unfold_locales
  fix s :: event_state and e :: compat_api_event
  assume wf: "event_wf s"
  show "length (event_items s) \<le> OPENRSP_EVENT_QUEUE_CAPACITY" using event_wf_le [OF wf] by simp
  show "event_wf (event_push e s)"
    using wf event_wf_le [OF wf] by (simp add: event_push_cases event_put_wf event_drop_wf)
  show "event_accepts (event_push e s) = event_accepts s"
    by (simp add: event_push_cases) (simp add: event_accepts_def)
  show "event_items (event_push e s) = event_items s" if "\<not> event_accepts s"
    using that by (simp add: event_push_cases)
  show "map (\<lambda>e. e) (event_items (event_push e s)) = map (\<lambda>e. e) (event_items s) @ [e]"
    if "event_accepts s" "length (event_items s) < OPENRSP_EVENT_QUEUE_CAPACITY"
    using that wf by (simp add: event_push_cases event_put_items)
  show "map (\<lambda>e. e) (event_items (event_push e s)) = map (\<lambda>e. e) (event_items s) \<or>
      map (\<lambda>e. e) (event_items (event_push e s)) = tl (map (\<lambda>e. e) (event_items s)) @ [e]"
    if "event_accepts s" "length (event_items s) = OPENRSP_EVENT_QUEUE_CAPACITY"
    using that wf by (simp add: event_push_cases event_put_items event_drop_wf event_drop_items)
  show "event_wf (event_pop s)"
    using event_take_wf [OF wf] by (simp add: event_pop_def)
  show "event_accepts (event_pop s) = event_accepts s"
    by (simp add: event_pop_def) (simp add: event_accepts_def)
  show "event_items (event_pop s) = tl (event_items s)" if "event_items s \<noteq> []"
    using event_take_items [OF wf] that by (simp add: event_pop_def)
qed

subsection \<open>The stream-callback queue\<close>

record compat_stream_frame =
  sf_samples :: nat
  sf_tuner :: int
  sf_first_sample :: u32
  sf_reset :: bool
  sf_gr_changed :: bool
  sf_rf_changed :: bool
  sf_fs_changed :: bool
  sf_data :: "(int \<times> int) list"

record stream_state =
  stream_callback_thread_started :: bool
  stream_callback_stop :: bool
  stream_callback_paused :: bool
  stream_callback_active :: bool
  stream_callback_head :: nat
  stream_callback_count :: nat
  stream_callback_drop_count :: u32
  stream_callback_next_sample :: u32
  stream_callback_next_sample_b :: u32
  stream_callback_seen :: bool
  stream_callback_seen_b :: bool
  stream_queue :: "compat_stream_frame list"

abbreviation (input) OPENRSP_STREAM_QUEUE_CAPACITY :: nat where "OPENRSP_STREAM_QUEUE_CAPACITY \<equiv> 8"

definition stream_put :: "compat_stream_frame \<Rightarrow> stream_state \<Rightarrow> stream_state" where
  "stream_put f s =
     (let tail = (stream_callback_head s + stream_callback_count s) mod OPENRSP_STREAM_QUEUE_CAPACITY
      in s\<lparr>stream_queue := (stream_queue s)[tail := f], stream_callback_count := stream_callback_count s + 1\<rparr>)"

definition stream_drop_oldest :: "stream_state \<Rightarrow> stream_state" where
  "stream_drop_oldest s =
     s\<lparr>stream_callback_head := (stream_callback_head s + 1) mod OPENRSP_STREAM_QUEUE_CAPACITY,
       stream_callback_count := stream_callback_count s - 1,
       stream_callback_drop_count := stream_callback_drop_count s + 1\<rparr>"

text \<open>\<open>data\<close> holds the first \<open>samples\<close> entries of the scratch buffers, which are copied.\<close>

definition queue_stream_callback ::
  "int \<Rightarrow> nat \<Rightarrow> u32 \<Rightarrow> bool \<Rightarrow> bool \<Rightarrow> bool \<Rightarrow> bool \<Rightarrow> (int \<times> int) list \<Rightarrow> stream_state \<Rightarrow> stream_state" where
  "queue_stream_callback tuner samples first_sample reset gr_changed rf_changed fs_changed data s =
     (let f = \<lparr>sf_samples = samples, sf_tuner = tuner, sf_first_sample = first_sample, sf_reset = reset,
               sf_gr_changed = gr_changed, sf_rf_changed = rf_changed, sf_fs_changed = fs_changed,
               sf_data = data\<rparr>
      in if stream_callback_paused s \<or> stream_callback_stop s then s
         else if stream_callback_count s = OPENRSP_STREAM_QUEUE_CAPACITY
         then let dropped = stream_queue s ! stream_callback_head s
              in stream_put
                   (f\<lparr>sf_reset := reset \<or> sf_reset dropped,
                      sf_gr_changed := gr_changed \<or> sf_gr_changed dropped,
                      sf_rf_changed := rf_changed \<or> sf_rf_changed dropped,
                      sf_fs_changed := fs_changed \<or> sf_fs_changed dropped\<rparr>)
                   (stream_drop_oldest s)
         else stream_put f s)"

text \<open>
  One turn of \<open>stream_callback_thread_main\<close> up to the callback: it waits unless
  \<open>stream_ready\<close>, then takes the oldest frame and decides whether the callback sees a reset.
\<close>

definition stream_ready :: "stream_state \<Rightarrow> bool" where
  "stream_ready s \<longleftrightarrow>
     stream_callback_count s \<noteq> 0 \<and> \<not> stream_callback_paused s \<and> \<not> stream_callback_stop s"

definition stream_take_reset :: "stream_state \<Rightarrow> bool" where
  "stream_take_reset s =
     (let frame = stream_queue s ! stream_callback_head s;
          seen = (if sf_tuner frame = Tuner_B then stream_callback_seen_b s else stream_callback_seen s);
          expected = (if sf_tuner frame = Tuner_B then stream_callback_next_sample_b s
                      else stream_callback_next_sample s)
      in sf_reset frame \<or> \<not> seen \<or> sf_first_sample frame \<noteq> expected)"

definition stream_take :: "stream_state \<Rightarrow> stream_state" where
  "stream_take s =
     (let frame = stream_queue s ! stream_callback_head s;
          following = sf_first_sample frame + of_nat (sf_samples frame);
          s = s\<lparr>stream_callback_head := (stream_callback_head s + 1) mod OPENRSP_STREAM_QUEUE_CAPACITY,
                stream_callback_count := stream_callback_count s - 1,
                stream_callback_active := True\<rparr>
      in if sf_tuner frame = Tuner_B
         then s\<lparr>stream_callback_seen_b := True, stream_callback_next_sample_b := following\<rparr>
         else s\<lparr>stream_callback_seen := True, stream_callback_next_sample := following\<rparr>)"

definition stream_delivered :: "stream_state \<Rightarrow> stream_state" where
  "stream_delivered s = s\<lparr>stream_callback_active := False\<rparr>"

definition start_stream_callback_thread :: "bool \<Rightarrow> stream_state \<Rightarrow> int \<times> stream_state" where
  "start_stream_callback_thread created s =
     (let s = s\<lparr>stream_callback_stop := False, stream_callback_paused := False,
                stream_callback_active := False, stream_callback_head := 0, stream_callback_count := 0,
                stream_callback_drop_count := 0, stream_callback_seen := False, stream_callback_seen_b := False\<rparr>
      in if created then (0, s\<lparr>stream_callback_thread_started := True\<rparr>) else (-1, s))"

definition pause_stream_callbacks :: "stream_state \<Rightarrow> stream_state" where
  "pause_stream_callbacks s =
     s\<lparr>stream_callback_paused := True, stream_callback_active := False, stream_callback_head := 0,
       stream_callback_count := 0\<rparr>"

definition resume_stream_callbacks :: "stream_state \<Rightarrow> stream_state" where
  "resume_stream_callbacks s = s\<lparr>stream_callback_paused := False\<rparr>"

definition stop_stream_callback_thread :: "stream_state \<Rightarrow> stream_state" where
  "stop_stream_callback_thread s =
     (if \<not> stream_callback_thread_started s then s
      else s\<lparr>stream_callback_stop := True, stream_callback_count := 0, stream_callback_active := False,
             stream_callback_thread_started := False\<rparr>)"

definition stream_items :: "stream_state \<Rightarrow> compat_stream_frame list" where
  "stream_items s =
     ring_items OPENRSP_STREAM_QUEUE_CAPACITY (stream_queue s) (stream_callback_head s) (stream_callback_count s)"

definition stream_wf :: "stream_state \<Rightarrow> bool" where
  "stream_wf s \<longleftrightarrow>
     ring_wf OPENRSP_STREAM_QUEUE_CAPACITY (stream_queue s) (stream_callback_head s) (stream_callback_count s)"

definition stream_accepts :: "stream_state \<Rightarrow> bool" where
  "stream_accepts s \<longleftrightarrow> \<not> stream_callback_paused s \<and> \<not> stream_callback_stop s"

definition stream_push :: "compat_stream_frame \<Rightarrow> stream_state \<Rightarrow> stream_state" where
  "stream_push f s =
     queue_stream_callback (sf_tuner f) (sf_samples f) (sf_first_sample f) (sf_reset f) (sf_gr_changed f)
       (sf_rf_changed f) (sf_fs_changed f) (sf_data f) s"

definition stream_pop :: "stream_state \<Rightarrow> stream_state" where
  "stream_pop s = stream_delivered (stream_take s)"

text \<open>What identifies a frame: its flags may be joined with those of a dropped frame.\<close>

definition frame_key :: "compat_stream_frame \<Rightarrow> int \<times> u32 \<times> nat \<times> (int \<times> int) list" where
  "frame_key f = (sf_tuner f, sf_first_sample f, sf_samples f, sf_data f)"

definition join_flags :: "compat_stream_frame \<Rightarrow> compat_stream_frame \<Rightarrow> compat_stream_frame" where
  "join_flags dropped f =
     f\<lparr>sf_reset := sf_reset f \<or> sf_reset dropped, sf_gr_changed := sf_gr_changed f \<or> sf_gr_changed dropped,
       sf_rf_changed := sf_rf_changed f \<or> sf_rf_changed dropped,
       sf_fs_changed := sf_fs_changed f \<or> sf_fs_changed dropped\<rparr>"

lemma stream_delivered_simps [simp]:
  "stream_items (stream_delivered s) = stream_items s" "stream_wf (stream_delivered s) = stream_wf s"
  "stream_accepts (stream_delivered s) = stream_accepts s"
  "stream_callback_count (stream_delivered s) = stream_callback_count s"
  by (simp_all add: stream_delivered_def stream_items_def stream_wf_def stream_accepts_def)

lemma frame_key_join [simp]: "frame_key (join_flags d f) = frame_key f"
  by (simp add: frame_key_def join_flags_def)

lemma stream_push_cases:
  "stream_push f s =
     (if \<not> stream_accepts s then s
      else if stream_callback_count s = OPENRSP_STREAM_QUEUE_CAPACITY
      then stream_put (join_flags (stream_queue s ! stream_callback_head s) f) (stream_drop_oldest s)
      else stream_put f s)"
  by (cases f) (auto simp: stream_push_def queue_stream_callback_def stream_accepts_def join_flags_def Let_def)

lemma length_stream_items [simp]: "length (stream_items s) = stream_callback_count s"
  by (simp add: stream_items_def)

lemma stream_items_empty [simp]: "stream_items s = [] \<longleftrightarrow> stream_callback_count s = 0"
  by (metis length_stream_items length_0_conv)

lemma stream_put_items:
  "stream_wf s \<Longrightarrow> stream_callback_count s < OPENRSP_STREAM_QUEUE_CAPACITY \<Longrightarrow>
   stream_items (stream_put f s) = stream_items s @ [f]"
  using ring_items_push [of 8 "stream_queue s" "stream_callback_head s" "stream_callback_count s" f]
  by (simp add: stream_put_def stream_items_def stream_wf_def Let_def)

lemma stream_put_wf:
  "stream_wf s \<Longrightarrow> stream_callback_count s < OPENRSP_STREAM_QUEUE_CAPACITY \<Longrightarrow> stream_wf (stream_put f s)"
  using ring_wf_push [of 8 "stream_queue s" "stream_callback_head s" "stream_callback_count s"]
  by (simp add: stream_put_def stream_wf_def Let_def)

lemma stream_head_items:
  "stream_wf s \<Longrightarrow> 0 < stream_callback_count s \<Longrightarrow> stream_queue s ! stream_callback_head s = hd (stream_items s)"
  using ring_items_pop [of 8 "stream_queue s" "stream_callback_head s" "stream_callback_count s"]
  by (simp add: stream_items_def stream_wf_def)

lemma stream_drop_items:
  "stream_wf s \<Longrightarrow> 0 < stream_callback_count s \<Longrightarrow> stream_items (stream_drop_oldest s) = tl (stream_items s)"
  using ring_items_pop [of 8 "stream_queue s" "stream_callback_head s" "stream_callback_count s"]
  by (simp add: stream_drop_oldest_def stream_items_def stream_wf_def)

lemma stream_drop_wf: "stream_wf s \<Longrightarrow> stream_wf (stream_drop_oldest s)"
  using ring_wf_pop [of 8 "stream_queue s" "stream_callback_head s" "stream_callback_count s"]
  by (simp add: stream_drop_oldest_def stream_wf_def)

lemma stream_take_fields [simp]:
  "stream_queue (stream_take s) = stream_queue s"
  "stream_callback_head (stream_take s) = (stream_callback_head s + 1) mod OPENRSP_STREAM_QUEUE_CAPACITY"
  "stream_callback_count (stream_take s) = stream_callback_count s - 1"
  "stream_callback_paused (stream_take s) = stream_callback_paused s"
  "stream_callback_stop (stream_take s) = stream_callback_stop s"
  by (simp_all add: stream_take_def Let_def)

lemma stream_take_items:
  "stream_wf s \<Longrightarrow> 0 < stream_callback_count s \<Longrightarrow> stream_items (stream_take s) = tl (stream_items s)"
  using ring_items_pop [of 8 "stream_queue s" "stream_callback_head s" "stream_callback_count s"]
  by (simp add: stream_items_def stream_wf_def)

lemma stream_take_wf: "stream_wf s \<Longrightarrow> stream_wf (stream_take s)"
  using ring_wf_pop [of 8 "stream_queue s" "stream_callback_head s" "stream_callback_count s"]
  by (simp add: stream_wf_def)

lemma stream_put_flags [simp]:
  "stream_callback_paused (stream_put f s) = stream_callback_paused s"
  "stream_callback_stop (stream_put f s) = stream_callback_stop s"
  "stream_callback_paused (stream_drop_oldest s) = stream_callback_paused s"
  "stream_callback_stop (stream_drop_oldest s) = stream_callback_stop s"
  "stream_callback_count (stream_drop_oldest s) = stream_callback_count s - 1"
  by (simp_all add: stream_put_def stream_drop_oldest_def Let_def)

lemma stream_wf_le: "stream_wf s \<Longrightarrow> stream_callback_count s \<le> OPENRSP_STREAM_QUEUE_CAPACITY"
  by (simp add: stream_wf_def ring_wf_def)

interpretation frames: bounded_fifo OPENRSP_STREAM_QUEUE_CAPACITY stream_wf stream_items frame_key stream_accepts
  stream_push stream_pop
proof unfold_locales
  fix s :: stream_state and f :: compat_stream_frame
  assume wf: "stream_wf s"
  show "length (stream_items s) \<le> OPENRSP_STREAM_QUEUE_CAPACITY" using stream_wf_le [OF wf] by simp
  show "stream_wf (stream_push f s)"
    using wf stream_wf_le [OF wf] by (simp add: stream_push_cases stream_put_wf stream_drop_wf)
  show "stream_accepts (stream_push f s) = stream_accepts s"
    by (simp add: stream_push_cases) (simp add: stream_accepts_def)
  show "stream_items (stream_push f s) = stream_items s" if "\<not> stream_accepts s"
    using that by (simp add: stream_push_cases)
  show "map frame_key (stream_items (stream_push f s)) = map frame_key (stream_items s) @ [frame_key f]"
    if "stream_accepts s" "length (stream_items s) < OPENRSP_STREAM_QUEUE_CAPACITY"
    using that wf by (simp add: stream_push_cases stream_put_items)
  show "map frame_key (stream_items (stream_push f s)) = map frame_key (stream_items s) \<or>
      map frame_key (stream_items (stream_push f s)) = tl (map frame_key (stream_items s)) @ [frame_key f]"
    if "stream_accepts s" "length (stream_items s) = OPENRSP_STREAM_QUEUE_CAPACITY"
    using that wf by (simp add: stream_push_cases stream_put_items stream_drop_wf stream_drop_items map_tl)
  show "stream_wf (stream_pop s)"
    using stream_take_wf [OF wf] by (simp add: stream_pop_def)
  show "stream_accepts (stream_pop s) = stream_accepts s"
    by (simp add: stream_pop_def) (simp add: stream_accepts_def)
  show "stream_items (stream_pop s) = tl (stream_items s)" if "stream_items s \<noteq> []"
    using stream_take_items [OF wf] that by (simp add: stream_pop_def)
qed

subsection \<open>Delivery of events\<close>

text \<open>A run of the queue: callers queue events, the event thread takes turns.\<close>

fun event_serve :: "compat_api_event queue_op list \<Rightarrow> event_state \<Rightarrow> compat_api_event list \<times> event_state" where
  "event_serve [] s = ([], s)"
| "event_serve (Push e # ops) s = event_serve ops (snd (queue_api_event (ev_event e) (ev_tuner e) (ev_params e) s))"
| "event_serve (Pop # ops) s =
     (case event_dispatch s of
        None \<Rightarrow> event_serve ops s
      | Some (e, s') \<Rightarrow> let (es, s'') = event_serve ops (event_dispatched s') in (e # es, s''))"

lemma event_serve_serve: "event_wf s \<Longrightarrow> event_serve ops s = events.serve ops s"
proof (induction ops s rule: event_serve.induct)
  case (2 e ops s)
  then show ?case using events.invar_push [of s e] by (simp add: event_push_def [symmetric])
next
  case (3 ops s)
  show ?case
  proof (cases "event_count s = 0")
    case False
    have "event_wf (event_pop s)" using 3(3) False by (simp add: events.invar_pop)
    moreover have "event_queue s ! event_head s = hd (event_items s)"
      using event_take_items [OF 3(3)] False by simp
    moreover have "event_serve ops (event_pop s) = events.serve ops (event_pop s)"
      using 3(2) [of "(event_queue s ! event_head s, event_take s)" "event_queue s ! event_head s" "event_take s"]
        False calculation(1) by (simp add: event_dispatch_def event_pop_def [symmetric])
    ultimately show ?thesis
      using False by (simp add: event_dispatch_def event_pop_def [symmetric] split: prod.splits)
  qed (use 3 in \<open>simp add: event_dispatch_def\<close>)
qed simp

text \<open>
  Events reach the application in the order they were queued: whatever the interleaving
  of callers and the event thread, the events delivered followed by those still queued are
  a subsequence of those queued before and during the run, at most 32 are ever held, and
  none is lost while no more than 32 are outstanding.
\<close>

lemma events_in_order:
  assumes "event_wf s" and "event_serve ops s = (delivered, s')"
  shows "subseq (delivered @ event_items s') (event_items s @ pushed (\<lambda>e. e) ops) \<and>
    length (event_items s') \<le> OPENRSP_EVENT_QUEUE_CAPACITY \<and>
    (event_accepts s \<and> length (event_items s) + length (pushed (\<lambda>e. e) ops) \<le> OPENRSP_EVENT_QUEUE_CAPACITY \<longrightarrow>
     delivered @ event_items s' = event_items s @ pushed (\<lambda>e. e) ops)"
  using events.serve_in_order [OF assms(1), of ops] events.serve_bound [OF assms(1), of ops]
    events.serve_lossless [OF assms(1), of ops]
  unfolding event_serve_serve [OF assms(1), of ops, unfolded assms(2), symmetric] by simp

text \<open>
  Removal and failure reports are never turned away: while the event thread runs,
  queueing one succeeds, puts it at the end of the queue and costs at most the oldest
  entry, even when the queue is full.
\<close>

lemma critical_events_accepted:
  assumes "event_wf s" and "event_accepts s" and "kind = DeviceRemoved \<or> kind = DeviceFailure"
  shows "case queue_api_event kind tuner params s of (result, s') \<Rightarrow>
    result = 0 \<and> event_wf s' \<and>
    event_items s' =
      (if length (event_items s) = OPENRSP_EVENT_QUEUE_CAPACITY then tl (event_items s) else event_items s) @
      [\<lparr>ev_event = kind, ev_tuner = tuner, ev_params = params\<rparr>]"
  using assms event_wf_le [OF assms(1)]
  by (auto simp: queue_api_event_def event_accepts_def Let_def event_put_items event_put_wf event_drop_wf
      event_drop_items)

subsection \<open>Delivery of frames\<close>

record stream_delivery =
  sd_frame :: compat_stream_frame
  sd_reset :: bool

definition stream_dispatch :: "stream_state \<Rightarrow> (stream_delivery \<times> stream_state) option" where
  "stream_dispatch s =
     (if \<not> stream_ready s then None
      else Some (\<lparr>sd_frame = stream_queue s ! stream_callback_head s, sd_reset = stream_take_reset s\<rparr>,
                 stream_take s))"

text \<open>A run: the IQ side queues frames, mode changes pause and resume, the thread takes turns.\<close>

datatype stream_op =
    Frame compat_stream_frame
  | Turn
  | PauseCallbacks
  | ResumeCallbacks

fun stream_serve :: "stream_op list \<Rightarrow> stream_state \<Rightarrow> stream_delivery list \<times> stream_state" where
  "stream_serve [] s = ([], s)"
| "stream_serve (Frame f # ops) s = stream_serve ops (stream_push f s)"
| "stream_serve (Turn # ops) s =
     (case stream_dispatch s of
        None \<Rightarrow> stream_serve ops s
      | Some (d, s') \<Rightarrow> let (ds, s'') = stream_serve ops (stream_delivered s') in (d # ds, s''))"
| "stream_serve (PauseCallbacks # ops) s = stream_serve ops (pause_stream_callbacks s)"
| "stream_serve (ResumeCallbacks # ops) s = stream_serve ops (resume_stream_callbacks s)"

fun queued_frames :: "stream_op list \<Rightarrow> compat_stream_frame list" where
  "queued_frames [] = []"
| "queued_frames (Frame f # ops) = f # queued_frames ops"
| "queued_frames (_ # ops) = queued_frames ops"

lemma pause_items [simp]: "stream_items (pause_stream_callbacks s) = []"
  by (simp add: pause_stream_callbacks_def)

lemma pause_wf: "stream_wf s \<Longrightarrow> stream_wf (pause_stream_callbacks s)"
  using ring_wf_clear by (auto simp: pause_stream_callbacks_def stream_wf_def)

lemma resume_simps [simp]:
  "stream_items (resume_stream_callbacks s) = stream_items s"
  "stream_wf (resume_stream_callbacks s) = stream_wf s"
  by (simp_all add: resume_stream_callbacks_def stream_items_def stream_wf_def)

lemma stream_dispatch_SomeD:
  assumes "stream_dispatch s = Some (d, s')" "stream_wf s"
  shows "0 < stream_callback_count s" "stream_accepts s" "stream_items s = sd_frame d # stream_items s'"
    "sd_reset d = stream_take_reset s" "s' = stream_take s" "stream_wf s'"
    "sd_frame d = stream_queue s ! stream_callback_head s"
proof -
  have c: "0 < stream_callback_count s"
    using assms(1) by (simp add: stream_dispatch_def stream_ready_def split: if_splits)
  have "stream_items s \<noteq> []" using c by simp
  then show "stream_items s = sd_frame d # stream_items s'"
    using assms c stream_take_items [OF assms(2) c] stream_head_items [OF assms(2) c]
    by (auto simp: stream_dispatch_def split: if_splits)
qed (use assms in \<open>auto simp: stream_dispatch_def stream_ready_def stream_accepts_def stream_take_wf split: if_splits\<close>)

text \<open>
  C31. Stream callbacks see frames in the order the IQ side queued them: for every
  interleaving, mode changes included, the frames delivered followed by those still queued
  are a subsequence (up to joined change flags) of those queued before and during the run,
  and at most 8 are held.
\<close>

theorem frames_in_order:
  "stream_wf s \<Longrightarrow> stream_serve ops s = (delivered, s') \<Longrightarrow>
   subseq (map (frame_key \<circ> sd_frame) delivered @ map frame_key (stream_items s'))
     (map frame_key (stream_items s) @ map frame_key (queued_frames ops)) \<and>
   length (stream_items s') \<le> OPENRSP_STREAM_QUEUE_CAPACITY"
proof (induction ops s arbitrary: delivered rule: stream_serve.induct)
  case (1 s)
  then show ?case using stream_wf_le by simp
next
  case (2 f ops s)
  have "subseq (map frame_key (stream_items (stream_push f s)) @ map frame_key (queued_frames ops))
      ((map frame_key (stream_items s) @ [frame_key f]) @ map frame_key (queued_frames ops))"
    using frames.push_subseq [OF 2(2)] by (rule list_emb_append_mono) simp
  moreover have "stream_wf (stream_push f s)" by (rule frames.invar_push [OF 2(2)])
  ultimately show ?case using 2(1,3) by (auto intro: subseq_order.order_trans)
next
  case (3 ops s)
  show ?case
  proof (cases "stream_dispatch s")
    case None
    then show ?thesis using 3 by simp
  next
    case (Some p)
    obtain d t where p: "p = (d, t)" by (cases p)
    note disp = stream_dispatch_SomeD [OF Some [unfolded p] 3(3)]
    obtain ds where ds: "stream_serve ops (stream_delivered t) = (ds, s')" "delivered = d # ds"
      using 3(4) Some p by (auto split: prod.splits)
    show ?thesis using 3(2) [OF Some p [symmetric] _ ds(1)] disp ds(2) by simp
  qed
next
  case (4 ops s)
  have "subseq (map frame_key (queued_frames ops)) (map frame_key (stream_items s) @ map frame_key (queued_frames ops))"
    by (rule list_emb_append2) simp
  then show ?case using 4 pause_wf by (auto intro: subseq_order.order_trans)
next
  case (5 ops s)
  then show ?case by simp
qed

text \<open>
  Change notifications are not lost with dropped frames: after a frame is accepted, a
  reset, gain, frequency or sample-rate flag is pending in the queue exactly when it was
  pending before or is set in the new frame, even when the oldest frame had to be dropped.
\<close>

lemma dropped_flags_carried:
  assumes "stream_wf s" and "stream_accepts s"
    and "flag \<in> {sf_reset, sf_gr_changed, sf_rf_changed, sf_fs_changed}"
  shows "list_ex flag (stream_items (stream_push f s)) \<longleftrightarrow> list_ex flag (stream_items s) \<or> flag f"
proof (cases "stream_callback_count s = OPENRSP_STREAM_QUEUE_CAPACITY")
  case True
  obtain x xs where x: "stream_items s = x # xs"
    using True by (metis length_stream_items length_greater_0_conv neq_Nil_conv zero_less_numeral)
  then have hd: "stream_queue s ! stream_callback_head s = x" using stream_head_items [OF assms(1)] True by simp
  have "stream_items (stream_push f s) = xs @ [join_flags x f]"
    using True assms(1,2) stream_put_items [OF stream_drop_wf [OF assms(1)]] stream_drop_items [OF assms(1)]
    by (simp add: stream_push_cases x hd)
  moreover have "flag (join_flags x f) \<longleftrightarrow> flag x \<or> flag f"
    using assms(3) by (auto simp: join_flags_def)
  ultimately show ?thesis by (auto simp: x)
next
  case False
  then have "stream_items (stream_push f s) = stream_items s @ [f]"
    using assms(1,2) stream_wf_le [OF assms(1)] by (simp add: stream_push_cases stream_put_items)
  then show ?thesis by simp
qed

subsection \<open>Gaps are announced\<close>

text \<open>
  Per lane, the sample number a delivery must start with to be announced without a reset:
  the end of the previous delivery on that lane.
\<close>

fun announced :: "(bool \<Rightarrow> u32 option) \<Rightarrow> stream_delivery list \<Rightarrow> bool" where
  "announced expected [] = True"
| "announced expected (d # ds) =
     (let lane = (sf_tuner (sd_frame d) = Tuner_B) in
      (sd_reset d \<or> expected lane = Some (sf_first_sample (sd_frame d))) \<and>
      announced (expected(lane \<mapsto> sf_first_sample (sd_frame d) + of_nat (sf_samples (sd_frame d)))) ds)"

definition expected_sample :: "stream_state \<Rightarrow> bool \<Rightarrow> u32 option" where
  "expected_sample s lane =
     (if lane then if stream_callback_seen_b s then Some (stream_callback_next_sample_b s) else None
      else if stream_callback_seen s then Some (stream_callback_next_sample s) else None)"

lemma expected_sample_push [simp]: "expected_sample (stream_push f s) = expected_sample s"
  by (rule ext) (simp add: stream_push_cases stream_put_def stream_drop_oldest_def expected_sample_def Let_def)

lemma expected_sample_pause [simp]:
  "expected_sample (pause_stream_callbacks s) = expected_sample s"
  "expected_sample (resume_stream_callbacks s) = expected_sample s"
  "expected_sample (stream_delivered s) = expected_sample s"
  by (simp_all add: fun_eq_iff pause_stream_callbacks_def resume_stream_callbacks_def stream_delivered_def
      expected_sample_def)

lemma expected_sample_take:
  "expected_sample (stream_take s) =
     (expected_sample s)(sf_tuner (stream_queue s ! stream_callback_head s) = Tuner_B \<mapsto>
        sf_first_sample (stream_queue s ! stream_callback_head s) +
        of_nat (sf_samples (stream_queue s ! stream_callback_head s)))"
  by (rule ext) (simp add: stream_take_def expected_sample_def Let_def)

lemma take_reset_expected:
  "stream_take_reset s \<or>
   expected_sample s (sf_tuner (stream_queue s ! stream_callback_head s) = Tuner_B) =
     Some (sf_first_sample (stream_queue s ! stream_callback_head s))"
  by (simp add: stream_take_reset_def expected_sample_def Let_def)

text \<open>
  C30. Every gap in the sample numbering is announced to the application: in every
  interleaving, a delivery that does not start at the sample number where the previous
  delivery on its lane ended carries the reset flag, whatever was dropped or flushed in
  between.
\<close>

theorem gaps_are_announced:
  "announced (expected_sample s) (fst (stream_serve ops s))"
proof (induction ops s rule: stream_serve.induct)
  case (3 ops s)
  show ?case
  proof (cases "stream_dispatch s")
    case (Some p)
    obtain d t where p: "p = (d, t)" by (cases p)
    then have d: "d = \<lparr>sd_frame = stream_queue s ! stream_callback_head s, sd_reset = stream_take_reset s\<rparr>"
      "t = stream_take s" using Some by (auto simp: stream_dispatch_def split: if_splits)
    have "announced (expected_sample t) (fst (stream_serve ops (stream_delivered t)))"
      using 3(2) [OF Some p [symmetric]] by simp
    then show ?thesis
      using Some p d take_reset_expected [of s] by (simp add: expected_sample_take Let_def case_prod_beta)
  qed (use 3 in simp)
qed simp_all

subsection \<open>Cutting a frame into callbacks\<close>

record stream_call =
  sc_stream_b :: bool
  sc_first_sample_num :: u32
  sc_gr_changed :: bool
  sc_rf_changed :: bool
  sc_fs_changed :: bool
  sc_num_samples :: nat
  sc_reset :: bool
  sc_data :: "(int \<times> int) list"

text \<open>
  The loop of \<open>stream_callback_thread_main\<close>. The number of samples per callback is an
  atomic variable that an update may change between two iterations, so it is a sequence;
  with the value zero the loop would not advance.
\<close>

partial_function (option) chunk_calls ::
  "bool \<Rightarrow> (nat \<Rightarrow> nat) \<Rightarrow> stream_delivery \<Rightarrow> nat \<Rightarrow> nat \<Rightarrow> stream_call list option" where
  "chunk_calls dual callback_samples d iteration offset =
     (let frame = sd_frame d in
      if offset < sf_samples frame
      then let chunk = min (sf_samples frame - offset) (callback_samples iteration);
               call = \<lparr>sc_stream_b = (sf_tuner frame = Tuner_B \<and> dual),
                       sc_first_sample_num = sf_first_sample frame + of_nat offset,
                       sc_gr_changed = (if offset = 0 then sf_gr_changed frame else False),
                       sc_rf_changed = (if offset = 0 then sf_rf_changed frame else False),
                       sc_fs_changed = (if offset = 0 then sf_fs_changed frame else False),
                       sc_num_samples = chunk,
                       sc_reset = (if offset = 0 then sd_reset d else False),
                       sc_data = take chunk (drop offset (sf_data frame))\<rparr>
           in Option.bind (chunk_calls dual callback_samples d (iteration + 1) (offset + chunk))
                (\<lambda>calls. Some (call # calls))
      else Some [])"

definition deliver_calls :: "bool \<Rightarrow> (nat \<Rightarrow> nat) \<Rightarrow> stream_delivery \<Rightarrow> stream_call list option" where
  "deliver_calls dual callback_samples d =
     (let frame = sd_frame d in
      if sf_samples frame = 0
      then Some [\<lparr>sc_stream_b = (sf_tuner frame = Tuner_B \<and> dual), sc_first_sample_num = sf_first_sample frame,
                  sc_gr_changed = sf_gr_changed frame, sc_rf_changed = sf_rf_changed frame,
                  sc_fs_changed = sf_fs_changed frame, sc_num_samples = 0, sc_reset = sd_reset d, sc_data = []\<rparr>]
      else chunk_calls dual callback_samples d 0 0)"

fun numbered :: "u32 \<Rightarrow> (nat \<Rightarrow> nat) \<Rightarrow> nat \<Rightarrow> stream_call list \<Rightarrow> bool" where
  "numbered first callback_samples iteration [] = True"
| "numbered first callback_samples iteration (c # cs) =
     (sc_first_sample_num c = first \<and> length (sc_data c) = sc_num_samples c \<and> 0 < sc_num_samples c \<and>
      sc_num_samples c \<le> callback_samples iteration \<and>
      numbered (first + of_nat (sc_num_samples c)) callback_samples (iteration + 1) cs)"

definition unflagged :: "stream_call \<Rightarrow> bool" where
  "unflagged c \<longleftrightarrow> \<not> sc_reset c \<and> \<not> sc_gr_changed c \<and> \<not> sc_rf_changed c \<and> \<not> sc_fs_changed c"

lemma chunk_calls_total:
  assumes "\<And>k. 0 < callback_samples k" "length (sf_data (sd_frame d)) = sf_samples (sd_frame d)"
  shows "\<exists>calls. chunk_calls dual callback_samples d iteration offset = Some calls \<and>
    concat (map sc_data calls) = drop offset (sf_data (sd_frame d)) \<and>
    numbered (sf_first_sample (sd_frame d) + of_nat offset) callback_samples iteration calls \<and>
    list_all unflagged (if offset = 0 then tl calls else calls)"
proof (induction "sf_samples (sd_frame d) - offset" arbitrary: iteration offset rule: less_induct)
  case less
  show ?case
  proof (cases "offset < sf_samples (sd_frame d)")
    case True
    define chunk where "chunk = min (sf_samples (sd_frame d) - offset) (callback_samples iteration)"
    have pos: "0 < chunk" using True assms(1) [of iteration] by (simp add: chunk_def)
    have "sf_samples (sd_frame d) - (offset + chunk) < sf_samples (sd_frame d) - offset"
      using True pos by simp
    from less [OF this, of "iteration + 1"] obtain calls where
      rest: "chunk_calls dual callback_samples d (iteration + 1) (offset + chunk) = Some calls"
      and IH: "concat (map sc_data calls) = drop (offset + chunk) (sf_data (sd_frame d))"
        "numbered (sf_first_sample (sd_frame d) + of_nat (offset + chunk)) callback_samples (iteration + 1) calls"
        "list_all unflagged calls"
      using pos by auto
    have "length (take chunk (drop offset (sf_data (sd_frame d)))) = chunk"
      using assms(2) by (simp add: chunk_def)
    moreover have "take chunk (drop offset (sf_data (sd_frame d))) @ drop (offset + chunk) (sf_data (sd_frame d)) =
        drop offset (sf_data (sd_frame d))"
      by (metis append_take_drop_id drop_drop add.commute)
    ultimately show ?thesis
      using True pos rest IH
      by (subst chunk_calls.simps) (simp add: chunk_def [symmetric] Let_def unflagged_def add.assoc, simp add: chunk_def)
  next
    case False
    then show ?thesis using assms(2) by (subst chunk_calls.simps) simp
  qed
qed

text \<open>
  The loop that cuts a frame into callbacks ends and loses nothing, provided the number
  of samples per callback is never zero while it runs: the calls carry the samples of the
  frame in order, each numbered from where the previous one stopped and within the limit
  in force, and only the first call carries the reset and change flags.
\<close>

lemma chunks_cover_frame:
  assumes "\<And>k. 0 < callback_samples k" and "length (sf_data (sd_frame d)) = sf_samples (sd_frame d)"
    and "0 < sf_samples (sd_frame d)"
  shows "\<exists>calls. deliver_calls dual callback_samples d = Some calls \<and>
    concat (map sc_data calls) = sf_data (sd_frame d) \<and>
    numbered (sf_first_sample (sd_frame d)) callback_samples 0 calls \<and> list_all unflagged (tl calls)"
  using chunk_calls_total [of callback_samples d dual 0 0, OF assms(1,2)] assms(3)
  by (simp add: deliver_calls_def Let_def)

subsection \<open>Queues to evaluate\<close>

definition bench_event :: "api_event_kind \<Rightarrow> compat_api_event" where
  "bench_event kind = \<lparr>ev_event = kind, ev_tuner = Tuner_A, ev_params = NoParams\<rparr>"

definition bench_events :: "nat \<Rightarrow> event_state" where
  "bench_events count =
     \<lparr>event_thread_started = True, event_stop = False, event_dispatching = False, event_head = 5,
      event_count = count, event_queue = replicate 32 (bench_event GainChange)\<rparr>"

definition bench_frame :: "nat \<Rightarrow> u32 \<Rightarrow> bool \<Rightarrow> compat_stream_frame" where
  "bench_frame samples first_sample gr =
     \<lparr>sf_samples = samples, sf_tuner = Tuner_A, sf_first_sample = first_sample, sf_reset = False,
      sf_gr_changed = gr, sf_rf_changed = False, sf_fs_changed = False, sf_data = replicate samples (0, 0)\<rparr>"

definition bench_stream :: "nat \<Rightarrow> stream_state" where
  "bench_stream count =
     \<lparr>stream_callback_thread_started = True, stream_callback_stop = False, stream_callback_paused = False,
      stream_callback_active = False, stream_callback_head = 3, stream_callback_count = count,
      stream_callback_drop_count = 0, stream_callback_next_sample = 0, stream_callback_next_sample_b = 0,
      stream_callback_seen = False, stream_callback_seen_b = False,
      stream_queue = replicate 8 (bench_frame 2 0 True)\<rparr>"

lemma bench_events_wf: "count \<le> 32 \<Longrightarrow> event_wf (bench_events count) \<and> event_accepts (bench_events count)"
  by (simp add: bench_events_def event_wf_def ring_wf_def event_accepts_def)

lemma bench_stream_wf: "count \<le> 8 \<Longrightarrow> stream_wf (bench_stream count) \<and> stream_accepts (bench_stream count)"
  by (simp add: bench_stream_def stream_wf_def ring_wf_def stream_accepts_def)

theorem frames_in_order_witness:
  "case stream_serve [Frame (bench_frame 2 7 False), Turn, PauseCallbacks, Frame (bench_frame 2 9 False)]
      (bench_stream 0) of
     (delivered, s') \<Rightarrow>
       subseq (map (frame_key \<circ> sd_frame) delivered @ map frame_key (stream_items s'))
         [frame_key (bench_frame 2 7 False), frame_key (bench_frame 2 9 False)] \<and>
       length (stream_items s') \<le> 8"
proof -
  obtain delivered s' where
    r: "stream_serve [Frame (bench_frame 2 7 False), Turn, PauseCallbacks, Frame (bench_frame 2 9 False)]
      (bench_stream 0) = (delivered, s')" by (rule prod.exhaust)
  have "stream_items (bench_stream 0) = []" by (simp add: bench_stream_def)
  then show ?thesis
    unfolding r using frames_in_order [OF _ r] bench_stream_wf [of 0] by (simp del: stream_items_empty)
qed

end
