(* ===== verification/Rsp_Context.thy ===== *)
theory Rsp_Context
  imports Rsp_Protocol Rsp_Sync Rsp_Gain Rsp_Adsb Rsp_Decim Rsp_Iq Rsp_Queue
begin

text \<open>
  The state of the client library: the parameter structures an application edits
  (\<open>compat/sdrplay_api_compat.h\<close>) and the device context of
  \<open>compat/sdrplay_api_compat.c\<close>. Nested structures are flattened; parts of other models
  of the RSP family that the library never reads are left out; \<open>unsigned char\<close> flags that
  the code only compares with zero are booleans; enumerations an application can store
  anything in are integers. The context keeps each per-tuner field twice (\<open>x\<close> and \<open>x_b\<close>,
  or an array of two); here the fields of one tuner form a \<open>compat_lane\<close> and the context
  has two lanes. Pointers that only are or are not NULL are booleans.
\<close>

subsection \<open>Error codes\<close>

datatype sdrplay_api_ErrT =
    sdrplay_api_Success | sdrplay_api_Fail | sdrplay_api_InvalidParam | sdrplay_api_OutOfRange
  | sdrplay_api_GainUpdateError | sdrplay_api_RfUpdateError | sdrplay_api_FsUpdateError | sdrplay_api_HwError
  | sdrplay_api_AliasingError | sdrplay_api_AlreadyInitialised | sdrplay_api_NotInitialised
  | sdrplay_api_NotEnabled | sdrplay_api_HwVerError | sdrplay_api_OutOfMemError
  | sdrplay_api_ServiceNotResponding | sdrplay_api_StartPending | sdrplay_api_StopPending
  | sdrplay_api_InvalidMode | sdrplay_api_FailedVerification1 | sdrplay_api_FailedVerification2
  | sdrplay_api_FailedVerification3 | sdrplay_api_FailedVerification4 | sdrplay_api_FailedVerification5
  | sdrplay_api_FailedVerification6 | sdrplay_api_InvalidServiceVersion

subsection \<open>Parameters\<close>

record sdrplay_api_DevParamsT =
  ppm :: double
  fsHz :: double
  fs_syncUpdate :: bool
  sampleNum :: u32
  sync_period :: u32
  resetGainUpdate :: bool
  resetRfUpdate :: bool
  resetFsUpdate :: bool
  extRefOutputEn :: bool

record sdrplay_api_RxChannelParamsT =
  bwType :: int
  ifType :: int
  loMode :: int
  gRdB :: int
  LNAstate :: u8
  gain_syncUpdate :: bool
  minGr :: int
  gainVals :: "real \<times> real \<times> real"
  rfHz :: double
  rf_syncUpdate :: bool
  dcCal :: u8
  speedUp :: bool
  trackTime :: int
  refreshRateTime :: int
  DCenable :: bool
  IQenable :: bool
  decimation_enable :: bool
  decimationFactor :: u8
  agc_enable :: int
  setPoint_dBfs :: int
  attack_ms :: u16
  decay_ms :: u16
  decay_delay_ms :: u16
  decay_threshold_dB :: u16
  agc_syncUpdate :: bool
  adsbMode :: int
  biasTEnable :: bool
  tuner1AmPortSel :: int
  tuner1AmNotchEnable :: bool
  rfNotchEnable :: bool
  rfDabNotchEnable :: bool
  slave_resetGainUpdate :: bool
  slave_resetRfUpdate :: bool

abbreviation (input) RspDuoMode_Single_Tuner :: int where "RspDuoMode_Single_Tuner \<equiv> 1"
abbreviation (input) RspDuoMode_Dual_Tuner :: int where "RspDuoMode_Dual_Tuner \<equiv> 2"
abbreviation (input) RspDuoMode_Master :: int where "RspDuoMode_Master \<equiv> 4"
abbreviation (input) RspDuoMode_Slave :: int where "RspDuoMode_Slave \<equiv> 8"
abbreviation (input) AMPORT_2 :: int where "AMPORT_2 \<equiv> 0"
abbreviation (input) AMPORT_1 :: int where "AMPORT_1 \<equiv> 1"
abbreviation (input) BW_1_536 :: int where "BW_1_536 \<equiv> 1536"
abbreviation (input) IF_Zero :: int where "IF_Zero \<equiv> 0"
abbreviation (input) IF_1_620 :: int where "IF_1_620 \<equiv> 1620"
abbreviation (input) IF_2_048 :: int where "IF_2_048 \<equiv> 2048"
abbreviation (input) LO_Auto :: int where "LO_Auto \<equiv> 1"
abbreviation (input) EXTENDED_MIN_GR :: int where "EXTENDED_MIN_GR \<equiv> 0"
abbreviation (input) NORMAL_MIN_GR :: int where "NORMAL_MIN_GR \<equiv> 20"
abbreviation (input) AGC_DISABLE :: int where "AGC_DISABLE \<equiv> 0"
abbreviation (input) AGC_100HZ :: int where "AGC_100HZ \<equiv> 1"
abbreviation (input) AGC_50HZ :: int where "AGC_50HZ \<equiv> 2"
abbreviation (input) AGC_CTRL_EN :: int where "AGC_CTRL_EN \<equiv> 4"

subsection \<open>Reasons for an update\<close>

abbreviation (input) Update_Dev_Fs :: u32 where "Update_Dev_Fs \<equiv> 0x1"
abbreviation (input) Update_Dev_Ppm :: u32 where "Update_Dev_Ppm \<equiv> 0x2"
abbreviation (input) Update_Dev_SyncUpdate :: u32 where "Update_Dev_SyncUpdate \<equiv> 0x4"
abbreviation (input) Update_Dev_ResetFlags :: u32 where "Update_Dev_ResetFlags \<equiv> 0x8"
abbreviation (input) Update_RspDuo_ExtRefControl :: u32 where "Update_RspDuo_ExtRefControl \<equiv> 0x1000"
abbreviation (input) Update_Master_Spare_1 :: u32 where "Update_Master_Spare_1 \<equiv> 0x2000"
abbreviation (input) Update_Master_Spare_2 :: u32 where "Update_Master_Spare_2 \<equiv> 0x4000"
abbreviation (input) Update_Tuner_Gr :: u32 where "Update_Tuner_Gr \<equiv> 0x8000"
abbreviation (input) Update_Tuner_GrLimits :: u32 where "Update_Tuner_GrLimits \<equiv> 0x10000"
abbreviation (input) Update_Tuner_Frf :: u32 where "Update_Tuner_Frf \<equiv> 0x20000"
abbreviation (input) Update_Tuner_BwType :: u32 where "Update_Tuner_BwType \<equiv> 0x40000"
abbreviation (input) Update_Tuner_IfType :: u32 where "Update_Tuner_IfType \<equiv> 0x80000"
abbreviation (input) Update_Tuner_DcOffset :: u32 where "Update_Tuner_DcOffset \<equiv> 0x100000"
abbreviation (input) Update_Tuner_LoMode :: u32 where "Update_Tuner_LoMode \<equiv> 0x200000"
abbreviation (input) Update_Ctrl_DCoffsetIQimbalance :: u32 where "Update_Ctrl_DCoffsetIQimbalance \<equiv> 0x400000"
abbreviation (input) Update_Ctrl_Decimation :: u32 where "Update_Ctrl_Decimation \<equiv> 0x800000"
abbreviation (input) Update_Ctrl_Agc :: u32 where "Update_Ctrl_Agc \<equiv> 0x1000000"
abbreviation (input) Update_Ctrl_AdsbMode :: u32 where "Update_Ctrl_AdsbMode \<equiv> 0x2000000"
abbreviation (input) Update_Ctrl_OverloadMsgAck :: u32 where "Update_Ctrl_OverloadMsgAck \<equiv> 0x4000000"
abbreviation (input) Update_RspDuo_BiasTControl :: u32 where "Update_RspDuo_BiasTControl \<equiv> 0x8000000"
abbreviation (input) Update_RspDuo_AmPortSelect :: u32 where "Update_RspDuo_AmPortSelect \<equiv> 0x10000000"
abbreviation (input) Update_RspDuo_Tuner1AmNotchControl :: u32 where "Update_RspDuo_Tuner1AmNotchControl \<equiv> 0x20000000"
abbreviation (input) Update_RspDuo_RfNotchControl :: u32 where "Update_RspDuo_RfNotchControl \<equiv> 0x40000000"
abbreviation (input) Update_RspDuo_RfDabNotchControl :: u32 where "Update_RspDuo_RfDabNotchControl \<equiv> 0x80000000"
abbreviation (input) Update_RspDuo_ResetSlaveFlags :: u32 where "Update_RspDuo_ResetSlaveFlags \<equiv> 0x40"

subsection \<open>The device context\<close>

record compat_lane =
  sample_number :: u32
  last_iq_sequence :: u32
  iq_sequence_seen :: bool
  first_callback :: bool
  pending_gr_changed :: u32
  pending_rf_changed :: u32
  pending_fs_changed :: u32
  agc_peak :: u32
  lane_agc_mode :: int
  lane_agc_setpoint :: int
  agc_last_adjust_ms :: u64
  agc_decay_since_ms :: u64
  overload_state :: bool
  overload_event_pending :: bool
  overload_reported_state :: bool
  decimator :: compat_decimator
  low_if_dsp :: openrsp_low_if_dsp
  iq_correction :: openrsp_iq_correction
  adsb_filter :: openrsp_adsb_filter
  lane_sync_update :: sync_update
  sync_waiting :: bool

record compat_device_context =
  selected :: bool
  initialized :: bool
  ctx_identity :: acquire_request
  ctx_tuner :: int
  ctx_mode :: int
  duo_role :: u32
  start_pending :: bool
  dev_params :: sdrplay_api_DevParamsT
  rx_channel_a :: sdrplay_api_RxChannelParamsT
  rx_channel_b :: sdrplay_api_RxChannelParamsT
  backend :: bool
  stream_buffers :: bool
  ctx_stream :: stream_state
  thread_started :: bool
  agc_thread_started :: bool
  stream_a_cb :: bool
  stream_b_cb :: bool
  device_stream_state :: int
  callback_samples :: nat
  agc_stop :: bool
  lane_a :: compat_lane
  lane_b :: compat_lane
  ctx_events :: event_state

definition channel_for_tuner :: "compat_device_context \<Rightarrow> int \<Rightarrow> sdrplay_api_RxChannelParamsT" where
  "channel_for_tuner d t = (if t = Tuner_B then rx_channel_b d else rx_channel_a d)"

definition active_channel :: "compat_device_context \<Rightarrow> sdrplay_api_RxChannelParamsT" where
  "active_channel d = (if ctx_tuner d = Tuner_B then rx_channel_b d else rx_channel_a d)"

definition update_channel ::
  "int \<Rightarrow> (sdrplay_api_RxChannelParamsT \<Rightarrow> sdrplay_api_RxChannelParamsT) \<Rightarrow> compat_device_context \<Rightarrow>
   compat_device_context" where
  "update_channel t f d =
     (if t = Tuner_B then d\<lparr>rx_channel_b := f (rx_channel_b d)\<rparr> else d\<lparr>rx_channel_a := f (rx_channel_a d)\<rparr>)"

definition lane_for :: "compat_device_context \<Rightarrow> int \<Rightarrow> compat_lane" where
  "lane_for d t = (if t = Tuner_B then lane_b d else lane_a d)"

definition update_lane :: "int \<Rightarrow> (compat_lane \<Rightarrow> compat_lane) \<Rightarrow> compat_device_context \<Rightarrow> compat_device_context" where
  "update_lane t f d = (if t = Tuner_B then d\<lparr>lane_b := f (lane_b d)\<rparr> else d\<lparr>lane_a := f (lane_a d)\<rparr>)"

lemma lane_for_update [simp]: "lane_for (update_lane t f d) t = f (lane_for d t)"
  by (simp add: lane_for_def update_lane_def)

lemma channel_for_update [simp]: "channel_for_tuner (update_channel t f d) t = f (channel_for_tuner d t)"
  by (simp add: channel_for_tuner_def update_channel_def)

lemma update_lane_fields [frame_simps]:
  "rx_channel_a (update_lane t f d) = rx_channel_a d" "rx_channel_b (update_lane t f d) = rx_channel_b d"
  "dev_params (update_lane t f d) = dev_params d" "ctx_stream (update_lane t f d) = ctx_stream d"
  "ctx_events (update_lane t f d) = ctx_events d" "initialized (update_lane t f d) = initialized d"
  "selected (update_lane t f d) = selected d" "backend (update_lane t f d) = backend d"
  "stream_buffers (update_lane t f d) = stream_buffers d" "ctx_mode (update_lane t f d) = ctx_mode d"
  "ctx_tuner (update_lane t f d) = ctx_tuner d" "duo_role (update_lane t f d) = duo_role d"
  "thread_started (update_lane t f d) = thread_started d"
  "agc_thread_started (update_lane t f d) = agc_thread_started d"
  "callback_samples (update_lane t f d) = callback_samples d"
  "device_stream_state (update_lane t f d) = device_stream_state d"
  "channel_for_tuner (update_lane t f d) = channel_for_tuner d"
  "active_channel (update_lane t f d) = active_channel d"
  by (simp_all add: update_lane_def fun_eq_iff channel_for_tuner_def active_channel_def)

lemma update_channel_fields [frame_simps]:
  "lane_a (update_channel t f d) = lane_a d" "lane_b (update_channel t f d) = lane_b d"
  "dev_params (update_channel t f d) = dev_params d" "ctx_stream (update_channel t f d) = ctx_stream d"
  "ctx_events (update_channel t f d) = ctx_events d" "initialized (update_channel t f d) = initialized d"
  "selected (update_channel t f d) = selected d" "backend (update_channel t f d) = backend d"
  "stream_buffers (update_channel t f d) = stream_buffers d" "ctx_mode (update_channel t f d) = ctx_mode d"
  "ctx_tuner (update_channel t f d) = ctx_tuner d" "duo_role (update_channel t f d) = duo_role d"
  "thread_started (update_channel t f d) = thread_started d"
  "agc_thread_started (update_channel t f d) = agc_thread_started d"
  "callback_samples (update_channel t f d) = callback_samples d"
  "device_stream_state (update_channel t f d) = device_stream_state d"
  "lane_for (update_channel t f d) = lane_for d"
  by (simp_all add: update_channel_def fun_eq_iff lane_for_def)

end
