(* ===== verification/Rsp_Validate.thy ===== *)
theory Rsp_Validate
  imports Rsp_Context
begin

text \<open>
  What the client library checks before it talks to the daemon, and what it then sends:
  the parameter checks of \<open>compat/sdrplay_api_compat.c\<close>, the translation of the parameter
  structures into the daemon's radio configuration and of update reasons into the
  protocol's change flags, and the configuration of a lane's filters. The properties relate
  the checks to what depends on them: the filter configurations that follow cannot fail,
  and the daemon accepts the configuration that is sent.
\<close>

subsection \<open>Checks on one channel\<close>

definition agc_minimum_setpoint :: "double \<Rightarrow> int" where
  "agc_minimum_setpoint rate =
     (if d_less rate (Fin 8064000) then -72
      else if d_le rate (Fin 9216000) then -60 else -48)"

definition agc_maximum_setpoint :: "sdrplay_api_RxChannelParamsT \<Rightarrow> int" where
  "agc_maximum_setpoint ch = (if minGr ch = EXTENDED_MIN_GR then 0 else -20)"

definition decimation_factor :: "sdrplay_api_RxChannelParamsT \<Rightarrow> nat" where
  "decimation_factor ch = (if decimation_enable ch then unat (decimationFactor ch) else 1)"

text \<open>The structures configured for the check are locals; their old contents do not matter.\<close>

definition validate_dsp_configuration :: "fpu \<Rightarrow> sdrplay_api_RxChannelParamsT \<Rightarrow> double \<Rightarrow> int" where
  "validate_dsp_configuration P ch rate =
     (if trackTime ch \<le> 0 \<or> refreshRateTime ch \<le> 0 then -1
      else if \<not> valid_decimation_factor (decimation_factor ch) then -1
      else
        let (r1, c) = openrsp_iq_correction_configure undefined (of_bool (DCenable ch)) (of_bool (IQenable ch));
            (r2, _) = openrsp_iq_correction_configure_calibration P c rate (dcCal ch)
                        (of_bool (speedUp ch)) (trackTime ch) (refreshRateTime ch)
        in if r1 \<noteq> 0 \<or> r2 \<noteq> 0 then -1
           else if fst (openrsp_adsb_filter_configure P undefined rate (adsbMode ch)) \<noteq> 0 then -1
           else fst (openrsp_low_if_configure P rate (ifType ch * 1000)))"

definition rspduo_am_port_lna_state_valid :: "sdrplay_api_RxChannelParamsT \<Rightarrow> int \<Rightarrow> bool" where
  "rspduo_am_port_lna_state_valid ch t \<longleftrightarrow>
     t \<noteq> Tuner_A \<or> tuner1AmPortSel ch \<noteq> AMPORT_1 \<or> d_le (Fin 60000000) (rfHz ch) \<or> LNAstate ch < 5"

definition valid_bandwidth :: "int \<Rightarrow> bool" where
  "valid_bandwidth b \<longleftrightarrow> b = 200 \<or> b = 300 \<or> b = 600 \<or> b = 1536 \<or> b = 5000 \<or> b = 6000 \<or> b = 7000 \<or> b = 8000"

definition valid_if :: "int \<Rightarrow> bool" where
  "valid_if i \<longleftrightarrow> i = 0 \<or> i = 450 \<or> i = 1620 \<or> i = 2048"

subsection \<open>What is sent to the daemon\<close>

text \<open>
  \<open>(uint32_t)(rfHz / correction)\<close> with \<open>correction = 1.0 + ppm / 1000000.0\<close>. The
  conversion of a value outside the type, or of NaN, is undefined in C.
\<close>

fun corrected_frequency :: "fpu \<Rightarrow> double \<Rightarrow> double \<Rightarrow> u32" where
  "corrected_frequency P (Fin rf) (Fin p) = u32_of_real (ddiv P rf (dadd P 1 (ddiv P p 1000000)))"
| "corrected_frequency P (Fin rf) PInf = 0"
| "corrected_frequency P (Fin rf) MInf = 0"
| "corrected_frequency P _ _ = undefined"

definition fill_radio_config_tuner :: "fpu \<Rightarrow> compat_device_context \<Rightarrow> int \<Rightarrow> radio_config" where
  "fill_radio_config_tuner P d t =
     (let ch = channel_for_tuner d t;
          bandwidth = of_int (bwType ch) * 1000
      in \<lparr>sample_rate_hz = u32_of_double (fsHz (dev_params d)),
          center_frequency_hz = corrected_frequency P (rfHz ch) (ppm (dev_params d)),
          bandwidth_hz = (if duo_role d \<noteq> 0 \<and> bandwidth > 1536000 then 1536000 else bandwidth),
          if_frequency_hz = of_int (ifType ch) * 1000,
          gain_reduction_db = of_int (gRdB ch),
          lna_state = ucast (LNAstate ch),
          agc_mode = of_int (agc_enable ch),
          agc_setpoint_dbfs = of_int (setPoint_dBfs ch),
          tuner = (if t = Tuner_B then OPENRSP_TUNER_B else OPENRSP_TUNER_A),
          bias_tee_enabled = of_bool (biasTEnable ch),
          rf_notch_enabled = of_bool (rfNotchEnable ch),
          dab_notch_enabled = of_bool (rfDabNotchEnable ch),
          external_reference_enabled = of_bool (extRefOutputEn (dev_params d)),
          am_port_select = of_int (tuner1AmPortSel ch),
          am_notch_enabled = of_bool (tuner1AmNotchEnable ch)\<rparr>)"

definition enabled_rspduo_control_flags :: "radio_config \<Rightarrow> u32" where
  "enabled_rspduo_control_flags c =
     (if bias_tee_enabled c \<noteq> 0 then OPENRSP_CHANGE_BIAS_TEE else 0) OR
     (if rf_notch_enabled c \<noteq> 0 then OPENRSP_CHANGE_RF_NOTCH else 0) OR
     (if dab_notch_enabled c \<noteq> 0 then OPENRSP_CHANGE_DAB_NOTCH else 0) OR
     (if external_reference_enabled c \<noteq> 0 then OPENRSP_CHANGE_EXT_REF else 0) OR
     (if am_port_select c = 1 then OPENRSP_CHANGE_AM_PORT else 0) OR
     (if am_notch_enabled c \<noteq> 0 then OPENRSP_CHANGE_AM_NOTCH else 0)"

definition protocol_change_flags :: "u32 \<Rightarrow> u32" where
  "protocol_change_flags reason =
     (if has_flag reason Update_Dev_Fs then OPENRSP_CHANGE_SAMPLE_RATE else 0) OR
     (if has_flag reason (Update_Tuner_Frf OR Update_Dev_Ppm) then OPENRSP_CHANGE_RF else 0) OR
     (if has_flag reason Update_Tuner_BwType then OPENRSP_CHANGE_BANDWIDTH else 0) OR
     (if has_flag reason Update_Tuner_IfType then OPENRSP_CHANGE_IF else 0) OR
     (if has_flag reason Update_Tuner_Gr then OPENRSP_CHANGE_GAIN else 0) OR
     (if has_flag reason Update_Tuner_GrLimits then OPENRSP_CHANGE_GAIN else 0) OR
     (if has_flag reason Update_Ctrl_Agc then OPENRSP_CHANGE_AGC else 0) OR
     (if has_flag reason Update_RspDuo_BiasTControl then OPENRSP_CHANGE_BIAS_TEE else 0) OR
     (if has_flag reason Update_RspDuo_RfNotchControl then OPENRSP_CHANGE_RF_NOTCH else 0) OR
     (if has_flag reason Update_RspDuo_RfDabNotchControl then OPENRSP_CHANGE_DAB_NOTCH else 0) OR
     (if has_flag reason Update_RspDuo_ExtRefControl then OPENRSP_CHANGE_EXT_REF else 0) OR
     (if has_flag reason Update_RspDuo_AmPortSelect then OPENRSP_CHANGE_AM_PORT else 0) OR
     (if has_flag reason Update_RspDuo_Tuner1AmNotchControl then OPENRSP_CHANGE_AM_NOTCH else 0)"

definition update_failure_code :: "u32 \<Rightarrow> sdrplay_api_ErrT" where
  "update_failure_code reason =
     (if has_flag reason (Update_Tuner_Gr OR Update_Tuner_GrLimits) then sdrplay_api_GainUpdateError
      else if has_flag reason Update_Tuner_Frf then sdrplay_api_RfUpdateError
      else if has_flag reason (Update_Dev_Fs OR Update_Dev_Ppm) then sdrplay_api_FsUpdateError
      else sdrplay_api_HwError)"

subsection \<open>Checks on an update\<close>

text \<open>The checks in the order of the source; the first that applies gives the result.\<close>

fun first_error :: "(bool \<times> sdrplay_api_ErrT) list \<Rightarrow> sdrplay_api_ErrT" where
  "first_error [] = sdrplay_api_Success"
| "first_error ((failed, e) # checks) = (if failed then e else first_error checks)"

abbreviation (input) other_models :: u32 where "other_models \<equiv> 0xff0"

definition out_of_gain_range :: "sdrplay_api_RxChannelParamsT \<Rightarrow> int \<Rightarrow> bool" where
  "out_of_gain_range ch t \<longleftrightarrow>
     gRdB ch < minGr ch \<or> gRdB ch > 59 \<or> rspduo_lna_gain_reduction (rfHz ch) (unat (LNAstate ch)) = None \<or>
     \<not> rspduo_am_port_lna_state_valid ch t"

definition agc_out_of_range :: "sdrplay_api_RxChannelParamsT \<Rightarrow> double \<Rightarrow> bool" where
  "agc_out_of_range ch rate \<longleftrightarrow>
     agc_enable ch < AGC_DISABLE \<or> agc_enable ch > AGC_CTRL_EN \<or>
     setPoint_dBfs ch < agc_minimum_setpoint rate \<or> setPoint_dBfs ch > agc_maximum_setpoint ch"

definition validate_update :: "fpu \<Rightarrow> compat_device_context \<Rightarrow> int \<Rightarrow> u32 \<Rightarrow> u32 \<Rightarrow> sdrplay_api_ErrT" where
  "validate_update P d t reason extension =
     (let ch = channel_for_tuner d t; fs = fsHz (dev_params d); pp = ppm (dev_params d) in
      first_error
       [(has_flag extension (NOT 0x7f), sdrplay_api_InvalidParam),
        (has_flag extension 0x3f, sdrplay_api_HwVerError),
        (has_flag extension Update_RspDuo_ResetSlaveFlags \<and>
           (ctx_mode d \<noteq> RspDuoMode_Master \<or> duo_role d \<noteq> OPENRSP_DUO_ROLE_MASTER), sdrplay_api_InvalidMode),
        (has_flag reason other_models, sdrplay_api_HwVerError),
        (has_flag reason (Update_RspDuo_AmPortSelect OR Update_RspDuo_Tuner1AmNotchControl) \<and> t \<noteq> Tuner_A,
           sdrplay_api_OutOfRange),
        (has_flag reason Update_RspDuo_BiasTControl \<and> t \<noteq> Tuner_B, sdrplay_api_InvalidParam),
        (tuner1AmPortSel ch \<noteq> AMPORT_1 \<and> tuner1AmPortSel ch \<noteq> AMPORT_2, sdrplay_api_InvalidParam),
        (ctx_mode d = RspDuoMode_Dual_Tuner \<and>
           has_flag reason (Update_Dev_Fs OR Update_Tuner_BwType OR Update_Tuner_IfType), sdrplay_api_InvalidMode),
        (has_flag reason (Update_Master_Spare_1 OR Update_Master_Spare_2), sdrplay_api_InvalidParam),
        (has_flag reason Update_Dev_Fs \<and>
           (\<not> isfinite fs \<or> d_less fs (Fin 2000000) \<or> d_less (Fin 10660000) fs), sdrplay_api_OutOfRange),
        (has_flag reason Update_Dev_Fs \<and> validate_dsp_configuration P ch fs \<noteq> 0, sdrplay_api_OutOfRange),
        (has_flag reason Update_Dev_Ppm \<and>
           (\<not> isfinite pp \<or> d_less pp (Fin (-300)) \<or> d_less (Fin 300) pp), sdrplay_api_OutOfRange),
        (has_flag reason Update_Tuner_Frf \<and>
           (\<not> isfinite (rfHz ch) \<or> d_less (rfHz ch) (Fin 0) \<or> d_less (Fin 2000000000) (rfHz ch)),
           sdrplay_api_OutOfRange),
        (has_flag reason Update_Tuner_BwType \<and> \<not> valid_bandwidth (bwType ch), sdrplay_api_OutOfRange),
        (has_flag reason Update_Tuner_IfType \<and> \<not> valid_if (ifType ch), sdrplay_api_OutOfRange),
        (has_flag reason (Update_Tuner_BwType OR Update_Tuner_IfType) \<and> ifType ch \<noteq> IF_Zero \<and>
           bwType ch > BW_1_536, sdrplay_api_InvalidMode),
        (has_flag reason Update_Tuner_GrLimits \<and> minGr ch \<noteq> EXTENDED_MIN_GR \<and> minGr ch \<noteq> NORMAL_MIN_GR,
           sdrplay_api_InvalidParam),
        (has_flag reason (Update_Tuner_Gr OR Update_Tuner_GrLimits OR Update_RspDuo_AmPortSelect) \<and>
           out_of_gain_range ch t, sdrplay_api_OutOfRange),
        (has_flag reason Update_Tuner_DcOffset \<and> loMode ch \<noteq> LO_Auto, sdrplay_api_InvalidMode),
        (has_flag reason Update_Ctrl_Decimation \<and> \<not> valid_decimation_factor (decimation_factor ch),
           sdrplay_api_OutOfRange),
        (has_flag reason Update_Tuner_LoMode \<and> (trackTime ch \<le> 0 \<or> refreshRateTime ch \<le> 0),
           sdrplay_api_OutOfRange),
        (has_flag reason Update_Ctrl_Agc \<and> agc_out_of_range ch fs, sdrplay_api_OutOfRange),
        (has_flag reason Update_Ctrl_AdsbMode \<and>
           (adsbMode ch < 0 \<or> adsbMode ch > 3 \<or>
            fst (openrsp_adsb_filter_configure P undefined fs (adsbMode ch)) \<noteq> 0), sdrplay_api_OutOfRange)])"

subsection \<open>Configuring a lane\<close>

definition configure_iq_correction :: "fpu \<Rightarrow> int \<Rightarrow> compat_device_context \<Rightarrow> int \<times> compat_device_context" where
  "configure_iq_correction P t d =
     (let ch = channel_for_tuner d t;
          (r, c) = openrsp_iq_correction_configure (iq_correction (lane_for d t))
                     (of_bool (DCenable ch)) (of_bool (IQenable ch));
          (r, c) = (if r = 0
                    then openrsp_iq_correction_configure_calibration P c (fsHz (dev_params d)) (dcCal ch)
                           (of_bool (speedUp ch)) (trackTime ch) (refreshRateTime ch)
                    else (r, c))
      in (r, update_lane t (\<lambda>l. l\<lparr>iq_correction := c\<rparr>) d))"

definition configure_adsb :: "fpu \<Rightarrow> int \<Rightarrow> compat_device_context \<Rightarrow> int \<times> compat_device_context" where
  "configure_adsb P t d =
     (let (r, f) = openrsp_adsb_filter_configure P (adsb_filter (lane_for d t)) (fsHz (dev_params d))
                     (adsbMode (channel_for_tuner d t))
      in (r, update_lane t (\<lambda>l. l\<lparr>adsb_filter := f\<rparr>) d))"

definition configure_low_if :: "fpu \<Rightarrow> int \<Rightarrow> compat_device_context \<Rightarrow> int \<times> compat_device_context" where
  "configure_low_if P t d =
     (let (r, dsp) = openrsp_low_if_configure P (fsHz (dev_params d)) (ifType (channel_for_tuner d t) * 1000)
      in (r, update_lane t (\<lambda>l. l\<lparr>low_if_dsp := dsp\<rparr>) d))"

definition configure_lane_decimator :: "fpu \<Rightarrow> int \<Rightarrow> compat_device_context \<Rightarrow> int \<times> compat_device_context" where
  "configure_lane_decimator P t d =
     (let (r, dec) = configure_decimator P (decimator (lane_for d t)) (decimation_factor (channel_for_tuner d t))
      in (r, update_lane t (\<lambda>l. l\<lparr>decimator := dec\<rparr>) d))"

text \<open>The sequence Init and the mode changes run: each stage only when the previous one succeeded.\<close>

definition configure_lane_dsp :: "fpu \<Rightarrow> int \<Rightarrow> compat_device_context \<Rightarrow> int \<times> compat_device_context" where
  "configure_lane_dsp P t d =
     (let (r, d) = configure_iq_correction P t d;
          (r, d) = (if r = 0 then configure_adsb P t d else (r, d));
          (r, d) = (if r = 0 then configure_low_if P t d else (r, d))
      in (r, d))"

subsection \<open>The parameters after opening the interface\<close>

text \<open>Cleared storage, then the defaults of \<open>reset_parameters\<close>.\<close>

definition cleared_decimator :: compat_decimator where
  "cleared_decimator =
     \<lparr>dec_factor = 0, dec_taps = 0, dec_position = 0, dec_phase = 0, dec_coefficients = replicate 513 0,
      dec_history_i = replicate 513 0, dec_history_q = replicate 513 0\<rparr>"

definition cleared_low_if :: openrsp_low_if_dsp where
  "cleared_low_if =
     \<lparr>lif_factor = 0, lif_taps = 0, lif_position = 0, lif_phase = 0, oscillator_cosine = 0, oscillator_sine = 0,
      oscillator_cosine_step = 0, oscillator_sine_step = 0, oscillator_samples = 0,
      lif_coefficients = replicate 65 0, lif_history_i = replicate 130 0, lif_history_q = replicate 130 0\<rparr>"

definition cleared_iq :: openrsp_iq_correction where
  "cleared_iq =
     \<lparr>dc_enabled = 0, iq_enabled = 0, dc_i = 0, dc_q = 0, power_i = 0, power_q = 0, cross_iq = 0, leakage = 0,
      iq_gain = 0, coefficient_samples = 0, dc_cal = 0, speed_up = 0, track_time = 0, refresh_rate_time = 0,
      iq_sample_rate_hz = Fin 0, dc_alpha = 0, samples_since_refresh = 0, calibration_window_samples = 0,
      refresh_samples = 0\<rparr>"

definition cleared_adsb :: openrsp_adsb_filter where
  "cleared_adsb =
     \<lparr>adsb_mode = 0, adsb_sample_rate_hz = Fin 0, adsb_taps = 0, adsb_position = 0,
      adsb_coefficients = replicate 17 0, adsb_history_i = replicate 34 0, adsb_history_q = replicate 34 0\<rparr>"

definition cleared_lane :: compat_lane where
  "cleared_lane =
     \<lparr>sample_number = 0, last_iq_sequence = 0, iq_sequence_seen = False, first_callback = False,
      pending_gr_changed = 0, pending_rf_changed = 0, pending_fs_changed = 0, agc_peak = 0, lane_agc_mode = 0,
      lane_agc_setpoint = 0, agc_last_adjust_ms = 0, agc_decay_since_ms = 0, overload_state = False,
      overload_event_pending = False, overload_reported_state = False, decimator = cleared_decimator,
      low_if_dsp = cleared_low_if, iq_correction = cleared_iq, adsb_filter = cleared_adsb,
      lane_sync_update = openrsp_sync_update_init, sync_waiting = False\<rparr>"

definition cleared_events :: event_state where
  "cleared_events =
     \<lparr>event_thread_started = False, event_stop = False, event_dispatching = False, event_head = 0, event_count = 0,
      event_queue = replicate 32 \<lparr>ev_event = GainChange, ev_tuner = 0, ev_params = NoParams\<rparr>\<rparr>"

definition cleared_stream :: stream_state where
  "cleared_stream =
     \<lparr>stream_callback_thread_started = False, stream_callback_stop = False, stream_callback_paused = False,
      stream_callback_active = False, stream_callback_head = 0, stream_callback_count = 0,
      stream_callback_drop_count = 0, stream_callback_next_sample = 0, stream_callback_next_sample_b = 0,
      stream_callback_seen = False, stream_callback_seen_b = False, stream_queue = []\<rparr>"

definition default_channel :: sdrplay_api_RxChannelParamsT where
  "default_channel =
     \<lparr>bwType = 200, ifType = IF_Zero, loMode = LO_Auto, gRdB = 50, LNAstate = 0, gain_syncUpdate = False,
      minGr = NORMAL_MIN_GR, gainVals = (0, 0, 0), rfHz = Fin 200000000, rf_syncUpdate = False, dcCal = 3,
      speedUp = False, trackTime = 1, refreshRateTime = 2048, DCenable = True, IQenable = True,
      decimation_enable = False, decimationFactor = 1, agc_enable = AGC_50HZ, setPoint_dBfs = -60,
      attack_ms = 0, decay_ms = 0, decay_delay_ms = 0, decay_threshold_dB = 0, agc_syncUpdate = False,
      adsbMode = 0, biasTEnable = False, tuner1AmPortSel = AMPORT_2, tuner1AmNotchEnable = False,
      rfNotchEnable = False, rfDabNotchEnable = False, slave_resetGainUpdate = False, slave_resetRfUpdate = False\<rparr>"

definition default_dev_params :: sdrplay_api_DevParamsT where
  "default_dev_params =
     \<lparr>ppm = Fin 0, fsHz = Fin 2000000, fs_syncUpdate = False, sampleNum = 0, sync_period = 0,
      resetGainUpdate = False, resetRfUpdate = False, resetFsUpdate = False, extRefOutputEn = False\<rparr>"

definition default_lane :: "fpu \<Rightarrow> compat_lane" where
  "default_lane P =
     cleared_lane\<lparr>lane_agc_mode := AGC_50HZ, lane_agc_setpoint := -60,
       decimator := cleared_decimator\<lparr>dec_factor := 1\<rparr>,
       low_if_dsp := snd (openrsp_low_if_configure P (Fin 2000000) 0),
       adsb_filter := snd (openrsp_adsb_filter_configure P cleared_adsb (Fin 2000000) 0)\<rparr>"

definition initial_context :: "fpu \<Rightarrow> compat_device_context" where
  "initial_context P =
     \<lparr>selected = False, initialized = False,
      ctx_identity = \<lparr>id_device_index = 0, id_vendor_id = 0, id_product_id = 0, id_serial = replicate 64 0\<rparr>,
      ctx_tuner = Tuner_A, ctx_mode = RspDuoMode_Single_Tuner, duo_role = 0, start_pending = False,
      dev_params = default_dev_params, rx_channel_a = default_channel, rx_channel_b = default_channel,
      backend = False, stream_buffers = False, ctx_stream = cleared_stream, thread_started = False,
      agc_thread_started = False, stream_a_cb = False, stream_b_cb = False, device_stream_state = 0,
      callback_samples = 0, agc_stop = False, lane_a = default_lane P, lane_b = default_lane P,
      ctx_events = cleared_events\<rparr>"

definition reset_parameters :: "fpu \<Rightarrow> compat_device_context" where
  "reset_parameters P =
     (let d = initial_context P;
          d = snd (configure_iq_correction P Tuner_A d)
      in snd (configure_iq_correction P Tuner_B d))"

subsection \<open>Validated parameters configure the filters\<close>

lemma adsb_configure_result:
  "fst (openrsp_adsb_filter_configure P f rate mode) = fst (openrsp_adsb_filter_configure P f' rate mode)"
  by (simp add: openrsp_adsb_filter_configure_def Let_def)

lemma iq_configure_result: "fst (openrsp_iq_correction_configure c (of_bool a) (of_bool b)) = 0"
  by (simp add: openrsp_iq_correction_configure_def)

lemma iq_calibration_result:
  "fst (openrsp_iq_correction_configure_calibration P c rate cal (of_bool s) track refresh) =
   fst (openrsp_iq_correction_configure_calibration P c' rate cal (of_bool s) track refresh)"
  by (simp add: openrsp_iq_correction_configure_calibration_def Let_def)

lemma low_if_configure_result: "fst (openrsp_low_if_configure P rate if_hz) = 0"
  by (simp add: openrsp_low_if_configure_def Let_def)

lemma decimator_configure_result: "fst (configure_decimator P d factor) = (if valid_decimation_factor factor then 0 else -1)"
  by (simp add: configure_decimator_def Let_def)

lemma validate_dsp_iff:
  "validate_dsp_configuration P ch rate = 0 \<longleftrightarrow>
     0 < trackTime ch \<and> 0 < refreshRateTime ch \<and> valid_decimation_factor (decimation_factor ch) \<and>
     isfinite rate \<and> \<not> d_le rate (Fin 0) \<and>
     fst (openrsp_adsb_filter_configure P undefined rate (adsbMode ch)) = 0"
  using iq_configure_result [of undefined "DCenable ch" "IQenable ch"]
  by (auto simp: validate_dsp_configuration_def case_prod_beta Let_def low_if_configure_result
      openrsp_iq_correction_configure_calibration_def not_le)

lemma configure_iq_correction_result:
  "fst (configure_iq_correction P t d) =
     (if isfinite (fsHz (dev_params d)) \<and> \<not> d_le (fsHz (dev_params d)) (Fin 0) \<and>
         0 < trackTime (channel_for_tuner d t) \<and> 0 < refreshRateTime (channel_for_tuner d t) then 0 else -1)"
  using iq_configure_result
  by (auto simp: configure_iq_correction_def case_prod_beta Let_def
      openrsp_iq_correction_configure_calibration_def not_le)

lemma configure_iq_correction_frame:
  "\<exists>f. snd (configure_iq_correction P t d) = update_lane t f d"
  by (auto simp: configure_iq_correction_def case_prod_beta Let_def)

lemma configure_adsb_frame: "\<exists>f. snd (configure_adsb P t d) = update_lane t f d"
  by (auto simp: configure_adsb_def case_prod_beta Let_def)

lemma configure_low_if_frame: "\<exists>f. snd (configure_low_if P t d) = update_lane t f d"
  by (auto simp: configure_low_if_def case_prod_beta Let_def)

lemma configure_lane_decimator_frame: "\<exists>f. snd (configure_lane_decimator P t d) = update_lane t f d"
  by (auto simp: configure_lane_decimator_def case_prod_beta Let_def)

lemma update_lane_update_lane: "update_lane t f (update_lane t g d) = update_lane t (\<lambda>l. f (g l)) d"
  by (simp add: update_lane_def)

lemma configure_lane_dsp_frame: "\<exists>f. snd (configure_lane_dsp P t d) = update_lane t f d"
proof -
  have id: "update_lane t (\<lambda>l. l) d = d" for d by (simp add: update_lane_def)
  obtain f where 1: "snd (configure_iq_correction P t d) = update_lane t f d"
    using configure_iq_correction_frame by blast
  obtain g where 2: "snd (configure_adsb P t (update_lane t f d)) = update_lane t g (update_lane t f d)"
    using configure_adsb_frame by blast
  obtain h where 3: "snd (configure_low_if P t (update_lane t g (update_lane t f d))) =
      update_lane t h (update_lane t g (update_lane t f d))"
    using configure_low_if_frame by blast
  obtain k where 4: "snd (configure_low_if P t (update_lane t f d)) = update_lane t k (update_lane t f d)"
    using configure_low_if_frame by blast
  show ?thesis
    unfolding configure_lane_dsp_def case_prod_beta Let_def
    using 1 2 3 by (auto simp: update_lane_update_lane)
qed

lemma dsp_validated_configures:
  assumes "validate_dsp_configuration P (channel_for_tuner d t) (fsHz (dev_params d)) = 0"
  shows "case configure_lane_dsp P t d of (r, d') \<Rightarrow> r = 0 \<and> fst (configure_lane_decimator P t d') = 0"
proof -
  let ?ch = "channel_for_tuner d t"
  note v = assms [unfolded validate_dsp_iff]
  obtain f where 1: "configure_iq_correction P t d = (0, update_lane t f d)"
    using configure_iq_correction_frame [of P t d] configure_iq_correction_result [of P t d] v
    by (metis (no_types, lifting) prod.collapse)
  have "fst (configure_adsb P t (update_lane t f d)) = 0"
    using v adsb_configure_result [of P undefined "fsHz (dev_params d)" "adsbMode ?ch"]
    by (simp add: configure_adsb_def case_prod_beta frame_simps)
  then obtain g where 2: "configure_adsb P t (update_lane t f d) = (0, update_lane t g (update_lane t f d))"
    using configure_adsb_frame [of P t "update_lane t f d"] by (metis prod.collapse)
  have 3: "fst (configure_low_if P t (update_lane t g (update_lane t f d))) = 0"
    by (simp add: configure_low_if_def case_prod_beta low_if_configure_result)
  obtain h where 4: "snd (configure_lane_dsp P t d) = update_lane t h d"
    using configure_lane_dsp_frame by blast
  have "fst (configure_lane_dsp P t d) = 0"
    using 1 2 3 by (simp add: configure_lane_dsp_def case_prod_beta)
  moreover have "fst (configure_lane_decimator P t (update_lane t h d)) = 0"
    using v by (simp add: configure_lane_decimator_def case_prod_beta decimator_configure_result frame_simps)
  ultimately show ?thesis using 4 by (simp add: case_prod_beta)
qed

text \<open>
  C26. A channel that passes the library's signal-processing check can be configured: at the
  checked sample rate the whole sequence of filter configurations that Init and the mode
  changes run afterwards succeeds, the decimator's included, whatever state the filters are
  in. The error path after the hardware request is unreachable.
\<close>

theorem validated_dsp_configures:
  assumes "validate_dsp_configuration P (channel_for_tuner d t) (fsHz (dev_params d)) = 0"
  shows "case configure_lane_dsp P t d of (r, d') \<Rightarrow> r = 0 \<and> fst (configure_lane_decimator P t d') = 0"
  using assms by (rule dsp_validated_configures)

subsection \<open>Validated updates are acceptable to the daemon\<close>

lemma first_error_Success:
  "first_error checks = sdrplay_api_Success \<Longrightarrow> sdrplay_api_Success \<notin> set (map snd checks) \<Longrightarrow>
   (c, e) \<in> set checks \<Longrightarrow> \<not> c"
  by (induction checks rule: first_error.induct) (auto split: if_splits)

lemma validate_update_SuccessD:
  assumes "validate_update P d t reason extension = sdrplay_api_Success"
  shows "tuner1AmPortSel (channel_for_tuner d t) = AMPORT_1 \<or> tuner1AmPortSel (channel_for_tuner d t) = AMPORT_2"
    "has_flag reason Update_Dev_Fs \<Longrightarrow> \<exists>x. fsHz (dev_params d) = Fin x \<and> 2000000 \<le> x \<and> x \<le> 10660000"
    "has_flag reason Update_Dev_Fs \<Longrightarrow>
       validate_dsp_configuration P (channel_for_tuner d t) (fsHz (dev_params d)) = 0"
    "has_flag reason Update_Tuner_GrLimits \<Longrightarrow>
       minGr (channel_for_tuner d t) = EXTENDED_MIN_GR \<or> minGr (channel_for_tuner d t) = NORMAL_MIN_GR"
    "has_flag reason (Update_Tuner_Gr OR Update_Tuner_GrLimits OR Update_RspDuo_AmPortSelect) \<Longrightarrow>
       \<not> out_of_gain_range (channel_for_tuner d t) t"
    "has_flag reason Update_Ctrl_Agc \<Longrightarrow> \<not> agc_out_of_range (channel_for_tuner d t) (fsHz (dev_params d))"
    "has_flag reason Update_Ctrl_AdsbMode \<Longrightarrow>
       fst (openrsp_adsb_filter_configure P undefined (fsHz (dev_params d)) (adsbMode (channel_for_tuner d t))) = 0"
    "has_flag reason Update_Ctrl_Decimation \<Longrightarrow> valid_decimation_factor (decimation_factor (channel_for_tuner d t))"
    "has_flag reason Update_Tuner_LoMode \<Longrightarrow>
       0 < trackTime (channel_for_tuner d t) \<and> 0 < refreshRateTime (channel_for_tuner d t)"
proof -
  note ok = first_error_Success [OF assms [unfolded validate_update_def Let_def]]
  show "tuner1AmPortSel (channel_for_tuner d t) = AMPORT_1 \<or> tuner1AmPortSel (channel_for_tuner d t) = AMPORT_2"
    using ok [of "tuner1AmPortSel (channel_for_tuner d t) \<noteq> AMPORT_1 \<and>
      tuner1AmPortSel (channel_for_tuner d t) \<noteq> AMPORT_2" sdrplay_api_InvalidParam] by simp
  show "\<exists>x. fsHz (dev_params d) = Fin x \<and> 2000000 \<le> x \<and> x \<le> 10660000" if "has_flag reason Update_Dev_Fs"
    using ok [of "has_flag reason Update_Dev_Fs \<and> (\<not> isfinite (fsHz (dev_params d)) \<or>
      d_less (fsHz (dev_params d)) (Fin 2000000) \<or> d_less (Fin 10660000) (fsHz (dev_params d)))"
      sdrplay_api_OutOfRange] that
    by (cases "fsHz (dev_params d)") (simp_all add: not_less)
  show "validate_dsp_configuration P (channel_for_tuner d t) (fsHz (dev_params d)) = 0"
    if "has_flag reason Update_Dev_Fs"
    using ok [of "has_flag reason Update_Dev_Fs \<and>
      validate_dsp_configuration P (channel_for_tuner d t) (fsHz (dev_params d)) \<noteq> 0" sdrplay_api_OutOfRange] that
    by simp
  show "minGr (channel_for_tuner d t) = EXTENDED_MIN_GR \<or> minGr (channel_for_tuner d t) = NORMAL_MIN_GR"
    if "has_flag reason Update_Tuner_GrLimits"
    using ok [of "has_flag reason Update_Tuner_GrLimits \<and> minGr (channel_for_tuner d t) \<noteq> EXTENDED_MIN_GR \<and>
      minGr (channel_for_tuner d t) \<noteq> NORMAL_MIN_GR" sdrplay_api_InvalidParam] that by simp
  show "\<not> out_of_gain_range (channel_for_tuner d t) t"
    if "has_flag reason (Update_Tuner_Gr OR Update_Tuner_GrLimits OR Update_RspDuo_AmPortSelect)"
    using ok [of "has_flag reason (Update_Tuner_Gr OR Update_Tuner_GrLimits OR Update_RspDuo_AmPortSelect) \<and>
      out_of_gain_range (channel_for_tuner d t) t" sdrplay_api_OutOfRange] that by simp
  show "\<not> agc_out_of_range (channel_for_tuner d t) (fsHz (dev_params d))" if "has_flag reason Update_Ctrl_Agc"
    using ok [of "has_flag reason Update_Ctrl_Agc \<and>
      agc_out_of_range (channel_for_tuner d t) (fsHz (dev_params d))" sdrplay_api_OutOfRange] that by simp
  show "fst (openrsp_adsb_filter_configure P undefined (fsHz (dev_params d)) (adsbMode (channel_for_tuner d t))) = 0"
    if "has_flag reason Update_Ctrl_AdsbMode"
    using ok [of "has_flag reason Update_Ctrl_AdsbMode \<and> (adsbMode (channel_for_tuner d t) < 0 \<or>
      adsbMode (channel_for_tuner d t) > 3 \<or>
      fst (openrsp_adsb_filter_configure P undefined (fsHz (dev_params d)) (adsbMode (channel_for_tuner d t))) \<noteq> 0)"
      sdrplay_api_OutOfRange] that by simp
  show "valid_decimation_factor (decimation_factor (channel_for_tuner d t))" if "has_flag reason Update_Ctrl_Decimation"
    using ok [of "has_flag reason Update_Ctrl_Decimation \<and>
      \<not> valid_decimation_factor (decimation_factor (channel_for_tuner d t))" sdrplay_api_OutOfRange] that by simp
  show "0 < trackTime (channel_for_tuner d t) \<and> 0 < refreshRateTime (channel_for_tuner d t)"
    if "has_flag reason Update_Tuner_LoMode"
    using ok [of "has_flag reason Update_Tuner_LoMode \<and> (trackTime (channel_for_tuner d t) \<le> 0 \<or>
      refreshRateTime (channel_for_tuner d t) \<le> 0)" sdrplay_api_OutOfRange] that by simp
qed

lemma has_flag_or: "has_flag r (x OR y) \<longleftrightarrow> has_flag r x \<or> has_flag r y"
  by (auto simp: bit_eq_iff bit_simps)

lemma i32_small: "\<bar>x\<bar> \<le> 1000 \<Longrightarrow> sint (of_int x :: i32) = x"
  by (simp add: signed_of_int signed_take_bit_int_eq_self)

lemma flag_le_one: "(of_bool b :: u32) \<le> 1"
  by simp


subsection \<open>The opened interface to evaluate\<close>

lemma reset_parameters_lanes: "\<exists>f g. reset_parameters P = update_lane Tuner_B g (update_lane Tuner_A f (initial_context P))"
proof -
  obtain f where 1: "snd (configure_iq_correction P Tuner_A (initial_context P)) = update_lane Tuner_A f (initial_context P)"
    using configure_iq_correction_frame by blast
  obtain g where "snd (configure_iq_correction P Tuner_B (update_lane Tuner_A f (initial_context P))) =
      update_lane Tuner_B g (update_lane Tuner_A f (initial_context P))"
    using configure_iq_correction_frame by blast
  then show ?thesis unfolding reset_parameters_def Let_def 1 by blast
qed

lemma initial_context_fields [simp]:
  "rx_channel_a (initial_context P) = default_channel" "rx_channel_b (initial_context P) = default_channel"
  "dev_params (initial_context P) = default_dev_params" "ctx_mode (initial_context P) = RspDuoMode_Single_Tuner"
  "duo_role (initial_context P) = 0" "ctx_tuner (initial_context P) = Tuner_A"
  "initialized (initial_context P) = False" "selected (initial_context P) = False" "backend (initial_context P) = False"
  "stream_buffers (initial_context P) = False" "ctx_events (initial_context P) = cleared_events"
  "ctx_stream (initial_context P) = cleared_stream" "channel_for_tuner (initial_context P) t = default_channel"
  "callback_samples (initial_context P) = 0" "thread_started (initial_context P) = False"
  "agc_thread_started (initial_context P) = False"
  by (simp_all add: initial_context_def channel_for_tuner_def)

lemma reset_parameters_fields [simp]:
  "rx_channel_a (reset_parameters P) = default_channel" "rx_channel_b (reset_parameters P) = default_channel"
  "dev_params (reset_parameters P) = default_dev_params" "ctx_mode (reset_parameters P) = RspDuoMode_Single_Tuner"
  "duo_role (reset_parameters P) = 0" "ctx_tuner (reset_parameters P) = Tuner_A"
  "initialized (reset_parameters P) = False" "selected (reset_parameters P) = False" "backend (reset_parameters P) = False"
  "stream_buffers (reset_parameters P) = False" "ctx_events (reset_parameters P) = cleared_events"
  "ctx_stream (reset_parameters P) = cleared_stream" "channel_for_tuner (reset_parameters P) t = default_channel"
  "callback_samples (reset_parameters P) = 0" "thread_started (reset_parameters P) = False"
  "agc_thread_started (reset_parameters P) = False"
  using reset_parameters_lanes [of P] by (auto simp: frame_simps)

lemma default_channel_fields [simp]:
  "gRdB default_channel = 50" "LNAstate default_channel = 0" "minGr default_channel = NORMAL_MIN_GR"
  "rfHz default_channel = Fin 200000000" "trackTime default_channel = 1" "refreshRateTime default_channel = 2048"
  "decimation_enable default_channel = False" "agc_enable default_channel = AGC_50HZ"
  "setPoint_dBfs default_channel = -60" "adsbMode default_channel = 0" "biasTEnable default_channel = False"
  "tuner1AmPortSel default_channel = AMPORT_2" "tuner1AmNotchEnable default_channel = False"
  "ifType default_channel = IF_Zero" "bwType default_channel = 200" "loMode default_channel = LO_Auto"
  "gain_syncUpdate default_channel = False" "rf_syncUpdate default_channel = False"
  "agc_syncUpdate default_channel = False"
  by (simp_all add: default_channel_def)

lemma default_dev_params_fields [simp]:
  "fsHz default_dev_params = Fin 2000000" "ppm default_dev_params = Fin 0" "fs_syncUpdate default_dev_params = False"
  by (simp_all add: default_dev_params_def)

lemma default_adsb: "fst (openrsp_adsb_filter_configure P f (Fin 2000000) 0) = 0"
  by (simp add: openrsp_adsb_filter_configure_def valid_mode_def Let_def)

lemma default_validates: "validate_dsp_configuration P default_channel (Fin 2000000) = 0"
  by (simp add: validate_dsp_iff default_adsb decimation_factor_def valid_decimation_factor_def)

theorem validated_dsp_configures_witness:
  "case configure_lane_dsp exact_fpu Tuner_B (reset_parameters exact_fpu) of
     (r, d') \<Rightarrow> r = 0 \<and> fst (configure_lane_decimator exact_fpu Tuner_B d') = 0"
  by (rule validated_dsp_configures) (simp add: default_validates)

lemma default_gain_range: "\<not> out_of_gain_range default_channel t"
  by (simp add: out_of_gain_range_def rspduo_lna_gain_reduction_def lna_gain_table_def
      rspduo_am_port_lna_state_valid_def)

lemma default_agc_range: "\<not> agc_out_of_range default_channel (Fin 2000000)"
  by (simp add: agc_out_of_range_def agc_minimum_setpoint_def agc_maximum_setpoint_def)


end
