(* ===== verification/Rsp_Client.thy ===== *)
theory Rsp_Client
  imports Rsp_Validate
begin

text \<open>
  What runs in the client library beside the application's calls: the callbacks of the
  daemon connection (IQ frames, status, role events, loss of the connection) and the AGC
  thread, from \<open>compat/sdrplay_api_compat.c\<close>. The daemon connection itself
  (\<open>compat/daemon_backend.c\<close>) is the environment here: a call on it is recorded in a trace
  and answered by \<open>answer\<close>, which may depend on everything asked before; the clock is
  another such parameter.
\<close>

subsection \<open>Calls on the daemon connection\<close>

datatype backend_call =
    Backend_open acquire_request
  | Backend_open_duo acquire_request u32 u32 u32
  | Backend_configure radio_config
  | Backend_configure_dual dual_config
  | Backend_configure_duo radio_config
  | Backend_start
  | Backend_start_duo
  | Backend_stop
  | Backend_stop_duo
  | Backend_update radio_config u32
  | Backend_update_duo radio_config u32
  | Backend_swap swap_request
  | Backend_swap_mode mode_swap_request
  | Backend_swap_duo_rate u32
  | Backend_resume_mode
  | Backend_close

record client_env =
  arith :: fpu
  answer :: "backend_call list \<Rightarrow> int"
  now_ms :: "nat \<Rightarrow> u64"

record client =
  dev :: compat_device_context
  calls :: "backend_call list"
  clock_reads :: nat

definition ask :: "client_env \<Rightarrow> backend_call \<Rightarrow> client \<Rightarrow> int \<times> client" where
  "ask E c s = (answer E (calls s @ [c]), s\<lparr>calls := calls s @ [c]\<rparr>)"

definition client_milliseconds :: "client_env \<Rightarrow> client \<Rightarrow> u64 \<times> client" where
  "client_milliseconds E s = (now_ms E (clock_reads s), s\<lparr>clock_reads := clock_reads s + 1\<rparr>)"

definition update_dev :: "(compat_device_context \<Rightarrow> compat_device_context) \<Rightarrow> client \<Rightarrow> client" where
  "update_dev f s = s\<lparr>dev := f (dev s)\<rparr>"

lemma update_dev_simps [simp]:
  "dev (update_dev f s) = f (dev s)" "calls (update_dev f s) = calls s"
  "clock_reads (update_dev f s) = clock_reads s"
  by (simp_all add: update_dev_def)

lemma ask_simps [simp]:
  "dev (snd (ask E c s)) = dev s" "calls (snd (ask E c s)) = calls s @ [c]"
  "fst (ask E c s) = answer E (calls s @ [c])"
  by (simp_all add: ask_def)

lemma monotonic_simps [simp]:
  "dev (snd (client_milliseconds E s)) = dev s" "calls (snd (client_milliseconds E s)) = calls s"
  by (simp_all add: client_milliseconds_def)

subsection \<open>Events\<close>

definition queue_event :: "api_event_kind \<Rightarrow> int \<Rightarrow> event_params \<Rightarrow> compat_device_context \<Rightarrow> int \<times> compat_device_context" where
  "queue_event kind t params d =
     (let (r, q) = queue_api_event kind t params (ctx_events d) in (r, d\<lparr>ctx_events := q\<rparr>))"

definition emit_overload_event :: "int \<Rightarrow> bool \<Rightarrow> compat_device_context \<Rightarrow> compat_device_context" where
  "emit_overload_event t overloaded d =
     (let (r, d) = queue_event PowerOverloadChange t (PowerOverloadParams (if overloaded then 0 else 1)) d
      in update_lane t
           (\<lambda>l. if r = 0 then l\<lparr>overload_reported_state := overloaded, overload_event_pending := True\<rparr>
                else l\<lparr>overload_event_pending := False\<rparr>) d)"

definition daemon_failure_callback :: "compat_device_context \<Rightarrow> compat_device_context" where
  "daemon_failure_callback d =
     snd (queue_event DeviceFailure (ctx_tuner d) NoParams (d\<lparr>device_stream_state := -1\<rparr>))"

definition daemon_status_callback :: "u32 \<Rightarrow> u32 \<Rightarrow> compat_device_context \<Rightarrow> compat_device_context" where
  "daemon_status_callback reason protocol_tuner d =
     (if reason \<noteq> OPENRSP_DEVICE_STATUS_REMOVED then d
      else if protocol_tuner \<noteq> OPENRSP_TUNER_A \<and> protocol_tuner \<noteq> OPENRSP_TUNER_B \<and>
              protocol_tuner \<noteq> OPENRSP_TUNER_BOTH then d
      else
        let t = (if protocol_tuner = OPENRSP_TUNER_B then Tuner_B
                 else if protocol_tuner = OPENRSP_TUNER_BOTH then Tuner_Both else Tuner_A)
        in snd (queue_event DeviceRemoved t NoParams (d\<lparr>device_stream_state := -1\<rparr>)))"

definition daemon_duo_callback :: "u32 \<Rightarrow> u32 \<Rightarrow> compat_device_context \<Rightarrow> compat_device_context" where
  "daemon_duo_callback kind protocol_tuner d =
     (if kind < 1 \<or> kind > 7 \<or> (protocol_tuner \<noteq> OPENRSP_TUNER_A \<and> protocol_tuner \<noteq> OPENRSP_TUNER_B) then d
      else snd (queue_event RspDuoModeChange (if protocol_tuner = OPENRSP_TUNER_B then Tuner_B else Tuner_A)
                  (RspDuoModeParams (uint kind - 1)) d))"

subsection \<open>IQ frames\<close>

text \<open>The atomic loop takes one pending notification if there is one.\<close>

definition consume_one :: "u32 \<Rightarrow> bool \<times> u32" where
  "consume_one n = (if n > 0 then (True, n - 1) else (False, n))"

definition sample_peak :: "int \<times> int \<Rightarrow> int" where
  "sample_peak x = max \<bar>fst x\<bar> \<bar>snd x\<bar>"

definition frame_peak :: "(int \<times> int) list \<Rightarrow> int" where
  "frame_peak xs = fold (\<lambda>x peak. if sample_peak x > peak then sample_peak x else peak) xs 0"

definition frame_power :: "(int \<times> int) list \<Rightarrow> int" where
  "frame_power xs = fold (\<lambda>x acc. acc + (fst x * fst x + snd x * snd x)) xs 0"

definition frame_rms :: "fpu \<Rightarrow> int \<Rightarrow> nat \<Rightarrow> u32" where
  "frame_rms P power_sum samples =
     (if samples > 0 then u32_of_real (fsqrt P (ddiv P (of_int power_sum) (dmul P 2 (of_nat samples)))) else 0)"

text \<open>The filters of a lane in the order of the callback, on the scratch buffers.\<close>

definition lane_process :: "fpu \<Rightarrow> compat_lane \<Rightarrow> (int \<times> int) list \<Rightarrow> compat_lane \<times> (int \<times> int) list" where
  "lane_process P l xs =
     (let (iq, buf, n) = openrsp_iq_correction_process P (iq_correction l) xs (length xs);
          (adsb, buf, n) = openrsp_adsb_filter_process (adsb_filter l) buf n;
          (lif, buf, n) = openrsp_low_if_process P (low_if_dsp l) buf n;
          (dec, buf, n) = (if adsb_mode adsb = OPENRSP_ADSB_DECIMATION then decimate_iq P (decimator l) buf n
                           else (decimator l, buf, n))
      in (l\<lparr>iq_correction := iq, adsb_filter := adsb, low_if_dsp := lif, decimator := dec\<rparr>, take n buf))"

definition frame_tuner :: "compat_device_context \<Rightarrow> u32 \<Rightarrow> int" where
  "frame_tuner d protocol_tuner =
     (if ctx_mode d = RspDuoMode_Dual_Tuner
      then (if protocol_tuner = OPENRSP_TUNER_B then Tuner_B else Tuner_A)
      else ctx_tuner d)"

text \<open>A sequence number that is not the next one: whether the stream is broken, and the frames lost.\<close>

definition frame_gap :: "compat_lane \<Rightarrow> u32 \<Rightarrow> bool \<times> u32" where
  "frame_gap l sequence =
     (if iq_sequence_seen l
      then let expected = last_iq_sequence l + 1
           in if sequence \<noteq> expected
              then (True, if sequence - expected < 0x80000000 then sequence - expected else 0)
              else (False, 0)
      else (False, 0))"

definition track_overload :: "int \<Rightarrow> int \<Rightarrow> compat_device_context \<Rightarrow> compat_device_context" where
  "track_overload t peak d =
     (let overloaded = overload_state (lane_for d t);
          next_overload = (if overloaded then peak > 30000 else peak \<ge> 32700)
      in if next_overload \<noteq> overloaded
         then let unacknowledged = overload_event_pending (lane_for d t);
                  d = update_lane t (\<lambda>l. l\<lparr>overload_state := next_overload\<rparr>) d
              in if \<not> unacknowledged
                 then emit_overload_event t next_overload
                        (update_lane t (\<lambda>l. l\<lparr>overload_event_pending := True\<rparr>) d)
                 else d
         else d)"

definition daemon_stream_callback ::
  "fpu \<Rightarrow> (int \<times> int) list \<Rightarrow> u32 \<Rightarrow> u32 \<Rightarrow> compat_device_context \<Rightarrow> compat_device_context" where
  "daemon_stream_callback P xs sequence protocol_tuner d =
     (let t = frame_tuner d protocol_tuner;
          (discontinuity, missing_frames) = frame_gap (lane_for d t) sequence;
          d = update_lane t (\<lambda>l. l\<lparr>last_iq_sequence := sequence, iq_sequence_seen := True\<rparr>)
                (d\<lparr>device_stream_state := 1\<rparr>)
      in if \<not> stream_buffers d \<or> length xs > OPENRSP_MAX_IQ_SAMPLES then d\<lparr>device_stream_state := -1\<rparr>
         else
           let d = track_overload t (frame_peak xs) d;
               (l, ys) = lane_process P (lane_for d t) xs;
               rms = frame_rms P (frame_power xs) (length ys);
               (gr, pending_gr) = consume_one (pending_gr_changed l);
               (rf, pending_rf) = consume_one (pending_rf_changed l);
               (fs, pending_fs) = consume_one (pending_fs_changed l);
               first_sample = sample_number l + missing_frames * of_nat (length ys);
               reset = (first_callback l \<or> discontinuity);
               d = update_lane t (\<lambda>_. l\<lparr>agc_peak := (if rms > agc_peak l then rms else agc_peak l),
                     pending_gr_changed := pending_gr, pending_rf_changed := pending_rf,
                     pending_fs_changed := pending_fs, sample_number := first_sample + of_nat (length ys),
                     first_callback := False\<rparr>) d
           in d\<lparr>ctx_stream := queue_stream_callback t (length ys) first_sample reset gr rf fs ys (ctx_stream d)\<rparr>)"

definition emit_update_ack :: "bool \<Rightarrow> bool \<Rightarrow> bool \<Rightarrow> int \<Rightarrow> compat_device_context \<Rightarrow> compat_device_context" where
  "emit_update_ack fs rf gr t d =
     d\<lparr>ctx_stream := queue_stream_callback t 0 (sample_number (lane_for d t)) False gr rf fs [] (ctx_stream d)\<rparr>"

subsection \<open>Gain and the AGC thread\<close>

definition store_gain_values :: "fpu \<Rightarrow> int \<Rightarrow> compat_device_context \<Rightarrow> int \<times> compat_device_context" where
  "store_gain_values P t d =
     (let ch = channel_for_tuner d t in
      case openrsp_rspduo_gain_values P (rfHz ch) (unat (LNAstate ch)) (gRdB ch) (minGr ch)
             (t = Tuner_A \<and> tuner1AmPortSel ch = AMPORT_1) of
        None \<Rightarrow> (-1, d)
      | Some v \<Rightarrow> (0, update_channel t (\<lambda>ch. ch\<lparr>gainVals := v\<rparr>) d))"

definition send_update :: "client_env \<Rightarrow> int \<Rightarrow> u32 \<Rightarrow> client \<Rightarrow> int \<times> client" where
  "send_update E t flags s =
     (let config = fill_radio_config_tuner (arith E) (dev s) t
      in ask E (if duo_role (dev s) \<noteq> 0 then Backend_update_duo config flags else Backend_update config flags) s)"

definition apply_rspduo_gain_locked :: "client_env \<Rightarrow> int \<Rightarrow> client \<Rightarrow> int \<times> client" where
  "apply_rspduo_gain_locked E t s =
     (if out_of_gain_range (channel_for_tuner (dev s) t) t then (-1, s)
      else
        let (r, s) = send_update E t OPENRSP_CHANGE_GAIN s
        in if r \<ge> 0
           then let (r, d) = store_gain_values (arith E) t (dev s) in (r, s\<lparr>dev := d\<rparr>)
           else (r, s))"

definition agc_period_ms :: "int \<Rightarrow> u64" where
  "agc_period_ms mode =
     (if mode = AGC_100HZ then 10 else if mode = AGC_50HZ \<or> mode = AGC_CTRL_EN then 20 else 200)"

definition agc_ctrl_interval_ms :: "u16 \<Rightarrow> u64" where
  "agc_ctrl_interval_ms configured_ms = (let interval = ucast (configured_ms div 5) in if interval < 50 then 50 else interval)"

definition agc_level :: "fpu \<Rightarrow> u32 \<Rightarrow> real" where
  "agc_level P peak = dmul P 20 (flog10 P (ddiv P (of_int (uint peak)) 32767))"

text \<open>The step, whether it is only deferred, and the new start of a decay.\<close>

definition agc_control_step ::
  "fpu \<Rightarrow> sdrplay_api_RxChannelParamsT \<Rightarrow> real \<Rightarrow> u64 \<Rightarrow> u64 \<Rightarrow> u64 \<Rightarrow> int \<times> bool \<times> u64" where
  "agc_control_step P ch err now last_adjust decay_since =
     (if err > 1.5
      then if now - last_adjust \<ge> agc_ctrl_interval_ms (attack_ms ch)
           then (clamp_int \<lceil>dmul P err (fl P 0.4)\<rceil> 1 24, False, 0)
           else (0, True, 0)
      else
        let threshold = (if decay_threshold_dB ch > 0 then of_nat (unat (decay_threshold_dB ch)) else 1.5)
        in if err < - threshold
           then let interval = agc_ctrl_interval_ms (decay_ms ch);
                    since = (if decay_since = 0 then now else decay_since);
                    decay_ready = since + ucast (decay_delay_ms ch) + interval
                in if now \<ge> decay_ready \<and> now - last_adjust \<ge> interval
                   then (- clamp_int \<lceil>dmul P (- err) (fl P 0.8)\<rceil> 1 24, False, since)
                   else (0, True, since)
           else (0, False, 0))"

definition agc_step ::
  "fpu \<Rightarrow> int \<Rightarrow> sdrplay_api_RxChannelParamsT \<Rightarrow> real \<Rightarrow> u64 \<Rightarrow> u64 \<Rightarrow> u64 \<Rightarrow> int \<times> bool \<times> u64" where
  "agc_step P mode ch err now last_adjust decay_since =
     (if mode = AGC_CTRL_EN then agc_control_step P ch err now last_adjust decay_since
      else if now - last_adjust \<ge> agc_period_ms mode
      then (if err > 6 then 3 else if err > 1.5 then 1 else if err < -6 then -2 else if err < -1.5 then -1 else 0,
            False, decay_since)
      else (0, True, decay_since))"

text \<open>The change of the gain reduction, with the notification that follows it.\<close>

definition agc_apply :: "client_env \<Rightarrow> int \<Rightarrow> int \<Rightarrow> client \<Rightarrow> client" where
  "agc_apply E t step s =
     (let ch = channel_for_tuner (dev s) t;
          old_reduction = gRdB ch;
          new_reduction = clamp_int (old_reduction + step) (minGr ch) 59
      in if new_reduction = old_reduction then s
         else
           let s = update_dev (update_channel t (\<lambda>ch. ch\<lparr>gRdB := new_reduction\<rparr>)) s;
               (r, s) = apply_rspduo_gain_locked E t s
           in if r \<ge> 0
              then let (now, s) = client_milliseconds E s;
                       s = update_dev (update_lane t (\<lambda>l. l\<lparr>agc_last_adjust_ms := now,
                             pending_gr_changed := pending_gr_changed l + 1\<rparr>)) s;
                       ch = channel_for_tuner (dev s) t;
                       lna = (case rspduo_lna_gain_reduction (rfHz ch) (unat (LNAstate ch)) of None \<Rightarrow> 0 | Some g \<Rightarrow> g)
                   in update_dev (\<lambda>d. snd (queue_event GainChange t
                        (GainParams (of_int new_reduction) (of_int lna) (fst (gainVals ch))) d)) s
              else update_dev (update_channel t (\<lambda>ch. ch\<lparr>gRdB := old_reduction\<rparr>)) s)"

text \<open>One tuner's turn of \<open>agc_thread_main\<close>.\<close>

definition agc_turn :: "client_env \<Rightarrow> int \<Rightarrow> client \<Rightarrow> client" where
  "agc_turn E t s =
     (let l = lane_for (dev s) t;
          mode = lane_agc_mode l;
          peak = agc_peak l;
          s = update_dev (update_lane t (\<lambda>l. l\<lparr>agc_peak := 0\<rparr>)) s
      in if mode = AGC_DISABLE \<or> peak = 0 \<or> \<not> initialized (dev s) then s
         else
           let ch = channel_for_tuner (dev s) t;
               target = clamp_int (lane_agc_setpoint l) (agc_minimum_setpoint (fsHz (dev_params (dev s))))
                          (agc_maximum_setpoint ch);
               err = dsub (arith E) (agc_level (arith E) peak) (of_int target);
               (now, s) = client_milliseconds E s;
               (step, deferred, since) = agc_step (arith E) mode ch err now (agc_last_adjust_ms l)
                                           (agc_decay_since_ms l);
               s = update_dev (update_lane t (\<lambda>l. l\<lparr>agc_decay_since_ms := since\<rparr>)) s
           in if step = 0
              then (if deferred
                    then update_dev (update_lane t (\<lambda>l. if peak > agc_peak l then l\<lparr>agc_peak := peak\<rparr> else l)) s
                    else s)
              else if sync_waiting (lane_for (dev s) t) then s
              else agc_apply E t step s)"

definition agc_tick :: "client_env \<Rightarrow> client \<Rightarrow> client" where
  "agc_tick E s =
     (if ctx_mode (dev s) = RspDuoMode_Dual_Tuner then agc_turn E Tuner_B (agc_turn E Tuner_A s)
      else agc_turn E (ctx_tuner (dev s)) s)"

subsection \<open>What one IQ frame does\<close>

lemma queue_event_fields [frame_simps]:
  "ctx_stream (snd (queue_event k t p d)) = ctx_stream d" "lane_for (snd (queue_event k t p d)) = lane_for d"
  "stream_buffers (snd (queue_event k t p d)) = stream_buffers d"
  "device_stream_state (snd (queue_event k t p d)) = device_stream_state d"
  "channel_for_tuner (snd (queue_event k t p d)) = channel_for_tuner d"
  "dev_params (snd (queue_event k t p d)) = dev_params d" "ctx_mode (snd (queue_event k t p d)) = ctx_mode d"
  "ctx_tuner (snd (queue_event k t p d)) = ctx_tuner d" "initialized (snd (queue_event k t p d)) = initialized d"
  "ctx_events (snd (queue_event k t p d)) = snd (queue_api_event k t p (ctx_events d))"
  "fst (queue_event k t p d) = fst (queue_api_event k t p (ctx_events d))"
  by (simp_all add: queue_event_def case_prod_beta fun_eq_iff lane_for_def channel_for_tuner_def)

lemma emit_overload_fields [frame_simps]:
  "ctx_stream (emit_overload_event t b d) = ctx_stream d"
  "stream_buffers (emit_overload_event t b d) = stream_buffers d"
  "device_stream_state (emit_overload_event t b d) = device_stream_state d"
  "ctx_mode (emit_overload_event t b d) = ctx_mode d" "ctx_tuner (emit_overload_event t b d) = ctx_tuner d"
  by (simp_all add: emit_overload_event_def case_prod_beta frame_simps)

lemma track_overload_fields [frame_simps]:
  "ctx_stream (track_overload t k d) = ctx_stream d"
  "stream_buffers (track_overload t k d) = stream_buffers d"
  "device_stream_state (track_overload t k d) = device_stream_state d"
  "ctx_mode (track_overload t k d) = ctx_mode d" "ctx_tuner (track_overload t k d) = ctx_tuner d"
  by (simp_all add: track_overload_def Let_def frame_simps)

lemma emit_overload_lane:
  "\<exists>p r. lane_for (emit_overload_event t b d) t =
     (lane_for d t)\<lparr>overload_event_pending := p, overload_reported_state := r\<rparr>"
proof (cases "fst (queue_event PowerOverloadChange t (PowerOverloadParams (if b then 0 else 1)) d) = 0")
  case True
  then have "lane_for (emit_overload_event t b d) t =
      (lane_for d t)\<lparr>overload_event_pending := True, overload_reported_state := b\<rparr>"
    by (simp add: emit_overload_event_def case_prod_beta frame_simps)
  then show ?thesis by blast
next
  case False
  then have "lane_for (emit_overload_event t b d) t =
      (lane_for d t)\<lparr>overload_event_pending := False, overload_reported_state := overload_reported_state (lane_for d t)\<rparr>"
    by (simp add: emit_overload_event_def case_prod_beta frame_simps)
  then show ?thesis by blast
qed

lemma track_overload_lane:
  "\<exists>p r. lane_for (track_overload t k d) t =
     (lane_for d t)\<lparr>overload_state := (if overload_state (lane_for d t) then k > 30000 else k \<ge> 32700),
       overload_event_pending := p, overload_reported_state := r\<rparr>"
proof -
  let ?l = "lane_for d t"
  let ?next = "if overload_state ?l then k > 30000 else k \<ge> 32700"
  let ?d = "update_lane t (\<lambda>l. l\<lparr>overload_state := ?next\<rparr>) d"
  obtain p r where e: "lane_for (emit_overload_event t ?next (update_lane t (\<lambda>l. l\<lparr>overload_event_pending := True\<rparr>) ?d)) t =
      (lane_for (update_lane t (\<lambda>l. l\<lparr>overload_event_pending := True\<rparr>) ?d) t)
        \<lparr>overload_event_pending := p, overload_reported_state := r\<rparr>"
    using emit_overload_lane by blast
  have id: "?l = ?l\<lparr>overload_state := overload_state ?l, overload_event_pending := overload_event_pending ?l,
      overload_reported_state := overload_reported_state ?l\<rparr>" by simp
  consider (same) "?next = overload_state ?l" | (waiting) "?next \<noteq> overload_state ?l" "overload_event_pending ?l"
    | (emit) "?next \<noteq> overload_state ?l" "\<not> overload_event_pending ?l" by blast
  then show ?thesis
  proof cases
    case same
    then have "track_overload t k d = d" by (simp add: track_overload_def Let_def)
    then have "lane_for (track_overload t k d) t = ?l\<lparr>overload_state := ?next,
        overload_event_pending := overload_event_pending ?l, overload_reported_state := overload_reported_state ?l\<rparr>"
      unfolding same using id by simp
    then show ?thesis by blast
  next
    case waiting
    then have "lane_for (track_overload t k d) t = ?l\<lparr>overload_state := ?next,
        overload_event_pending := overload_event_pending ?l, overload_reported_state := overload_reported_state ?l\<rparr>"
      by (simp add: track_overload_def Let_def)
    then show ?thesis by blast
  next
    case emit
    then have "track_overload t k d =
        emit_overload_event t ?next (update_lane t (\<lambda>l. l\<lparr>overload_event_pending := True\<rparr>) ?d)"
      by (simp add: track_overload_def Let_def)
    then show ?thesis using e by auto
  qed
qed

text \<open>The filters read and write only their own fields of the lane.\<close>

lemma lane_process_other:
  "lane_process P (l\<lparr>overload_state := a, overload_event_pending := b, overload_reported_state := c\<rparr>) xs =
     (let (l', ys) = lane_process P l xs
      in (l'\<lparr>overload_state := a, overload_event_pending := b, overload_reported_state := c\<rparr>, ys))"
  "lane_process P (l\<lparr>last_iq_sequence := q, iq_sequence_seen := e\<rparr>) xs =
     (let (l', ys) = lane_process P l xs in (l'\<lparr>last_iq_sequence := q, iq_sequence_seen := e\<rparr>, ys))"
  by (simp_all add: lane_process_def case_prod_beta Let_def)

lemma lane_process_keeps:
  "sample_number (fst (lane_process P l xs)) = sample_number l"
  "first_callback (fst (lane_process P l xs)) = first_callback l"
  "pending_gr_changed (fst (lane_process P l xs)) = pending_gr_changed l"
  "pending_rf_changed (fst (lane_process P l xs)) = pending_rf_changed l"
  "pending_fs_changed (fst (lane_process P l xs)) = pending_fs_changed l"
  "agc_peak (fst (lane_process P l xs)) = agc_peak l"
  "overload_state (fst (lane_process P l xs)) = overload_state l"
  by (simp_all add: lane_process_def case_prod_beta Let_def)

lemma stream_callback_effect:
  assumes "stream_buffers d" "length xs \<le> OPENRSP_MAX_IQ_SAMPLES" "t = frame_tuner d protocol_tuner"
    and "frame_gap (lane_for d t) sequence = (discontinuity, missing)"
    and "ys = snd (lane_process P (lane_for d t) xs)"
    and "d' = daemon_stream_callback P xs sequence protocol_tuner d"
  shows "ctx_stream d' = queue_stream_callback t (length ys)
        (sample_number (lane_for d t) + missing * of_nat (length ys))
        (first_callback (lane_for d t) \<or> discontinuity) (pending_gr_changed (lane_for d t) > 0)
        (pending_rf_changed (lane_for d t) > 0) (pending_fs_changed (lane_for d t) > 0) ys (ctx_stream d)"
    and "sample_number (lane_for d' t) =
        sample_number (lane_for d t) + missing * of_nat (length ys) + of_nat (length ys)"
    and "\<not> first_callback (lane_for d' t)"
    and "agc_peak (lane_for d' t) = max (agc_peak (lane_for d t)) (frame_rms P (frame_power xs) (length ys))"
    and "overload_state (lane_for d' t) =
        (if overload_state (lane_for d t) then frame_peak xs > 30000 else frame_peak xs \<ge> 32700)"
    and "device_stream_state d' = 1"
    and "last_iq_sequence (lane_for d' t) = sequence" and "iq_sequence_seen (lane_for d' t)"
    and "stream_buffers d' = stream_buffers d" and "frame_tuner d' p' = frame_tuner d p'"
proof -
  let ?d1 = "update_lane t (\<lambda>l. l\<lparr>last_iq_sequence := sequence, iq_sequence_seen := True\<rparr>) (d\<lparr>device_stream_state := 1\<rparr>)"
  let ?d2 = "track_overload t (frame_peak xs) ?d1"
  have l1: "lane_for ?d1 t = (lane_for d t)\<lparr>last_iq_sequence := sequence, iq_sequence_seen := True\<rparr>"
    by (simp add: lane_for_def update_lane_def)
  obtain p r where "lane_for ?d2 t = (lane_for ?d1 t)
      \<lparr>overload_state := (if overload_state (lane_for ?d1 t) then frame_peak xs > 30000 else frame_peak xs \<ge> 32700),
       overload_event_pending := p, overload_reported_state := r\<rparr>"
    using track_overload_lane by blast
  then have l2: "lane_process P (lane_for ?d2 t) xs =
      ((fst (lane_process P (lane_for d t) xs))\<lparr>last_iq_sequence := sequence, iq_sequence_seen := True,
         overload_state := (if overload_state (lane_for d t) then frame_peak xs > 30000 else frame_peak xs \<ge> 32700),
         overload_event_pending := p, overload_reported_state := r\<rparr>, ys)"
    unfolding l1 using assms(5) by (simp add: lane_process_other Let_def case_prod_beta)
  have step: "d' = (let l = fst (lane_process P (lane_for ?d2 t) xs);
        rms = frame_rms P (frame_power xs) (length ys);
        first_sample = sample_number l + missing * of_nat (length ys);
        d3 = update_lane t (\<lambda>_. l\<lparr>agc_peak := (if rms > agc_peak l then rms else agc_peak l),
               pending_gr_changed := snd (consume_one (pending_gr_changed l)),
               pending_rf_changed := snd (consume_one (pending_rf_changed l)),
               pending_fs_changed := snd (consume_one (pending_fs_changed l)),
               sample_number := first_sample + of_nat (length ys), first_callback := False\<rparr>) ?d2
      in d3\<lparr>ctx_stream := queue_stream_callback t (length ys) first_sample (first_callback l \<or> discontinuity)
             (fst (consume_one (pending_gr_changed l))) (fst (consume_one (pending_rf_changed l)))
             (fst (consume_one (pending_fs_changed l))) ys (ctx_stream d3)\<rparr>)"
    unfolding assms(6) daemon_stream_callback_def
    using assms(1-4) l2 by (simp add: Let_def case_prod_beta frame_simps)
  have if_max: "(if a < b then b else a) = max a b" for a b :: u32 by (auto simp: max_def)
  have lane: "lane_for (d\<lparr>ctx_stream := q\<rparr>) t = lane_for d t" for d :: compat_device_context and q
    by (simp add: lane_for_def)
  show "ctx_stream d' = queue_stream_callback t (length ys)
        (sample_number (lane_for d t) + missing * of_nat (length ys))
        (first_callback (lane_for d t) \<or> discontinuity) (pending_gr_changed (lane_for d t) > 0)
        (pending_rf_changed (lane_for d t) > 0) (pending_fs_changed (lane_for d t) > 0) ys (ctx_stream d)"
    "sample_number (lane_for d' t) =
        sample_number (lane_for d t) + missing * of_nat (length ys) + of_nat (length ys)"
    "\<not> first_callback (lane_for d' t)"
    "agc_peak (lane_for d' t) = max (agc_peak (lane_for d t)) (frame_rms P (frame_power xs) (length ys))"
    "overload_state (lane_for d' t) =
        (if overload_state (lane_for d t) then frame_peak xs > 30000 else frame_peak xs \<ge> 32700)"
    "device_stream_state d' = 1"
    "last_iq_sequence (lane_for d' t) = sequence" "iq_sequence_seen (lane_for d' t)"
    "stream_buffers d' = stream_buffers d" "frame_tuner d' p' = frame_tuner d p'"
    unfolding frame_tuner_def step l2 fst_conv Let_def
    by (simp_all add: lane frame_simps lane_process_keeps consume_one_def if_max)
qed

lemma queue_stream_callback_room:
  assumes "stream_wf q" "stream_accepts q" "stream_callback_count q < OPENRSP_STREAM_QUEUE_CAPACITY"
    and "f = \<lparr>sf_samples = samples, sf_tuner = t, sf_first_sample = first_sample, sf_reset = reset,
               sf_gr_changed = gr, sf_rf_changed = rf, sf_fs_changed = fs, sf_data = data\<rparr>"
    and "q' = queue_stream_callback t samples first_sample reset gr rf fs data q"
  shows "stream_items q' = stream_items q @ [f]" "stream_wf q'" "stream_accepts q'"
    "stream_callback_count q' = stream_callback_count q + 1"
proof -
  have q': "q' = stream_put f q"
    using assms by (simp add: queue_stream_callback_def stream_accepts_def Let_def)
  show i: "stream_items q' = stream_items q @ [f]" unfolding q' by (rule stream_put_items [OF assms(1,3)])
  show "stream_wf q'" unfolding q' by (rule stream_put_wf [OF assms(1,3)])
  show "stream_accepts q'" using assms(2) by (simp add: q' stream_accepts_def)
  show "stream_callback_count q' = stream_callback_count q + 1" by (simp add: q' stream_put_def Let_def)
qed

text \<open>
  C27. Sample numbers account for every IQ frame, received or lost: when a frame with
  sequence number \<open>n\<close> is followed on the same lane by one with \<open>n + 1 + k\<close>, both reach the
  callback queue with their filtered samples, the second numbered from the end of the
  first plus \<open>k\<close> frames of its own size, and it is marked as a reset exactly when \<open>k\<close> frames
  were lost (\<open>k\<close> not zero).
\<close>

theorem iq_frames_numbered:
  assumes "stream_buffers d" and "length xs \<le> OPENRSP_MAX_IQ_SAMPLES" and "length ys \<le> OPENRSP_MAX_IQ_SAMPLES"
    and "stream_wf (ctx_stream d)" and "stream_accepts (ctx_stream d)"
    and "stream_callback_count (ctx_stream d) + 2 \<le> OPENRSP_STREAM_QUEUE_CAPACITY"
    and "unat k < 2 ^ 31"
    and "d' = daemon_stream_callback P xs sequence protocol_tuner d"
    and "d'' = daemon_stream_callback P ys (sequence + 1 + k) protocol_tuner d'"
  shows "\<exists>f g. stream_items (ctx_stream d'') = stream_items (ctx_stream d) @ [f, g] \<and>
    sf_data f = snd (lane_process P (lane_for d (frame_tuner d protocol_tuner)) xs) \<and>
    sf_data g = snd (lane_process P (lane_for d' (frame_tuner d protocol_tuner)) ys) \<and>
    sf_first_sample g = sf_first_sample f + of_nat (sf_samples f) + k * of_nat (sf_samples g) \<and>
    (sf_reset g \<longleftrightarrow> k \<noteq> 0)"
proof -
  let ?t = "frame_tuner d protocol_tuner"
  obtain b m where gap: "frame_gap (lane_for d ?t) sequence = (b, m)" by (rule prod.exhaust)
  note one = stream_callback_effect [OF assms(1,2) refl gap refl assms(8)]
  have "stream_callback_count (ctx_stream d) < OPENRSP_STREAM_QUEUE_CAPACITY" using assms(6) by simp
  note q1 = queue_stream_callback_room [OF assms(4,5) this refl one(1)]
  have t: "?t = frame_tuner d' protocol_tuner" by (simp add: one(10))
  have "k < 0x80000000" using assms(7) by (simp add: word_less_nat_alt)
  then have gap': "frame_gap (lane_for d' ?t) (sequence + 1 + k) = (k \<noteq> 0, k)"
    using one(7,8) by (simp add: frame_gap_def Let_def algebra_simps)
  have "stream_buffers d'" using assms(1) one(9) by simp
  note two = stream_callback_effect [OF this assms(3) t gap' refl assms(9)]
  have "stream_callback_count (ctx_stream d') < OPENRSP_STREAM_QUEUE_CAPACITY" using assms(6) q1(4) by simp
  note q2 = queue_stream_callback_room [OF q1(2,3) this refl two(1)]
  obtain f where f: "stream_items (ctx_stream d') = stream_items (ctx_stream d) @ [f]"
    "sf_data f = snd (lane_process P (lane_for d ?t) xs)" "sf_samples f = length (sf_data f)"
    "sf_first_sample f = sample_number (lane_for d ?t) + m * of_nat (length (sf_data f))"
    using q1(1) by simp
  obtain g where g: "stream_items (ctx_stream d'') = stream_items (ctx_stream d') @ [g]"
    "sf_data g = snd (lane_process P (lane_for d' ?t) ys)" "sf_samples g = length (sf_data g)"
    "sf_first_sample g = sample_number (lane_for d' ?t) + k * of_nat (length (sf_data g))" "sf_reset g = (k \<noteq> 0)"
    using q2(1) one(3) by simp
  have "stream_items (ctx_stream d'') = stream_items (ctx_stream d) @ [f, g]" using f(1) g(1) by simp
  moreover have "sf_first_sample g = sf_first_sample f + of_nat (sf_samples f) + k * of_nat (sf_samples g)"
    using f(2,3,4) g(3,4) one(2) by simp
  ultimately show ?thesis using f(2) g(2,5) by blast
qed

text \<open>What one frame does to the queue of events and to the flag of the unacknowledged report.\<close>

definition overload_next :: "bool \<Rightarrow> (int \<times> int) list \<Rightarrow> bool" where
  "overload_next on xs \<longleftrightarrow> frame_peak xs \<ge> 32700 \<or> on \<and> frame_peak xs > 30000"

definition overload_report :: "int \<Rightarrow> bool \<Rightarrow> event_state \<Rightarrow> int \<times> event_state" where
  "overload_report t on q = queue_api_event PowerOverloadChange t (PowerOverloadParams (if on then 0 else 1)) q"

lemma overload_report_refused: "fst (overload_report t on q) \<noteq> 0 \<Longrightarrow> overload_report t b q = (-1, q)"
  by (auto simp: overload_report_def queue_api_event_def Let_def split: if_splits)

lemma emit_overload_report:
  "ctx_events (emit_overload_event t b d) = snd (overload_report t b (ctx_events d))"
  "overload_event_pending (lane_for (emit_overload_event t b d) t) = (fst (overload_report t b (ctx_events d)) = 0)"
  by (auto simp: emit_overload_event_def overload_report_def queue_event_def case_prod_beta lane_for_def update_lane_def)

lemma track_overload_report:
  assumes "on = overload_state (lane_for d t)" "next = (if on then k > 30000 else k \<ge> 32700)"
  shows "(ctx_events (track_overload t k d), overload_event_pending (lane_for (track_overload t k d) t)) =
    (if overload_event_pending (lane_for d t) \<or> next = on then (ctx_events d, overload_event_pending (lane_for d t))
     else case overload_report t next (ctx_events d) of (r, q) \<Rightarrow> (q, r = 0))"
proof -
  have lane: "ctx_events (update_lane t f d) = ctx_events d" for f d
    by (simp add: update_lane_def)
  have kept: "overload_event_pending (lane_for (update_lane t (\<lambda>l. l\<lparr>overload_state := x\<rparr>) d) t) =
      overload_event_pending (lane_for d t)" for x
    by (simp add: lane_for_def update_lane_def)
  show ?thesis
    using assms by (auto simp: track_overload_def Let_def emit_overload_report lane kept case_prod_beta)
qed

lemma lane_process_pending: "overload_event_pending (fst (lane_process P l xs)) = overload_event_pending l"
  by (simp add: lane_process_def Let_def case_prod_beta)

lemma stream_callback_report:
  assumes "stream_buffers d" "length xs \<le> OPENRSP_MAX_IQ_SAMPLES" "t = frame_tuner d protocol_tuner"
    and "d' = daemon_stream_callback P xs sequence protocol_tuner d"
  shows "overload_state (lane_for d' t) = overload_next (overload_state (lane_for d t)) xs"
    "(ctx_events d', overload_event_pending (lane_for d' t)) =
      (if overload_event_pending (lane_for d t) \<or> overload_next (overload_state (lane_for d t)) xs = overload_state (lane_for d t)
       then (ctx_events d, overload_event_pending (lane_for d t))
       else case overload_report t (overload_next (overload_state (lane_for d t)) xs) (ctx_events d) of (r, q) \<Rightarrow> (q, r = 0))"
    "stream_buffers d' = stream_buffers d" "frame_tuner d' p = frame_tuner d p"
proof -
  obtain b m where gap: "frame_gap (lane_for d t) sequence = (b, m)" by (rule prod.exhaust)
  note eff = stream_callback_effect [OF assms(1-3) gap refl assms(4)]
  have hyst: "overload_next on xs = (if on then frame_peak xs > 30000 else frame_peak xs \<ge> 32700)" for on
    by (auto simp: overload_next_def)
  show "overload_state (lane_for d' t) = overload_next (overload_state (lane_for d t)) xs"
    using eff(5) by (simp only: hyst)
  show "stream_buffers d' = stream_buffers d" "frame_tuner d' p = frame_tuner d p" using eff(9,10) by simp_all
  let ?d = "update_lane t (\<lambda>l. l\<lparr>last_iq_sequence := sequence, iq_sequence_seen := True\<rparr>) (d\<lparr>device_stream_state := 1\<rparr>)"
  have l: "overload_state (lane_for ?d t) = overload_state (lane_for d t)"
    "overload_event_pending (lane_for ?d t) = overload_event_pending (lane_for d t)"
    "ctx_events ?d = ctx_events d"
    by (simp_all add: lane_for_def update_lane_def)
  have lane: "lane_for (x\<lparr>ctx_stream := q\<rparr>) u = lane_for x u" for x :: compat_device_context and q u
    by (simp add: lane_for_def)
  have "ctx_events d' = ctx_events (track_overload t (frame_peak xs) ?d)"
    "overload_event_pending (lane_for d' t) = overload_event_pending (lane_for (track_overload t (frame_peak xs) ?d) t)"
    unfolding assms(4) daemon_stream_callback_def
    using assms(1-3) by (simp_all add: Let_def case_prod_beta frame_simps lane lane_process_pending)
  then show "(ctx_events d', overload_event_pending (lane_for d' t)) =
      (if overload_event_pending (lane_for d t) \<or> overload_next (overload_state (lane_for d t)) xs = overload_state (lane_for d t)
       then (ctx_events d, overload_event_pending (lane_for d t))
       else case overload_report t (overload_next (overload_state (lane_for d t)) xs) (ctx_events d) of (r, q) \<Rightarrow> (q, r = 0))"
    using track_overload_report [OF refl refl, where d = ?d and t = t and k = "frame_peak xs"] by (simp only: l hyst)
qed

text \<open>A run of frames, each with its sequence number and the daemon's name of the tuner.\<close>

definition stream_frames ::
  "fpu \<Rightarrow> ((int \<times> int) list \<times> u32 \<times> u32) list \<Rightarrow> compat_device_context \<Rightarrow> compat_device_context" where
  "stream_frames P fs d = foldl (\<lambda>d (xs, sequence, protocol_tuner). daemon_stream_callback P xs sequence protocol_tuner d) d fs"

definition overload_after :: "bool \<Rightarrow> ((int \<times> int) list \<times> u32 \<times> u32) list \<Rightarrow> bool" where
  "overload_after on fs = foldl (\<lambda>on f. overload_next on (fst f)) on fs"

definition overload_changes :: "bool \<Rightarrow> ((int \<times> int) list \<times> u32 \<times> u32) list \<Rightarrow> bool" where
  "overload_changes on fs \<longleftrightarrow> (\<exists>k\<le>length fs. overload_after on (take k fs) \<noteq> on)"

lemma overload_changes_Nil [simp]: "\<not> overload_changes on []"
  by (simp add: overload_changes_def overload_after_def)

lemma ex_le_Suc: "(\<exists>k\<le>Suc n. P k) \<longleftrightarrow> P 0 \<or> (\<exists>k\<le>n. P (Suc k))"
proof
  assume "\<exists>k\<le>Suc n. P k"
  then obtain k where k: "k \<le> Suc n" "P k" by blast
  then show "P 0 \<or> (\<exists>k\<le>n. P (Suc k))" by (cases k) auto
next
  assume "P 0 \<or> (\<exists>k\<le>n. P (Suc k))"
  then show "\<exists>k\<le>Suc n. P k" by (auto intro: exI [of _ 0] exI [of _ "Suc k" for k])
qed

lemma overload_changes_Cons:
  "overload_changes on (f # fs) \<longleftrightarrow> overload_next on (fst f) \<noteq> on \<or> overload_changes on fs"
proof -
  have "overload_changes on (f # fs) \<longleftrightarrow> (\<exists>k\<le>length fs. overload_after (overload_next on (fst f)) (take k fs) \<noteq> on)"
    unfolding overload_changes_def list.size add_0_right add_Suc_right ex_le_Suc by (simp add: overload_after_def)
  moreover have "overload_after b (take 0 fs) = b" for b by (simp add: overload_after_def)
  ultimately show ?thesis
    unfolding overload_changes_def by (cases "overload_next on (fst f) = on") (auto intro: exI [of _ 0])
qed

lemma overload_run:
  assumes "stream_buffers d"
    and "list_all (\<lambda>(xs, sequence, protocol_tuner). length xs \<le> OPENRSP_MAX_IQ_SAMPLES \<and> frame_tuner d protocol_tuner = t) fs"
  shows "overload_state (lane_for (stream_frames P fs d) t) = overload_after (overload_state (lane_for d t)) fs \<and>
    (ctx_events (stream_frames P fs d), overload_event_pending (lane_for (stream_frames P fs d) t)) =
      (if overload_event_pending (lane_for d t) \<or> \<not> overload_changes (overload_state (lane_for d t)) fs
       then (ctx_events d, overload_event_pending (lane_for d t))
       else case overload_report t (\<not> overload_state (lane_for d t)) (ctx_events d) of (r, q) \<Rightarrow> (q, r = 0))"
  using assms
proof (induction fs arbitrary: d)
  case Nil
  then show ?case by (simp add: stream_frames_def overload_after_def)
next
  case (Cons f fs)
  obtain xs sequence p where f: "f = (xs, sequence, p)" by (cases f)
  define d' where "d' = daemon_stream_callback P xs sequence p d"
  have "length xs \<le> OPENRSP_MAX_IQ_SAMPLES" "t = frame_tuner d p" using Cons.prems f by simp_all
  note one = stream_callback_report [OF Cons.prems(1) this d'_def]
  have run: "stream_frames P (f # fs) d = stream_frames P fs d'"
    "overload_after on (f # fs) = overload_after (overload_next on xs) fs" for on
    by (simp_all add: stream_frames_def overload_after_def f d'_def)
  have "stream_buffers d'" using Cons.prems one(3) by simp
  moreover have "list_all (\<lambda>(xs, sequence, p). length xs \<le> OPENRSP_MAX_IQ_SAMPLES \<and> frame_tuner d' p = t) fs"
    using Cons.prems one(4) by (simp add: list_all_iff)
  ultimately have IH: "overload_state (lane_for (stream_frames P fs d') t) = overload_after (overload_state (lane_for d' t)) fs \<and>
    (ctx_events (stream_frames P fs d'), overload_event_pending (lane_for (stream_frames P fs d') t)) =
      (if overload_event_pending (lane_for d' t) \<or> \<not> overload_changes (overload_state (lane_for d' t)) fs
       then (ctx_events d', overload_event_pending (lane_for d' t))
       else case overload_report t (\<not> overload_state (lane_for d' t)) (ctx_events d') of (r, q) \<Rightarrow> (q, r = 0))"
    by (rule Cons.IH)
  let ?on = "overload_state (lane_for d t)"
  consider (quiet) "overload_event_pending (lane_for d t) \<or> overload_next ?on xs = ?on"
    | (queued) q where "\<not> overload_event_pending (lane_for d t)" "overload_next ?on xs = (\<not> ?on)"
        "overload_report t (\<not> ?on) (ctx_events d) = (0, q)"
    | (refused) r q where "\<not> overload_event_pending (lane_for d t)" "overload_next ?on xs = (\<not> ?on)"
        "overload_report t (\<not> ?on) (ctx_events d) = (r, q)" "r \<noteq> 0"
    by (metis prod.exhaust)
  then show ?case
  proof cases
    case quiet
    then show ?thesis using IH one(1,2) unfolding run by (auto simp: overload_changes_Cons f)
  next
    case queued
    then show ?thesis using IH one(1,2) unfolding run by (auto simp: overload_changes_Cons f)
  next
    case refused
    then have "overload_report t b (ctx_events d) = (-1, ctx_events d)" for b
      using overload_report_refused by (metis fst_conv)
    then show ?thesis using IH one(1,2) refused unfolding run by (auto simp: overload_changes_Cons f)
  qed
qed

text \<open>
  C29. Overload detection has hysteresis and at most one unacknowledged report. Over any
  run of frames of a tuner, the overload state is set by a frame whose peak reaches 32700,
  and kept until a frame whose peak is at most 30000. If a report of this tuner is
  unacknowledged when the run starts, or the state never changes in it, the queue of events
  is untouched and the flag is kept. Otherwise exactly one report is offered to the queue,
  that of the first change; when the queue takes it the report stays unacknowledged, so
  that no later change is reported, and when the queue is full or stopped nothing is queued and nothing is
  left pending.
\<close>

theorem overload_hysteresis:
  assumes "stream_buffers d"
    and "list_all (\<lambda>(xs, sequence, protocol_tuner). length xs \<le> OPENRSP_MAX_IQ_SAMPLES \<and> frame_tuner d protocol_tuner = t) fs"
    and "d' = foldl (\<lambda>d (xs, sequence, protocol_tuner). daemon_stream_callback P xs sequence protocol_tuner d) d fs"
    and "on = overload_state (lane_for d t)"
    and "states = map (\<lambda>k. foldl (\<lambda>on (xs, _, _). frame_peak xs \<ge> 32700 \<or> on \<and> frame_peak xs > 30000) on (take k fs))
      [0..<Suc (length fs)]"
  shows "overload_state (lane_for d' t) = last states \<and>
    (ctx_events d', overload_event_pending (lane_for d' t)) =
      (if overload_event_pending (lane_for d t) \<or> set states = {on}
       then (ctx_events d, overload_event_pending (lane_for d t))
       else case queue_api_event PowerOverloadChange t (PowerOverloadParams (if on then 1 else 0)) (ctx_events d) of
         (r, q) \<Rightarrow> (q, r = 0))"
proof -
  have st: "states = map (\<lambda>k. overload_after on (take k fs)) [0..<Suc (length fs)]"
    unfolding assms(5) overload_after_def overload_next_def case_prod_unfold by (rule refl)
  have "set states = {on} \<longleftrightarrow> \<not> overload_changes on fs"
  proof -
    have "on \<in> set states" unfolding st by (force simp: overload_after_def image_iff)
    moreover have "overload_changes on fs \<longleftrightarrow> (\<exists>b\<in>set states. b \<noteq> on)"
      unfolding st overload_changes_def set_map set_upt bex_simps(7)
      by (simp only: Bex_def atLeastLessThan_iff less_Suc_eq_le le0 simp_thms)
    ultimately show ?thesis by blast
  qed
  moreover have "last states = overload_after on fs" unfolding st by simp
  ultimately show ?thesis
    using overload_run [OF assms(1,2), of P] assms(3,4)
    by (simp add: stream_frames_def overload_report_def case_prod_beta)
qed

text \<open>
  C40. The level the AGC works on counts the samples that are left after decimation, not
  the samples measured: in exact arithmetic a frame raises the peak register to the RMS of
  its raw samples times the square root of the decimation ratio, so a decimated stream
  looks louder to the AGC than it is.
\<close>

theorem agc_level_scaled_by_decimation:
  assumes "stream_buffers d" and "length xs \<le> OPENRSP_MAX_IQ_SAMPLES"
    and "t = frame_tuner d protocol_tuner"
    and "ys = snd (lane_process exact_fpu (lane_for d t) xs)" and "0 < length xs" and "0 < length ys"
  shows "agc_peak (lane_for (daemon_stream_callback exact_fpu xs sequence protocol_tuner d) t) =
    max (agc_peak (lane_for d t))
      (u32_of_real (sqrt (length xs / length ys) * sqrt (frame_power xs / (2 * length xs))))"
proof -
  obtain b m where gap: "frame_gap (lane_for d t) sequence = (b, m)" by (rule prod.exhaust)
  have "sqrt (frame_power xs / (2 * length ys)) =
      sqrt (length xs / length ys) * sqrt (frame_power xs / (2 * length xs))"
    using assms(5,6) by (simp add: real_sqrt_mult [symmetric] field_simps)
  then have "frame_rms exact_fpu (frame_power xs) (length ys) =
      u32_of_real (sqrt (length xs / length ys) * sqrt (frame_power xs / (2 * length xs)))"
    using assms(6) by (simp add: frame_rms_def double_ops) (simp add: exact_fpu_def)
  then show ?thesis using stream_callback_effect(4) [OF assms(1-3) gap assms(4) refl] by simp
qed

subsection \<open>The AGC\<close>

definition agc_error :: "fpu \<Rightarrow> int \<Rightarrow> compat_device_context \<Rightarrow> real" where
  "agc_error P t d =
     dsub P (agc_level P (agc_peak (lane_for d t)))
       (of_int (clamp_int (lane_agc_setpoint (lane_for d t)) (agc_minimum_setpoint (fsHz (dev_params d)))
                  (agc_maximum_setpoint (channel_for_tuner d t))))"

lemma agc_step_direction:
  assumes "agc_step P mode ch err now last_adjust since = (step, deferred, since')"
  shows "\<bar>step\<bar> \<le> 24" and "step > 0 \<Longrightarrow> err > 1.5" and "step < 0 \<Longrightarrow> err < -1"
proof -
  have clamp: "1 \<le> clamp_int x 1 24" "clamp_int x 1 24 \<le> 24" for x by (simp_all add: clamp_int_def)
  have threshold: "decay_threshold_dB ch > 0 \<Longrightarrow> 1 \<le> real (unat (decay_threshold_dB ch))"
    by (simp add: word_less_nat_alt del: of_nat_unat)
  show "\<bar>step\<bar> \<le> 24"
    using assms clamp by (auto simp: agc_step_def agc_control_step_def Let_def abs_le_iff minus_le_iff order_trans [of "-24" 1] split: if_splits)
  show "step > 0 \<Longrightarrow> err > 1.5"
    using assms clamp [of "\<lceil>dmul P (- err) (fl P 0.8)\<rceil>"]
    by (auto simp: agc_step_def agc_control_step_def Let_def split: if_splits)
  show "step < 0 \<Longrightarrow> err < -1"
    using assms clamp [of "\<lceil>dmul P err (fl P 0.4)\<rceil>"] threshold
    by (auto simp: agc_step_def agc_control_step_def Let_def simp del: of_nat_unat split: if_splits)
qed

lemma apply_gain_keeps:
  assumes "apply_rspduo_gain_locked E t s = (r, s')"
  shows "gRdB (channel_for_tuner (dev s') t) = gRdB (channel_for_tuner (dev s) t)"
    and "minGr (channel_for_tuner (dev s') t) = minGr (channel_for_tuner (dev s) t)"
    and "0 \<le> r \<Longrightarrow> \<exists>c. calls s' = calls s @ [c] \<and> 0 \<le> answer E (calls s')"
  using assms
  by (auto simp: apply_rspduo_gain_locked_def send_update_def store_gain_values_def Let_def case_prod_beta
      split: if_splits option.splits)

lemma agc_apply_gain:
  fixes s :: client and t step :: int and E :: client_env
  defines "g \<equiv> gRdB (channel_for_tuner (dev s) t)"
  defines "g' \<equiv> gRdB (channel_for_tuner (dev (agc_apply E t step s)) t)"
  shows "g' = g \<or> g' = clamp_int (g + step) (minGr (channel_for_tuner (dev s) t)) 59 \<and>
    (\<exists>c. calls (agc_apply E t step s) = calls s @ [c] \<and> 0 \<le> answer E (calls (agc_apply E t step s)))"
proof -
  let ?g = "clamp_int (g + step) (minGr (channel_for_tuner (dev s) t)) 59"
  let ?s = "update_dev (update_channel t (\<lambda>ch. ch\<lparr>gRdB := ?g\<rparr>)) s"
  obtain r s' where a: "apply_rspduo_gain_locked E t ?s = (r, s')" by (rule prod.exhaust)
  note keeps = apply_gain_keeps [OF a]
  consider (same) "?g = g" | (failed) "?g \<noteq> g" "r < 0" | (accepted) "?g \<noteq> g" "0 \<le> r" by linarith
  then show ?thesis
  proof cases
    case accepted
    then have s': "calls (agc_apply E t step s) = calls s'"
      "g' = gRdB (channel_for_tuner (dev s') t)"
      using a unfolding g_def g'_def
      by (simp_all add: agc_apply_def Let_def case_prod_beta client_milliseconds_def frame_simps)
    then show ?thesis using keeps accepted by simp
  qed (use a in \<open>simp_all add: g_def g'_def agc_apply_def Let_def\<close>)
qed

text \<open>
  C28. The AGC moves the gain towards its set point: one turn keeps the gain reduction of
  the tuner between its minimum and 59 dB and changes it by at most 24 dB, upwards only
  when the measured level is more than 1.5 dB above the set point and downwards only when
  it is more than 1 dB below; and it changes it only together with the daemon, whose
  acceptance of the new gain is the last thing that happened on the connection.
\<close>

theorem agc_moves_towards_setpoint:
  assumes "minGr (channel_for_tuner (dev s) t) \<le> gRdB (channel_for_tuner (dev s) t)"
    and "gRdB (channel_for_tuner (dev s) t) \<le> 59"
    and "s' = agc_turn E t s"
    and "g = gRdB (channel_for_tuner (dev s) t)" and "g' = gRdB (channel_for_tuner (dev s') t)"
  shows "minGr (channel_for_tuner (dev s) t) \<le> g' \<and> g' \<le> 59 \<and> \<bar>g' - g\<bar> \<le> 24 \<and>
    (g' > g \<longrightarrow> agc_error (arith E) t (dev s) > 1.5) \<and> (g' < g \<longrightarrow> agc_error (arith E) t (dev s) < -1) \<and>
    (g' \<noteq> g \<longrightarrow> (\<exists>c. calls s' = calls s @ [c] \<and> 0 \<le> answer E (calls s')))"
proof (cases "g' = g")
  case True
  then show ?thesis using assms by simp
next
  case False
  let ?l = "lane_for (dev s) t"
  let ?now = "now_ms E (clock_reads s)"
  let ?err = "agc_error (arith E) t (dev s)"
  obtain step deferred since where st: "agc_step (arith E) (lane_agc_mode ?l) (channel_for_tuner (dev s) t) ?err
      ?now (agc_last_adjust_ms ?l) (agc_decay_since_ms ?l) = (step, deferred, since)"
    using prod_cases3 by blast
  note dir = agc_step_direction [OF st]
  define s1 where "s1 = update_dev (update_lane t (\<lambda>l. l\<lparr>agc_decay_since_ms := since\<rparr>))
      (snd (client_milliseconds E (update_dev (update_lane t (\<lambda>l. l\<lparr>agc_peak := 0\<rparr>)) s)))"
  have s1: "channel_for_tuner (dev s1) = channel_for_tuner (dev s)" "calls s1 = calls s"
    by (simp_all add: s1_def client_milliseconds_def frame_simps)
  have s': "s' = agc_apply E t step s1"
    using False st unfolding assms(3-5) s1_def
    by (auto simp: agc_turn_def Let_def case_prod_beta agc_error_def client_milliseconds_def frame_simps
        split: if_splits)
  have g': "g' = clamp_int (g + step) (minGr (channel_for_tuner (dev s) t)) 59"
    and c: "\<exists>c. calls s' = calls s @ [c] \<and> 0 \<le> answer E (calls s')"
    using agc_apply_gain [where s = s1 and t = t and E = E and step = step] False s1 unfolding assms(4,5) s' by auto
  have "\<bar>g' - g\<bar> \<le> 24" "g' > g \<Longrightarrow> step > 0" "g' < g \<Longrightarrow> step < 0"
    "minGr (channel_for_tuner (dev s) t) \<le> g'" "g' \<le> 59"
    using dir(1) assms(1,2) unfolding g' assms(4) by (auto simp: clamp_int_def split: if_splits)
  then show ?thesis using dir c by blast
qed

subsection \<open>A device on the bench\<close>

definition bench_context :: compat_device_context where
  "bench_context = (initial_context exact_fpu)\<lparr>initialized := True, stream_buffers := True, ctx_stream := bench_stream 0\<rparr>"

definition bench_lane :: compat_lane where
  "bench_lane = cleared_lane\<lparr>agc_peak := 32767, lane_agc_mode := AGC_50HZ, lane_agc_setpoint := -60,
     decimator := snd (configure_decimator exact_fpu cleared_decimator 2)\<rparr>"

definition bench_client :: client where
  "bench_client = \<lparr>dev = bench_context\<lparr>lane_a := bench_lane\<rparr>, calls = [], clock_reads = 0\<rparr>"

definition bench_client_env :: client_env where
  "bench_client_env = \<lparr>arith = exact_fpu, answer = (\<lambda>_. 0), now_ms = (\<lambda>n. 1000 + 10 * of_nat n)\<rparr>"

lemma bench_context_fields [simp]:
  "stream_buffers bench_context = True" "ctx_stream bench_context = bench_stream 0"
  "frame_tuner bench_context p = Tuner_A" "frame_tuner (bench_context\<lparr>lane_a := l\<rparr>) p = Tuner_A"
  "lane_for (bench_context\<lparr>lane_a := l\<rparr>) Tuner_A = l" "channel_for_tuner (bench_context\<lparr>lane_a := l\<rparr>) t = default_channel"
  "stream_buffers (bench_context\<lparr>lane_a := l\<rparr>) = True" "overload_state (lane_for bench_context Tuner_A) = False"
  by (simp_all add: bench_context_def frame_tuner_def lane_for_def channel_for_tuner_def)
     (simp add: initial_context_def default_lane_def cleared_lane_def)

theorem iq_frames_numbered_witness:
  "\<exists>f g. stream_items (ctx_stream (daemon_stream_callback exact_fpu [(5, 6)] 13 0
      (daemon_stream_callback exact_fpu [(1, 2), (3, 4)] 10 0 bench_context))) = [f, g] \<and>
    sf_first_sample g = sf_first_sample f + of_nat (sf_samples f) + 2 * of_nat (sf_samples g) \<and> sf_reset g"
  using iq_frames_numbered [of bench_context "[(1, 2), (3, 4)]" "[(5, 6)]" 2 _ exact_fpu 10 0, OF _ _ _ _ _ _ _ refl refl]
    bench_stream_wf [of 0]
  by (auto simp: bench_stream_def)

theorem overload_hysteresis_witness:
  "overload_state (lane_for (daemon_stream_callback exact_fpu [(31000, 0)] 11 0
     (daemon_stream_callback exact_fpu [(32767, 0)] 10 0 bench_context)) Tuner_A)"
  using overload_hysteresis [of bench_context Tuner_A "[([(32767, 0)], 10, 0), ([(31000, 0)], 11, 0)]" _ exact_fpu, OF _ _ refl refl refl]
  by (simp add: frame_peak_def sample_peak_def)

lemma bench_lane_halves: "length (snd (lane_process exact_fpu (bench_lane\<lparr>agc_peak := p\<rparr>) [(3, 4), (3, 4)])) = 1"
  by (simp add: lane_process_def bench_lane_def cleared_lane_def cleared_adsb_def cleared_low_if_def
      openrsp_iq_correction_process_def cleared_iq_def openrsp_adsb_filter_process_def openrsp_low_if_process_def
      decimate_iq_def configure_decimator_def valid_decimation_factor_def decimator_step_def
      eval_nat_numeral iq_step_def iq_track_dc_def iq_balance_def Let_def)

theorem agc_level_scaled_by_decimation_witness:
  "agc_peak (lane_for (daemon_stream_callback exact_fpu [(3, 4), (3, 4)] 10 0
      (bench_context\<lparr>lane_a := bench_lane\<lparr>agc_peak := 0\<rparr>\<rparr>)) Tuner_A) =
    u32_of_real (sqrt (2 / 1) * sqrt (50 / (2 * 2)))"
  using agc_level_scaled_by_decimation [of "bench_context\<lparr>lane_a := bench_lane\<lparr>agc_peak := 0\<rparr>\<rparr>"
      "[(3, 4), (3, 4)]" Tuner_A 0 _ 10, OF _ _ _ refl]
  by (simp add: bench_lane_halves frame_power_def)

theorem agc_moves_towards_setpoint_witness:
  "20 \<le> gRdB (channel_for_tuner (dev (agc_turn bench_client_env Tuner_A bench_client)) Tuner_A) \<and>
   gRdB (channel_for_tuner (dev (agc_turn bench_client_env Tuner_A bench_client)) Tuner_A) \<le> 59 \<and>
   \<bar>gRdB (channel_for_tuner (dev (agc_turn bench_client_env Tuner_A bench_client)) Tuner_A) - 50\<bar> \<le> 24"
  using agc_moves_towards_setpoint [OF _ _ refl refl refl, of bench_client Tuner_A bench_client_env]
  by (simp add: bench_client_def)

end
