(* ===== verification/Rsp_Api.thy ===== *)
theory Rsp_Api
  imports Rsp_Client
begin

text \<open>
  The exported calls of \<open>compat/sdrplay_api_compat.c\<close> that find, select and release a
  receiver, and the error records: \<open>sdrplay_api_Open\<close> to \<open>sdrplay_api_GetDeviceParams\<close>.
  The calls come from one application thread; the device interface mutex is held exactly
  while that thread's lock depth is not zero. What a call finds outside the library (the
  answers to a device listing and to the interface lock, threads and buffers that can or
  cannot be created, the wall clock, and what the library's own threads do while the call
  sleeps) is its \<open>api_world\<close>. Debug output is left out.
\<close>

subsection \<open>The library's threads\<close>

datatype activity =
    Iq_frame "(int \<times> int) list" u32 u32
  | Device_status u32 u32
  | Duo_mode u32 u32
  | Connection_lost
  | Agc_tick
  | Stream_turn
  | Event_turn

fun activity_step :: "client_env \<Rightarrow> activity \<Rightarrow> client \<Rightarrow> client" where
  "activity_step E (Iq_frame xs sequence t) s =
     (if backend (dev s) then update_dev (daemon_stream_callback (arith E) xs sequence t) s else s)"
| "activity_step E (Device_status reason t) s =
     (if backend (dev s) then update_dev (daemon_status_callback reason t) s else s)"
| "activity_step E (Duo_mode kind t) s =
     (if backend (dev s) then update_dev (daemon_duo_callback kind t) s else s)"
| "activity_step E Connection_lost s =
     (if backend (dev s) then update_dev daemon_failure_callback s else s)"
| "activity_step E Agc_tick s =
     (if agc_thread_started (dev s) \<and> \<not> agc_stop (dev s) then agc_tick E s else s)"
| "activity_step E Stream_turn s =
     (if stream_callback_thread_started (ctx_stream (dev s))
      then case stream_dispatch (ctx_stream (dev s)) of
             None \<Rightarrow> s
           | Some (_, q) \<Rightarrow> update_dev (\<lambda>d. d\<lparr>ctx_stream := stream_delivered q\<rparr>) s
      else s)"
| "activity_step E Event_turn s =
     (if event_thread_started (ctx_events (dev s))
      then case event_dispatch (ctx_events (dev s)) of
             None \<Rightarrow> s
           | Some (_, q) \<Rightarrow> update_dev (\<lambda>d. d\<lparr>ctx_events := event_dispatched q\<rparr>) s
      else s)"

definition activity_steps :: "client_env \<Rightarrow> activity list \<Rightarrow> client \<Rightarrow> client" where
  "activity_steps E as s = fold (activity_step E) as s"

subsection \<open>State of the interface\<close>

datatype last_error =
    Daemon_unavailable
  | Update_invalid int u32 u32 sdrplay_api_ErrT
  | Boundary_missed
  | Dual_boundary_missed
  | Update_rejected u32 int

record compat_discovery_handle =
  dh_identity :: acquire_request
  dh_hw_version :: u8
  dh_rspduo_mode_mask :: u32
  dh_rspduo_sample_rate_hz :: u32

text \<open>
  \<open>device->dev\<close>: NULL, a discovery handle of the last listing, the device context, or
  any other address. The table of discovery handles is the list of its valid entries.
\<close>

datatype dev_ref = Null_dev | Handle nat | Rspduo | Other_dev

record sdrplay_api_DeviceT =
  SerNo :: "u8 list"
  hwVer :: u8
  dt_tuner :: int
  rspDuoMode :: int
  dt_valid :: bool
  rspDuoSampleFreq :: double
  dt_dev :: dev_ref

record api_state =
  api_open :: bool
  device_api_lock_depth :: u32
  daemon_api_lock :: bool
  discovery_handles :: "compat_discovery_handle list"
  last_errors :: "(last_error \<times> u64) option list"
  params_dev :: bool
  params_rx_a :: bool
  params_rx_b :: bool
  client_state :: client

record api_world =
  listing :: "device_record list option"
  lock_result :: int
  unlock_result :: int
  serial_override :: "u8 list option"
  event_thread_created :: bool
  buffers_allocated :: bool
  stream_thread_created :: bool
  agc_thread_created :: bool
  startup :: "nat \<Rightarrow> activity list"
  wakeups :: "int \<Rightarrow> activity list list"
  realtime_readable :: bool
  recorded_at :: u64

abbreviation (input) SDRPLAY_MAX_DEVICES :: nat where "SDRPLAY_MAX_DEVICES \<equiv> 16"

abbreviation ctx :: "api_state \<Rightarrow> compat_device_context" where
  "ctx a \<equiv> dev (client_state a)"

definition update_client :: "(client \<Rightarrow> client) \<Rightarrow> api_state \<Rightarrow> api_state" where
  "update_client f a = a\<lparr>client_state := f (client_state a)\<rparr>"

definition update_ctx :: "(compat_device_context \<Rightarrow> compat_device_context) \<Rightarrow> api_state \<Rightarrow> api_state" where
  "update_ctx f = update_client (update_dev f)"

definition api_ask :: "client_env \<Rightarrow> backend_call \<Rightarrow> api_state \<Rightarrow> int \<times> api_state" where
  "api_ask E c a = (let (r, s) = ask E c (client_state a) in (r, a\<lparr>client_state := s\<rparr>))"

subsection \<open>Errors\<close>

definition record_last_error :: "api_world \<Rightarrow> nat \<Rightarrow> last_error \<Rightarrow> api_state \<Rightarrow> api_state" where
  "record_last_error W type e a =
     (if type \<ge> 4 then a else a\<lparr>last_errors := (last_errors a)[type := Some (e, recorded_at W)]\<rparr>)"

definition sdrplay_api_GetErrorString :: "sdrplay_api_ErrT \<Rightarrow> string" where
  "sdrplay_api_GetErrorString err =
     (case err of
        sdrplay_api_Success \<Rightarrow> ''sdrplay_api_Success'' | sdrplay_api_Fail \<Rightarrow> ''sdrplay_api_Fail''
      | sdrplay_api_InvalidParam \<Rightarrow> ''sdrplay_api_InvalidParam''
      | sdrplay_api_OutOfRange \<Rightarrow> ''sdrplay_api_OutOfRange''
      | sdrplay_api_GainUpdateError \<Rightarrow> ''sdrplay_api_GainUpdateError''
      | sdrplay_api_RfUpdateError \<Rightarrow> ''sdrplay_api_RfUpdateError''
      | sdrplay_api_FsUpdateError \<Rightarrow> ''sdrplay_api_FsUpdateError''
      | sdrplay_api_HwError \<Rightarrow> ''sdrplay_api_HwError'' | sdrplay_api_AliasingError \<Rightarrow> ''sdrplay_api_AliasingError''
      | sdrplay_api_AlreadyInitialised \<Rightarrow> ''sdrplay_api_AlreadyInitialised''
      | sdrplay_api_NotInitialised \<Rightarrow> ''sdrplay_api_NotInitialised''
      | sdrplay_api_NotEnabled \<Rightarrow> ''sdrplay_api_NotEnabled'' | sdrplay_api_HwVerError \<Rightarrow> ''sdrplay_api_HwVerError''
      | sdrplay_api_OutOfMemError \<Rightarrow> ''sdrplay_api_OutOfMemError''
      | sdrplay_api_ServiceNotResponding \<Rightarrow> ''sdrplay_api_ServiceNotResponding''
      | sdrplay_api_StartPending \<Rightarrow> ''sdrplay_api_StartPending''
      | sdrplay_api_StopPending \<Rightarrow> ''sdrplay_api_StopPending''
      | sdrplay_api_InvalidMode \<Rightarrow> ''sdrplay_api_InvalidMode''
      | sdrplay_api_FailedVerification1 \<Rightarrow> ''sdrplay_api_FailedVerification1''
      | sdrplay_api_FailedVerification2 \<Rightarrow> ''sdrplay_api_FailedVerification2''
      | sdrplay_api_FailedVerification3 \<Rightarrow> ''sdrplay_api_FailedVerification3''
      | sdrplay_api_FailedVerification4 \<Rightarrow> ''sdrplay_api_FailedVerification4''
      | sdrplay_api_FailedVerification5 \<Rightarrow> ''sdrplay_api_FailedVerification5''
      | sdrplay_api_FailedVerification6 \<Rightarrow> ''sdrplay_api_FailedVerification6''
      | sdrplay_api_InvalidServiceVersion \<Rightarrow> ''sdrplay_api_InvalidServiceVersion'')"

text \<open>The loop over the categories keeps the latest entry, the later category on a tie.\<close>

fun latest_error :: "(last_error \<times> u64) option list \<Rightarrow> (last_error \<times> u64) option \<Rightarrow> (last_error \<times> u64) option" where
  "latest_error [] best = best"
| "latest_error (None # es) best = latest_error es best"
| "latest_error (Some e # es) best =
     latest_error es (case best of None \<Rightarrow> Some e | Some b \<Rightarrow> if snd e \<ge> snd b then Some e else best)"

definition sdrplay_api_GetLastError :: "api_state \<Rightarrow> last_error option" where
  "sdrplay_api_GetLastError a = map_option fst (latest_error (last_errors a) None)"

text \<open>The error and the time stored through the pointer; \<open>None\<close> leaves the time untouched.\<close>

definition sdrplay_api_GetLastErrorByType :: "int \<Rightarrow> api_state \<Rightarrow> last_error option \<times> u64 option" where
  "sdrplay_api_GetLastErrorByType type a =
     (if type < 0 \<or> type \<ge> 4 then (None, None)
      else case last_errors a ! nat type of
             Some (e, time) \<Rightarrow> (Some e, Some time)
           | None \<Rightarrow> (None, Some 0))"

subsection \<open>Opening and closing\<close>

definition sdrplay_api_Open :: "client_env \<Rightarrow> api_world \<Rightarrow> api_state \<Rightarrow> sdrplay_api_ErrT \<times> api_state" where
  "sdrplay_api_Open E W a =
     (if device_api_lock_depth a \<noteq> 0
      then (if api_open a then sdrplay_api_AlreadyInitialised else sdrplay_api_Fail, a)
      else if api_open a then (sdrplay_api_AlreadyInitialised, a)
      else
        let a = update_ctx (\<lambda>_. reset_parameters (arith E))
                  (a\<lparr>last_errors := replicate 4 None, params_dev := True, params_rx_a := True, params_rx_b := True\<rparr>)
        in if listing W = None then (sdrplay_api_Fail, record_last_error W 0 Daemon_unavailable a)
           else
             let (r, q) = start_event_thread (event_thread_created W) (ctx_events (ctx a));
                 a = update_ctx (\<lambda>d. d\<lparr>ctx_events := q\<rparr>) a
             in if r \<noteq> 0 then (sdrplay_api_OutOfMemError, a)
                else (sdrplay_api_Success, a\<lparr>api_open := True\<rparr>))"

definition sdrplay_api_Close :: "api_state \<Rightarrow> sdrplay_api_ErrT \<times> api_state" where
  "sdrplay_api_Close a =
     (if device_api_lock_depth a \<noteq> 0 then (sdrplay_api_Fail, a)
      else if initialized (ctx a) \<or> selected (ctx a) then (sdrplay_api_AlreadyInitialised, a)
      else (sdrplay_api_Success,
            (update_ctx (\<lambda>d. d\<lparr>ctx_events := snd (stop_event_thread (ctx_events d))\<rparr>) a)\<lparr>api_open := False\<rparr>))"

definition sdrplay_api_LockDeviceApi :: "api_world \<Rightarrow> api_state \<Rightarrow> sdrplay_api_ErrT \<times> api_state" where
  "sdrplay_api_LockDeviceApi W a =
     (if \<not> api_open a then (sdrplay_api_NotInitialised, a)
      else if device_api_lock_depth a = 0
      then if lock_result W \<noteq> 0
           then (if lock_result W = - uint (status_code OPENRSP_STATUS_BUSY) then sdrplay_api_Fail
                 else sdrplay_api_ServiceNotResponding, a)
           else (sdrplay_api_Success, a\<lparr>daemon_api_lock := True, device_api_lock_depth := 1\<rparr>)
      else (sdrplay_api_Success, a\<lparr>device_api_lock_depth := device_api_lock_depth a + 1\<rparr>))"

definition sdrplay_api_UnlockDeviceApi :: "api_world \<Rightarrow> api_state \<Rightarrow> sdrplay_api_ErrT \<times> api_state" where
  "sdrplay_api_UnlockDeviceApi W a =
     (if device_api_lock_depth a = 0
      then (if api_open a then sdrplay_api_Success else sdrplay_api_NotInitialised, a)
      else
        let a = a\<lparr>device_api_lock_depth := device_api_lock_depth a - 1\<rparr>
        in if device_api_lock_depth a = 0
           then (if unlock_result W \<noteq> 0 then sdrplay_api_ServiceNotResponding else sdrplay_api_Success,
                 a\<lparr>daemon_api_lock := False\<rparr>)
           else (sdrplay_api_Success, a))"

definition sdrplay_api_DisableHeartbeat :: "api_state \<Rightarrow> sdrplay_api_ErrT" where
  "sdrplay_api_DisableHeartbeat a =
     (if \<not> api_open a then sdrplay_api_NotInitialised
      else if selected (ctx a) then sdrplay_api_Fail else sdrplay_api_Success)"

subsection \<open>Finding devices\<close>

definition api_hardware_version :: "u16 \<Rightarrow> u8" where
  "api_hardware_version product_id =
     (if product_id = 0x2500 then 1 else if product_id = 0x3000 then 255
      else if product_id = 0x3010 then 2 else if product_id = 0x3020 then 3 else 0)"

definition discovery_handle :: "device_record \<Rightarrow> compat_discovery_handle" where
  "discovery_handle r =
     \<lparr>dh_identity = \<lparr>id_device_index = rec_device_index r, id_vendor_id = rec_vendor_id r,
                     id_product_id = rec_product_id r, id_serial = snprintf_s 64 (rec_serial r)\<rparr>,
      dh_hw_version = api_hardware_version (rec_product_id r),
      dh_rspduo_mode_mask = rec_rspduo_mode_mask r, dh_rspduo_sample_rate_hz = rec_rspduo_sample_rate_hz r\<rparr>"

definition OPENRSP0 :: "u8 list" where
  "OPENRSP0 = map (\<lambda>c. of_nat (of_char c)) ''OPENRSP0''"

definition reported_serial :: "u8 list option \<Rightarrow> nat \<Rightarrow> device_record \<Rightarrow> u8 list" where
  "reported_serial override discovered r =
     (case override of
        Some name \<Rightarrow> if discovered = 1 \<and> c_str name \<noteq> [] then name
                     else if c_str (rec_serial r) = [] then OPENRSP0 else rec_serial r
      | None \<Rightarrow> if c_str (rec_serial r) = [] then OPENRSP0 else rec_serial r)"

definition reported_device :: "u8 list option \<Rightarrow> nat \<Rightarrow> nat \<Rightarrow> device_record \<Rightarrow> sdrplay_api_DeviceT" where
  "reported_device override discovered written r =
     \<lparr>SerNo = snprintf_s 64 (reported_serial override discovered r),
      hwVer = api_hardware_version (rec_product_id r),
      dt_tuner = (if rec_product_id r = 0x3020
                  then (if rec_rspduo_mode_mask r = OPENRSP_MODE_CAP_SLAVE then Tuner_B else Tuner_Both)
                  else Tuner_A),
      rspDuoMode = (if rec_product_id r = 0x3020
                    then uint (if rec_rspduo_mode_mask r \<noteq> 0 then rec_rspduo_mode_mask r
                               else OPENRSP_MODE_CAP_SINGLE OR OPENRSP_MODE_CAP_DUAL)
                    else 0),
      dt_valid = True, rspDuoSampleFreq = Fin (of_int (uint (rec_rspduo_sample_rate_hz r))),
      dt_dev = Handle written\<rparr>"

text \<open>The loop over the records: handles and devices of those the interface supports.\<close>

fun reported :: "u8 list option \<Rightarrow> nat \<Rightarrow> nat \<Rightarrow> nat \<Rightarrow> device_record list \<Rightarrow>
    (compat_discovery_handle \<times> sdrplay_api_DeviceT) list" where
  "reported override discovered maxDevs written [] = []"
| "reported override discovered maxDevs written (r # rs) =
     (if written \<ge> maxDevs then []
      else if rec_vendor_id r \<noteq> 0x1df7 \<or> api_hardware_version (rec_product_id r) = 0 \<or>
              written \<ge> SDRPLAY_MAX_DEVICES
      then reported override discovered maxDevs written rs
      else (discovery_handle r, reported_device override discovered written r) #
           reported override discovered maxDevs (written + 1) rs)"

text \<open>With the list of devices written to the caller's array; \<open>no_count\<close> and \<open>no_array\<close> are NULL arguments.\<close>

definition sdrplay_api_GetDevices ::
  "api_world \<Rightarrow> bool \<Rightarrow> bool \<Rightarrow> nat \<Rightarrow> api_state \<Rightarrow>
   sdrplay_api_ErrT \<times> sdrplay_api_DeviceT list \<times> api_state" where
  "sdrplay_api_GetDevices W no_count no_array maxDevs a =
     (if \<not> api_open a then (sdrplay_api_NotInitialised, [], a)
      else if no_count \<or> (no_array \<and> maxDevs \<noteq> 0) then (sdrplay_api_InvalidParam, [], a)
      else case listing W of
             None \<Rightarrow> (sdrplay_api_HwError, [], a)
           | Some rs \<Rightarrow>
               let found = take SDRPLAY_MAX_DEVICES rs;
                   out = reported (serial_override W) (length found) maxDevs 0 found
               in (sdrplay_api_Success, map snd out, a\<lparr>discovery_handles := map fst out\<rparr>))"

subsection \<open>Selecting and releasing a device\<close>

definition handle_of :: "api_state \<Rightarrow> dev_ref \<Rightarrow> compat_discovery_handle option" where
  "handle_of a ref =
     (case ref of
        Handle i \<Rightarrow> if i < length (discovery_handles a) then Some (discovery_handles a ! i) else None
      | _ \<Rightarrow> None)"

definition rate_6_or_8 :: "double \<Rightarrow> bool" where
  "rate_6_or_8 rate \<longleftrightarrow> d_eq rate (Fin 6000000) \<or> d_eq rate (Fin 8000000)"

text \<open>The checks on a device whose handle was found, in order.\<close>

definition select_errors :: "compat_discovery_handle \<Rightarrow> sdrplay_api_DeviceT \<Rightarrow> sdrplay_api_ErrT" where
  "select_errors h v =
     (let rspduo = (id_product_id (dh_identity h) = 0x3020) in
      first_error
       [(hwVer v \<noteq> dh_hw_version h, sdrplay_api_InvalidParam),
        (rspduo \<and> rspDuoMode v \<noteq> RspDuoMode_Single_Tuner \<and> rspDuoMode v \<noteq> RspDuoMode_Dual_Tuner \<and>
           rspDuoMode v \<noteq> RspDuoMode_Master \<and> rspDuoMode v \<noteq> RspDuoMode_Slave, sdrplay_api_InvalidMode),
        (rspDuoMode v = RspDuoMode_Dual_Tuner \<and> dt_tuner v \<noteq> Tuner_Both, sdrplay_api_InvalidMode),
        (rspDuoMode v = RspDuoMode_Dual_Tuner \<and> \<not> rate_6_or_8 (rspDuoSampleFreq v), sdrplay_api_InvalidMode),
        (rspDuoMode v = RspDuoMode_Single_Tuner \<and> dt_tuner v = Tuner_Both, sdrplay_api_InvalidMode),
        (rspDuoMode v = RspDuoMode_Master \<and> (dt_tuner v \<noteq> Tuner_A \<or> \<not> rate_6_or_8 (rspDuoSampleFreq v)),
           sdrplay_api_InvalidMode),
        (rspDuoMode v = RspDuoMode_Slave \<and>
           (dt_tuner v \<noteq> Tuner_B \<or> dh_rspduo_mode_mask h AND OPENRSP_MODE_CAP_SLAVE = 0 \<or>
            (dh_rspduo_sample_rate_hz h \<noteq> 6000000 \<and> dh_rspduo_sample_rate_hz h \<noteq> 8000000)),
           sdrplay_api_InvalidMode),
        (dt_tuner v = Tuner_B \<and> \<not> rspduo, sdrplay_api_InvalidParam)])"

definition low_if_for_rate :: "u32 \<Rightarrow> int" where
  "low_if_for_rate rate = (if rate = 6000000 then IF_1_620 else IF_2_048)"

text \<open>The device context of a selected device, before the connection of a duo role is opened.\<close>

definition select_context ::
  "compat_discovery_handle \<Rightarrow> sdrplay_api_DeviceT \<Rightarrow> compat_device_context \<Rightarrow> compat_device_context" where
  "select_context h v d =
     d\<lparr>selected := True, ctx_identity := dh_identity h, ctx_tuner := dt_tuner v, ctx_mode := rspDuoMode v,
       duo_role := (if rspDuoMode v = RspDuoMode_Master then OPENRSP_DUO_ROLE_MASTER
                    else if rspDuoMode v = RspDuoMode_Slave then OPENRSP_DUO_ROLE_SLAVE else 0)\<rparr>"

definition select_role_parameters :: "u32 \<Rightarrow> int \<Rightarrow> compat_device_context \<Rightarrow> compat_device_context" where
  "select_role_parameters rate t d =
     update_channel t
       (\<lambda>ch. ch\<lparr>ifType := low_if_for_rate rate, bwType := (if bwType ch > BW_1_536 then BW_1_536 else bwType ch)\<rparr>)
       (d\<lparr>dev_params := (dev_params d)\<lparr>fsHz := Fin (of_int (uint rate))\<rparr>\<rparr>)"

definition select_dual_parameters :: "double \<Rightarrow> compat_device_context \<Rightarrow> compat_device_context" where
  "select_dual_parameters rate d =
     (let dual_if = (if d_eq rate (Fin 6000000) then IF_1_620 else IF_2_048)
      in update_channel Tuner_B (\<lambda>ch. ch\<lparr>ifType := dual_if\<rparr>)
           (update_channel Tuner_A (\<lambda>ch. ch\<lparr>ifType := dual_if\<rparr>)
             (d\<lparr>dev_params := (dev_params d)\<lparr>fsHz := rate\<rparr>\<rparr>)))"

text \<open>Which parameter blocks the application is given.\<close>

definition select_params :: "int \<Rightarrow> u32 \<Rightarrow> api_state \<Rightarrow> api_state" where
  "select_params t role a =
     (if role = OPENRSP_DUO_ROLE_MASTER then a\<lparr>params_dev := True, params_rx_a := True, params_rx_b := False\<rparr>
      else if role = OPENRSP_DUO_ROLE_SLAVE
      then a\<lparr>params_dev := False, params_rx_a := False, params_rx_b := True\<rparr>
      else a\<lparr>params_rx_a := (t \<noteq> Tuner_B), params_rx_b := (t \<noteq> Tuner_A)\<rparr>)"

text \<open>The connection of a master or slave, and its parameters.\<close>

definition select_role ::
  "client_env \<Rightarrow> compat_discovery_handle \<Rightarrow> sdrplay_api_DeviceT \<Rightarrow> api_state \<Rightarrow>
   int \<times> sdrplay_api_DeviceT \<times> api_state" where
  "select_role E h v a =
     (let role = duo_role (ctx a) in
      if role = 0 then (0, v, a)
      else
        let rate = (if role = OPENRSP_DUO_ROLE_MASTER then u32_of_double (rspDuoSampleFreq v)
                    else dh_rspduo_sample_rate_hz h);
            v = v\<lparr>rspDuoSampleFreq := Fin (of_int (uint rate))\<rparr>;
            a = update_ctx (select_role_parameters rate (dt_tuner v)) a;
            (r, a) = api_ask E (Backend_open_duo (ctx_identity (ctx a)) role
                       (if dt_tuner v = Tuner_B then OPENRSP_TUNER_B else OPENRSP_TUNER_A) rate) a
        in if r \<noteq> 0 then (r, v, update_ctx (\<lambda>d. d\<lparr>selected := False, duo_role := 0\<rparr>) a)
           else (0, v, update_ctx (\<lambda>d. d\<lparr>backend := True\<rparr>) a))"

definition sdrplay_api_SelectDevice ::
  "client_env \<Rightarrow> sdrplay_api_DeviceT \<Rightarrow> api_state \<Rightarrow>
   sdrplay_api_ErrT \<times> sdrplay_api_DeviceT \<times> api_state" where
  "sdrplay_api_SelectDevice E v a =
     (if \<not> api_open a then (sdrplay_api_NotInitialised, v, a)
      else if (dt_tuner v \<noteq> Tuner_A \<and> dt_tuner v \<noteq> Tuner_B \<and> dt_tuner v \<noteq> Tuner_Both) \<or> \<not> dt_valid v
      then (sdrplay_api_InvalidParam, v, a)
      else if selected (ctx a) then (sdrplay_api_AlreadyInitialised, v, a)
      else case handle_of a (dt_dev v) of
             None \<Rightarrow> (sdrplay_api_InvalidParam, v, a)
           | Some h \<Rightarrow>
               if select_errors h v \<noteq> sdrplay_api_Success then (select_errors h v, v, a)
               else
                 let a = update_ctx (select_context h v) a;
                     (r, v, a) = select_role E h v a
                 in if r \<noteq> 0 then (sdrplay_api_HwError, v, a)
                    else
                      let a = (if ctx_mode (ctx a) = RspDuoMode_Dual_Tuner
                               then update_ctx (select_dual_parameters (rspDuoSampleFreq v)) a else a)
                      in (sdrplay_api_Success, v\<lparr>dt_dev := Rspduo\<rparr>,
                          select_params (dt_tuner v) (duo_role (ctx a)) a))"

definition sdrplay_api_ReleaseDevice ::
  "client_env \<Rightarrow> sdrplay_api_DeviceT \<Rightarrow> api_state \<Rightarrow>
   sdrplay_api_ErrT \<times> sdrplay_api_DeviceT \<times> api_state" where
  "sdrplay_api_ReleaseDevice E v a =
     (if \<not> api_open a then (sdrplay_api_NotInitialised, v, a)
      else if dt_dev v \<noteq> Rspduo then (sdrplay_api_InvalidParam, v, a)
      else if initialized (ctx a) then (sdrplay_api_AlreadyInitialised, v, a)
      else
        let a = (if backend (ctx a)
                 then update_ctx (\<lambda>d. d\<lparr>backend := False\<rparr>) (snd (api_ask E Backend_close a)) else a);
            a = update_ctx (\<lambda>d. d\<lparr>selected := False, duo_role := 0, start_pending := False,
                  ctx_identity := \<lparr>id_device_index = 0, id_vendor_id = 0, id_product_id = 0,
                                   id_serial = replicate 64 0\<rparr>\<rparr>) a
        in (sdrplay_api_Success, v\<lparr>dt_dev := Null_dev\<rparr>, a\<lparr>params_dev := True\<rparr>))"

definition sdrplay_api_GetDeviceParams :: "dev_ref \<Rightarrow> api_state \<Rightarrow> sdrplay_api_ErrT" where
  "sdrplay_api_GetDeviceParams ref a =
     (if \<not> api_open a then sdrplay_api_NotInitialised
      else if ref \<noteq> Rspduo \<or> \<not> selected (ctx a) then sdrplay_api_InvalidParam
      else sdrplay_api_Success)"

end
