(* ===== verification/Rsp_Init.thy ===== *)
theory Rsp_Init
  imports Rsp_Api
begin

text \<open>
  \<open>sdrplay_api_Init\<close> and \<open>sdrplay_api_Uninit\<close> of \<open>compat/sdrplay_api_compat.c\<close>. Init is cut
  at its early returns: the checks, the gain values, the filters, the connection, the
  configuration, the threads, the wait for the first IQ frame and the gain request; the
  last stages share the way back. While Init polls for the first frame, the library's
  threads run: \<open>startup n\<close> of the call's world is what they do during the poll number \<open>n\<close>,
  of which there are at most 3000.
\<close>

subsection \<open>Buffers\<close>

definition empty_stream_frame :: compat_stream_frame where
  "empty_stream_frame =
     \<lparr>sf_samples = 0, sf_tuner = 0, sf_first_sample = 0, sf_reset = False, sf_gr_changed = False,
      sf_rf_changed = False, sf_fs_changed = False, sf_data = []\<rparr>"

definition allocate_stream_buffers :: "bool \<Rightarrow> compat_device_context \<Rightarrow> int \<times> compat_device_context" where
  "allocate_stream_buffers allocated d =
     (if allocated
      then (0, d\<lparr>stream_buffers := True,
                 ctx_stream := (ctx_stream d)\<lparr>stream_queue :=
                   replicate OPENRSP_STREAM_QUEUE_CAPACITY empty_stream_frame\<rparr>\<rparr>)
      else (-1, d\<lparr>stream_buffers := False, ctx_stream := (ctx_stream d)\<lparr>stream_queue := []\<rparr>\<rparr>))"

definition free_stream_buffers :: "compat_device_context \<Rightarrow> compat_device_context" where
  "free_stream_buffers d =
     d\<lparr>stream_buffers := False, ctx_stream := (ctx_stream d)\<lparr>stream_queue := []\<rparr>\<rparr>"

subsection \<open>The stages before the connection\<close>

definition init_gain_values :: "fpu \<Rightarrow> compat_device_context \<Rightarrow> int \<times> compat_device_context" where
  "init_gain_values P d =
     (let (r, d) = (if ctx_tuner d \<noteq> Tuner_B then store_gain_values P Tuner_A d else (0, d))
      in if r \<noteq> 0 then (r, d)
         else if ctx_tuner d \<noteq> Tuner_A then store_gain_values P Tuner_B d else (0, d))"

definition init_lane :: "fpu \<Rightarrow> int \<Rightarrow> compat_device_context \<Rightarrow> int \<times> compat_device_context" where
  "init_lane P t d =
     (let (r, d) = configure_lane_dsp P t d
      in if r \<noteq> 0 then (r, d) else configure_lane_decimator P t d)"

definition dual_parameters_valid :: "compat_device_context \<Rightarrow> bool" where
  "dual_parameters_valid d \<longleftrightarrow>
     rate_6_or_8 (fsHz (dev_params d)) \<and>
     ifType (rx_channel_a d) = (if d_eq (fsHz (dev_params d)) (Fin 6000000) then IF_1_620 else IF_2_048) \<and>
     ifType (rx_channel_b d) = ifType (rx_channel_a d) \<and>
     bwType (rx_channel_a d) \<le> BW_1_536 \<and> bwType (rx_channel_b d) \<le> BW_1_536"

text \<open>The filters of the selected tuner, and in dual mode those of tuner B as well.\<close>

definition init_filters :: "fpu \<Rightarrow> compat_device_context \<Rightarrow> sdrplay_api_ErrT \<times> compat_device_context" where
  "init_filters P d =
     (let (r, d) = init_lane P (ctx_tuner d) d in
      if r \<noteq> 0 then (sdrplay_api_OutOfRange, d)
      else if ctx_mode d = RspDuoMode_Dual_Tuner
      then if \<not> dual_parameters_valid d then (sdrplay_api_InvalidMode, d)
           else let (r, d) = init_lane P Tuner_B d
                in (if r \<noteq> 0 then sdrplay_api_OutOfRange else sdrplay_api_Success, d)
      else (sdrplay_api_Success, d))"

definition init_validate :: "fpu \<Rightarrow> compat_device_context \<Rightarrow> bool" where
  "init_validate P d \<longleftrightarrow>
     validate_dsp_configuration P (active_channel d) (fsHz (dev_params d)) = 0 \<and>
     (ctx_mode d = RspDuoMode_Dual_Tuner \<longrightarrow>
        validate_dsp_configuration P (rx_channel_b d) (fsHz (dev_params d)) = 0)"

text \<open>Everything up to the connection; an error leaves no buffers behind.\<close>

definition init_prepare :: "fpu \<Rightarrow> bool \<Rightarrow> compat_device_context \<Rightarrow> sdrplay_api_ErrT \<times> compat_device_context" where
  "init_prepare P allocated d =
     (if \<not> init_validate P d then (sdrplay_api_OutOfRange, d)
      else
        let (r, d) = init_gain_values P d in
        if r \<noteq> 0 then (sdrplay_api_OutOfRange, d)
        else
          let (r, d) = allocate_stream_buffers allocated d in
          if r \<noteq> 0 then (sdrplay_api_HwError, d)
          else
            let (e, d) = init_filters P d
            in if e \<noteq> sdrplay_api_Success then (e, free_stream_buffers d) else (sdrplay_api_Success, d))"

subsection \<open>The connection\<close>

text \<open>Giving up the connection of a single or dual device; a duo role keeps it.\<close>

definition close_backend :: "client_env \<Rightarrow> client \<Rightarrow> client" where
  "close_backend E s = update_dev (\<lambda>d. d\<lparr>backend := False\<rparr>) (snd (ask E Backend_close s))"

definition close_unless_duo :: "client_env \<Rightarrow> client \<Rightarrow> client" where
  "close_unless_duo E s = (if duo_role (dev s) = 0 then close_backend E s else s)"

definition init_open :: "client_env \<Rightarrow> client \<Rightarrow> int \<times> client" where
  "init_open E s =
     (if backend (dev s) then (0, s)
      else let (r, s) = ask E (Backend_open (ctx_identity (dev s))) s
           in if r < 0 then (r, s) else (r, update_dev (\<lambda>d. d\<lparr>backend := True\<rparr>) s))"

definition init_configure :: "client_env \<Rightarrow> client \<Rightarrow> int \<times> client" where
  "init_configure E s =
     (let config = fill_radio_config_tuner (arith E) (dev s) (ctx_tuner (dev s)) in
      if duo_role (dev s) \<noteq> 0 then ask E (Backend_configure_duo config) s
      else if ctx_mode (dev s) = RspDuoMode_Dual_Tuner
      then ask E (Backend_configure_dual
             \<lparr>dual_sample_rate_hz = u32_of_double (fsHz (dev_params (dev s))), dual_reserved = 0,
              channel_a = fill_radio_config_tuner (arith E) (dev s) Tuner_A,
              channel_b = fill_radio_config_tuner (arith E) (dev s) Tuner_B\<rparr>) s
      else ask E (Backend_configure config) s)"

definition callback_samples_for :: "double \<Rightarrow> nat" where
  "callback_samples_for rate = (if d_less (Fin 9216000) rate then 2016 else 1344)"

text \<open>
  The counters of a new stream. The sequence number of lane B is not cleared, which has no
  effect as long as none has been seen.
\<close>

definition init_counters :: "compat_device_context \<Rightarrow> compat_device_context" where
  "init_counters d =
     (let ch = active_channel d in
      d\<lparr>lane_a := (lane_a d)\<lparr>sample_number := 0, last_iq_sequence := 0, iq_sequence_seen := False,
          agc_peak := 0, lane_agc_mode := agc_enable ch, lane_agc_setpoint := setPoint_dBfs ch,
          first_callback := True\<rparr>,
        lane_b := (lane_b d)\<lparr>sample_number := 0, iq_sequence_seen := False, agc_peak := 0,
          lane_agc_mode := agc_enable (rx_channel_b d), lane_agc_setpoint := setPoint_dBfs (rx_channel_b d),
          first_callback := True\<rparr>,
        device_stream_state := 0, agc_stop := False,
        callback_samples := callback_samples_for (fsHz (dev_params d)), initialized := True\<rparr>)"

definition stop_backend :: "client_env \<Rightarrow> client \<Rightarrow> int \<times> client" where
  "stop_backend E s = ask E (if duo_role (dev s) \<noteq> 0 then Backend_stop_duo else Backend_stop) s"

text \<open>The callback thread and the buffers of a stream, taken down; then with the other threads.\<close>

definition end_callbacks :: "compat_device_context \<Rightarrow> compat_device_context" where
  "end_callbacks d =
     free_stream_buffers
       (d\<lparr>initialized := False, ctx_stream := stop_stream_callback_thread (ctx_stream d)\<rparr>)"

definition end_stream :: "compat_device_context \<Rightarrow> compat_device_context" where
  "end_stream d = end_callbacks (d\<lparr>thread_started := False, agc_thread_started := False\<rparr>)"

text \<open>The way back after the AGC thread has been created.\<close>

definition init_abort :: "client_env \<Rightarrow> client \<Rightarrow> client" where
  "init_abort E s =
     (let s = snd (stop_backend E s);
          s = update_dev (\<lambda>d. d\<lparr>agc_stop := True\<rparr>) s;
          s = close_unless_duo E s
      in update_dev end_stream s)"

text \<open>Polling until the stream state changes, at most \<open>left\<close> times.\<close>

fun startup_poll :: "client_env \<Rightarrow> (nat \<Rightarrow> activity list) \<Rightarrow> nat \<Rightarrow> nat \<Rightarrow> client \<Rightarrow> client" where
  "startup_poll E acts attempt 0 s = s"
| "startup_poll E acts attempt (Suc left) s =
     (if device_stream_state (dev s) \<noteq> 0 then s
      else startup_poll E acts (attempt + 1) left (activity_steps E (acts attempt) s))"

definition gain_request ::
  "client_env \<Rightarrow> (radio_config \<Rightarrow> u32 \<Rightarrow> backend_call) \<Rightarrow> int \<Rightarrow> client \<Rightarrow> int \<times> client" where
  "gain_request E request t s =
     (let config = fill_radio_config_tuner (arith E) (dev s) t
      in ask E (request config (OPENRSP_CHANGE_GAIN OR enabled_rspduo_control_flags config)) s)"

definition init_gain :: "client_env \<Rightarrow> client \<Rightarrow> int \<times> client" where
  "init_gain E s =
     (if ctx_mode (dev s) = RspDuoMode_Dual_Tuner
      then let (r, s) = gain_request E Backend_update Tuner_A s
           in if r \<ge> 0 then gain_request E Backend_update Tuner_B s else (r, s)
      else if duo_role (dev s) \<noteq> 0 then gain_request E Backend_update_duo (ctx_tuner (dev s)) s
      else gain_request E Backend_update (ctx_tuner (dev s)) s)"

text \<open>From the AGC thread to the end.\<close>

definition init_run :: "client_env \<Rightarrow> api_world \<Rightarrow> client \<Rightarrow> sdrplay_api_ErrT \<times> client" where
  "init_run E W s =
     (if \<not> agc_thread_created W
      then
        let s = snd (stop_backend E s);
            s = close_unless_duo E s
        in (sdrplay_api_StartPending, update_dev (\<lambda>d. end_callbacks (d\<lparr>thread_started := False\<rparr>)) s)
      else
        let s = update_dev (\<lambda>d. d\<lparr>agc_thread_started := True\<rparr>) s;
            s = startup_poll E (startup W) 0 3000 s
        in if device_stream_state (dev s) \<noteq> 1 then (sdrplay_api_HwError, init_abort E s)
           else
             let (r, s) = init_gain E s
             in if r < 0 then (sdrplay_api_HwError, init_abort E s) else (sdrplay_api_Success, s))"

text \<open>Starting the stream: the callback thread, the counters and the daemon.\<close>

definition init_start :: "client_env \<Rightarrow> api_world \<Rightarrow> bool \<times> bool \<Rightarrow> client \<Rightarrow> sdrplay_api_ErrT \<times> client" where
  "init_start E W callbacks s =
     (let (r, q) = start_stream_callback_thread (stream_thread_created W) (ctx_stream (dev s));
          s = update_dev (\<lambda>d. d\<lparr>ctx_stream := q\<rparr>) s
      in if r \<noteq> 0
         then
           let s = close_unless_duo E s
           in (sdrplay_api_OutOfMemError,
               update_dev (\<lambda>d. (free_stream_buffers d)\<lparr>stream_a_cb := False, stream_b_cb := False\<rparr>) s)
         else
           let s = update_dev (\<lambda>d. init_counters (d\<lparr>stream_a_cb := fst callbacks, stream_b_cb := snd callbacks\<rparr>)) s;
               (r, s) = ask E (if duo_role (dev s) \<noteq> 0 then Backend_start_duo else Backend_start) s
           in if r \<noteq> 0
              then
                let s = update_dev end_callbacks s
                in if r = - uint (status_code OPENRSP_STATUS_START_PENDING)
                   then (sdrplay_api_StartPending, update_dev (\<lambda>d. d\<lparr>start_pending := True\<rparr>) s)
                   else (sdrplay_api_HwError, close_unless_duo E s)
              else init_run E W (update_dev (\<lambda>d. d\<lparr>start_pending := False, thread_started := True\<rparr>) s))"

definition init_connect :: "client_env \<Rightarrow> api_world \<Rightarrow> bool \<times> bool \<Rightarrow> client \<Rightarrow> sdrplay_api_ErrT \<times> client" where
  "init_connect E W callbacks s =
     (let (r, s) = init_open E s in
      if r < 0 then (sdrplay_api_HwError, update_dev free_stream_buffers s)
      else
        let (r, s) = init_configure E s
        in if r < 0 then (sdrplay_api_HwError, update_dev free_stream_buffers (close_unless_duo E s))
           else init_start E W callbacks s)"

text \<open>The callbacks argument: whether the stream callbacks A and B are given; \<open>None\<close> is NULL.\<close>

definition sdrplay_api_Init ::
  "client_env \<Rightarrow> api_world \<Rightarrow> dev_ref \<Rightarrow> (bool \<times> bool) option \<Rightarrow> client \<Rightarrow> sdrplay_api_ErrT \<times> client" where
  "sdrplay_api_Init E W ref callbacks s =
     (if ref \<noteq> Rspduo \<or> \<not> selected (dev s) then (sdrplay_api_InvalidParam, s)
      else case callbacks of
             None \<Rightarrow> (sdrplay_api_InvalidParam, s)
           | Some cbs \<Rightarrow>
               if \<not> fst cbs \<or> (ctx_mode (dev s) = RspDuoMode_Dual_Tuner \<and> \<not> snd cbs)
               then (sdrplay_api_InvalidParam, s)
               else if initialized (dev s) then (sdrplay_api_AlreadyInitialised, s)
               else
                 let (e, d) = init_prepare (arith E) (buffers_allocated W) (dev s);
                     s = s\<lparr>dev := d\<rparr>
                 in if e \<noteq> sdrplay_api_Success then (e, s) else init_connect E W cbs s)"

definition sdrplay_api_Uninit :: "client_env \<Rightarrow> dev_ref \<Rightarrow> client \<Rightarrow> sdrplay_api_ErrT \<times> client" where
  "sdrplay_api_Uninit E ref s =
     (if ref \<noteq> Rspduo \<or> \<not> initialized (dev s) then (sdrplay_api_NotInitialised, s)
      else
        let (r, s) = (if duo_role (dev s) \<noteq> 0 then ask E Backend_stop_duo s else (0, s))
        in if r = - uint (status_code OPENRSP_STATUS_STOP_PENDING) then (sdrplay_api_StopPending, s)
           else if r \<noteq> 0 then (sdrplay_api_HwError, s)
           else
             let s = update_dev (\<lambda>d. d\<lparr>agc_stop := True\<rparr>) s;
                 s = (if duo_role (dev s) = 0
                      then close_backend E (if thread_started (dev s) then snd (ask E Backend_stop s) else s)
                      else s);
                 s = update_dev end_stream s
             in (sdrplay_api_Success,
                 update_dev (\<lambda>d. d\<lparr>ctx_events := snd (wait_for_event_idle (ctx_events d)),
                   stream_a_cb := False, stream_b_cb := False\<rparr>) s))"

end
