(* ===== verification/Rsp_Update.thy ===== *)
theory Rsp_Update
  imports Rsp_Init
begin

text \<open>
  \<open>sdrplay_api_Update\<close> of \<open>compat/sdrplay_api_compat.c\<close>, cut into the handling of the
  synchronisation flags, the wait for a sample boundary, the local changes, the request to
  the daemon, and the way back when it is refused. An update of both tuners waits for both
  boundaries and then updates one tuner after the other. A wait ends when the boundary is
  reached, when the stream fails, or at its deadline: \<open>wakeups t\<close> of the call's world are
  the times the waiting thread is woken before the deadline, each with what the library's
  threads did in between.
\<close>

subsection \<open>Synchronisation flags\<close>

definition schedule_sync :: "int \<Rightarrow> compat_device_context \<Rightarrow> compat_device_context" where
  "schedule_sync t d =
     update_lane t (\<lambda>l. l\<lparr>lane_sync_update := openrsp_sync_update_schedule (lane_sync_update l)
       (OPENRSP_SYNC_GAIN OR OPENRSP_SYNC_RF OR OPENRSP_SYNC_FS) (sampleNum (dev_params d))
       (sync_period (dev_params d))\<rparr>) d"

definition reset_categories :: "sdrplay_api_DevParamsT \<Rightarrow> u32" where
  "reset_categories p =
     (if resetGainUpdate p then OPENRSP_SYNC_GAIN else 0) OR
     (if resetRfUpdate p then OPENRSP_SYNC_RF else 0) OR
     (if resetFsUpdate p then OPENRSP_SYNC_FS else 0)"

text \<open>The flags of one tuner that a reset clears.\<close>

definition reset_sync :: "u32 \<Rightarrow> int \<Rightarrow> compat_device_context \<Rightarrow> compat_device_context" where
  "reset_sync reset t d =
     update_channel t (\<lambda>ch. ch\<lparr>
         gain_syncUpdate := (gain_syncUpdate ch \<and> \<not> has_flag reset OPENRSP_SYNC_GAIN),
         agc_syncUpdate := (agc_syncUpdate ch \<and> \<not> has_flag reset OPENRSP_SYNC_GAIN),
         rf_syncUpdate := (rf_syncUpdate ch \<and> \<not> has_flag reset OPENRSP_SYNC_RF)\<rparr>)
       (update_lane t (\<lambda>l. l\<lparr>lane_sync_update := openrsp_sync_update_reset (lane_sync_update l) reset\<rparr>) d)"

definition clear_reset_flags :: "u32 \<Rightarrow> compat_device_context \<Rightarrow> compat_device_context" where
  "clear_reset_flags reset d =
     d\<lparr>dev_params := (dev_params d)\<lparr>
         fs_syncUpdate := (fs_syncUpdate (dev_params d) \<and> \<not> has_flag reset OPENRSP_SYNC_FS),
         resetGainUpdate := False, resetRfUpdate := False, resetFsUpdate := False\<rparr>\<rparr>"

text \<open>Both flag groups for a list of tuners, with the reasons that remain.\<close>

definition update_sync_flags :: "int list \<Rightarrow> u32 \<Rightarrow> compat_device_context \<Rightarrow> u32 \<times> compat_device_context" where
  "update_sync_flags ts reason d =
     (let (reason, d) = (if has_flag reason Update_Dev_SyncUpdate
                         then (reason AND NOT Update_Dev_SyncUpdate, fold schedule_sync ts d) else (reason, d));
          reset = reset_categories (dev_params d)
      in if has_flag reason Update_Dev_ResetFlags
         then (reason AND NOT Update_Dev_ResetFlags, clear_reset_flags reset (fold (reset_sync reset) ts d))
         else (reason, d))"

definition gain_rf_categories :: "u32 \<Rightarrow> sdrplay_api_RxChannelParamsT \<Rightarrow> u32" where
  "gain_rf_categories reason ch =
     (if has_flag reason Update_Tuner_Gr \<and> gain_syncUpdate ch then OPENRSP_SYNC_GAIN else 0) OR
     (if has_flag reason Update_Ctrl_Agc \<and> agc_syncUpdate ch then OPENRSP_SYNC_GAIN else 0) OR
     (if has_flag reason Update_Tuner_Frf \<and> rf_syncUpdate ch then OPENRSP_SYNC_RF else 0)"

definition synchronous_categories :: "u32 \<Rightarrow> int \<Rightarrow> compat_device_context \<Rightarrow> u32" where
  "synchronous_categories reason t d =
     gain_rf_categories reason (channel_for_tuner d t) OR
     (if has_flag reason Update_Dev_Fs \<and> fs_syncUpdate (dev_params d) then OPENRSP_SYNC_FS else 0)"

subsection \<open>Waiting for a boundary\<close>

text \<open>The loop over the categories: the latest boundary, \<open>None\<close> when one has none, and the scheduler.\<close>

fun sync_target :: "u32 \<Rightarrow> u32 \<Rightarrow> u32 list \<Rightarrow> u32 \<Rightarrow> sync_update \<Rightarrow> u32 option \<times> sync_update" where
  "sync_target categories current [] target u = (Some target, u)"
| "sync_target categories current (b # bs) target u =
     (if categories AND b = 0 then sync_target categories current bs target u
      else case openrsp_sync_update_next u b current of
             None \<Rightarrow> (None, u)
           | Some (candidate, u) \<Rightarrow>
               sync_target categories current bs (if sint (candidate - target) > 0 then candidate else target) u)"

definition before_boundary :: "int \<Rightarrow> u32 \<Rightarrow> compat_device_context \<Rightarrow> bool" where
  "before_boundary t target d \<longleftrightarrow>
     sint (sample_number (lane_for d t) - target) < 0 \<and> device_stream_state d \<ge> 0"

fun boundary_wait :: "client_env \<Rightarrow> int \<Rightarrow> u32 \<Rightarrow> activity list list \<Rightarrow> client \<Rightarrow> int \<times> client" where
  "boundary_wait E t target [] s =
     (if before_boundary t target (dev s) then -1 else if device_stream_state (dev s) \<ge> 0 then 0 else -1, s)"
| "boundary_wait E t target (w # ws) s =
     (if before_boundary t target (dev s) then boundary_wait E t target ws (activity_steps E w s)
      else (if device_stream_state (dev s) \<ge> 0 then 0 else -1, s))"

definition wait_for_sync_boundary :: "client_env \<Rightarrow> api_world \<Rightarrow> int \<Rightarrow> u32 \<Rightarrow> client \<Rightarrow> int \<times> client" where
  "wait_for_sync_boundary E W t categories s =
     (let l = lane_for (dev s) t;
          (found, u) = sync_target categories (sample_number l) sync_bits (sample_number l) (lane_sync_update l);
          s = update_dev (update_lane t (\<lambda>l. l\<lparr>lane_sync_update := u\<rparr>)) s
      in case found of
           None \<Rightarrow> (-1, s)
         | Some target \<Rightarrow>
             if \<not> realtime_readable W then (-1, s) else boundary_wait E t target (wakeups W t) s)"

definition set_sync_waiting :: "bool \<Rightarrow> int \<Rightarrow> client \<Rightarrow> client" where
  "set_sync_waiting w t = update_dev (update_lane t (\<lambda>l. l\<lparr>sync_waiting := w\<rparr>))"

definition consume_sync :: "u32 \<Rightarrow> int \<Rightarrow> client \<Rightarrow> client" where
  "consume_sync categories t =
     update_dev (update_lane t (\<lambda>l. l\<lparr>lane_sync_update :=
       openrsp_sync_update_consume (lane_sync_update l) categories (sample_number l)\<rparr>))"

subsection \<open>The local changes\<close>

definition update_agc :: "client_env \<Rightarrow> int \<Rightarrow> client \<Rightarrow> int \<times> client" where
  "update_agc E t s =
     (let ch = channel_for_tuner (dev s) t in
      if agc_out_of_range ch (fsHz (dev_params (dev s))) then (-1, s)
      else
        let (now, s) = client_milliseconds E s
        in (0, update_dev (update_lane t (\<lambda>l. l\<lparr>agc_peak := 0, lane_agc_mode := agc_enable ch,
                 lane_agc_setpoint := setPoint_dBfs ch, agc_last_adjust_ms := now, agc_decay_since_ms := 0\<rparr>)) s))"

definition acknowledge_overload :: "int \<Rightarrow> compat_device_context \<Rightarrow> compat_device_context" where
  "acknowledge_overload t d =
     (let d = update_lane t (\<lambda>l. l\<lparr>overload_event_pending := False\<rparr>) d;
          l = lane_for d t
      in if overload_state l \<noteq> overload_reported_state l then emit_overload_event t (overload_state l) d else d)"

text \<open>A stage of the filters runs when its reasons are given and nothing has failed.\<close>

definition update_stage ::
  "bool \<Rightarrow> (compat_device_context \<Rightarrow> int \<times> compat_device_context) \<Rightarrow> int \<times> compat_device_context \<Rightarrow>
   int \<times> compat_device_context" where
  "update_stage wanted configure rd = (if fst rd \<ge> 0 \<and> wanted then configure (snd rd) else rd)"

definition update_filters :: "fpu \<Rightarrow> int \<Rightarrow> u32 \<Rightarrow> int \<times> compat_device_context \<Rightarrow> int \<times> compat_device_context" where
  "update_filters P t reason rd =
     (let rd = update_stage (has_flag reason (Update_Ctrl_DCoffsetIQimbalance OR Update_Tuner_LoMode OR Update_Dev_Fs))
                 (configure_iq_correction P t) rd;
          rd = update_stage (has_flag reason (Update_Ctrl_AdsbMode OR Update_Dev_Fs)) (configure_adsb P t) rd;
          rd = (if has_flag reason Update_Ctrl_OverloadMsgAck then (fst rd, acknowledge_overload t (snd rd)) else rd);
          rd = update_stage (has_flag reason Update_Ctrl_Decimation) (configure_lane_decimator P t) rd
      in update_stage (has_flag reason (Update_Dev_Fs OR Update_Tuner_IfType)) (configure_low_if P t) rd)"

abbreviation (input) dsp_reasons :: u32 where
  "dsp_reasons \<equiv> Update_Ctrl_DCoffsetIQimbalance OR Update_Tuner_LoMode OR Update_Ctrl_AdsbMode OR
     Update_Ctrl_Decimation OR Update_Dev_Fs OR Update_Tuner_IfType"

definition fs_changed :: "u32 \<Rightarrow> bool" where
  "fs_changed reason \<longleftrightarrow> has_flag reason (Update_Dev_Fs OR Update_Dev_Ppm)"

definition rf_changed :: "u32 \<Rightarrow> bool" where
  "rf_changed reason \<longleftrightarrow> has_flag reason Update_Tuner_Frf"

definition gr_changed :: "u32 \<Rightarrow> bool" where
  "gr_changed reason \<longleftrightarrow> has_flag reason (Update_Tuner_Gr OR Update_Tuner_GrLimits) \<or> rf_changed reason"

text \<open>Everything before the request.\<close>

definition update_local :: "client_env \<Rightarrow> int \<Rightarrow> u32 \<Rightarrow> client \<Rightarrow> int \<times> client" where
  "update_local E t reason s =
     (let s = (if fs_changed reason
               then update_dev (\<lambda>d. d\<lparr>callback_samples := callback_samples_for (fsHz (dev_params d))\<rparr>) s else s);
          (r, s) = (if has_flag reason Update_Ctrl_Agc then update_agc E t s else (0, s));
          (r, d) = update_filters (arith E) t reason (r, dev s)
      in (r, s\<lparr>dev := d\<rparr>))"

subsection \<open>The request and its outcome\<close>

text \<open>The gain values of an accepted update, and how the change is announced on the stream.\<close>

definition update_accepted :: "client_env \<Rightarrow> int \<Rightarrow> u32 \<Rightarrow> int \<Rightarrow> client \<Rightarrow> int \<times> client" where
  "update_accepted E t reason r s =
     (let (r, d) = (if gr_changed reason \<or> rf_changed reason \<or> has_flag reason Update_RspDuo_AmPortSelect
                    then let (g, d) = store_gain_values (arith E) t (dev s) in (if g \<noteq> 0 then -1 else r, d)
                    else (r, dev s));
          d = (if r > 0 then emit_update_ack (fs_changed reason) (rf_changed reason) (gr_changed reason) t d
               else update_lane t (\<lambda>l. l\<lparr>
                      pending_fs_changed := pending_fs_changed l + of_bool (fs_changed reason),
                      pending_rf_changed := pending_rf_changed l + of_bool (rf_changed reason),
                      pending_gr_changed := pending_gr_changed l + of_bool (gr_changed reason)\<rparr>) d)
      in (r, s\<lparr>dev := d\<rparr>))"

text \<open>What a refused update puts back, from the context \<open>old\<close> before it.\<close>

definition update_restore :: "int \<Rightarrow> u32 \<Rightarrow> compat_device_context \<Rightarrow> compat_device_context \<Rightarrow> compat_device_context" where
  "update_restore t reason old d =
     (let l = lane_for old t;
          d = (if has_flag reason Update_Ctrl_Agc
               then update_lane t (\<lambda>k. k\<lparr>lane_agc_mode := lane_agc_mode l, lane_agc_setpoint := lane_agc_setpoint l,
                      agc_last_adjust_ms := 0, agc_decay_since_ms := 0\<rparr>) d
               else d)
      in if has_flag reason dsp_reasons
         then (update_lane t (\<lambda>k. k\<lparr>iq_correction := iq_correction l, adsb_filter := adsb_filter l,
                 low_if_dsp := low_if_dsp l, decimator := decimator l\<rparr>) d)
               \<lparr>callback_samples := callback_samples old\<rparr>
         else d)"

definition update_apply :: "client_env \<Rightarrow> int \<Rightarrow> u32 \<Rightarrow> client \<Rightarrow> int \<times> client" where
  "update_apply E t reason s =
     (let old = dev s;
          (r, s) = update_local E t reason s;
          (r, s) = (if r \<ge> 0 then send_update E t (protocol_change_flags reason) s else (r, s));
          (r, s) = (if r \<ge> 0 then update_accepted E t reason r s else (r, s))
      in (r, if r < 0 then update_dev (update_restore t reason old) s else s))"

subsection \<open>Updates of one tuner and of both\<close>

text \<open>The master's flags for its slave are consumed.\<close>

definition consume_slave_flags :: "int \<Rightarrow> u32 \<Rightarrow> compat_device_context \<Rightarrow> compat_device_context" where
  "consume_slave_flags t extension d =
     (if has_flag extension Update_RspDuo_ResetSlaveFlags
      then update_channel t (\<lambda>ch. ch\<lparr>slave_resetGainUpdate := False, slave_resetRfUpdate := False\<rparr>) d else d)"

definition on_client :: "(client \<Rightarrow> 'r \<times> client) \<Rightarrow> api_state \<Rightarrow> 'r \<times> api_state" where
  "on_client f a = (let (r, s) = f (client_state a) in (r, a\<lparr>client_state := s\<rparr>))"

definition update_allowed :: "int \<Rightarrow> compat_device_context \<Rightarrow> bool" where
  "update_allowed t d \<longleftrightarrow>
     (if ctx_mode d = RspDuoMode_Dual_Tuner then t = Tuner_A \<or> t = Tuner_B \<or> t = Tuner_Both else t = ctx_tuner d)"

text \<open>The wait, when the update asks for one.\<close>

definition update_wait :: "client_env \<Rightarrow> api_world \<Rightarrow> int \<Rightarrow> u32 \<Rightarrow> client \<Rightarrow> int \<times> client" where
  "update_wait E W t categories s =
     (if categories = 0 then (0, s)
      else let (r, s) = wait_for_sync_boundary E W t categories (set_sync_waiting True t s)
           in (r, set_sync_waiting False t s))"

definition update_one ::
  "client_env \<Rightarrow> api_world \<Rightarrow> int \<Rightarrow> u32 \<Rightarrow> u32 \<Rightarrow> api_state \<Rightarrow> sdrplay_api_ErrT \<times> api_state" where
  "update_one E W t reason extension a =
     (let e = validate_update (arith E) (ctx a) t reason extension in
      if e \<noteq> sdrplay_api_Success then (e, record_last_error W 3 (Update_invalid t reason extension e) a)
      else
        let (reason, d) = update_sync_flags [t] reason (ctx a);
            d = consume_slave_flags t extension d;
            categories = synchronous_categories reason t d;
            (r, a) = on_client (update_wait E W t categories) (update_ctx (\<lambda>_. d) a)
        in if r \<noteq> 0 then (sdrplay_api_ServiceNotResponding, record_last_error W 3 Boundary_missed a)
           else if reason = 0 then (sdrplay_api_Success, a)
           else
             let (r, a) = on_client (update_apply E t reason) a
             in if r < 0 then (update_failure_code reason, record_last_error W 3 (Update_rejected reason r) a)
                else (sdrplay_api_Success,
                      if categories \<noteq> 0 then update_client (consume_sync categories t) a else a))"

text \<open>The guards of the call, for a single tuner.\<close>

definition update_tuner ::
  "client_env \<Rightarrow> api_world \<Rightarrow> int \<Rightarrow> u32 \<Rightarrow> u32 \<Rightarrow> api_state \<Rightarrow> sdrplay_api_ErrT \<times> api_state" where
  "update_tuner E W t reason extension a =
     (if \<not> update_allowed t (ctx a) then (sdrplay_api_InvalidParam, a)
      else if \<not> initialized (ctx a) \<or> \<not> backend (ctx a) then (sdrplay_api_NotInitialised, a)
      else update_one E W t reason extension a)"

text \<open>Tuner A, then tuner B unless that failed.\<close>

definition update_in_turn ::
  "client_env \<Rightarrow> api_world \<Rightarrow> u32 \<Rightarrow> u32 \<Rightarrow> api_state \<Rightarrow> sdrplay_api_ErrT \<times> api_state" where
  "update_in_turn E W reason extension a =
     (let (e, a) = update_tuner E W Tuner_A reason extension a
      in if e \<noteq> sdrplay_api_Success then (e, a) else update_tuner E W Tuner_B reason extension a)"

definition set_sync_flags :: "bool \<times> bool \<times> bool \<Rightarrow> sdrplay_api_RxChannelParamsT \<Rightarrow> sdrplay_api_RxChannelParamsT" where
  "set_sync_flags fs ch =
     ch\<lparr>gain_syncUpdate := fst fs, agc_syncUpdate := fst (snd fs), rf_syncUpdate := snd (snd fs)\<rparr>"

definition sync_flags :: "sdrplay_api_RxChannelParamsT \<Rightarrow> bool \<times> bool \<times> bool" where
  "sync_flags ch = (gain_syncUpdate ch, agc_syncUpdate ch, rf_syncUpdate ch)"

text \<open>Both boundaries are waited for before either tuner is updated; the flags are hidden meanwhile.\<close>

definition update_both_synchronised ::
  "client_env \<Rightarrow> api_world \<Rightarrow> u32 \<Rightarrow> u32 \<Rightarrow> u32 \<Rightarrow> u32 \<Rightarrow> api_state \<Rightarrow> sdrplay_api_ErrT \<times> api_state" where
  "update_both_synchronised E W categories_a categories_b reason extension a =
     (let release = (\<lambda>s. set_sync_waiting False Tuner_B (set_sync_waiting False Tuner_A s));
          a = update_client (\<lambda>s. set_sync_waiting True Tuner_B (set_sync_waiting True Tuner_A s)) a;
          (r, a) = (if categories_a = 0 then (0, a)
                    else on_client (wait_for_sync_boundary E W Tuner_A categories_a) a);
          (r, a) = (if r \<noteq> 0 \<or> categories_b = 0 then (r, a)
                    else on_client (wait_for_sync_boundary E W Tuner_B categories_b) a)
      in if r \<noteq> 0
         then (sdrplay_api_ServiceNotResponding, record_last_error W 3 Dual_boundary_missed (update_client release a))
         else
           let fa = sync_flags (rx_channel_a (ctx a)); fb = sync_flags (rx_channel_b (ctx a));
               hidden = (False, False, False);
               a = update_ctx (\<lambda>d. update_channel Tuner_B (set_sync_flags hidden)
                     (update_channel Tuner_A (set_sync_flags hidden) d)) a;
               (e, a) = update_in_turn E W reason extension a;
               a = update_ctx (\<lambda>d. update_channel Tuner_B (set_sync_flags fb)
                     (update_channel Tuner_A (set_sync_flags fa) d)) a;
               a = update_client release a
           in (e, if e = sdrplay_api_Success
                  then
                    let a = (if categories_a \<noteq> 0 then update_client (consume_sync categories_a Tuner_A) a else a)
                    in if categories_b \<noteq> 0 then update_client (consume_sync categories_b Tuner_B) a else a
                  else a))"

definition update_both ::
  "client_env \<Rightarrow> api_world \<Rightarrow> u32 \<Rightarrow> u32 \<Rightarrow> api_state \<Rightarrow> sdrplay_api_ErrT \<times> api_state" where
  "update_both E W reason extension a =
     (let e = validate_update (arith E) (ctx a) Tuner_A reason extension;
          e = (if e = sdrplay_api_Success then validate_update (arith E) (ctx a) Tuner_B reason extension else e)
      in if e \<noteq> sdrplay_api_Success then (e, a)
         else
           let (reason, d) = update_sync_flags [Tuner_A, Tuner_B] reason (ctx a);
               a = update_ctx (\<lambda>_. d) a
           in if reason = 0 then (sdrplay_api_Success, a)
              else
                let categories_a = gain_rf_categories reason (rx_channel_a d);
                    categories_b = gain_rf_categories reason (rx_channel_b d)
                in if categories_a \<noteq> 0 \<or> categories_b \<noteq> 0
                   then update_both_synchronised E W categories_a categories_b reason extension a
                   else update_in_turn E W reason extension a)"

definition sdrplay_api_Update ::
  "client_env \<Rightarrow> api_world \<Rightarrow> dev_ref \<Rightarrow> int \<Rightarrow> u32 \<Rightarrow> u32 \<Rightarrow> api_state \<Rightarrow>
   sdrplay_api_ErrT \<times> api_state" where
  "sdrplay_api_Update E W ref t reason extension a =
     (if ref \<noteq> Rspduo \<or> \<not> update_allowed t (ctx a) then (sdrplay_api_InvalidParam, a)
      else if \<not> initialized (ctx a) \<or> \<not> backend (ctx a) then (sdrplay_api_NotInitialised, a)
      else if t = Tuner_Both then update_both E W reason extension a
      else update_one E W t reason extension a)"

end
