(* ===== verification/Rsp_Swap.thy ===== *)
theory Rsp_Swap
  imports Rsp_Update
begin

text \<open>
  The three mode changes of \<open>compat/sdrplay_api_compat.c\<close>: the other tuner in single mode,
  the shared sample rate of a master, and single to dual mode or back. Each changes the
  parameters first, pauses the callbacks, asks the daemon, and either puts the parameters
  back or sets the filters up and starts a new sample numbering.
\<close>

subsection \<open>The other tuner\<close>

text \<open>The queue of callbacks, emptied, with the numbering of one lane or both forgotten.\<close>

definition forget_frames :: "bool \<Rightarrow> bool \<Rightarrow> stream_state \<Rightarrow> stream_state" where
  "forget_frames lane_a_too lane_b_too s =
     s\<lparr>stream_callback_head := 0, stream_callback_count := 0,
       stream_callback_seen := (stream_callback_seen s \<and> \<not> lane_a_too),
       stream_callback_seen_b := (stream_callback_seen_b s \<and> \<not> lane_b_too)\<rparr>"

definition new_epoch :: "int \<Rightarrow> compat_device_context \<Rightarrow> compat_device_context" where
  "new_epoch t = update_lane t (\<lambda>l. l\<lparr>first_callback := True, iq_sequence_seen := False, sample_number := 0\<rparr>)"

definition pause_ctx :: "compat_device_context \<Rightarrow> compat_device_context" where
  "pause_ctx d = d\<lparr>ctx_stream := pause_stream_callbacks (ctx_stream d)\<rparr>"

definition resume_ctx :: "compat_device_context \<Rightarrow> compat_device_context" where
  "resume_ctx d = d\<lparr>ctx_stream := resume_stream_callbacks (ctx_stream d)\<rparr>"

definition fail_stream :: "compat_device_context \<Rightarrow> compat_device_context" where
  "fail_stream d = d\<lparr>device_stream_state := -1\<rparr>"

text \<open>Arming the callbacks, then asking the daemon to go on.\<close>

definition resume_mode :: "client_env \<Rightarrow> client \<Rightarrow> sdrplay_api_ErrT \<times> client" where
  "resume_mode E s =
     (let (r, s) = ask E Backend_resume_mode (update_dev resume_ctx s)
      in if r < 0 then (sdrplay_api_HwError, update_dev fail_stream s) else (sdrplay_api_Success, s))"

text \<open>After the daemon has switched to tuner \<open>t\<close>.\<close>

definition swapped_tuner :: "client_env \<Rightarrow> int \<Rightarrow> client \<Rightarrow> sdrplay_api_ErrT \<times> client" where
  "swapped_tuner E t s =
     (let (r, d) = init_lane (arith E) t (pause_ctx (dev s));
          s = s\<lparr>dev := d\<rparr>
      in if r \<noteq> 0 then (sdrplay_api_HwError, update_dev (\<lambda>d. resume_ctx (fail_stream d)) s)
         else resume_mode E (update_dev (\<lambda>d. new_epoch t
                (d\<lparr>ctx_tuner := t, ctx_stream := forget_frames (t \<noteq> Tuner_B) (t = Tuner_B) (ctx_stream d)\<rparr>)) s))"

text \<open>
  With the tuner the caller's variable holds afterwards. The AM port argument is only
  checked.
\<close>

definition sdrplay_api_SwapRspDuoActiveTuner ::
  "client_env \<Rightarrow> dev_ref \<Rightarrow> int option \<Rightarrow> int \<Rightarrow> api_state \<Rightarrow> sdrplay_api_ErrT \<times> int option \<times> api_state" where
  "sdrplay_api_SwapRspDuoActiveTuner E ref current am_port a =
     (case current of
        None \<Rightarrow> (sdrplay_api_InvalidParam, None, a)
      | Some t \<Rightarrow>
          if ref \<noteq> Rspduo then (sdrplay_api_InvalidParam, current, a)
          else if \<not> initialized (ctx a) \<or> ctx_mode (ctx a) \<noteq> RspDuoMode_Single_Tuner \<or>
                  (t \<noteq> Tuner_A \<and> t \<noteq> Tuner_B) \<or> t \<noteq> ctx_tuner (ctx a)
          then (sdrplay_api_InvalidMode, current, a)
          else if am_port \<noteq> AMPORT_1 \<and> am_port \<noteq> AMPORT_2 then (sdrplay_api_InvalidParam, current, a)
          else
            let next_tuner = (if t = Tuner_A then Tuner_B else Tuner_A);
                saved = channel_for_tuner (ctx a) next_tuner;
                copied = (let ch = channel_for_tuner (ctx a) t
                          in if next_tuner = Tuner_A then ch\<lparr>biasTEnable := False\<rparr> else ch)
            in if validate_dsp_configuration (arith E) copied (fsHz (dev_params (ctx a))) \<noteq> 0
               then (sdrplay_api_OutOfRange, current, a)
               else
                 let a = update_ctx (update_channel next_tuner (\<lambda>_. copied)) a;
                     swap = \<lparr>swp_tuner = (if next_tuner = Tuner_B then OPENRSP_TUNER_B else OPENRSP_TUNER_A),
                             swp_reserved = 0, swp_config = fill_radio_config_tuner (arith E) (ctx a) next_tuner\<rparr>;
                     (r, a) = api_ask E (Backend_swap swap) (update_ctx pause_ctx a)
                 in if r < 0
                    then (sdrplay_api_HwError, current,
                          update_ctx (\<lambda>d. resume_ctx (update_channel next_tuner (\<lambda>_. saved) d)) a)
                    else
                      let (e, a) = on_client (swapped_tuner E next_tuner) a
                      in if ctx_tuner (ctx a) = next_tuner
                         then (e, Some next_tuner,
                               a\<lparr>params_rx_a := (next_tuner = Tuner_A), params_rx_b := (next_tuner = Tuner_B)\<rparr>)
                         else (e, current, a))"

subsection \<open>The shared sample rate of a master\<close>

text \<open>The rate and the intermediate frequency that goes with it.\<close>

definition set_shared_rate :: "double \<Rightarrow> int \<Rightarrow> compat_device_context \<Rightarrow> compat_device_context" where
  "set_shared_rate rate if_type d =
     d\<lparr>dev_params := (dev_params d)\<lparr>fsHz := rate\<rparr>, rx_channel_a := (rx_channel_a d)\<lparr>ifType := if_type\<rparr>\<rparr>"

definition restore_filters :: "compat_lane \<Rightarrow> compat_device_context \<Rightarrow> compat_device_context" where
  "restore_filters l =
     update_lane Tuner_A (\<lambda>k. k\<lparr>iq_correction := iq_correction l, adsb_filter := adsb_filter l,
       low_if_dsp := low_if_dsp l, decimator := decimator l\<rparr>)"

text \<open>With the sample rate the caller's variable holds afterwards.\<close>

definition sdrplay_api_SwapRspDuoDualTunerModeSampleRate ::
  "client_env \<Rightarrow> dev_ref \<Rightarrow> double option \<Rightarrow> double \<Rightarrow> client \<Rightarrow>
   sdrplay_api_ErrT \<times> double option \<times> client" where
  "sdrplay_api_SwapRspDuoDualTunerModeSampleRate E ref current rate s =
     (if ref \<noteq> Rspduo \<or> current = None then (sdrplay_api_InvalidParam, current, s)
      else if \<not> initialized (dev s) then (sdrplay_api_InvalidMode, current, s)
      else if duo_role (dev s) \<noteq> OPENRSP_DUO_ROLE_MASTER \<or> ctx_mode (dev s) \<noteq> RspDuoMode_Master
      then (sdrplay_api_InvalidParam, current, s)
      else if \<not> isfinite rate \<or> \<not> rate_6_or_8 rate then (sdrplay_api_OutOfRange, current, s)
      else if d_eq rate (fsHz (dev_params (dev s)))
      then (sdrplay_api_Success, Some (fsHz (dev_params (dev s))), s)
      else
        let old_rate = fsHz (dev_params (dev s)); old_if = ifType (rx_channel_a (dev s));
            new_if = (if d_eq rate (Fin 6000000) then IF_1_620 else IF_2_048);
            d = set_shared_rate rate new_if (dev s)
        in if validate_dsp_configuration (arith E) (rx_channel_a d) rate \<noteq> 0 then (sdrplay_api_OutOfRange, current, s)
           else
             let saved = lane_a d;
                 (q, d) = init_lane (arith E) Tuner_A (pause_ctx d);
                 s = s\<lparr>dev := d\<rparr>;
                 (r, s) = (if q = 0 then ask E (Backend_swap_duo_rate (u32_of_double rate)) s else (-1, s))
             in if r \<noteq> 0
                then (if r = - uint (status_code OPENRSP_STATUS_STOP_PENDING) then sdrplay_api_StopPending
                      else sdrplay_api_HwError, current,
                      update_dev (\<lambda>d. resume_ctx (restore_filters saved (set_shared_rate old_rate old_if d))) s)
                else (sdrplay_api_Success, Some rate,
                      update_dev (\<lambda>d. resume_ctx (new_epoch Tuner_A (d\<lparr>callback_samples := 1344\<rparr>))) s))"

subsection \<open>Single and dual mode\<close>

definition swap_mode_arguments :: "compat_device_context \<Rightarrow> int \<Rightarrow> double \<Rightarrow> int \<Rightarrow> int \<Rightarrow> int \<Rightarrow> bool" where
  "swap_mode_arguments d mode rate t bandwidth if_type \<longleftrightarrow>
     (if mode = RspDuoMode_Dual_Tuner
      then t = Tuner_Both \<and> rate_6_or_8 rate \<and>
           if_type = (if d_eq rate (Fin 6000000) then IF_1_620 else IF_2_048) \<and>
           bandwidth \<le> BW_1_536 \<and> stream_b_cb d
      else (t = Tuner_A \<or> t = Tuner_B) \<and> \<not> d_less rate (Fin 2000000) \<and> \<not> d_less (Fin 10660000) rate \<and>
           (if_type = IF_Zero \<or> bandwidth \<le> BW_1_536))"

definition swap_mode_parameters ::
  "int \<Rightarrow> double \<Rightarrow> int \<Rightarrow> int \<Rightarrow> int \<Rightarrow> int \<Rightarrow> compat_device_context \<Rightarrow> compat_device_context" where
  "swap_mode_parameters mode rate t bandwidth if_type am_port d =
     (let d = d\<lparr>dev_params := (dev_params d)\<lparr>fsHz := rate\<rparr>\<rparr>;
          set = (\<lambda>ch. ch\<lparr>bwType := bandwidth, ifType := if_type\<rparr>)
      in if mode = RspDuoMode_Dual_Tuner
         then update_channel Tuner_B set
                (update_channel Tuner_A (\<lambda>ch. (set ch)\<lparr>tuner1AmPortSel := am_port\<rparr>) d)
         else if t = Tuner_A then update_channel t (\<lambda>ch. (set ch)\<lparr>tuner1AmPortSel := am_port\<rparr>) d
         else update_channel t set d)"

definition swap_mode_valid :: "fpu \<Rightarrow> int \<Rightarrow> int \<Rightarrow> compat_device_context \<Rightarrow> bool" where
  "swap_mode_valid P mode t d \<longleftrightarrow>
     validate_dsp_configuration P
       (if mode = RspDuoMode_Dual_Tuner then rx_channel_a d else channel_for_tuner d t) (fsHz (dev_params d)) = 0 \<and>
     (mode = RspDuoMode_Dual_Tuner \<longrightarrow> validate_dsp_configuration P (rx_channel_b d) (fsHz (dev_params d)) = 0)"

definition cleared_config :: radio_config where
  "cleared_config =
     \<lparr>sample_rate_hz = 0, center_frequency_hz = 0, bandwidth_hz = 0, if_frequency_hz = 0, gain_reduction_db = 0,
      lna_state = 0, agc_mode = 0, agc_setpoint_dbfs = 0, tuner = 0, bias_tee_enabled = 0, rf_notch_enabled = 0,
      dab_notch_enabled = 0, external_reference_enabled = 0, am_port_select = 0, am_notch_enabled = 0\<rparr>"

definition swap_mode_message :: "fpu \<Rightarrow> int \<Rightarrow> int \<Rightarrow> compat_device_context \<Rightarrow> mode_swap_request" where
  "swap_mode_message P mode t d =
     (if mode = RspDuoMode_Dual_Tuner
      then \<lparr>msr_mode = OPENRSP_MODE_DUAL, msr_reserved = 0, msr_single = cleared_config,
            msr_dual = \<lparr>dual_sample_rate_hz = u32_of_double (fsHz (dev_params d)), dual_reserved = 0,
                        channel_a = fill_radio_config_tuner P d Tuner_A,
                        channel_b = fill_radio_config_tuner P d Tuner_B\<rparr>\<rparr>
      else \<lparr>msr_mode = OPENRSP_MODE_SINGLE, msr_reserved = 0, msr_single = fill_radio_config_tuner P d t,
            msr_dual = \<lparr>dual_sample_rate_hz = 0, dual_reserved = 0, channel_a = cleared_config,
                        channel_b = cleared_config\<rparr>\<rparr>)"

text \<open>The filters of the first lane, then in dual mode those of lane B; then both decimators.\<close>

definition swap_mode_filters :: "fpu \<Rightarrow> int \<Rightarrow> int \<Rightarrow> compat_device_context \<Rightarrow> int \<times> compat_device_context" where
  "swap_mode_filters P mode t d =
     (let dual = (mode = RspDuoMode_Dual_Tuner);
          first = (if mode = RspDuoMode_Single_Tuner then t else Tuner_A);
          (r, d) = configure_lane_dsp P first d;
          (r, d) = (if r = 0 \<and> dual then configure_lane_dsp P Tuner_B d else (r, d));
          (r, d) = (if r = 0 then configure_lane_decimator P first d else (r, d))
      in if r = 0 \<and> dual then configure_lane_decimator P Tuner_B d else (r, d))"

definition swap_mode_epoch :: "int \<Rightarrow> int \<Rightarrow> compat_device_context \<Rightarrow> compat_device_context" where
  "swap_mode_epoch mode t d =
     (let single = (mode = RspDuoMode_Single_Tuner);
          ch = (if mode = RspDuoMode_Dual_Tuner then rx_channel_a d else channel_for_tuner d t);
          fresh = (\<lambda>l. l\<lparr>sample_number := 0, last_iq_sequence := 0, iq_sequence_seen := False, first_callback := True\<rparr>);
          d = d\<lparr>ctx_stream := forget_frames True True (ctx_stream d), lane_a := fresh (lane_a d), lane_b := fresh (lane_b d),
                callback_samples := callback_samples_for (fsHz (dev_params d))\<rparr>;
          d = update_lane (if t = Tuner_B \<and> single then Tuner_B else Tuner_A)
                (\<lambda>l. l\<lparr>lane_agc_mode := agc_enable ch, lane_agc_setpoint := setPoint_dBfs ch\<rparr>) d
      in update_lane Tuner_B (\<lambda>l. l\<lparr>lane_agc_mode := agc_enable (rx_channel_b d),
           lane_agc_setpoint := setPoint_dBfs (rx_channel_b d)\<rparr>) d)"

text \<open>After the daemon has changed the mode.\<close>

definition swapped_mode :: "client_env \<Rightarrow> int \<Rightarrow> int \<Rightarrow> client \<Rightarrow> sdrplay_api_ErrT \<times> client" where
  "swapped_mode E mode t s =
     (let s = update_dev (\<lambda>d. (pause_ctx d)\<lparr>ctx_mode := mode, ctx_tuner := t\<rparr>) s;
          (r, d) = swap_mode_filters (arith E) mode t (dev s);
          s = s\<lparr>dev := d\<rparr>
      in if r \<noteq> 0 then (sdrplay_api_HwError, update_dev (\<lambda>d. resume_ctx (fail_stream d)) s)
         else resume_mode E (update_dev (swap_mode_epoch mode t) s))"

text \<open>With the caller's device structure.\<close>

definition sdrplay_api_SwapRspDuoMode ::
  "client_env \<Rightarrow> sdrplay_api_DeviceT \<Rightarrow> int \<Rightarrow> double \<Rightarrow> int \<Rightarrow> int \<Rightarrow> int \<Rightarrow> int \<Rightarrow> api_state \<Rightarrow>
   sdrplay_api_ErrT \<times> sdrplay_api_DeviceT \<times> api_state" where
  "sdrplay_api_SwapRspDuoMode E v mode rate t bandwidth if_type am_port a =
     (if dt_dev v \<noteq> Rspduo \<or> \<not> initialized (ctx a) then (sdrplay_api_InvalidMode, v, a)
      else if mode \<noteq> RspDuoMode_Single_Tuner \<and> mode \<noteq> RspDuoMode_Dual_Tuner then (sdrplay_api_InvalidParam, v, a)
      else if mode = ctx_mode (ctx a) then (sdrplay_api_InvalidMode, v, a)
      else if \<not> isfinite rate \<or> \<not> valid_bandwidth bandwidth \<or> \<not> valid_if if_type \<or>
              (am_port \<noteq> AMPORT_1 \<and> am_port \<noteq> AMPORT_2) \<or>
              \<not> swap_mode_arguments (ctx a) mode rate t bandwidth if_type
      then (sdrplay_api_OutOfRange, v, a)
      else
        let d = swap_mode_parameters mode rate t bandwidth if_type am_port (ctx a)
        in if \<not> swap_mode_valid (arith E) mode t d then (sdrplay_api_OutOfRange, v, a)
           else
             let old = ctx a;
                 (r, a) = api_ask E (Backend_swap_mode (swap_mode_message (arith E) mode t d))
                            (update_ctx (\<lambda>_. pause_ctx d) a)
             in if r < 0
                then (sdrplay_api_HwError, v,
                      update_ctx (\<lambda>d. resume_ctx (d\<lparr>dev_params := dev_params old, rx_channel_a := rx_channel_a old,
                        rx_channel_b := rx_channel_b old\<rparr>)) a)
                else
                  let (e, a) = on_client (swapped_mode E mode t) a
                  in (e, v\<lparr>rspDuoMode := mode, dt_tuner := t, rspDuoSampleFreq := rate\<rparr>,
                      a\<lparr>params_rx_a := (t \<noteq> Tuner_B), params_rx_b := (t \<noteq> Tuner_A)\<rparr>))"

end
