(* ===== verification/Rsp_Life.thy ===== *)
theory Rsp_Life
  imports Rsp_Swap
begin

text \<open>
  The life cycle of the client library: which resources it holds between calls. The
  invariant says that an initialised device has its connection, buffers and threads and a
  positive number of samples per callback, that an idle one has none of them but for the
  connection of a duo role, and that both queues are well formed. The calls on the daemon
  connection are read back from the trace: the handle is used and closed only while open
  and opened only while closed. This theory shows that the library's threads, the updates
  and the mode changes leave the life cycle alone; \<open>Rsp_Reach\<close> has the calls that change it.
\<close>

named_theorems life_simps \<open>what an operation leaves of the life cycle\<close>

subsection \<open>The invariant\<close>

record lifecycle =
  lc_selected :: bool
  lc_initialized :: bool
  lc_backend :: bool
  lc_buffers :: bool
  lc_callbacks :: bool
  lc_stream :: bool
  lc_agc :: bool
  lc_events :: bool
  lc_role :: u32
  lc_pending :: bool

definition life :: "compat_device_context \<Rightarrow> lifecycle" where
  "life d =
     \<lparr>lc_selected = selected d, lc_initialized = initialized d, lc_backend = backend d,
      lc_buffers = stream_buffers d, lc_callbacks = stream_callback_thread_started (ctx_stream d),
      lc_stream = thread_started d, lc_agc = agc_thread_started d,
      lc_events = event_thread_started (ctx_events d), lc_role = duo_role d, lc_pending = start_pending d\<rparr>"

definition life_ok :: "lifecycle \<Rightarrow> bool" where
  "life_ok L \<longleftrightarrow>
     (lc_initialized L \<longrightarrow> lc_selected L \<and> lc_backend L \<and> lc_buffers L \<and> lc_callbacks L \<and> lc_stream L \<and> lc_agc L) \<and>
     (\<not> lc_initialized L \<longrightarrow> \<not> lc_buffers L \<and> \<not> lc_callbacks L \<and> \<not> lc_stream L \<and> \<not> lc_agc L) \<and>
     (lc_backend L \<longrightarrow> lc_selected L) \<and> (lc_role L \<noteq> 0 \<longrightarrow> lc_backend L) \<and>
     (lc_backend L \<and> \<not> lc_initialized L \<longrightarrow> lc_role L \<noteq> 0 \<or> lc_pending L)"

definition frame_ok :: "compat_stream_frame \<Rightarrow> bool" where
  "frame_ok f \<longleftrightarrow> length (sf_data f) = sf_samples f \<and> sf_samples f \<le> OPENRSP_MAX_IQ_SAMPLES"

definition queue_ok :: "bool \<Rightarrow> stream_state \<Rightarrow> bool" where
  "queue_ok buffers q \<longleftrightarrow>
     stream_callback_head q < OPENRSP_STREAM_QUEUE_CAPACITY \<and>
     stream_callback_count q \<le> OPENRSP_STREAM_QUEUE_CAPACITY \<and>
     (buffers \<longrightarrow> stream_wf q \<and> list_all frame_ok (stream_items q))"

definition data_ok :: "compat_device_context \<Rightarrow> bool" where
  "data_ok d \<longleftrightarrow>
     queue_ok (stream_buffers d) (ctx_stream d) \<and> event_wf (ctx_events d) \<and> (initialized d \<longrightarrow> 0 < callback_samples d)"

subsection \<open>The connection, read from the trace\<close>

definition opens :: "backend_call \<Rightarrow> bool" where
  "opens c \<longleftrightarrow> (case c of Backend_open _ \<Rightarrow> True | Backend_open_duo _ _ _ _ \<Rightarrow> True | _ \<Rightarrow> False)"

text \<open>Whether the handle is open after a call; \<open>None\<close> is a misuse.\<close>

definition handle_step :: "bool \<Rightarrow> backend_call \<Rightarrow> int \<Rightarrow> bool option" where
  "handle_step is_open c r =
     (if opens c then (if is_open then None else Some (r = 0))
      else if is_open then Some (c \<noteq> Backend_close) else None)"

fun handle_scan :: "(backend_call list \<Rightarrow> int) \<Rightarrow> backend_call list \<Rightarrow> bool \<Rightarrow> backend_call list \<Rightarrow> bool option" where
  "handle_scan A before is_open [] = Some is_open"
| "handle_scan A before is_open (c # cs) =
     (case handle_step is_open c (A (before @ [c])) of
        None \<Rightarrow> None
      | Some is_open \<Rightarrow> handle_scan A (before @ [c]) is_open cs)"

lemma handle_scan_snoc:
  "handle_scan A before is_open (cs @ [c]) =
     (case handle_scan A before is_open cs of
        None \<Rightarrow> None
      | Some is_open \<Rightarrow> handle_step is_open c (A (before @ cs @ [c])))"
  by (induction A before is_open cs rule: handle_scan.induct) (auto split: option.splits)

definition conn_ok :: "client_env \<Rightarrow> client \<Rightarrow> bool" where
  "conn_ok E s \<longleftrightarrow> handle_scan (answer E) [] False (calls s) = Some (backend (dev s))"

definition settled :: "client_env \<Rightarrow> client \<Rightarrow> bool" where
  "settled E s \<longleftrightarrow> life_ok (life (dev s)) \<and> data_ok (dev s) \<and> conn_ok E s"

subsection \<open>Operations that leave the life cycle alone\<close>

lemma life_basic [life_simps]:
  "life (update_lane t f d) = life d" "life (update_channel t g d) = life d"
  "life (d\<lparr>dev_params := p\<rparr>) = life d" "life (d\<lparr>rx_channel_a := ch\<rparr>) = life d" "life (d\<lparr>rx_channel_b := ch\<rparr>) = life d"
  "life (d\<lparr>device_stream_state := z\<rparr>) = life d" "life (d\<lparr>callback_samples := n\<rparr>) = life d"
  "life (d\<lparr>ctx_tuner := z\<rparr>) = life d" "life (d\<lparr>ctx_mode := z\<rparr>) = life d" "life (d\<lparr>agc_stop := b\<rparr>) = life d"
  "life (d\<lparr>ctx_identity := i\<rparr>) = life d" "life (d\<lparr>stream_a_cb := b\<rparr>) = life d" "life (d\<lparr>stream_b_cb := b\<rparr>) = life d"
  "life (d\<lparr>lane_a := l\<rparr>) = life d" "life (d\<lparr>lane_b := l\<rparr>) = life d"
  by (simp_all add: life_def update_lane_def update_channel_def)

lemma life_changes [life_simps]:
  "life (d\<lparr>selected := b\<rparr>) = (life d)\<lparr>lc_selected := b\<rparr>"
  "life (d\<lparr>initialized := b\<rparr>) = (life d)\<lparr>lc_initialized := b\<rparr>"
  "life (d\<lparr>backend := b\<rparr>) = (life d)\<lparr>lc_backend := b\<rparr>"
  "life (d\<lparr>stream_buffers := b\<rparr>) = (life d)\<lparr>lc_buffers := b\<rparr>"
  "life (d\<lparr>ctx_stream := q\<rparr>) = (life d)\<lparr>lc_callbacks := stream_callback_thread_started q\<rparr>"
  "life (d\<lparr>thread_started := b\<rparr>) = (life d)\<lparr>lc_stream := b\<rparr>"
  "life (d\<lparr>agc_thread_started := b\<rparr>) = (life d)\<lparr>lc_agc := b\<rparr>"
  "life (d\<lparr>ctx_events := v\<rparr>) = (life d)\<lparr>lc_events := event_thread_started v\<rparr>"
  "life (d\<lparr>duo_role := r\<rparr>) = (life d)\<lparr>lc_role := r\<rparr>"
  "life (d\<lparr>start_pending := b\<rparr>) = (life d)\<lparr>lc_pending := b\<rparr>"
  by (simp_all add: life_def)

lemma life_fields [simp]:
  "lc_selected (life d) = selected d" "lc_initialized (life d) = initialized d" "lc_backend (life d) = backend d"
  "lc_buffers (life d) = stream_buffers d" "lc_callbacks (life d) = stream_callback_thread_started (ctx_stream d)"
  "lc_stream (life d) = thread_started d" "lc_agc (life d) = agc_thread_started d"
  "lc_events (life d) = event_thread_started (ctx_events d)" "lc_role (life d) = duo_role d"
  "lc_pending (life d) = start_pending d"
  by (simp_all add: life_def)

lemma data_basic [life_simps]:
  "data_ok (update_lane t f d) = data_ok d" "data_ok (update_channel t g d) = data_ok d"
  "data_ok (d\<lparr>dev_params := p\<rparr>) = data_ok d" "data_ok (d\<lparr>rx_channel_a := ch\<rparr>) = data_ok d"
  "data_ok (d\<lparr>rx_channel_b := ch\<rparr>) = data_ok d" "data_ok (d\<lparr>device_stream_state := z\<rparr>) = data_ok d"
  "data_ok (d\<lparr>ctx_tuner := z\<rparr>) = data_ok d" "data_ok (d\<lparr>ctx_mode := z\<rparr>) = data_ok d"
  "data_ok (d\<lparr>agc_stop := b\<rparr>) = data_ok d" "data_ok (d\<lparr>ctx_identity := i\<rparr>) = data_ok d"
  "data_ok (d\<lparr>stream_a_cb := b\<rparr>) = data_ok d" "data_ok (d\<lparr>stream_b_cb := b\<rparr>) = data_ok d"
  "data_ok (d\<lparr>lane_a := l\<rparr>) = data_ok d" "data_ok (d\<lparr>lane_b := l\<rparr>) = data_ok d"
  "data_ok (d\<lparr>selected := b\<rparr>) = data_ok d" "data_ok (d\<lparr>backend := b\<rparr>) = data_ok d"
  "data_ok (d\<lparr>thread_started := b\<rparr>) = data_ok d" "data_ok (d\<lparr>agc_thread_started := b\<rparr>) = data_ok d"
  "data_ok (d\<lparr>duo_role := r\<rparr>) = data_ok d" "data_ok (d\<lparr>start_pending := b\<rparr>) = data_ok d"
  by (simp_all add: data_ok_def update_lane_def update_channel_def)

lemma configure_life [life_simps]:
  "life (snd (configure_iq_correction P t d)) = life d" "data_ok (snd (configure_iq_correction P t d)) = data_ok d"
  "life (snd (configure_adsb P t d)) = life d" "data_ok (snd (configure_adsb P t d)) = data_ok d"
  "life (snd (configure_low_if P t d)) = life d" "data_ok (snd (configure_low_if P t d)) = data_ok d"
  "life (snd (configure_lane_decimator P t d)) = life d" "data_ok (snd (configure_lane_decimator P t d)) = data_ok d"
  "life (snd (configure_lane_dsp P t d)) = life d" "data_ok (snd (configure_lane_dsp P t d)) = data_ok d"
  by (simp_all add: configure_iq_correction_def configure_adsb_def configure_low_if_def configure_lane_decimator_def
      configure_lane_dsp_def case_prod_beta Let_def life_basic data_basic)

lemma init_lane_life [life_simps]:
  "life (snd (init_lane P t d)) = life d" "data_ok (snd (init_lane P t d)) = data_ok d"
  by (simp_all add: init_lane_def case_prod_beta Let_def life_simps)

lemma store_gain_life [life_simps]:
  "life (snd (store_gain_values P t d)) = life d" "data_ok (snd (store_gain_values P t d)) = data_ok d"
  by (simp_all add: store_gain_values_def Let_def life_simps split: option.splits)

subsection \<open>The queues\<close>

lemma list_all_tl: "list_all P xs \<Longrightarrow> list_all P (tl xs)"
  by (cases xs) simp_all

lemma stream_push_ok:
  assumes "queue_ok True q" "frame_ok f"
  shows "queue_ok True (stream_push f q)"
proof -
  have wf: "stream_wf q" and items: "list_all frame_ok (stream_items q)"
    and le: "stream_callback_count q \<le> 8" using assms(1) by (simp_all add: queue_ok_def)
  have bounds: "stream_wf p \<Longrightarrow> stream_callback_head p < 8 \<and> stream_callback_count p \<le> 8" for p
    by (simp add: stream_wf_def ring_wf_def)
  have put: "queue_ok True (stream_put g p)"
    if "stream_wf p" "list_all frame_ok (stream_items p)" "stream_callback_count p < 8" "frame_ok g" for g p
    using that bounds [OF stream_put_wf [OF that(1,3)]]
    by (simp add: queue_ok_def stream_put_wf stream_put_items)
  have join: "frame_ok (join_flags d f)" for d using assms(2) by (simp add: frame_ok_def join_flags_def)
  show ?thesis
    using assms wf items le put [OF wf items] put [OF stream_drop_wf [OF wf] _ _ join]
    by (auto simp: stream_push_cases stream_drop_items list_all_tl)
qed

lemma queue_stream_callback_ok:
  assumes "queue_ok True q" "length xs = n" "n \<le> OPENRSP_MAX_IQ_SAMPLES"
  shows "queue_ok True (queue_stream_callback t n fst_sample r g rf fs xs q)"
proof -
  let ?f = "\<lparr>sf_samples = n, sf_tuner = t, sf_first_sample = fst_sample, sf_reset = r, sf_gr_changed = g,
    sf_rf_changed = rf, sf_fs_changed = fs, sf_data = xs\<rparr>"
  have "queue_ok True (stream_push ?f q)"
    using assms by (intro stream_push_ok) (simp_all add: frame_ok_def)
  then show ?thesis by (simp add: stream_push_def)
qed

lemma queue_stream_callback_thread [simp]:
  "stream_callback_thread_started (queue_stream_callback t n fst_sample r g rf fs xs q) =
     stream_callback_thread_started q"
  by (simp add: queue_stream_callback_def stream_put_def stream_drop_oldest_def Let_def)

lemma stream_dispatch_thread:
  "stream_dispatch q = Some (x, q') \<Longrightarrow>
   stream_callback_thread_started (stream_delivered q') = stream_callback_thread_started q"
  by (auto simp: stream_dispatch_def stream_delivered_def stream_take_def Let_def split: if_splits)

lemma stream_dispatch_ok:
  assumes "queue_ok b q" "stream_dispatch q = Some (x, q')"
  shows "queue_ok b (stream_delivered q')"
    and "b \<Longrightarrow> frame_ok (sd_frame x)"
proof -
  have q': "q' = stream_take q" "0 < stream_callback_count q" "x = \<lparr>sd_frame = stream_queue q ! stream_callback_head q,
      sd_reset = stream_take_reset q\<rparr>"
    using assms(2) by (auto simp: stream_dispatch_def stream_ready_def split: if_splits)
  have "stream_callback_head q' < 8" "stream_callback_count q' \<le> 8"
    using assms(1) q' by (auto simp: queue_ok_def)
  moreover have "stream_wf q' \<and> list_all frame_ok (stream_items q')" if b
    using assms(1) that q' by (simp add: queue_ok_def stream_take_wf stream_take_items list_all_tl)
  ultimately show "queue_ok b (stream_delivered q')"
    by (simp add: queue_ok_def) (simp add: stream_delivered_def)
  show "frame_ok (sd_frame x)" if b
  proof -
    have wf: "stream_wf q" and items: "list_all frame_ok (stream_items q)"
      using assms(1) that by (simp_all add: queue_ok_def)
    have "hd (stream_items q) \<in> set (stream_items q)" using q'(2) by (intro hd_in_set) simp
    then show ?thesis using items stream_head_items [OF wf q'(2)] q'(3) by (simp add: list_all_iff)
  qed
qed

lemma event_thread_kept [simp]:
  "event_thread_started (event_dispatched v) = event_thread_started v"
  "event_thread_started (snd (queue_api_event k t p v)) = event_thread_started v"
  by (simp_all add: event_dispatched_def queue_api_event_def Let_def)

lemma queue_event_ok:
  assumes "event_wf v"
  shows "event_wf (snd (queue_api_event k t p v))"
proof -
  have "event_wf (event_put e v)" if "event_count v \<noteq> 32" for e
    using that assms event_wf_le [OF assms] by (intro event_put_wf) auto
  moreover have "event_wf (event_put e (event_drop_oldest v))" if "event_count v = 32" for e
    using that assms by (intro event_put_wf event_drop_wf) simp_all
  ultimately show ?thesis
    using assms by (simp add: queue_api_event_def Let_def)
qed

lemma event_drain_ok:
  "event_wf v \<Longrightarrow> event_wf (snd (event_drain n v))"
  "event_thread_started (snd (event_drain n v)) = event_thread_started v"
  by (induction n v rule: event_drain.induct)
     (auto simp: event_dispatch_def case_prod_beta event_take_wf Let_def split: if_splits)

subsection \<open>The library's threads\<close>

lemma data_events: "data_ok d \<Longrightarrow> event_wf v \<Longrightarrow> data_ok (d\<lparr>ctx_events := v\<rparr>)"
  by (simp add: data_ok_def)

lemma queue_event_life [life_simps]:
  "life (snd (queue_event k t p d)) = life d"
  "data_ok d \<Longrightarrow> data_ok (snd (queue_event k t p d))"
proof -
  show "life (snd (queue_event k t p d)) = life d"
    by (simp add: queue_event_def case_prod_beta life_def)
  assume "data_ok d"
  then show "data_ok (snd (queue_event k t p d))"
    unfolding queue_event_def Let_def case_prod_beta snd_conv
    by (intro data_events queue_event_ok) (simp_all add: data_ok_def)
qed

lemma emit_overload_life [life_simps]:
  "life (emit_overload_event t b d) = life d"
  "data_ok d \<Longrightarrow> data_ok (emit_overload_event t b d)"
  by (simp_all add: emit_overload_event_def case_prod_beta Let_def life_simps)

lemma track_overload_life [life_simps]:
  "life (track_overload t k d) = life d"
  "data_ok d \<Longrightarrow> data_ok (track_overload t k d)"
  by (simp_all add: track_overload_def Let_def life_simps)

lemma data_queue:
  "data_ok d \<Longrightarrow> stream_buffers d \<Longrightarrow> length xs = n \<Longrightarrow> n \<le> OPENRSP_MAX_IQ_SAMPLES \<Longrightarrow>
   data_ok (d\<lparr>ctx_stream := queue_stream_callback t n fst_sample r g rf fs xs (ctx_stream d)\<rparr>)"
  by (simp add: data_ok_def queue_stream_callback_ok)

lemma life_queue [life_simps]:
  "life (d\<lparr>ctx_stream := queue_stream_callback t n fst_sample r g rf fs xs (ctx_stream d)\<rparr>) = life d"
  by (simp add: life_def)

text \<open>The stages of a lane work in place, so they never lengthen a frame.\<close>

lemma length_inplace_loop: "length (fst (snd (inplace_loop step left rd wr buf s))) = length buf"
  by (induction step left rd wr buf s rule: inplace_loop.induct) (simp split: prod.split option.split)+

lemma length_lane_process: "length (snd (lane_process P l xs)) \<le> length xs"
  by (simp add: lane_process_def Let_def case_prod_beta openrsp_iq_correction_process_def openrsp_adsb_filter_process_def
      openrsp_low_if_process_def decimate_iq_def length_inplace_loop min_le_iff_disj)

lemma stream_callback_life [life_simps]:
  "life (daemon_stream_callback P xs sequence t d) = life d"
  "data_ok d \<Longrightarrow> data_ok (daemon_stream_callback P xs sequence t d)"
proof -
  show "life (daemon_stream_callback P xs sequence t d) = life d"
    by (simp add: daemon_stream_callback_def Let_def case_prod_beta life_simps del: life_changes)
  assume d: "data_ok d"
  show "data_ok (daemon_stream_callback P xs sequence t d)"
  proof (cases "stream_buffers d \<and> length xs \<le> OPENRSP_MAX_IQ_SAMPLES")
    case True
    then have ok: "(\<not> stream_buffers (update_lane u f (d\<lparr>device_stream_state := 1\<rparr>)) \<or>
        length xs > OPENRSP_MAX_IQ_SAMPLES) = False" for u f
      by (simp add: frame_simps)
    show ?thesis
      unfolding daemon_stream_callback_def Let_def case_prod_beta ok if_False
      by (rule data_queue)
        (use True d order_trans [OF length_lane_process] in \<open>simp_all add: life_simps frame_simps\<close>)
  next
    case False
    then show ?thesis
      using d by (auto simp: daemon_stream_callback_def Let_def case_prod_beta frame_simps life_simps)
  qed
qed

lemma other_callbacks_life [life_simps]:
  "life (daemon_status_callback reason t d) = life d" "life (daemon_duo_callback kind t d) = life d"
  "life (daemon_failure_callback d) = life d"
  "data_ok d \<Longrightarrow> data_ok (daemon_status_callback reason t d)"
  "data_ok d \<Longrightarrow> data_ok (daemon_duo_callback kind t d)"
  "data_ok d \<Longrightarrow> data_ok (daemon_failure_callback d)"
  by (simp_all add: daemon_status_callback_def daemon_duo_callback_def daemon_failure_callback_def Let_def life_simps)

definition keeps :: "client_env \<Rightarrow> client \<Rightarrow> client \<Rightarrow> bool" where
  "keeps E s s' \<longleftrightarrow> (settled E s \<longrightarrow> settled E s' \<and> life (dev s') = life (dev s))"

lemma keeps_refl [intro, simp]: "keeps E s s"
  by (simp add: keeps_def)

lemma keeps_trans [trans]: "keeps E s s' \<Longrightarrow> keeps E s' s'' \<Longrightarrow> keeps E s s''"
  by (auto simp: keeps_def)

lemma keeps_if: "(b \<Longrightarrow> keeps E s s') \<Longrightarrow> (\<not> b \<Longrightarrow> keeps E s s'') \<Longrightarrow> keeps E s (if b then s' else s'')"
  by simp

lemma life_backend: "life d' = life d \<Longrightarrow> backend d' = backend d"
  by (metis life_fields(3))

lemma keeps_dev:
  assumes "life (f (dev s)) = life (dev s)" "data_ok (dev s) \<Longrightarrow> data_ok (f (dev s))"
  shows "keeps E s (update_dev f s)"
  using assms life_backend [OF assms(1)] by (simp add: keeps_def settled_def conn_ok_def)

lemma keeps_dev_trans:
  assumes "keeps E s s'" "life (f (dev s')) = life (dev s')" "data_ok (dev s') \<Longrightarrow> data_ok (f (dev s'))"
  shows "keeps E s (update_dev f s')"
  using assms(1) keeps_dev [of f s' E] assms(2,3) keeps_trans by blast

lemma conn_ask:
  "conn_ok E s \<Longrightarrow> backend (dev s) \<Longrightarrow> \<not> opens c \<Longrightarrow> c \<noteq> Backend_close \<Longrightarrow> conn_ok E (snd (ask E c s))"
  by (simp add: conn_ok_def handle_scan_snoc handle_step_def)

lemma keeps_ask:
  "backend (dev s) \<Longrightarrow> \<not> opens c \<Longrightarrow> c \<noteq> Backend_close \<Longrightarrow> keeps E s (snd (ask E c s))"
  by (simp add: keeps_def settled_def conn_ask)

lemma keeps_backend: "keeps E s s' \<Longrightarrow> settled E s \<Longrightarrow> backend (dev s') = backend (dev s)"
  using life_backend [of "dev s'" "dev s"] by (simp add: keeps_def)

lemma keeps_clock [simp]: "keeps E s (snd (client_milliseconds E s))"
  by (simp add: keeps_def settled_def conn_ok_def)

lemma send_update_dev [simp]: "dev (snd (send_update E t flags s)) = dev s"
  by (simp add: send_update_def Let_def)

lemma keeps_send_update: "backend (dev s) \<Longrightarrow> keeps E s (snd (send_update E t flags s))"
  unfolding send_update_def Let_def by (rule keeps_ask) (simp_all add: opens_def)

lemma keeps_store: "keeps E s (s\<lparr>dev := snd (store_gain_values P t (dev s))\<rparr>)"
  using keeps_dev [of "\<lambda>d. snd (store_gain_values P t d)" s E] by (simp add: life_simps update_dev_def)

lemma keeps_apply_gain: "backend (dev s) \<Longrightarrow> keeps E s (snd (apply_rspduo_gain_locked E t s))"
proof -
  assume b: "backend (dev s)"
  have s: "keeps E s (snd (send_update E t OPENRSP_CHANGE_GAIN s))" using b by (rule keeps_send_update)
  then have "keeps E s ((snd (send_update E t OPENRSP_CHANGE_GAIN s))
      \<lparr>dev := snd (store_gain_values (arith E) t (dev (snd (send_update E t OPENRSP_CHANGE_GAIN s))))\<rparr>)"
    using keeps_store by (rule keeps_trans)
  with s show ?thesis by (simp add: apply_rspduo_gain_locked_def Let_def case_prod_beta)
qed

lemma apply_gain_backend: "backend (dev (snd (apply_rspduo_gain_locked E t s))) = backend (dev s)"
  by (simp add: apply_rspduo_gain_locked_def Let_def case_prod_beta store_gain_values_def frame_simps split: option.splits)

lemma keeps_agc_apply: "backend (dev s) \<Longrightarrow> keeps E s (agc_apply E t step s)"
proof -
  assume b: "backend (dev s)"
  define g where "g = clamp_int (gRdB (channel_for_tuner (dev s) t) + step) (minGr (channel_for_tuner (dev s) t)) 59"
  define s1 where "s1 = update_dev (update_channel t (\<lambda>ch. ch\<lparr>gRdB := g\<rparr>)) s"
  obtain r s2 where a: "apply_rspduo_gain_locked E t s1 = (r, s2)" by (rule prod.exhaust)
  have "keeps E s s1" unfolding s1_def by (rule keeps_dev) (simp_all add: life_simps)
  also have "keeps E s1 s2"
    using keeps_apply_gain [of s1 E t] b a by (simp add: s1_def frame_simps)
  finally have 2: "keeps E s s2" .
  define s3 where "s3 = snd (client_milliseconds E s2)"
  have 3: "keeps E s s3" unfolding s3_def using 2 keeps_clock keeps_trans by blast
  show ?thesis
    unfolding agc_apply_def Let_def g_def [symmetric] s1_def [symmetric] a case_prod_beta snd_conv fst_conv s3_def [symmetric]
    by (intro keeps_if keeps_dev_trans keeps_refl 2 3) (simp_all add: life_simps)
qed

lemma settled_initialized: "settled E s \<Longrightarrow> initialized (dev s) \<Longrightarrow> backend (dev s)"
  by (simp add: settled_def life_ok_def)

lemma keeps_agc_turn: "keeps E s (agc_turn E t s)"
proof (cases "initialized (dev s) \<and> settled E s")
  case True
  then have b: "backend (dev s)" using settled_initialized by blast
  have 0: "keeps E s (update_dev (update_lane t f) s)" for f by (rule keeps_dev) (simp_all add: life_simps)
  have 1: "keeps E s (snd (client_milliseconds E (update_dev (update_lane t f) s)))" for f
    using 0 keeps_clock by (rule keeps_trans)
  have 2: "keeps E s (update_dev (update_lane t g) (snd (client_milliseconds E (update_dev (update_lane t f) s))))" for f g
    by (rule keeps_dev_trans [OF 1]) (simp_all add: life_simps)
  have 3: "keeps E s (agc_apply E t step
      (update_dev (update_lane t g) (snd (client_milliseconds E (update_dev (update_lane t f) s)))))" for f g step
    by (rule keeps_trans [OF 2 keeps_agc_apply]) (simp add: b frame_simps)
  show ?thesis
    unfolding agc_turn_def Let_def case_prod_beta
    by (intro keeps_if 0 2 3 keeps_dev_trans [OF 2]) (simp_all add: life_simps)
next
  case False
  have 0: "keeps E s (update_dev (update_lane t f) s)" for f by (rule keeps_dev) (simp_all add: life_simps)
  show ?thesis
  proof (cases "settled E s")
    case True
    then have "\<not> initialized (dev s)" using False by simp
    then show ?thesis using 0 by (simp add: agc_turn_def Let_def frame_simps)
  qed (simp add: keeps_def)
qed

lemma keeps_activity: "keeps E s (activity_step E x s)"
proof (cases x)
  case (Iq_frame xs sequence t)
  then show ?thesis by (simp add: keeps_dev life_simps)
next
  case Agc_tick
  then show ?thesis
    using keeps_agc_turn [of E s] keeps_trans [OF keeps_agc_turn keeps_agc_turn] by (simp add: agc_tick_def)
next
  case Stream_turn
  show ?thesis
  proof (cases "stream_dispatch (ctx_stream (dev s))")
    case None
    then show ?thesis using Stream_turn by simp
  next
    case (Some r)
    then obtain y q where r: "stream_dispatch (ctx_stream (dev s)) = Some (y, q)" by (cases r) simp
    have "keeps E s (update_dev (\<lambda>d. d\<lparr>ctx_stream := stream_delivered q\<rparr>) s)"
      using stream_dispatch_ok(1) [OF _ r] stream_dispatch_thread [OF r]
      by (intro keeps_dev) (simp_all add: life_def data_ok_def)
    then show ?thesis using r Stream_turn by simp
  qed
next
  case Event_turn
  have "keeps E s (update_dev (\<lambda>d. d\<lparr>ctx_events := event_dispatched (event_take (ctx_events (dev s)))\<rparr>) s)"
    by (intro keeps_dev) (simp_all add: life_def data_ok_def event_take_wf)
  then show ?thesis using Event_turn by (simp add: event_dispatch_def)
qed (simp_all add: keeps_dev life_simps)

lemma keeps_activities: "keeps E s (activity_steps E xs s)"
proof (induction xs arbitrary: s)
  case (Cons x xs)
  then show ?case using keeps_trans [OF keeps_activity] by (fastforce simp: activity_steps_def)
qed (simp add: activity_steps_def)

lemma keeps_startup_poll: "keeps E s (startup_poll E acts attempt left s)"
proof (induction left arbitrary: attempt s)
  case (Suc left)
  then show ?case using keeps_trans [OF keeps_activities] by fastforce
qed simp

lemma keeps_boundary_wait: "keeps E s (snd (boundary_wait E t target ws s))"
proof (induction ws arbitrary: s)
  case (Cons w ws)
  then show ?case using keeps_trans [OF keeps_activities] by fastforce
qed simp

lemma keeps_wait: "keeps E s (snd (wait_for_sync_boundary E W t categories s))"
proof -
  have "keeps E s (update_dev (update_lane t f) s)" for f by (rule keeps_dev) (simp_all add: life_simps)
  then show ?thesis
    using keeps_trans [OF _ keeps_boundary_wait]
    by (fastforce simp: wait_for_sync_boundary_def Let_def case_prod_beta split: option.splits)
qed

subsection \<open>Updates\<close>

lemma data_samples: "data_ok d \<Longrightarrow> 0 < n \<Longrightarrow> data_ok (d\<lparr>callback_samples := n\<rparr>)"
  by (simp add: data_ok_def)

lemma callback_samples_for_pos [simp]: "0 < callback_samples_for rate"
  by (simp add: callback_samples_for_def)

lemma update_stage_life:
  assumes "\<And>d. life (snd (f d)) = life d" "\<And>d. data_ok (snd (f d)) = data_ok d"
  shows "life (snd (update_stage wanted f rd)) = life (snd rd)"
    and "data_ok (snd (update_stage wanted f rd)) = data_ok (snd rd)"
  using assms by (simp_all add: update_stage_def)

lemma acknowledge_life [life_simps]:
  "life (acknowledge_overload t d) = life d"
  "data_ok d \<Longrightarrow> data_ok (acknowledge_overload t d)"
  by (simp_all add: acknowledge_overload_def Let_def life_simps)

lemmas stage_life =
  update_stage_life [of "configure_iq_correction P t" for P t] update_stage_life [of "configure_adsb P t" for P t]
  update_stage_life [of "configure_low_if P t" for P t] update_stage_life [of "configure_lane_decimator P t" for P t]

lemma update_filters_life [life_simps]:
  "life (snd (update_filters P t reason rd)) = life (snd rd)"
  "data_ok (snd rd) \<Longrightarrow> data_ok (snd (update_filters P t reason rd))"
  by (simp_all add: update_filters_def Let_def stage_life life_simps)

lemma keeps_update_agc: "keeps E s (snd (update_agc E t s))"
proof -
  have "keeps E s (update_dev (update_lane t f) (snd (client_milliseconds E s)))" for f
    by (rule keeps_dev_trans [OF keeps_clock]) (simp_all add: life_simps)
  then show ?thesis by (simp add: update_agc_def Let_def case_prod_beta)
qed

lemma keeps_update_local: "keeps E s (snd (update_local E t reason s))"
proof -
  let ?s1 = "if fs_changed reason
    then update_dev (\<lambda>d. d\<lparr>callback_samples := callback_samples_for (fsHz (dev_params d))\<rparr>) s else s"
  let ?r = "if has_flag reason Update_Ctrl_Agc then update_agc E t ?s1 else (0, ?s1)"
  have 1: "keeps E s ?s1"
    by (intro keeps_if keeps_dev keeps_refl) (simp_all add: life_simps data_samples)
  have 2: "keeps E s (snd ?r)"
    using 1 keeps_trans [OF 1 keeps_update_agc] by (simp split: if_split del: if_split_asm)
  have "keeps E s (update_dev (\<lambda>d. snd (update_filters (arith E) t reason (fst ?r, d))) (snd ?r))"
    by (rule keeps_dev_trans [OF 2]) (simp_all add: life_simps)
  then show ?thesis by (simp add: update_local_def Let_def case_prod_beta update_dev_def)
qed

lemma keeps_update_accepted:
  assumes "initialized (dev s)"
  shows "keeps E s (snd (update_accepted E t reason r s))"
proof (cases "settled E s")
  case True
  then have b: "stream_buffers (dev s)" using assms by (simp add: settled_def life_ok_def)
  define d where "d = (if gr_changed reason \<or> rf_changed reason \<or> has_flag reason Update_RspDuo_AmPortSelect
      then snd (store_gain_values (arith E) t (dev s)) else dev s)"
  have d: "life d = life (dev s)" "data_ok d = data_ok (dev s)" by (simp_all add: d_def life_simps)
  have bd: "stream_buffers d" using b d(1) by (metis life_fields(4))
  have ack: "life (emit_update_ack a c g t d) = life (dev s)" "data_ok (dev s) \<Longrightarrow> data_ok (emit_update_ack a c g t d)"
    for a c g
    unfolding emit_update_ack_def using d bd by (simp_all add: life_simps data_queue del: life_changes)
  have lane: "life (update_lane t f d) = life (dev s)" "data_ok (update_lane t f d) = data_ok (dev s)" for f
    using d by (simp_all add: life_simps)
  define final where "final = dev (snd (update_accepted E t reason r s))"
  have s': "snd (update_accepted E t reason r s) = update_dev (\<lambda>_. final) s"
    unfolding final_def update_dev_def by (simp add: update_accepted_def Let_def case_prod_beta)
  have "\<exists>a c g f. final = emit_update_ack a c g t d \<or> final = update_lane t f d"
    unfolding final_def update_accepted_def Let_def case_prod_beta d_def by auto
  then have "life final = life (dev s)" "data_ok (dev s) \<Longrightarrow> data_ok final" using ack lane by auto
  then show ?thesis unfolding s' by (rule keeps_dev)
qed (simp add: keeps_def)

lemma update_restore_life:
  "life (update_restore t reason old d) = life d"
  "data_ok d \<Longrightarrow> data_ok old \<Longrightarrow> life d = life old \<Longrightarrow> data_ok (update_restore t reason old d)"
proof -
  show "life (update_restore t reason old d) = life d" by (simp add: update_restore_def Let_def life_simps)
  assume "data_ok d" "data_ok old" "life d = life old"
  moreover have "initialized d = initialized old" using \<open>life d = life old\<close> by (metis life_fields(2))
  ultimately show "data_ok (update_restore t reason old d)"
    by (simp add: update_restore_def Let_def life_simps) (simp add: data_ok_def update_lane_def)
qed

lemma keeps_update_apply:
  assumes "initialized (dev s)"
  shows "keeps E s (snd (update_apply E t reason s))"
proof (cases "settled E s")
  case True
  obtain r1 s1 where 1: "update_local E t reason s = (r1, s1)" by (rule prod.exhaust)
  have k1: "settled E s1" "life (dev s1) = life (dev s)"
    using keeps_update_local [of E s t reason] True 1 by (simp_all add: keeps_def)
  have b1: "backend (dev s1)" "initialized (dev s1)"
    using k1 True assms settled_initialized [of E s] by (metis life_fields(2,3))+
  obtain r2 s2 where 2: "(if r1 \<ge> 0 then send_update E t (protocol_change_flags reason) s1 else (r1, s1)) = (r2, s2)"
    by (rule prod.exhaust)
  have "keeps E s1 s2"
    using keeps_send_update [OF b1(1), of E t "protocol_change_flags reason"] 2 by (auto split: if_splits)
  then have k2: "settled E s2" "life (dev s2) = life (dev s)" using k1 by (simp_all add: keeps_def)
  have b2: "initialized (dev s2)" using k2 assms by (metis life_fields(2))
  obtain r3 s3 where 3: "(if r2 \<ge> 0 then update_accepted E t reason r2 s2 else (r2, s2)) = (r3, s3)"
    by (rule prod.exhaust)
  have "keeps E s2 s3"
    using keeps_update_accepted [OF b2, of E t reason r2] 3 by (auto split: if_splits)
  then have k3: "settled E s3" "life (dev s3) = life (dev s)" using k2 by (simp_all add: keeps_def)
  have "keeps E s3 (update_dev (update_restore t reason (dev s)) s3)"
    using True k3 by (intro keeps_dev update_restore_life) (simp_all add: settled_def)
  then have k4: "settled E (update_dev (update_restore t reason (dev s)) s3)"
    "life (dev (update_dev (update_restore t reason (dev s)) s3)) = life (dev s)"
    using k3 by (simp_all add: keeps_def)
  have "update_apply E t reason s = (r3, if r3 < 0 then update_dev (update_restore t reason (dev s)) s3 else s3)"
    by (simp add: update_apply_def Let_def 1 2 3)
  then show ?thesis using k3 k4 by (simp add: keeps_def)
qed (simp add: keeps_def)

definition api_keeps :: "client_env \<Rightarrow> api_state \<Rightarrow> api_state \<Rightarrow> bool" where
  "api_keeps E a a' \<longleftrightarrow>
     keeps E (client_state a) (client_state a') \<and> api_open a' = api_open a \<and>
     device_api_lock_depth a' = device_api_lock_depth a \<and> daemon_api_lock a' = daemon_api_lock a"

lemma api_keeps_refl [simp]: "api_keeps E a a"
  by (simp add: api_keeps_def)

lemma api_keeps_trans [trans]: "api_keeps E a a' \<Longrightarrow> api_keeps E a' a'' \<Longrightarrow> api_keeps E a a''"
  using keeps_trans by (auto simp: api_keeps_def)

lemma record_last_error_kept [simp]:
  "client_state (record_last_error W type e a) = client_state a" "api_open (record_last_error W type e a) = api_open a"
  "device_api_lock_depth (record_last_error W type e a) = device_api_lock_depth a"
  "daemon_api_lock (record_last_error W type e a) = daemon_api_lock a"
  by (simp_all add: record_last_error_def)

lemma api_keeps_error: "api_keeps E a a' \<Longrightarrow> api_keeps E a (record_last_error W type e a')"
  by (simp add: api_keeps_def)

lemma api_keeps_on_client: "keeps E (client_state a) (snd (f (client_state a))) \<Longrightarrow> api_keeps E a (snd (on_client f a))"
  by (simp add: api_keeps_def on_client_def case_prod_beta)

lemma api_keeps_client: "keeps E (client_state a) (f (client_state a)) \<Longrightarrow> api_keeps E a (update_client f a)"
  by (simp add: api_keeps_def update_client_def)

lemma api_keeps_ctx:
  assumes "life (f (ctx a)) = life (ctx a)" "data_ok (ctx a) \<Longrightarrow> data_ok (f (ctx a))"
  shows "api_keeps E a (update_ctx f a)"
  using keeps_dev [of f "client_state a" E] assms
  by (simp add: api_keeps_def update_ctx_def update_client_def)

lemma api_keeps_initialized:
  "api_keeps E a a' \<Longrightarrow> settled E (client_state a) \<Longrightarrow> initialized (ctx a') = initialized (ctx a)"
  unfolding api_keeps_def keeps_def by (metis life_fields(2))

lemma fold_life:
  assumes "\<And>t d. life (f t d) = life d" "\<And>t d. data_ok (f t d) = data_ok d"
  shows "life (fold f ts d) = life d" "data_ok (fold f ts d) = data_ok d"
  using assms by (induction ts arbitrary: d) simp_all

lemma sync_flags_life [life_simps]:
  "life (schedule_sync t d) = life d" "data_ok (schedule_sync t d) = data_ok d"
  "life (reset_sync reset t d) = life d" "data_ok (reset_sync reset t d) = data_ok d"
  "life (snd (update_sync_flags ts reason d)) = life d" "data_ok (snd (update_sync_flags ts reason d)) = data_ok d"
  "life (consume_slave_flags t extension d) = life d" "data_ok (consume_slave_flags t extension d) = data_ok d"
proof -
  show 1: "life (schedule_sync t d) = life d" "data_ok (schedule_sync t d) = data_ok d"
    "life (reset_sync reset t d) = life d" "data_ok (reset_sync reset t d) = data_ok d" for t d reset
    by (simp_all add: schedule_sync_def reset_sync_def life_simps)
  show "life (snd (update_sync_flags ts reason d)) = life d" "data_ok (snd (update_sync_flags ts reason d)) = data_ok d"
    using 1 fold_life [of schedule_sync] fold_life [of "reset_sync reset" for reset]
    by (simp_all add: update_sync_flags_def Let_def case_prod_beta clear_reset_flags_def life_simps)
  show "life (consume_slave_flags t extension d) = life d" "data_ok (consume_slave_flags t extension d) = data_ok d"
    by (simp_all add: consume_slave_flags_def Let_def life_simps)
qed

lemma keeps_sync_lane:
  "keeps E s (set_sync_waiting w t s)" "keeps E s (consume_sync categories t s)"
  unfolding set_sync_waiting_def consume_sync_def by (rule keeps_dev; simp add: life_simps)+

lemma keeps_update_wait: "keeps E s (snd (update_wait E W t categories s))"
proof -
  have "keeps E s (snd (wait_for_sync_boundary E W t categories (set_sync_waiting True t s)))"
    using keeps_sync_lane(1) keeps_wait by (rule keeps_trans)
  then have "keeps E s (set_sync_waiting False t (snd (wait_for_sync_boundary E W t categories (set_sync_waiting True t s))))"
    using keeps_sync_lane(1) by (rule keeps_trans)
  then show ?thesis by (simp add: update_wait_def case_prod_beta)
qed

lemma api_keeps_update_one:
  assumes "initialized (ctx a)"
  shows "api_keeps E a (snd (update_one E W t reason extension a))"
proof (cases "settled E (client_state a)")
  case True
  define u where "u = update_sync_flags [t] reason (ctx a)"
  define d where "d = consume_slave_flags t extension (snd u)"
  define k where "k = synchronous_categories (fst u) t d"
  define w where "w = on_client (update_wait E W t k) (update_ctx (\<lambda>_. d) a)"
  define p where "p = on_client (update_apply E t (fst u)) (snd w)"
  have "api_keeps E a (update_ctx (\<lambda>_. d) a)"
    by (rule api_keeps_ctx) (simp_all add: d_def u_def life_simps)
  also have "api_keeps E (update_ctx (\<lambda>_. d) a) (snd w)"
    unfolding w_def by (intro api_keeps_on_client keeps_update_wait)
  finally have w: "api_keeps E a (snd w)" .
  then have "initialized (ctx (snd w))" using api_keeps_initialized True assms by blast
  then have "api_keeps E (snd w) (snd p)"
    unfolding p_def by (intro api_keeps_on_client keeps_update_apply) simp
  with w have p: "api_keeps E a (snd p)" by (rule api_keeps_trans)
  then have c: "api_keeps E a (update_client (consume_sync k t) (snd p))"
    using api_keeps_client keeps_sync_lane(2) api_keeps_trans by blast
  show ?thesis
    unfolding update_one_def Let_def case_prod_beta u_def [symmetric] d_def [symmetric] k_def [symmetric]
      w_def [symmetric] p_def [symmetric]
    using w p c by (simp add: api_keeps_error)
qed (simp add: api_keeps_def keeps_def update_one_def Let_def case_prod_beta on_client_def update_ctx_def update_client_def)

lemma api_keeps_update_tuner: "api_keeps E a (snd (update_tuner E W t reason extension a))"
  using api_keeps_update_one by (simp add: update_tuner_def)

lemma api_keeps_update_in_turn: "api_keeps E a (snd (update_in_turn E W reason extension a))"
  using api_keeps_update_tuner api_keeps_trans [OF api_keeps_update_tuner api_keeps_update_tuner]
  by (simp add: update_in_turn_def case_prod_beta)

lemma api_keeps_wait:
  "api_keeps E a a' \<Longrightarrow> api_keeps E a (snd (on_client (wait_for_sync_boundary E W t categories) a'))"
  by (erule api_keeps_trans) (intro api_keeps_on_client keeps_wait)

lemma api_keeps_update_client:
  "api_keeps E a a' \<Longrightarrow> keeps E (client_state a') (f (client_state a')) \<Longrightarrow> api_keeps E a (update_client f a')"
  using api_keeps_trans api_keeps_client by blast

lemma api_keeps_synchronised: "api_keeps E a (snd (update_both_synchronised E W ka kb reason extension a))"
proof -
  let ?hold = "\<lambda>b s. set_sync_waiting b Tuner_B (set_sync_waiting b Tuner_A s)"
  have hold: "keeps E s (?hold b s)" for b s using keeps_sync_lane(1) keeps_sync_lane(1) by (rule keeps_trans)
  define a1 where "a1 = update_client (?hold True) a"
  define w1 where "w1 = (if ka = 0 then (0, a1) else on_client (wait_for_sync_boundary E W Tuner_A ka) a1)"
  define w2 where "w2 = (if fst w1 \<noteq> 0 \<or> kb = 0 then w1 else on_client (wait_for_sync_boundary E W Tuner_B kb) (snd w1))"
  have "api_keeps E a a1" unfolding a1_def by (intro api_keeps_client hold)
  then have "api_keeps E a (snd w1)" by (simp add: w1_def api_keeps_wait)
  then have w2: "api_keeps E a (snd w2)" by (simp add: w2_def api_keeps_wait)
  define flags where "flags fa fb = update_ctx (\<lambda>d. update_channel Tuner_B (set_sync_flags fb)
    (update_channel Tuner_A (set_sync_flags fa) d))" for fa fb
  have flags: "api_keeps E x (flags fa fb x)" for fa fb x
    unfolding flags_def by (rule api_keeps_ctx) (simp_all add: life_simps)
  define n where "n = (False, False, False)"
  define u where "u = update_in_turn E W reason extension (flags n n (snd w2))"
  have "api_keeps E a (snd u)"
    unfolding u_def by (rule api_keeps_trans [OF api_keeps_trans [OF w2 flags] api_keeps_update_in_turn])
  then have f: "api_keeps E a (update_client (?hold False) (flags fa fb (snd u)))" for fa fb
    by (intro api_keeps_update_client hold) (rule api_keeps_trans [OF _ flags])
  have c: "api_keeps E a (update_client (consume_sync k t) (update_client (?hold False) (flags fa fb (snd u))))"
    for fa fb k t using f keeps_sync_lane(2) by (rule api_keeps_update_client)
  have cc: "api_keeps E a (update_client (consume_sync k' t') (update_client (consume_sync k t)
    (update_client (?hold False) (flags fa fb (snd u)))))" for fa fb k t k' t'
    using c keeps_sync_lane(2) by (rule api_keeps_update_client)
  have e: "api_keeps E a (record_last_error W 3 Dual_boundary_missed (update_client (?hold False) (snd w2)))"
    by (intro api_keeps_error api_keeps_update_client w2 hold)
  have w2': "w2 = (if fst w1 \<noteq> 0 \<or> kb = 0 then (fst w1, snd w1)
    else on_client (wait_for_sync_boundary E W Tuner_B kb) (snd w1))" by (simp add: w2_def)
  show ?thesis
    unfolding update_both_synchronised_def Let_def case_prod_beta a1_def [symmetric] w1_def [symmetric]
      w2' [symmetric] flags_def [symmetric] n_def [symmetric] u_def [symmetric]
    using e f c cc by simp
qed

lemma api_keeps_update: "api_keeps E a (snd (sdrplay_api_Update E W ref t reason extension a))"
proof -
  have "api_keeps E a (update_ctx (\<lambda>_. snd (update_sync_flags [Tuner_A, Tuner_B] reason (ctx a))) a)"
    by (rule api_keeps_ctx) (simp_all add: life_simps)
  then have "api_keeps E a (snd (update_both E W reason extension a))"
    using api_keeps_trans [OF _ api_keeps_synchronised] api_keeps_trans [OF _ api_keeps_update_in_turn]
    by (simp add: update_both_def Let_def case_prod_beta)
  then show ?thesis using api_keeps_update_one by (simp add: sdrplay_api_Update_def)
qed

subsection \<open>Mode changes\<close>

lemma queue_ok_emptied:
  "queue_ok b q \<Longrightarrow> queue_ok b (pause_stream_callbacks q)" "queue_ok b q \<Longrightarrow> queue_ok b (forget_frames x y q)"
  "queue_ok b (resume_stream_callbacks q) = queue_ok b q"
  by (auto simp: queue_ok_def pause_stream_callbacks_def forget_frames_def resume_stream_callbacks_def
      stream_wf_def ring_wf_def stream_items_def ring_items_def)

lemma queue_thread_kept [simp]:
  "stream_callback_thread_started (pause_stream_callbacks q) = stream_callback_thread_started q"
  "stream_callback_thread_started (forget_frames x y q) = stream_callback_thread_started q"
  "stream_callback_thread_started (resume_stream_callbacks q) = stream_callback_thread_started q"
  by (simp_all add: pause_stream_callbacks_def forget_frames_def resume_stream_callbacks_def)

lemma life_stream_kept:
  "stream_callback_thread_started q = stream_callback_thread_started (ctx_stream d) \<Longrightarrow> life (d\<lparr>ctx_stream := q\<rparr>) = life d"
  by (simp add: life_def)

lemma pause_life [life_simps]:
  "life (pause_ctx d) = life d" "data_ok d \<Longrightarrow> data_ok (pause_ctx d)"
  "life (resume_ctx d) = life d" "data_ok (resume_ctx d) = data_ok d"
  "life (fail_stream d) = life d" "data_ok (fail_stream d) = data_ok d"
  "life (new_epoch t d) = life d" "data_ok (new_epoch t d) = data_ok d"
  by (simp_all add: pause_ctx_def resume_ctx_def fail_stream_def new_epoch_def life_stream_kept life_basic data_basic)
    (simp_all add: data_ok_def queue_ok_emptied)

lemma forget_life [life_simps]:
  "life (d\<lparr>ctx_stream := forget_frames x y (ctx_stream d)\<rparr>) = life d"
  "data_ok d \<Longrightarrow> data_ok (d\<lparr>ctx_stream := forget_frames x y (ctx_stream d)\<rparr>)"
  by (simp_all add: life_stream_kept) (simp add: data_ok_def queue_ok_emptied)

lemma swap_mode_life [life_simps]:
  "life (swap_mode_parameters mode rate t b i p d) = life d"
  "data_ok (swap_mode_parameters mode rate t b i p d) = data_ok d"
  "life (snd (swap_mode_filters P mode t d)) = life d" "data_ok (snd (swap_mode_filters P mode t d)) = data_ok d"
  "life (swap_mode_epoch mode t d) = life d" "data_ok d \<Longrightarrow> data_ok (swap_mode_epoch mode t d)"
  "life (set_shared_rate r i d) = life d" "data_ok (set_shared_rate r i d) = data_ok d"
  "life (restore_filters l d) = life d" "data_ok (restore_filters l d) = data_ok d"
  by (simp_all add: swap_mode_parameters_def swap_mode_filters_def swap_mode_epoch_def set_shared_rate_def
      restore_filters_def Let_def case_prod_beta life_simps data_samples del: life_changes)

lemma keeps_dev_eq:
  assumes "life d = life (dev s)" "data_ok (dev s) \<Longrightarrow> data_ok d"
  shows "keeps E s (s\<lparr>dev := d\<rparr>)"
  using keeps_dev [of "\<lambda>_. d" s E] assms by (simp add: update_dev_def)

lemma keeps_resume_mode:
  assumes "backend (dev s)"
  shows "keeps E s (snd (resume_mode E s))"
proof -
  have 1: "keeps E s (update_dev resume_ctx s)" by (rule keeps_dev) (simp_all add: life_simps)
  have "keeps E (update_dev resume_ctx s) (snd (ask E Backend_resume_mode (update_dev resume_ctx s)))"
    using assms by (intro keeps_ask) (simp_all add: opens_def resume_ctx_def)
  with 1 have 2: "keeps E s (snd (ask E Backend_resume_mode (update_dev resume_ctx s)))" by (rule keeps_trans)
  then have "keeps E s (update_dev fail_stream (snd (ask E Backend_resume_mode (update_dev resume_ctx s))))"
    by (rule keeps_dev_trans) (simp_all add: life_simps)
  with 2 show ?thesis by (simp add: resume_mode_def case_prod_beta)
qed

text \<open>Changing the filters, then either failing the stream or resuming on what \<open>f\<close> prepared.\<close>

lemma keeps_switch:
  assumes "backend (dev s)" "life d = life (dev s)" "data_ok (dev s) \<Longrightarrow> data_ok d"
    and "\<And>d. life (f d) = life d" "\<And>d. data_ok d \<Longrightarrow> data_ok (f d)"
  shows "keeps E s (update_dev (\<lambda>d. resume_ctx (fail_stream d)) (s\<lparr>dev := d\<rparr>))"
    and "keeps E s (snd (resume_mode E (update_dev f (s\<lparr>dev := d\<rparr>))))"
proof -
  have d: "keeps E s (s\<lparr>dev := d\<rparr>)" using assms(2,3) by (rule keeps_dev_eq)
  then show "keeps E s (update_dev (\<lambda>d. resume_ctx (fail_stream d)) (s\<lparr>dev := d\<rparr>))"
    by (rule keeps_dev_trans) (simp_all add: life_simps)
  have "keeps E s (update_dev f (s\<lparr>dev := d\<rparr>))"
    by (rule keeps_dev_trans [OF d]) (simp_all add: assms)
  moreover have "backend (dev (update_dev f (s\<lparr>dev := d\<rparr>)))"
    using assms(1) life_backend [OF assms(2)] life_backend [OF assms(4) [of d]] by simp
  ultimately show "keeps E s (snd (resume_mode E (update_dev f (s\<lparr>dev := d\<rparr>))))"
    using keeps_trans [OF _ keeps_resume_mode] by simp
qed

lemma keeps_swapped_tuner:
  assumes "backend (dev s)"
  shows "keeps E s (snd (swapped_tuner E t s))"
proof -
  let ?f = "\<lambda>d. new_epoch t (d\<lparr>ctx_tuner := t, ctx_stream := forget_frames (t \<noteq> Tuner_B) (t = Tuner_B) (ctx_stream d)\<rparr>)"
  have f: "life (?f d) = life d" "data_ok d \<Longrightarrow> data_ok (?f d)" for d
    using forget_life [where d = "d\<lparr>ctx_tuner := t\<rparr>"] by (simp_all add: life_simps del: life_changes)
  show ?thesis
    unfolding swapped_tuner_def Let_def case_prod_beta
    using keeps_switch [OF assms, of "snd (init_lane (arith E) t (pause_ctx (dev s)))" ?f E] f
    by (simp add: life_simps)
qed

lemma keeps_swapped_mode:
  assumes "backend (dev s)"
  shows "keeps E s (snd (swapped_mode E mode t s))"
proof -
  define d where "d = snd (swap_mode_filters (arith E) mode t ((pause_ctx (dev s))\<lparr>ctx_mode := mode, ctx_tuner := t\<rparr>))"
  have "life d = life (dev s)" "data_ok (dev s) \<Longrightarrow> data_ok d" by (simp_all add: d_def life_simps)
  from keeps_switch [OF assms this, of "swap_mode_epoch mode t" E] show ?thesis
    unfolding swapped_mode_def Let_def case_prod_beta
    by (simp add: life_simps d_def update_dev_def)
qed

lemma api_keeps_ask:
  assumes "api_keeps E a a'" "settled E (client_state a)" "backend (ctx a)" "\<not> opens c" "c \<noteq> Backend_close"
  shows "api_keeps E a (snd (api_ask E c a'))"
proof -
  have "backend (ctx a')"
    using assms(1-3) keeps_backend [of E "client_state a" "client_state a'"] by (simp add: api_keeps_def)
  then have "api_keeps E a' (snd (api_ask E c a'))"
    using keeps_ask [OF _ assms(4,5), of "client_state a'" E] by (simp add: api_keeps_def api_ask_def case_prod_beta)
  with assms(1) show ?thesis by (rule api_keeps_trans)
qed

lemma api_keeps_update_ctx:
  assumes "api_keeps E a a'" "life (f (ctx a')) = life (ctx a')" "data_ok (ctx a') \<Longrightarrow> data_ok (f (ctx a'))"
  shows "api_keeps E a (update_ctx f a')"
  using assms(1) api_keeps_ctx [of f a' E] assms(2,3) api_keeps_trans by blast

lemma api_keeps_params [simp]:
  "api_keeps E a (a'\<lparr>params_rx_a := x\<rparr>) = api_keeps E a a'" "api_keeps E a (a'\<lparr>params_rx_b := x\<rparr>) = api_keeps E a a'"
  "api_keeps E a (a'\<lparr>params_dev := x\<rparr>) = api_keeps E a a'"
  by (simp_all add: api_keeps_def)

lemma api_keeps_then:
  assumes "api_keeps E a a'" "settled E (client_state a)" "backend (ctx a)"
    and "\<And>s. backend (dev s) \<Longrightarrow> keeps E s (snd (f s))"
  shows "api_keeps E a (snd (on_client f a'))"
proof -
  have "backend (ctx a')"
    using assms(1-3) keeps_backend [of E "client_state a" "client_state a'"] by (simp add: api_keeps_def)
  then show ?thesis using assms(1,4) api_keeps_on_client api_keeps_trans by blast
qed

lemma unsettled_api_keeps:
  "\<not> settled E (client_state a) \<Longrightarrow> api_open a' = api_open a \<Longrightarrow>
   device_api_lock_depth a' = device_api_lock_depth a \<Longrightarrow> daemon_api_lock a' = daemon_api_lock a \<Longrightarrow> api_keeps E a a'"
  by (simp add: api_keeps_def keeps_def)

lemma api_globals_kept [simp]:
  "api_open (update_ctx f a) = api_open a" "api_open (update_client g a) = api_open a"
  "api_open (snd (api_ask E c a)) = api_open a" "api_open (snd (on_client h a)) = api_open a"
  "device_api_lock_depth (update_ctx f a) = device_api_lock_depth a"
  "device_api_lock_depth (update_client g a) = device_api_lock_depth a"
  "device_api_lock_depth (snd (api_ask E c a)) = device_api_lock_depth a"
  "device_api_lock_depth (snd (on_client h a)) = device_api_lock_depth a"
  "daemon_api_lock (update_ctx f a) = daemon_api_lock a" "daemon_api_lock (update_client g a) = daemon_api_lock a"
  "daemon_api_lock (snd (api_ask E c a)) = daemon_api_lock a" "daemon_api_lock (snd (on_client h a)) = daemon_api_lock a"
  by (simp_all add: update_ctx_def update_client_def api_ask_def on_client_def case_prod_beta)

lemma api_keeps_swap_tuner:
  "api_keeps E a (snd (snd (sdrplay_api_SwapRspDuoActiveTuner E ref current am_port a)))"
proof (cases "settled E (client_state a) \<and> initialized (ctx a)")
  case True
  then have s: "settled E (client_state a)" and b: "backend (ctx a)" using settled_initialized by auto
  have 1: "api_keeps E a (update_ctx pause_ctx (update_ctx (update_channel n (\<lambda>_. ch)) a))" for n ch
    by (intro api_keeps_update_ctx api_keeps_refl) (simp_all add: life_simps)
  have 2: "api_keeps E a (snd (api_ask E (Backend_swap m) (update_ctx pause_ctx (update_ctx (update_channel n (\<lambda>_. ch)) a))))"
    for m n ch by (rule api_keeps_ask [OF 1 s b]) (simp_all add: opens_def)
  have 3: "api_keeps E a (update_ctx (\<lambda>d. resume_ctx (update_channel k (\<lambda>_. old) d))
      (snd (api_ask E (Backend_swap m) (update_ctx pause_ctx (update_ctx (update_channel n (\<lambda>_. ch)) a)))))" for m n ch k old
    by (rule api_keeps_update_ctx [OF 2]) (simp_all add: life_simps)
  have 4: "api_keeps E a (snd (on_client (swapped_tuner E t)
      (snd (api_ask E (Backend_swap m) (update_ctx pause_ctx (update_ctx (update_channel n (\<lambda>_. ch)) a))))))" for m n ch t
    by (rule api_keeps_then [OF 2 s b keeps_swapped_tuner])
  show ?thesis
    unfolding sdrplay_api_SwapRspDuoActiveTuner_def Let_def case_prod_beta
    using 3 4 by (simp split: option.splits)
next
  case False
  then show ?thesis
    by (auto simp: sdrplay_api_SwapRspDuoActiveTuner_def Let_def case_prod_beta intro!: unsettled_api_keeps split: option.splits)
qed

lemma api_keeps_swap_mode:
  "api_keeps E a (snd (snd (sdrplay_api_SwapRspDuoMode E v mode rate t bandwidth if_type am_port a)))"
proof (cases "settled E (client_state a) \<and> initialized (ctx a)")
  case True
  then have s: "settled E (client_state a)" and b: "backend (ctx a)" using settled_initialized by auto
  define d where "d = swap_mode_parameters mode rate t bandwidth if_type am_port (ctx a)"
  define q where "q = api_ask E (Backend_swap_mode (swap_mode_message (arith E) mode t d)) (update_ctx (\<lambda>_. pause_ctx d) a)"
  have 1: "api_keeps E a (update_ctx (\<lambda>_. pause_ctx d) a)"
    by (intro api_keeps_update_ctx api_keeps_refl) (simp_all add: life_simps d_def)
  have 2: "api_keeps E a (snd q)"
    unfolding q_def by (rule api_keeps_ask [OF 1 s b]) (simp_all add: opens_def)
  have 3: "api_keeps E a (update_ctx (\<lambda>d. resume_ctx (d\<lparr>dev_params := p, rx_channel_a := x, rx_channel_b := y\<rparr>)) (snd q))"
    for p x y by (rule api_keeps_update_ctx [OF 2]) (simp_all add: life_simps)
  have 4: "api_keeps E a (snd (on_client (swapped_mode E m t) (snd q)))" for m
    by (rule api_keeps_then [OF 2 s b keeps_swapped_mode])
  show ?thesis
    unfolding sdrplay_api_SwapRspDuoMode_def Let_def case_prod_beta d_def [symmetric] q_def [symmetric]
    using 3 4 by simp
next
  case False
  then show ?thesis
    by (auto simp: sdrplay_api_SwapRspDuoMode_def Let_def case_prod_beta intro!: unsettled_api_keeps)
qed

lemma keeps_swap_rate:
  "keeps E s (snd (snd (sdrplay_api_SwapRspDuoDualTunerModeSampleRate E ref current rate s)))"
proof (cases "settled E s \<and> initialized (dev s)")
  case True
  then have b: "backend (dev s)" using settled_initialized by auto
  define d where "d i = snd (init_lane (arith E) Tuner_A (pause_ctx (set_shared_rate rate i (dev s))))" for i
  have l: "life (d i) = life (dev s)" "data_ok (dev s) \<Longrightarrow> data_ok (d i)" for i by (simp_all add: d_def life_simps)
  have 1: "keeps E s (s\<lparr>dev := d i\<rparr>)" for i by (intro keeps_dev_eq l)
  have 2: "keeps E s (snd (ask E (Backend_swap_duo_rate u) (s\<lparr>dev := d i\<rparr>)))" for u i
    using life_backend [OF l(1)] b by (intro keeps_trans [OF 1 keeps_ask]) (simp_all add: opens_def)
  have 3: "keeps E s (snd (if q then ask E (Backend_swap_duo_rate u) (s\<lparr>dev := d i\<rparr>) else (- 1, s\<lparr>dev := d i\<rparr>)))" for q u i
    using 1 2 by simp
  have 4: "keeps E s (update_dev (\<lambda>d. resume_ctx (restore_filters k (set_shared_rate r i d)))
      (snd (if q then ask E (Backend_swap_duo_rate u) (s\<lparr>dev := d j\<rparr>) else (- 1, s\<lparr>dev := d j\<rparr>))))" for q u i j k r
    by (rule keeps_dev_trans [OF 3]) (simp_all add: life_simps)
  have 5: "keeps E s (update_dev (\<lambda>d. resume_ctx (new_epoch Tuner_A (d\<lparr>callback_samples := 1344\<rparr>)))
      (snd (if q then ask E (Backend_swap_duo_rate u) (s\<lparr>dev := d j\<rparr>) else (- 1, s\<lparr>dev := d j\<rparr>))))" for q u j
    by (rule keeps_dev_trans [OF 3]) (simp_all add: life_simps data_samples)
  show ?thesis
    unfolding sdrplay_api_SwapRspDuoDualTunerModeSampleRate_def Let_def case_prod_beta d_def [symmetric]
    using 4 5 by simp
next
  case False
  then show ?thesis
    by (auto simp: keeps_def sdrplay_api_SwapRspDuoDualTunerModeSampleRate_def)
qed

end
