(* ===== verification/Rsp_Reach.thy ===== *)
theory Rsp_Reach
  imports Rsp_Life
begin

text \<open>
  The calls that change the life cycle, from \<open>sdrplay_api_Open\<close> to \<open>sdrplay_api_Close\<close>, keep
  its invariant, and with the calls of \<open>Rsp_Life\<close> they make up the step system of the client
  library: a step is one call of the application, a write through the parameter pointers or
  an activity of a library thread. What holds in every reachable state follows.
\<close>

subsection \<open>Initialisation\<close>

text \<open>The daemon's answer to an open request: \<open>openrsp_daemon_backend_open\<close> and its duo variant return 0 or -1.\<close>

definition open_results :: "client_env \<Rightarrow> bool" where
  "open_results E \<longleftrightarrow> (\<forall>cs c. opens c \<longrightarrow> answer E (cs @ [c]) \<in> {0, -1})"

definition shape :: "client_env \<Rightarrow> lifecycle \<Rightarrow> client \<Rightarrow> bool" where
  "shape E L s \<longleftrightarrow> life (dev s) = L \<and> data_ok (dev s) \<and> conn_ok E s"

lemma settled_shape: "settled E s \<longleftrightarrow> (\<exists>L. shape E L s \<and> life_ok L)"
  by (auto simp: settled_def shape_def)

lemma shape_settled: "shape E L s \<Longrightarrow> life_ok L \<Longrightarrow> settled E s"
  by (auto simp: settled_shape)

lemma shape_fields:
  "shape E L s \<Longrightarrow> backend (dev s) = lc_backend L" "shape E L s \<Longrightarrow> duo_role (dev s) = lc_role L"
  by (auto simp: shape_def)

lemma shape_dev:
  assumes "shape E L s" "life (f (dev s)) = L'" "lc_backend L' = lc_backend L" "data_ok (dev s) \<Longrightarrow> data_ok (f (dev s))"
  shows "shape E L' (update_dev f s)"
  using assms by (auto simp: shape_def conn_ok_def simp flip: life_fields(3))

lemma shape_keeps: "keeps E s s' \<Longrightarrow> shape E L s \<Longrightarrow> life_ok L \<Longrightarrow> shape E L s'"
  by (simp add: keeps_def shape_def settled_def)

lemma shape_ask: "shape E L s \<Longrightarrow> lc_backend L \<Longrightarrow> \<not> opens c \<Longrightarrow> c \<noteq> Backend_close \<Longrightarrow> shape E L (snd (ask E c s))"
  using conn_ask [of E s c] by (auto simp: shape_def)

lemma shape_close:
  assumes "shape E L s" "lc_backend L"
  shows "shape E (L\<lparr>lc_backend := False\<rparr>) (close_backend E s)"
    and "shape E (if lc_role L = 0 then L\<lparr>lc_backend := False\<rparr> else L) (close_unless_duo E s)"
proof -
  show 1: "shape E (L\<lparr>lc_backend := False\<rparr>) (close_backend E s)"
    using assms by (auto simp: shape_def close_backend_def conn_ok_def handle_scan_snoc handle_step_def opens_def life_simps)
  show "shape E (if lc_role L = 0 then L\<lparr>lc_backend := False\<rparr> else L) (close_unless_duo E s)"
    using assms(1) 1 shape_fields(2) [OF assms(1)] by (simp add: close_unless_duo_def)
qed

lemma lc_backend_same: "lc_backend L \<Longrightarrow> L\<lparr>lc_backend := True\<rparr> = L"
  by (cases L) simp

lemma shape_open:
  assumes "open_results E" "shape E L s"
  shows "fst (init_open E s) < 0 \<Longrightarrow> shape E L (snd (init_open E s)) \<and> \<not> lc_backend L"
    and "fst (init_open E s) \<ge> 0 \<Longrightarrow> shape E (L\<lparr>lc_backend := True\<rparr>) (snd (init_open E s))"
proof -
  let ?c = "Backend_open (ctx_identity (dev s))"
  have "answer E (calls s @ [?c]) \<in> {0, -1}" using assms(1) by (simp add: open_results_def opens_def)
  then show "fst (init_open E s) < 0 \<Longrightarrow> shape E L (snd (init_open E s)) \<and> \<not> lc_backend L"
    "fst (init_open E s) \<ge> 0 \<Longrightarrow> shape E (L\<lparr>lc_backend := True\<rparr>) (snd (init_open E s))"
    using assms(2) by (auto simp: shape_def init_open_def ask_def Let_def conn_ok_def handle_scan_snoc handle_step_def
        opens_def life_simps lc_backend_same split: if_splits)
qed

lemma shape_configure: "shape E L s \<Longrightarrow> lc_backend L \<Longrightarrow> shape E L (snd (init_configure E s))"
  using shape_ask [of E L s] by (simp add: init_configure_def Let_def opens_def)

lemma stream_buffers_life [life_simps]:
  "life (free_stream_buffers d) = (life d)\<lparr>lc_buffers := False\<rparr>"
  "data_ok d \<Longrightarrow> data_ok (free_stream_buffers d)"
  "life (snd (allocate_stream_buffers b d)) = (life d)\<lparr>lc_buffers := b\<rparr>"
  "data_ok d \<Longrightarrow> data_ok (snd (allocate_stream_buffers b d))"
proof -
  show "life (free_stream_buffers d) = (life d)\<lparr>lc_buffers := False\<rparr>"
    "life (snd (allocate_stream_buffers b d)) = (life d)\<lparr>lc_buffers := b\<rparr>"
    by (simp_all add: free_stream_buffers_def allocate_stream_buffers_def life_def)
  show "data_ok d \<Longrightarrow> data_ok (free_stream_buffers d)"
    by (simp add: free_stream_buffers_def data_ok_def queue_ok_def)
  have "list_all frame_ok (stream_items (q\<lparr>stream_queue := replicate OPENRSP_STREAM_QUEUE_CAPACITY empty_stream_frame\<rparr>))" for q
    by (simp add: list_all_iff stream_items_def ring_items_def frame_ok_def empty_stream_frame_def)
  then show "data_ok d \<Longrightarrow> data_ok (snd (allocate_stream_buffers b d))"
    by (simp add: allocate_stream_buffers_def data_ok_def queue_ok_def stream_wf_def ring_wf_def)
qed

lemma end_life [life_simps]:
  "life (end_callbacks d) = (life d)\<lparr>lc_initialized := False, lc_callbacks := False, lc_buffers := False\<rparr>"
  "data_ok d \<Longrightarrow> data_ok (end_callbacks d)"
  "life (end_stream d) = (life d)\<lparr>lc_initialized := False, lc_callbacks := False, lc_buffers := False,
     lc_stream := False, lc_agc := False\<rparr>"
  "data_ok d \<Longrightarrow> data_ok (end_stream d)"
proof -
  show 1: "life (end_callbacks d) = (life d)\<lparr>lc_initialized := False, lc_callbacks := False, lc_buffers := False\<rparr>" for d
    by (simp add: end_callbacks_def life_simps stop_stream_callback_thread_def)
  show 2: "data_ok d \<Longrightarrow> data_ok (end_callbacks d)" for d
    by (simp add: end_callbacks_def free_stream_buffers_def stop_stream_callback_thread_def data_ok_def queue_ok_def)
  show "life (end_stream d) = (life d)\<lparr>lc_initialized := False, lc_callbacks := False, lc_buffers := False,
     lc_stream := False, lc_agc := False\<rparr>"
    by (simp add: end_stream_def 1 life_simps)
  show "data_ok d \<Longrightarrow> data_ok (end_stream d)"
    by (simp add: end_stream_def 2 life_simps)
qed

lemma init_counters_life [life_simps]:
  "life (init_counters d) = (life d)\<lparr>lc_initialized := True\<rparr>"
  "data_ok d \<Longrightarrow> data_ok (init_counters d)"
  by (simp_all add: init_counters_def Let_def life_def data_ok_def)

lemma init_filters_life [life_simps]:
  "life (snd (init_gain_values P d)) = life d" "data_ok (snd (init_gain_values P d)) = data_ok d"
  "life (snd (init_filters P d)) = life d" "data_ok (snd (init_filters P d)) = data_ok d"
  by (simp_all add: init_gain_values_def init_filters_def Let_def case_prod_beta life_simps)

lemma allocate_result [simp]: "fst (allocate_stream_buffers b d) = 0 \<longleftrightarrow> b"
  by (simp add: allocate_stream_buffers_def)

lemma lc_buffers_same: "\<not> lc_buffers L \<Longrightarrow> L\<lparr>lc_buffers := False\<rparr> = L"
  by (cases L) simp

lemma init_prepare_life:
  assumes "\<not> lc_buffers (life d)" "data_ok d"
  shows "life (snd (init_prepare P b d)) =
      (life d)\<lparr>lc_buffers := (fst (init_prepare P b d) = sdrplay_api_Success)\<rparr>"
    and "data_ok (snd (init_prepare P b d))"
proof -
  show "life (snd (init_prepare P b d)) =
      (life d)\<lparr>lc_buffers := (fst (init_prepare P b d) = sdrplay_api_Success)\<rparr>"
    using lc_buffers_same [OF assms(1)]
    by (simp add: init_prepare_def Let_def case_prod_beta life_simps del: life_fields)
  show "data_ok (snd (init_prepare P b d))"
    using assms(2) by (simp add: init_prepare_def Let_def case_prod_beta life_simps)
qed

lemma shape_prepare:
  assumes "shape E L s" "\<not> lc_buffers L"
  shows "shape E (L\<lparr>lc_buffers := (fst (init_prepare P b (dev s)) = sdrplay_api_Success)\<rparr>)
    (s\<lparr>dev := snd (init_prepare P b (dev s))\<rparr>)"
proof -
  have L: "life (dev s) = L" "data_ok (dev s)" using assms(1) by (simp_all add: shape_def)
  have "shape E (L\<lparr>lc_buffers := (fst (init_prepare P b (dev s)) = sdrplay_api_Success)\<rparr>)
    (update_dev (\<lambda>d. snd (init_prepare P b d)) s)"
    by (rule shape_dev [OF assms(1)]) (use init_prepare_life [of "dev s" P b] L assms(2) in auto)
  then show ?thesis by (simp add: update_dev_def)
qed

lemma shape_stop: "shape E L s \<Longrightarrow> lc_backend L \<Longrightarrow> shape E L (snd (stop_backend E s))"
  by (simp add: stop_backend_def shape_ask opens_def)

lemma shape_init_gain: "shape E L s \<Longrightarrow> lc_backend L \<Longrightarrow> shape E L (snd (init_gain E s))"
proof -
  assume "shape E L s" and b: "lc_backend L"
  moreover have "shape E L s \<Longrightarrow> shape E L (snd (gain_request E Backend_update t s))"
    "shape E L s \<Longrightarrow> shape E L (snd (gain_request E Backend_update_duo t s))" for s t
    using shape_ask [OF _ b] by (simp_all add: gain_request_def Let_def opens_def)
  ultimately show ?thesis by (simp add: init_gain_def case_prod_beta)
qed

text \<open>A stream that has ended leaves an idle device; \<open>idle\<close> is what Init finds and leaves on failure.\<close>

definition idle :: "lifecycle \<Rightarrow> bool" where
  "idle L \<longleftrightarrow> life_ok L \<and> \<not> lc_initialized L \<and> lc_selected L"

lemma idle_closed:
  assumes "idle L" "lc_role L' = lc_role L" "lc_selected L'" "\<not> lc_initialized L'" "\<not> lc_buffers L'"
    "\<not> lc_callbacks L'" "\<not> lc_stream L'" "\<not> lc_agc L'" "lc_backend L' = (lc_role L \<noteq> 0)"
  shows "life_ok L'"
  using assms by (auto simp: idle_def life_ok_def)

text \<open>The life cycle has changed from \<open>L\<close>, within the invariant; selection and event thread are as before.\<close>

definition ends :: "client_env \<Rightarrow> lifecycle \<Rightarrow> client \<Rightarrow> bool" where
  "ends E L s \<longleftrightarrow>
     settled E s \<and> selected (dev s) = lc_selected L \<and> event_thread_started (ctx_events (dev s)) = lc_events L"

lemma shape_ends:
  "shape E L' s \<Longrightarrow> lc_selected L' = lc_selected L \<Longrightarrow> lc_events L' = lc_events L \<Longrightarrow> life_ok L' \<Longrightarrow> ends E L s"
  using shape_settled by (auto simp: ends_def shape_def)

lemma shape_abort:
  assumes "idle L" "shape E L1 s" "lc_backend L1" "lc_role L1 = lc_role L" "lc_selected L1" "lc_events L1 = lc_events L"
  shows "ends E L (init_abort E s)"
proof -
  define s1 where "s1 = close_unless_duo E (update_dev (\<lambda>d. d\<lparr>agc_stop := True\<rparr>) (snd (stop_backend E s)))"
  have "shape E L1 (update_dev (\<lambda>d. d\<lparr>agc_stop := True\<rparr>) (snd (stop_backend E s)))"
    using shape_stop [OF assms(2,3)]
    by (rule shape_dev) (use shape_stop [OF assms(2,3)] in \<open>simp_all add: life_simps shape_def data_ok_def\<close>)
  then have 1: "shape E (if lc_role L1 = 0 then L1\<lparr>lc_backend := False\<rparr> else L1) s1"
    unfolding s1_def using assms(3) by (rule shape_close(2))
  have "shape E ((if lc_role L1 = 0 then L1\<lparr>lc_backend := False\<rparr> else L1)
      \<lparr>lc_initialized := False, lc_callbacks := False, lc_buffers := False, lc_stream := False, lc_agc := False\<rparr>)
      (update_dev end_stream s1)"
    by (rule shape_dev [OF 1]) (use 1 in \<open>simp_all add: shape_def life_simps\<close>)
  then show ?thesis
    unfolding init_abort_def Let_def s1_def [symmetric]
    by (rule shape_ends) (use assms in \<open>auto simp: idle_def intro: idle_closed [OF assms(1)]\<close>)
qed

lemma init_run_settled:
  assumes "idle L" "shape E (L\<lparr>lc_buffers := True, lc_backend := True, lc_callbacks := True, lc_initialized := True,
    lc_pending := False, lc_stream := True\<rparr>) s"
  shows "ends E L (snd (init_run E W s))"
proof -
  define L1 where "L1 = L\<lparr>lc_buffers := True, lc_backend := True, lc_callbacks := True, lc_initialized := True,
    lc_pending := False, lc_stream := True\<rparr>"
  define L2 where "L2 = L1\<lparr>lc_agc := True\<rparr>"
  have s: "shape E L1 s" using assms(2) by (simp add: L1_def)
  have ok: "life_ok L2" using assms(1) by (auto simp: L2_def L1_def idle_def life_ok_def)
  have "shape E L2 (update_dev (\<lambda>d. d\<lparr>agc_thread_started := True\<rparr>) s)"
    by (rule shape_dev [OF s]) (use s in \<open>simp_all add: shape_def life_simps L2_def\<close>)
  then have p: "shape E L2 (startup_poll E (startup W) 0 3000 (update_dev (\<lambda>d. d\<lparr>agc_thread_started := True\<rparr>) s))"
    using keeps_startup_poll ok by (blast intro: shape_keeps)
  have f: "lc_backend L2" "lc_role L2 = lc_role L" "lc_selected L2" "lc_events L2 = lc_events L" using assms(1) by (simp_all add: L2_def L1_def idle_def)
  note g = shape_init_gain [OF p f(1)]
  have running: "ends E L (snd (init_gain E
    (startup_poll E (startup W) 0 3000 (update_dev (\<lambda>d. d\<lparr>agc_thread_started := True\<rparr>) s))))"
    by (rule shape_ends [OF g _ _ ok]) (simp_all add: L2_def L1_def)
  have c: "shape E (if lc_role L1 = 0 then L1\<lparr>lc_backend := False\<rparr> else L1) (close_unless_duo E (snd (stop_backend E s)))"
    by (intro shape_close(2) shape_stop s) (simp_all add: L1_def)
  have "shape E ((if lc_role L1 = 0 then L1\<lparr>lc_backend := False\<rparr> else L1)
      \<lparr>lc_initialized := False, lc_callbacks := False, lc_buffers := False, lc_stream := False\<rparr>)
      (update_dev (\<lambda>d. end_callbacks (d\<lparr>thread_started := False\<rparr>)) (close_unless_duo E (snd (stop_backend E s))))"
    by (rule shape_dev [OF c]) (use c in \<open>simp_all add: shape_def life_simps\<close>)
  then have "ends E L (update_dev (\<lambda>d. end_callbacks (d\<lparr>thread_started := False\<rparr>))
      (close_unless_duo E (snd (stop_backend E s))))"
    by (rule shape_ends) (use assms(1) in \<open>auto simp: L1_def idle_def life_ok_def\<close>)
  then show ?thesis
    using running shape_abort [OF assms(1) p f] shape_abort [OF assms(1) g f]
    by (simp add: init_run_def Let_def case_prod_beta)
qed

lemma start_thread_ok:
  "stream_callback_thread_started (snd (start_stream_callback_thread b q)) \<longleftrightarrow> b \<or> stream_callback_thread_started q"
  "fst (start_stream_callback_thread b q) = 0 \<longleftrightarrow> b"
  "queue_ok c q \<Longrightarrow> queue_ok c (snd (start_stream_callback_thread b q))"
  by (auto simp: start_stream_callback_thread_def Let_def queue_ok_def stream_wf_def ring_wf_def stream_items_def ring_items_def)

lemma thread_life [life_simps]:
  "life (d\<lparr>ctx_stream := snd (start_stream_callback_thread b (ctx_stream d))\<rparr>) =
     (life d)\<lparr>lc_callbacks := b \<or> lc_callbacks (life d)\<rparr>"
  "data_ok d \<Longrightarrow> data_ok (d\<lparr>ctx_stream := snd (start_stream_callback_thread b (ctx_stream d))\<rparr>)"
  by (simp_all add: life_def start_thread_ok(1)) (simp add: data_ok_def start_thread_ok(3))

lemma lc_callbacks_same: "\<not> lc_callbacks L \<Longrightarrow> L\<lparr>lc_callbacks := False\<rparr> = L"
  by (cases L) simp

lemma init_start_settled:
  assumes "idle L" "shape E (L\<lparr>lc_buffers := True, lc_backend := True\<rparr>) s"
  shows "ends E L (snd (init_start E W callbacks s))"
proof -
  define L1 where "L1 = L\<lparr>lc_buffers := True, lc_backend := True, lc_callbacks := stream_thread_created W\<rparr>"
  define s1 where "s1 = update_dev (\<lambda>d. d\<lparr>ctx_stream := snd (start_stream_callback_thread (stream_thread_created W) (ctx_stream d))\<rparr>) s"
  have idle: "\<not> lc_callbacks L" "\<not> lc_stream L" "\<not> lc_agc L" "\<not> lc_initialized L" "lc_selected L"
    using assms(1) by (auto simp: idle_def life_ok_def)
  have 1: "shape E L1 s1"
    unfolding s1_def by (rule shape_dev [OF assms(2)])
      (use assms(2) idle in \<open>simp_all add: shape_def life_simps L1_def del: life_fields life_changes\<close>)
  have close: "shape E (if lc_role L1 = 0 then L1\<lparr>lc_backend := False\<rparr> else L1) (close_unless_duo E s1)"
    using 1 by (rule shape_close(2)) (simp add: L1_def)
  have closed: "ends E L (update_dev (\<lambda>d. (free_stream_buffers d)\<lparr>stream_a_cb := False, stream_b_cb := False\<rparr>)
    (close_unless_duo E s1))" if "\<not> stream_thread_created W"
  proof (rule shape_ends)
    show "shape E ((if lc_role L1 = 0 then L1\<lparr>lc_backend := False\<rparr> else L1)\<lparr>lc_buffers := False\<rparr>)
      (update_dev (\<lambda>d. (free_stream_buffers d)\<lparr>stream_a_cb := False, stream_b_cb := False\<rparr>) (close_unless_duo E s1))"
      by (rule shape_dev [OF close]) (use close in \<open>simp_all add: shape_def life_simps\<close>)
    show "life_ok ((if lc_role L1 = 0 then L1\<lparr>lc_backend := False\<rparr> else L1)\<lparr>lc_buffers := False\<rparr>)"
      by (rule idle_closed [OF assms(1)]) (use that idle in \<open>auto simp: L1_def\<close>)
  qed (simp_all add: L1_def)
  define L2 where "L2 = L1\<lparr>lc_initialized := True\<rparr>"
  define s2 where "s2 = update_dev (\<lambda>d. init_counters (d\<lparr>stream_a_cb := fst callbacks, stream_b_cb := snd callbacks\<rparr>)) s1"
  have 2: "shape E L2 s2"
    unfolding s2_def by (rule shape_dev [OF 1]) (use 1 in \<open>simp_all add: shape_def life_simps L2_def\<close>)
  define q where "q = ask E (if duo_role (dev s2) \<noteq> 0 then Backend_start_duo else Backend_start) s2"
  have 3: "shape E L2 (snd q)"
    unfolding q_def using 2 by (rule shape_ask) (simp_all add: L2_def L1_def opens_def)
  define L3 where "L3 = L2\<lparr>lc_initialized := False, lc_callbacks := False, lc_buffers := False\<rparr>"
  have 4: "shape E L3 (update_dev end_callbacks (snd q))"
    by (rule shape_dev [OF 3]) (use 3 in \<open>simp_all add: shape_def life_simps L3_def\<close>)
  have pending: "ends E L (update_dev (\<lambda>d. d\<lparr>start_pending := True\<rparr>) (update_dev end_callbacks (snd q)))"
  proof (rule shape_ends)
    show "shape E (L3\<lparr>lc_pending := True\<rparr>) (update_dev (\<lambda>d. d\<lparr>start_pending := True\<rparr>) (update_dev end_callbacks (snd q)))"
      by (rule shape_dev [OF 4]) (use 4 in \<open>simp_all add: shape_def life_simps\<close>)
    show "life_ok (L3\<lparr>lc_pending := True\<rparr>)"
      using assms(1) by (auto simp: L3_def L2_def L1_def idle_def life_ok_def)
  qed (simp_all add: L3_def L2_def L1_def)
  have failed: "ends E L (close_unless_duo E (update_dev end_callbacks (snd q)))"
    by (rule shape_ends [OF shape_close(2) [OF 4]])
      (use idle assms(1) in \<open>auto simp: L3_def L2_def L1_def idle_def life_ok_def\<close>)
  have run: "ends E L (snd (init_run E W (update_dev (\<lambda>d. d\<lparr>start_pending := False, thread_started := True\<rparr>) (snd q))))"
    if "stream_thread_created W"
  proof (rule init_run_settled [OF assms(1)])
    show "shape E (L\<lparr>lc_buffers := True, lc_backend := True, lc_callbacks := True, lc_initialized := True,
        lc_pending := False, lc_stream := True\<rparr>)
      (update_dev (\<lambda>d. d\<lparr>start_pending := False, thread_started := True\<rparr>) (snd q))"
      by (rule shape_dev [OF 3]) (use 3 that in \<open>simp_all add: shape_def life_simps L2_def L1_def\<close>)
  qed
  have s1: "update_dev (\<lambda>d. d\<lparr>ctx_stream := snd (start_stream_callback_thread (stream_thread_created W) (ctx_stream (dev s)))\<rparr>) s = s1"
    by (simp add: s1_def update_dev_def)
  show ?thesis
    unfolding init_start_def Let_def case_prod_beta s1 s2_def [symmetric] q_def [symmetric]
    using closed pending failed run by (simp add: start_thread_ok(2))
qed

lemma init_connect_settled:
  assumes "open_results E" "idle L" "shape E (L\<lparr>lc_buffers := True\<rparr>) s"
  shows "ends E L (snd (init_connect E W callbacks s))"
proof -
  have idle: "\<not> lc_buffers L" using assms(2) by (simp add: idle_def life_ok_def)
  note o = shape_open [OF assms(1,3)]
  define L1 where "L1 = L\<lparr>lc_buffers := True, lc_backend := True\<rparr>"
  have closed: "ends E L (update_dev free_stream_buffers (snd (init_open E s)))" if "fst (init_open E s) < 0"
  proof (rule shape_ends)
    show "shape E L (update_dev free_stream_buffers (snd (init_open E s)))"
      by (rule shape_dev [OF conjunct1 [OF o(1) [OF that]]])
        (use o(1) [OF that] idle lc_buffers_same in \<open>simp_all add: shape_def life_simps\<close>)
    show "life_ok L" using assms(2) by (simp add: idle_def)
  qed simp_all
  have configured: "shape E L1 (snd (init_configure E (snd (init_open E s))))" if "fst (init_open E s) \<ge> 0"
    using shape_configure [OF o(2) [OF that]] by (simp add: L1_def)
  have failed: "ends E L (update_dev free_stream_buffers (close_unless_duo E (snd (init_configure E (snd (init_open E s))))))"
    if r: "fst (init_open E s) \<ge> 0"
  proof (rule shape_ends)
    note c = shape_close(2) [OF configured [OF r]]
    show "shape E ((if lc_role L1 = 0 then L1\<lparr>lc_backend := False\<rparr> else L1)\<lparr>lc_buffers := False\<rparr>)
      (update_dev free_stream_buffers (close_unless_duo E (snd (init_configure E (snd (init_open E s))))))"
      by (rule shape_dev [OF c]) (use c in \<open>simp_all add: shape_def life_simps L1_def\<close>)
    show "life_ok ((if lc_role L1 = 0 then L1\<lparr>lc_backend := False\<rparr> else L1)\<lparr>lc_buffers := False\<rparr>)"
      by (rule idle_closed [OF assms(2)]) (use assms(2) in \<open>auto simp: L1_def idle_def life_ok_def\<close>)
  qed (simp_all add: L1_def)
  show ?thesis
    using closed failed init_start_settled [OF assms(2) configured [unfolded L1_def]]
    by (simp add: init_connect_def case_prod_beta linorder_not_less)
qed

lemma settled_ends: "settled E s \<Longrightarrow> ends E (life (dev s)) s"
  by (simp add: ends_def)

lemma Init_ends:
  assumes "open_results E" "settled E s"
  shows "ends E (life (dev s)) (snd (sdrplay_api_Init E W ref callbacks s))"
proof (cases "selected (dev s) \<and> \<not> initialized (dev s)")
  case True
  define L where "L = life (dev s)"
  have L: "shape E L s" "life_ok L" using assms(2) by (simp_all add: L_def settled_def shape_def)
  then have idle: "idle L" "\<not> lc_buffers L" using True by (auto simp: idle_def L_def life_ok_def)
  let ?p = "init_prepare (arith E) (buffers_allocated W) (dev s)"
  have p: "shape E (L\<lparr>lc_buffers := (fst ?p = sdrplay_api_Success)\<rparr>) (s\<lparr>dev := snd ?p\<rparr>)"
    using L(1) idle(2) by (rule shape_prepare)
  then have "ends E L (s\<lparr>dev := snd ?p\<rparr>)" if "fst ?p \<noteq> sdrplay_api_Success"
    using that L(2) lc_buffers_same [OF idle(2)] by (auto intro: shape_ends)
  moreover have "ends E L (snd (init_connect E W cbs (s\<lparr>dev := snd ?p\<rparr>)))" if "fst ?p = sdrplay_api_Success" for cbs
    using p that by (intro init_connect_settled [OF assms(1) idle(1)]) simp
  ultimately show ?thesis
    using settled_ends [OF assms(2)]
    by (simp add: sdrplay_api_Init_def Let_def case_prod_beta L_def split: option.splits)
next
  case False
  then show ?thesis using settled_ends [OF assms(2)] by (auto simp: sdrplay_api_Init_def split: option.splits)
qed

lemma idle_events_life [life_simps]:
  "life (d\<lparr>ctx_events := snd (wait_for_event_idle (ctx_events d))\<rparr>) = life d"
  "data_ok d \<Longrightarrow> data_ok (d\<lparr>ctx_events := snd (wait_for_event_idle (ctx_events d))\<rparr>)"
  "life (d\<lparr>ctx_events := snd (stop_event_thread (ctx_events d))\<rparr>) = (life d)\<lparr>lc_events := False\<rparr>"
  "data_ok d \<Longrightarrow> data_ok (d\<lparr>ctx_events := snd (stop_event_thread (ctx_events d))\<rparr>)"
proof -
  have "event_wf (v\<lparr>event_stop := b\<rparr>) = event_wf v" "event_wf (v\<lparr>event_thread_started := b\<rparr>) = event_wf v" for v b
    by (simp_all add: event_wf_def)
  then show "life (d\<lparr>ctx_events := snd (wait_for_event_idle (ctx_events d))\<rparr>) = life d"
    "data_ok d \<Longrightarrow> data_ok (d\<lparr>ctx_events := snd (wait_for_event_idle (ctx_events d))\<rparr>)"
    "life (d\<lparr>ctx_events := snd (stop_event_thread (ctx_events d))\<rparr>) = (life d)\<lparr>lc_events := False\<rparr>"
    "data_ok d \<Longrightarrow> data_ok (d\<lparr>ctx_events := snd (stop_event_thread (ctx_events d))\<rparr>)"
    using event_drain_ok
    by (simp_all add: wait_for_event_idle_def stop_event_thread_def case_prod_beta life_def data_ok_def)
qed

lemma Uninit_ends:
  assumes "settled E s"
  shows "ends E (life (dev s)) (snd (sdrplay_api_Uninit E ref s))"
proof (cases "initialized (dev s)")
  case True
  define L where "L = life (dev s)"
  have L: "shape E L s" "life_ok L" "lc_initialized L"
    using assms True by (simp_all add: L_def settled_def shape_def)
  then have b: "lc_backend L" by (simp add: life_ok_def)
  define q where "q = (if duo_role (dev s) \<noteq> 0 then ask E Backend_stop_duo s else (0, s))"
  have q: "shape E L (snd q)" using L(1) b shape_ask [OF L(1) b] by (simp add: q_def opens_def)
  define s1 where "s1 = update_dev (\<lambda>d. d\<lparr>agc_stop := True\<rparr>) (snd q)"
  have 1: "shape E L s1"
    unfolding s1_def by (rule shape_dev [OF q]) (use q in \<open>simp_all add: shape_def life_simps\<close>)
  define s2 where "s2 = (if duo_role (dev s1) = 0
    then close_backend E (if thread_started (dev s1) then snd (ask E Backend_stop s1) else s1) else s1)"
  have "shape E L (if thread_started (dev s1) then snd (ask E Backend_stop s1) else s1)"
    using 1 shape_ask [OF 1 b] by (simp add: opens_def)
  then have 2: "shape E (if lc_role L = 0 then L\<lparr>lc_backend := False\<rparr> else L) s2"
    using 1 b shape_fields(2) [OF 1] shape_close(1) by (simp add: s2_def)
  let ?L = "(if lc_role L = 0 then L\<lparr>lc_backend := False\<rparr> else L)\<lparr>lc_initialized := False, lc_callbacks := False,
    lc_buffers := False, lc_stream := False, lc_agc := False\<rparr>"
  have 3: "shape E ?L (update_dev end_stream s2)"
    by (rule shape_dev [OF 2]) (use 2 in \<open>simp_all add: shape_def life_simps\<close>)
  define f where "f d = d\<lparr>ctx_events := snd (wait_for_event_idle (ctx_events d)), stream_a_cb := False, stream_b_cb := False\<rparr>"
    for d :: compat_device_context
  have "shape E ?L (update_dev f (update_dev end_stream s2))"
    by (rule shape_dev [OF 3]) (use 3 in \<open>simp_all add: shape_def life_simps f_def del: life_changes\<close>)
  then have "ends E L (update_dev f (update_dev end_stream s2))"
    by (rule shape_ends) (use L(2) in \<open>auto simp: life_ok_def\<close>)
  moreover have "ends E L (snd q)" using q L(2) by (auto intro: shape_ends)
  ultimately show ?thesis
    using settled_ends [OF assms] by (simp add: sdrplay_api_Uninit_def Let_def case_prod_beta
        flip: q_def s1_def s2_def f_def L_def)
qed (simp add: sdrplay_api_Uninit_def settled_ends assms)

subsection \<open>Selecting, opening and closing\<close>

text \<open>
  The library between two calls: a device is selected only while the interface is open, which
  is while the event thread runs, and only an open interface holds the daemon's lock.
\<close>

definition api_inv :: "client_env \<Rightarrow> api_state \<Rightarrow> bool" where
  "api_inv E a \<longleftrightarrow>
     settled E (client_state a) \<and>
     (selected (ctx a) \<longrightarrow> api_open a) \<and>
     event_thread_started (ctx_events (ctx a)) = api_open a \<and>
     (device_api_lock_depth a \<noteq> 0 \<longrightarrow> api_open a \<and> daemon_api_lock a)"

lemma reset_life: "life (reset_parameters P) = life (initial_context P)" "data_ok (reset_parameters P)"
  by (simp_all add: reset_parameters_def Let_def life_simps)
    (simp add: initial_context_def cleared_events_def cleared_stream_def data_ok_def queue_ok_def event_wf_def ring_wf_def)

lemma initial_life:
  "life (initial_context P) =
     \<lparr>lc_selected = False, lc_initialized = False, lc_backend = False, lc_buffers = False, lc_callbacks = False,
      lc_stream = False, lc_agc = False, lc_events = False, lc_role = 0, lc_pending = False\<rparr>"
  by (simp add: initial_context_def cleared_events_def cleared_stream_def life_def)

lemma api_inv_keeps:
  assumes "api_inv E a" "api_keeps E a a'"
  shows "api_inv E a'"
proof -
  have k: "settled E (client_state a')" "life (ctx a') = life (ctx a)" "api_open a' = api_open a"
    "device_api_lock_depth a' = device_api_lock_depth a" "daemon_api_lock a' = daemon_api_lock a"
    using assms by (simp_all add: api_inv_def api_keeps_def keeps_def)
  then have "selected (ctx a') = selected (ctx a)" "event_thread_started (ctx_events (ctx a')) = event_thread_started (ctx_events (ctx a))"
    by (metis life_fields(1), metis life_fields(8))
  then show ?thesis using assms(1) k by (simp add: api_inv_def)
qed

lemma api_inv_shape:
  assumes "shape E L (client_state a)" "life_ok L"
  shows "api_inv E a \<longleftrightarrow>
    (lc_selected L \<longrightarrow> api_open a) \<and> lc_events L = api_open a \<and>
    (device_api_lock_depth a \<noteq> 0 \<longrightarrow> api_open a \<and> daemon_api_lock a)"
  using shape_settled [OF assms] assms(1) by (auto simp: api_inv_def shape_def)

lemma api_shape:
  assumes "api_inv E a"
  shows "shape E (life (ctx a)) (client_state a)" "life_ok (life (ctx a))"
  using assms by (simp_all add: api_inv_def settled_def shape_def)

lemma client_state_simps [simp]:
  "client_state (update_ctx f a) = update_dev f (client_state a)"
  "client_state (snd (api_ask E c a)) = snd (ask E c (client_state a))"
  "fst (api_ask E c a) = fst (ask E c (client_state a))"
  by (simp_all add: update_ctx_def update_client_def api_ask_def case_prod_beta)

lemma Open_inv:
  assumes "api_inv E a"
  shows "api_inv E (snd (sdrplay_api_Open E W a))"
proof (cases "device_api_lock_depth a = 0 \<and> \<not> api_open a")
  case True
  note s = api_shape [OF assms]
  have closed: "\<not> backend (ctx a)" using True assms s(2) by (auto simp: api_inv_def life_ok_def)
  define L where "L b = (life (initial_context (arith E)))\<lparr>lc_events := b\<rparr>" for b
  have L: "L False = life (initial_context (arith E))" "life_ok (L b)" "\<not> lc_selected (L b)" "lc_events (L b) = b" for b
    by (simp_all add: L_def initial_life life_ok_def)
  have 1: "shape E (L False) (update_dev (\<lambda>_. reset_parameters (arith E)) (client_state a))"
    by (rule shape_dev [OF s(1)]) (simp_all add: reset_life L_def initial_life closed)
  have "d\<lparr>ctx_events := ctx_events d\<rparr> = d" for d :: compat_device_context by (cases d) simp
  from this [of "reset_parameters (arith E)"]
  have same: "(reset_parameters (arith E))\<lparr>ctx_events := cleared_events\<rparr> = reset_parameters (arith E)" by simp
  have 2: "shape E (L b) (update_dev (\<lambda>d. d\<lparr>ctx_events := snd (start_event_thread b (ctx_events d))\<rparr>)
      (update_dev (\<lambda>_. reset_parameters (arith E)) (client_state a)))" for b
    by (rule shape_dev [OF 1])
      (use 1 in \<open>simp_all add: shape_def life_changes L_def initial_life start_event_thread_def data_ok_def
        event_wf_def cleared_events_def\<close>)
  show ?thesis
    using True 1 2 [of True] 2 [of False] L(2-4)
    by (simp add: sdrplay_api_Open_def Let_def case_prod_beta start_event_thread_def update_dev_def same
        api_inv_shape [where L = "L False"] api_inv_shape [where L = "L True"])
next
  case False
  then show ?thesis using assms by (auto simp: sdrplay_api_Open_def)
qed

lemma Close_inv:
  assumes "api_inv E a"
  shows "api_inv E (snd (sdrplay_api_Close a))"
proof -
  note s = api_shape [OF assms]
  define f where "f d = d\<lparr>ctx_events := snd (stop_event_thread (ctx_events d))\<rparr>" for d :: compat_device_context
  have 1: "shape E ((life (ctx a))\<lparr>lc_events := False\<rparr>) (update_dev f (client_state a))"
    by (rule shape_dev [OF s(1)]) (simp_all add: f_def life_simps del: life_changes)
  have "life_ok ((life (ctx a))\<lparr>lc_events := False\<rparr>)" using s(2) by (simp add: life_ok_def)
  then show ?thesis
    using assms 1 api_inv_shape [OF _ \<open>life_ok ((life (ctx a))\<lparr>lc_events := False\<rparr>)\<close>]
    by (simp add: sdrplay_api_Close_def flip: f_def)
qed

lemma api_inv_other [simp]:
  "api_inv E (a\<lparr>discovery_handles := h\<rparr>) = api_inv E a" "api_inv E (a\<lparr>params_dev := b\<rparr>) = api_inv E a"
  "api_inv E (a\<lparr>params_rx_a := b\<rparr>) = api_inv E a" "api_inv E (a\<lparr>params_rx_b := b\<rparr>) = api_inv E a"
  by (simp_all add: api_inv_def)

lemma Lock_inv: "api_inv E a \<Longrightarrow> api_inv E (snd (sdrplay_api_LockDeviceApi W a))"
  "api_inv E a \<Longrightarrow> api_inv E (snd (sdrplay_api_UnlockDeviceApi W a))"
  by (auto simp: sdrplay_api_LockDeviceApi_def sdrplay_api_UnlockDeviceApi_def Let_def api_inv_def)

lemma GetDevices_inv: "api_inv E a \<Longrightarrow> api_inv E (snd (snd (sdrplay_api_GetDevices W x y m a)))"
  by (simp add: sdrplay_api_GetDevices_def Let_def split: option.splits)

lemma select_life:
  "life (select_context h v d) = (life d)\<lparr>lc_selected := True, lc_role := duo_role (select_context h v d)\<rparr>"
  "data_ok (select_context h v d) = data_ok d"
  "life (select_role_parameters rate t d) = life d" "data_ok (select_role_parameters rate t d) = data_ok d"
  "life (select_dual_parameters r d) = life d" "data_ok (select_dual_parameters r d) = data_ok d"
  by (simp_all add: select_role_parameters_def select_dual_parameters_def Let_def life_simps)
     (simp_all add: select_context_def life_def data_ok_def)

lemma select_params_inv [simp]: "api_inv E (select_params t role a) = api_inv E a"
  by (simp add: select_params_def)

text \<open>The role of the device: opened, or given up again.\<close>

lemma select_role_inv:
  assumes "api_open a" "shape E L (client_state a)" "life_ok (L\<lparr>lc_role := 0\<rparr>)" "lc_selected L" "\<not> lc_backend L" "lc_events L"
    "device_api_lock_depth a \<noteq> 0 \<Longrightarrow> daemon_api_lock a"
  shows "api_inv E (snd (snd (select_role E h v a)))"
proof (cases "lc_role L = 0")
  case True
  then have "L\<lparr>lc_role := 0\<rparr> = L" by (cases L) simp
  then have "life_ok L" using assms(3) by simp
  then show ?thesis
    using assms True shape_fields(2) [OF assms(2)] api_inv_shape [OF assms(2)] by (simp add: select_role_def)
next
  case False
  define rate where "rate = (if lc_role L = OPENRSP_DUO_ROLE_MASTER then u32_of_double (rspDuoSampleFreq v)
    else dh_rspduo_sample_rate_hz h)"
  define s1 where "s1 = update_dev (select_role_parameters rate (dt_tuner v)) (client_state a)"
  define c where "c = Backend_open_duo (ctx_identity (dev s1)) (lc_role L)
    (if dt_tuner v = Tuner_B then OPENRSP_TUNER_B else OPENRSP_TUNER_A) rate"
  have 1: "shape E L s1"
    unfolding s1_def by (rule shape_dev [OF assms(2)]) (use assms(2) in \<open>simp_all add: shape_def select_life\<close>)
  have opened: "shape E (L\<lparr>lc_backend := True\<rparr>) (update_dev (\<lambda>d. d\<lparr>backend := True\<rparr>) (snd (ask E c s1)))"
    if "fst (ask E c s1) = 0"
    using 1 that assms(5) by (auto simp: shape_def conn_ok_def handle_scan_snoc handle_step_def opens_def c_def life_simps)
  have refused: "shape E (L\<lparr>lc_selected := False, lc_role := 0\<rparr>)
      (update_dev (\<lambda>d. d\<lparr>selected := False, duo_role := 0\<rparr>) (snd (ask E c s1)))"
    if "fst (ask E c s1) \<noteq> 0"
    using 1 that assms(5) by (auto simp: shape_def conn_ok_def handle_scan_snoc handle_step_def opens_def c_def life_simps)
  define a1 where "a1 = snd (api_ask E c (update_ctx (select_role_parameters rate (dt_tuner v)) a))"
  have a1: "client_state a1 = snd (ask E c s1)" "api_open a1" "device_api_lock_depth a1 = device_api_lock_depth a"
    "daemon_api_lock a1 = daemon_api_lock a"
    using assms(1) by (simp_all add: a1_def s1_def)
  have eq: "snd (snd (select_role E h v a)) =
      (if fst (ask E c s1) \<noteq> 0 then update_ctx (\<lambda>d. d\<lparr>selected := False, duo_role := 0\<rparr>) a1
       else update_ctx (\<lambda>d. d\<lparr>backend := True\<rparr>) a1)"
    using False shape_fields(2) [OF assms(2)]
    by (simp add: select_role_def Let_def case_prod_beta a1_def c_def s1_def rate_def)
  have ok: "life_ok (L\<lparr>lc_backend := True\<rparr>)" "life_ok (L\<lparr>lc_selected := False, lc_role := 0\<rparr>)"
    using assms(3-5) False by (auto simp: life_ok_def)
  show ?thesis
    unfolding eq using opened refused assms(4,6,7) a1
      api_inv_shape [OF _ ok(1), of E "update_ctx (\<lambda>d. d\<lparr>backend := True\<rparr>) a1"]
      api_inv_shape [OF _ ok(2), of E "update_ctx (\<lambda>d. d\<lparr>selected := False, duo_role := 0\<rparr>) a1"]
    by simp
qed

lemma Select_inv:
  assumes "api_inv E a"
  shows "api_inv E (snd (snd (sdrplay_api_SelectDevice E v a)))"
proof (cases "api_open a \<and> \<not> selected (ctx a)")
  case True
  note s = api_shape [OF assms]
  have "api_inv E (snd (snd (select_role E h v (update_ctx (select_context h v) a))))" for h
  proof (rule select_role_inv)
    show "shape E (life (select_context h v (ctx a))) (client_state (update_ctx (select_context h v) a))"
      unfolding client_state_simps by (rule shape_dev [OF s(1)]) (simp_all add: select_life)
  qed (use True s assms in \<open>auto simp: select_life(1) select_context_def life_ok_def api_inv_def\<close>)
  then have r: "api_inv E (snd (snd (select_role E h v (update_ctx (select_context h v) a))))" for h .
  have "api_inv E (update_ctx (select_dual_parameters f) a')" if "api_inv E a'" for a' f
    by (rule api_inv_keeps [OF that api_keeps_ctx]) (simp_all add: select_life)
  then show ?thesis
    using assms r by (simp add: sdrplay_api_SelectDevice_def Let_def case_prod_beta split: option.splits)
next
  case False
  then show ?thesis using assms by (auto simp: sdrplay_api_SelectDevice_def)
qed

lemma Release_inv:
  assumes "api_inv E a"
  shows "api_inv E (snd (snd (sdrplay_api_ReleaseDevice E v a)))"
proof (cases "api_open a \<and> \<not> initialized (ctx a)")
  case True
  note s = api_shape [OF assms]
  define a1 where "a1 = (if backend (ctx a) then update_ctx (\<lambda>d. d\<lparr>backend := False\<rparr>) (snd (api_ask E Backend_close a)) else a)"
  define f where "f d = d\<lparr>selected := False, duo_role := 0, start_pending := False,
    ctx_identity := \<lparr>id_device_index = 0, id_vendor_id = 0, id_product_id = 0, id_serial = replicate 64 0\<rparr>\<rparr>"
    for d :: compat_device_context
  have same: "\<not> lc_backend L \<Longrightarrow> L\<lparr>lc_backend := False\<rparr> = L" for L by (cases L) simp
  have 1: "shape E ((life (ctx a))\<lparr>lc_backend := False\<rparr>) (client_state a1)"
    using shape_close(1) [OF s(1)] s(1) by (simp add: a1_def close_backend_def same)
  let ?L = "(life (ctx a))\<lparr>lc_backend := False, lc_selected := False, lc_role := 0, lc_pending := False\<rparr>"
  have "shape E ?L (update_dev f (client_state a1))"
    by (rule shape_dev [OF 1]) (use 1 in \<open>simp_all add: shape_def f_def life_simps\<close>)
  then have 2: "shape E ?L (client_state (update_ctx f a1))" by simp
  have "life_ok ?L" using s(2) True by (auto simp: life_ok_def)
  from api_inv_shape [OF 2 this] have "api_inv E (update_ctx f a1)"
    using assms True by (auto simp: api_inv_def a1_def)
  then show ?thesis
    using assms by (simp add: sdrplay_api_ReleaseDevice_def Let_def flip: a1_def f_def)
next
  case False
  then show ?thesis using assms by (auto simp: sdrplay_api_ReleaseDevice_def)
qed

subsection \<open>All runs\<close>

text \<open>
  What happens to the library between two quiescent points: a call of the application, a write
  through the parameter pointers, or an activity of one of the library's threads.
\<close>

datatype api_call =
    Call_Open
  | Call_Close
  | Call_LockDeviceApi
  | Call_UnlockDeviceApi
  | Call_GetDevices bool bool nat
  | Call_SelectDevice sdrplay_api_DeviceT
  | Call_ReleaseDevice sdrplay_api_DeviceT
  | Call_Init dev_ref "(bool \<times> bool) option"
  | Call_Uninit dev_ref
  | Call_Update dev_ref int u32 u32
  | Call_SwapRspDuoActiveTuner dev_ref "int option" int
  | Call_SwapRspDuoDualTunerModeSampleRate dev_ref "double option" double
  | Call_SwapRspDuoMode sdrplay_api_DeviceT int double int int int int
  | Write_parameters sdrplay_api_DevParamsT sdrplay_api_RxChannelParamsT sdrplay_api_RxChannelParamsT
  | Thread activity

fun api_do :: "client_env \<Rightarrow> api_world \<Rightarrow> api_call \<Rightarrow> api_state \<Rightarrow> api_state" where
  "api_do E W Call_Open a = snd (sdrplay_api_Open E W a)"
| "api_do E W Call_Close a = snd (sdrplay_api_Close a)"
| "api_do E W Call_LockDeviceApi a = snd (sdrplay_api_LockDeviceApi W a)"
| "api_do E W Call_UnlockDeviceApi a = snd (sdrplay_api_UnlockDeviceApi W a)"
| "api_do E W (Call_GetDevices x y m) a = snd (snd (sdrplay_api_GetDevices W x y m a))"
| "api_do E W (Call_SelectDevice v) a = snd (snd (sdrplay_api_SelectDevice E v a))"
| "api_do E W (Call_ReleaseDevice v) a = snd (snd (sdrplay_api_ReleaseDevice E v a))"
| "api_do E W (Call_Init ref cbs) a = update_client (\<lambda>s. snd (sdrplay_api_Init E W ref cbs s)) a"
| "api_do E W (Call_Uninit ref) a = update_client (\<lambda>s. snd (sdrplay_api_Uninit E ref s)) a"
| "api_do E W (Call_Update ref t reason ext) a = snd (sdrplay_api_Update E W ref t reason ext a)"
| "api_do E W (Call_SwapRspDuoActiveTuner ref t p) a = snd (snd (sdrplay_api_SwapRspDuoActiveTuner E ref t p a))"
| "api_do E W (Call_SwapRspDuoDualTunerModeSampleRate ref r n) a =
     update_client (\<lambda>s. snd (snd (sdrplay_api_SwapRspDuoDualTunerModeSampleRate E ref r n s))) a"
| "api_do E W (Call_SwapRspDuoMode v m r t b i p) a = snd (snd (sdrplay_api_SwapRspDuoMode E v m r t b i p a))"
| "api_do E W (Write_parameters p x y) a = update_ctx (\<lambda>d. d\<lparr>dev_params := p, rx_channel_a := x, rx_channel_b := y\<rparr>) a"
| "api_do E W (Thread x) a = update_client (activity_step E x) a"

inductive api_step :: "client_env \<Rightarrow> api_state \<Rightarrow> api_call \<Rightarrow> api_state \<Rightarrow> bool" for E where
  "api_step E a c (api_do E W c a)"

inductive_cases api_stepE: "api_step E a c a'"

text \<open>Init and Uninit change the life cycle, but neither the selection nor the event thread.\<close>

lemma api_inv_ends:
  assumes "api_inv E a" "ends E (life (ctx a)) (f (client_state a))"
  shows "api_inv E (update_client f a)"
  using assms by (simp add: api_inv_def update_client_def ends_def)

lemma api_do_inv:
  assumes "open_results E" "api_inv E a"
  shows "api_inv E (api_do E W c a)"
proof (cases c)
  case (Call_Init ref cbs)
  have "settled E (client_state a)" using assms(2) by (simp add: api_inv_def)
  then show ?thesis using Call_Init Init_ends [OF assms(1)] api_inv_ends [OF assms(2)] by simp
next
  case (Call_Uninit ref)
  have "settled E (client_state a)" using assms(2) by (simp add: api_inv_def)
  then show ?thesis using Call_Uninit Uninit_ends api_inv_ends [OF assms(2)] by simp
next
  case (Write_parameters p x y)
  then show ?thesis using assms(2) api_inv_keeps [OF _ api_keeps_ctx] by (simp add: life_simps)
next
  case (Thread x)
  then show ?thesis using assms(2) api_inv_keeps [OF _ api_keeps_client] keeps_activity by simp
next
  case (Call_SwapRspDuoDualTunerModeSampleRate ref r n)
  then show ?thesis using assms(2) api_inv_keeps [OF _ api_keeps_client] keeps_swap_rate by simp
qed (use assms(2) in \<open>simp_all add: Open_inv Close_inv Lock_inv GetDevices_inv Select_inv Release_inv
    api_inv_keeps [OF _ api_keeps_update] api_inv_keeps [OF _ api_keeps_swap_tuner] api_inv_keeps [OF _ api_keeps_swap_mode]\<close>)

interpretation api_sys: invariant_system "api_step E" "\<lambda>a. open_results E \<and> api_inv E a"
  by unfold_locales (auto elim!: api_stepE simp: api_do_inv)

end
