(* ===== verification/Rsp_Library.thy ===== *)
theory Rsp_Library
  imports Rsp_Reach
begin

text \<open>
  What holds in every state the client library reaches from its static storage: the life
  cycle, the discipline of the daemon connection and the delivery of the frames the stream
  thread takes. The last part runs the library on a concrete session.
\<close>

subsection \<open>Static storage\<close>

definition static_channel :: sdrplay_api_RxChannelParamsT where
  "static_channel =
     \<lparr>bwType = 0, ifType = 0, loMode = 0, gRdB = 0, LNAstate = 0, gain_syncUpdate = False, minGr = 0,
      gainVals = (0, 0, 0), rfHz = Fin 0, rf_syncUpdate = False, dcCal = 0, speedUp = False, trackTime = 0,
      refreshRateTime = 0, DCenable = False, IQenable = False, decimation_enable = False, decimationFactor = 0,
      agc_enable = 0, setPoint_dBfs = 0, attack_ms = 0, decay_ms = 0, decay_delay_ms = 0, decay_threshold_dB = 0,
      agc_syncUpdate = False, adsbMode = 0, biasTEnable = False, tuner1AmPortSel = 0, tuner1AmNotchEnable = False,
      rfNotchEnable = False, rfDabNotchEnable = False, slave_resetGainUpdate = False, slave_resetRfUpdate = False\<rparr>"

definition static_context :: compat_device_context where
  "static_context =
     \<lparr>selected = False, initialized = False,
      ctx_identity = \<lparr>id_device_index = 0, id_vendor_id = 0, id_product_id = 0, id_serial = replicate 64 0\<rparr>,
      ctx_tuner = 0, ctx_mode = 0, duo_role = 0, start_pending = False,
      dev_params = \<lparr>ppm = Fin 0, fsHz = Fin 0, fs_syncUpdate = False, sampleNum = 0, sync_period = 0,
        resetGainUpdate = False, resetRfUpdate = False, resetFsUpdate = False, extRefOutputEn = False\<rparr>,
      rx_channel_a = static_channel, rx_channel_b = static_channel,
      backend = False, stream_buffers = False, ctx_stream = cleared_stream, thread_started = False,
      agc_thread_started = False, stream_a_cb = False, stream_b_cb = False, device_stream_state = 0,
      callback_samples = 0, agc_stop = False, lane_a = cleared_lane, lane_b = cleared_lane,
      ctx_events = cleared_events\<rparr>"

definition api_initial :: api_state where
  "api_initial =
     \<lparr>api_open = False, device_api_lock_depth = 0, daemon_api_lock = False, discovery_handles = [],
      last_errors = replicate 4 None, params_dev = False, params_rx_a = False, params_rx_b = False,
      client_state = \<lparr>dev = static_context, calls = [], clock_reads = 0\<rparr>\<rparr>"

lemma api_initial_inv: "api_inv E api_initial"
proof -
  have "life static_context = life (initial_context P)" for P
    by (simp add: initial_life) (simp add: static_context_def cleared_events_def cleared_stream_def life_def)
  then have "life_ok (life static_context)" by (simp add: initial_life life_ok_def)
  moreover have "data_ok static_context"
    by (simp add: static_context_def cleared_events_def cleared_stream_def data_ok_def queue_ok_def event_wf_def ring_wf_def)
  ultimately show ?thesis
    by (simp add: api_inv_def settled_def conn_ok_def api_initial_def)
      (simp add: static_context_def cleared_events_def)
qed

lemma reachable_inv: "open_results E \<Longrightarrow> runs (api_step E) api_initial cs a \<Longrightarrow> api_inv E a"
  using api_sys.runs_inv [of E api_initial cs a] api_initial_inv by simp

subsection \<open>Every reachable state\<close>

text \<open>
  C5. Between any two steps of the library, whatever the daemon answers and whichever thread
  or library call fails: a device is selected only while the interface is open, which is
  while the event thread runs; an initialised device is selected and has its connection,
  its buffers, all three threads and a positive number of samples per callback; a device
  that is not initialised has no buffers and no threads, and keeps a connection only for a
  duo role or a pending start; a duo role implies a connection; and the lock depth is
  positive only while the interface is open and the daemon's lock held.
\<close>

theorem library_life_cycle:
  assumes "open_results E" and "runs (api_step E) api_initial cs a"
  shows "(selected (ctx a) \<longrightarrow> api_open a) \<and> event_thread_started (ctx_events (ctx a)) = api_open a \<and>
    (initialized (ctx a) \<longrightarrow> selected (ctx a) \<and> backend (ctx a) \<and> stream_buffers (ctx a) \<and>
       stream_callback_thread_started (ctx_stream (ctx a)) \<and> thread_started (ctx a) \<and> agc_thread_started (ctx a) \<and>
       0 < callback_samples (ctx a)) \<and>
    (\<not> initialized (ctx a) \<longrightarrow> \<not> stream_buffers (ctx a) \<and> \<not> stream_callback_thread_started (ctx_stream (ctx a)) \<and>
       \<not> thread_started (ctx a) \<and> \<not> agc_thread_started (ctx a) \<and>
       (backend (ctx a) \<longrightarrow> duo_role (ctx a) \<noteq> 0 \<or> start_pending (ctx a))) \<and>
    (duo_role (ctx a) \<noteq> 0 \<longrightarrow> backend (ctx a)) \<and>
    (device_api_lock_depth a \<noteq> 0 \<longrightarrow> api_open a \<and> daemon_api_lock a)"
  using reachable_inv [OF assms] by (simp add: api_inv_def settled_def life_ok_def data_ok_def)

text \<open>
  The connection to the daemon is never misused: reading the calls of a run in order,
  every open happens while no connection is held, every other call and every close while
  one is, and the library's pointer says at each point whether it is open.
\<close>

lemma connection_handle_discipline:
  assumes "open_results E" and "runs (api_step E) api_initial cs a"
  shows "handle_scan (answer E) [] False (calls (client_state a)) = Some (backend (ctx a))"
  using reachable_inv [OF assms] by (simp add: api_inv_def settled_def conn_ok_def)

text \<open>
  C13. A frame the stream thread takes fits the buffers it is copied into and is delivered
  completely in finitely many callbacks, while updates change the number of samples per
  callback under way: the calls carry the samples of the frame in order, each numbered from
  where the previous one stopped, and only the first one carries the reset and change flags.
\<close>

theorem dispatched_frame_delivered:
  assumes "open_results E" and "runs (api_step E) api_initial cs a"
    and "stream_callback_thread_started (ctx_stream (ctx a))"
    and "stream_dispatch (ctx_stream (ctx a)) = Some (taken, q)"
    and "\<And>k. \<exists>ds b. runs (api_step E) a ds b \<and> initialized (ctx b) \<and> n k = callback_samples (ctx b)"
  shows "sf_samples (sd_frame taken) \<le> OPENRSP_MAX_IQ_SAMPLES \<and>
    (\<exists>out. deliver_calls dual n taken = Some out \<and> out \<noteq> [] \<and> concat (map sc_data out) = sf_data (sd_frame taken) \<and>
      (sf_samples (sd_frame taken) = 0 \<or> numbered (sf_first_sample (sd_frame taken)) n 0 out) \<and>
      list_all unflagged (tl out))"
proof -
  have inv: "api_inv E a" using assms(1,2) by (rule reachable_inv)
  then have "stream_buffers (ctx a)" "data_ok (ctx a)"
    using assms(3) by (auto simp: api_inv_def settled_def life_ok_def)
  then have frame: "length (sf_data (sd_frame taken)) = sf_samples (sd_frame taken)"
    "sf_samples (sd_frame taken) \<le> OPENRSP_MAX_IQ_SAMPLES"
    using stream_dispatch_ok(2) [OF _ assms(4)] by (simp_all add: data_ok_def frame_ok_def)
  have "0 < n k" for k
  proof -
    obtain ds b where b: "runs (api_step E) a ds b" "initialized (ctx b)" "n k = callback_samples (ctx b)"
      using assms(5) by blast
    then have "api_inv E b" using api_sys.runs_inv [OF b(1)] inv assms(1) by simp
    then show ?thesis using b by (simp add: api_inv_def settled_def data_ok_def)
  qed
  from chunk_calls_total [where callback_samples = n and dual = dual and iteration = 0 and offset = 0, OF this frame(1)] obtain out where
    out: "chunk_calls dual n taken 0 0 = Some out" "concat (map sc_data out) = sf_data (sd_frame taken)"
    "numbered (sf_first_sample (sd_frame taken)) n 0 out" "list_all unflagged (tl out)" by auto
  moreover have "out \<noteq> []" if "sf_samples (sd_frame taken) \<noteq> 0" using out(2) frame(1) that by auto
  ultimately show ?thesis using frame by (auto simp: deliver_calls_def Let_def)
qed

subsection \<open>A session to evaluate\<close>

text \<open>One RSPduo is listed, every call succeeds and one IQ frame arrives during each poll of a start.\<close>

definition bench_record :: device_record where
  "bench_record =
     \<lparr>rec_device_index = 0, rec_vendor_id = 0x1df7, rec_product_id = 0x3020, rec_serial = [65], rec_model = [],
      rec_rspduo_mode_mask = OPENRSP_MODE_CAP_MASTER, rec_rspduo_sample_rate_hz = 0\<rparr>"

definition bench_world :: api_world where
  "bench_world =
     \<lparr>listing = Some [bench_record],
      lock_result = 0, unlock_result = 0, serial_override = None, event_thread_created = True,
      buffers_allocated = True, stream_thread_created = True, agc_thread_created = True,
      startup = (\<lambda>n. [Iq_frame [(5, 6)] (of_nat n) OPENRSP_TUNER_A]), wakeups = (\<lambda>_. []), realtime_readable = True,
      recorded_at = 0\<rparr>"

definition bench_device :: "int \<Rightarrow> sdrplay_api_DeviceT" where
  "bench_device mode =
     \<lparr>SerNo = [65], hwVer = 3, dt_tuner = Tuner_A, rspDuoMode = mode, dt_valid = True,
      rspDuoSampleFreq = Fin 6000000, dt_dev = Handle 0\<rparr>"

fun api_run :: "api_call list \<Rightarrow> api_state \<Rightarrow> api_state" where
  "api_run [] a = a"
| "api_run (c # cs) a = api_run cs (api_do bench_client_env bench_world c a)"

lemma api_run_runs: "runs (api_step bench_client_env) a cs (api_run cs a)"
proof (induction cs arbitrary: a)
  case (Cons c cs)
  have "api_step bench_client_env a c (api_do bench_client_env bench_world c a)" by (rule api_step.intros)
  then show ?case using Cons by (auto intro: runs_Cons)
qed (simp add: runs_Nil)

lemma bench_open_results: "open_results bench_client_env"
  by (simp add: open_results_def bench_client_env_def)

definition bench_opened :: api_state where
  "bench_opened = api_run [Call_Open, Call_GetDevices False False 4] api_initial"

lemma bench_opened_state:
  "api_open bench_opened" "device_api_lock_depth bench_opened = 0"
  "client_state bench_opened =
     \<lparr>dev = (reset_parameters exact_fpu)\<lparr>ctx_events := cleared_events\<lparr>event_thread_started := True\<rparr>\<rparr>, calls = [], clock_reads = 0\<rparr>"
  "discovery_handles bench_opened = [discovery_handle bench_record]"
  by (simp_all add: bench_opened_def api_initial_def sdrplay_api_Open_def sdrplay_api_GetDevices_def Let_def case_prod_beta
      start_event_thread_def bench_world_def bench_record_def bench_client_env_def update_ctx_def update_client_def update_dev_def
      api_hardware_version_def)

definition bench_selected :: api_state where
  "bench_selected = api_run [Call_SelectDevice (bench_device RspDuoMode_Single_Tuner)] bench_opened"

definition bench_idle :: compat_device_context where
  "bench_idle = select_context (discovery_handle bench_record) (bench_device RspDuoMode_Single_Tuner)
     ((reset_parameters exact_fpu)\<lparr>ctx_events := cleared_events\<lparr>event_thread_started := True\<rparr>\<rparr>)"

lemma bench_idle_fields [simp]:
  "selected bench_idle" "\<not> initialized bench_idle" "\<not> backend bench_idle" "duo_role bench_idle = 0"
  "ctx_mode bench_idle = RspDuoMode_Single_Tuner" "ctx_tuner bench_idle = Tuner_A"
  "rx_channel_a bench_idle = default_channel" "rx_channel_b bench_idle = default_channel"
  "dev_params bench_idle = default_dev_params" "ctx_stream bench_idle = cleared_stream"
  by (simp_all add: bench_idle_def select_context_def bench_device_def)

lemma bench_selected_state: "client_state bench_selected = \<lparr>dev = bench_idle, calls = [], clock_reads = 0\<rparr>" "api_open bench_selected"
proof -
  have "select_errors (discovery_handle bench_record) (bench_device RspDuoMode_Single_Tuner) = sdrplay_api_Success"
    by (simp add: select_errors_def bench_device_def discovery_handle_def bench_record_def api_hardware_version_def
        Let_def)
  then show "client_state bench_selected = \<lparr>dev = bench_idle, calls = [], clock_reads = 0\<rparr>" "api_open bench_selected"
    by (simp_all add: bench_selected_def sdrplay_api_SelectDevice_def bench_opened_state handle_of_def
        bench_device_def [of 1] select_role_def select_params_def Let_def update_ctx_def update_client_def update_dev_def)
      (simp_all add: bench_idle_def select_context_def bench_device_def)
qed

lemma default_gain_values: "openrsp_rspduo_gain_values exact_fpu (Fin 200000000) 0 50 20 False \<noteq> None"
  using gain_values_50_ohm [OF ieee_exact_fpu, of 200000000 20 50 0]
    calibrated_states_bands [OF ieee_exact_fpu, of 200000000] by simp

lemma bench_prepared:
  obtains d where "init_prepare exact_fpu True bench_idle = (sdrplay_api_Success, d)"
    "ctx_stream d = cleared_stream\<lparr>stream_queue := replicate OPENRSP_STREAM_QUEUE_CAPACITY empty_stream_frame\<rparr>"
    "stream_buffers d" "\<not> backend d" "duo_role d = 0" "ctx_mode d = RspDuoMode_Single_Tuner" "ctx_tuner d = Tuner_A"
proof -
  obtain v where "openrsp_rspduo_gain_values exact_fpu (Fin 200000000) 0 50 20 False = Some v"
    using default_gain_values by blast
  then have g: "init_gain_values exact_fpu bench_idle =
      (0, update_channel Tuner_A (\<lambda>ch. ch\<lparr>gainVals := v\<rparr>) bench_idle)"
    by (simp add: init_gain_values_def store_gain_values_def channel_for_tuner_def default_channel_def frame_simps)
  let ?d = "(update_channel Tuner_A (\<lambda>ch. ch\<lparr>gainVals := v\<rparr>) bench_idle)\<lparr>stream_buffers := True,
    ctx_stream := cleared_stream\<lparr>stream_queue := replicate OPENRSP_STREAM_QUEUE_CAPACITY empty_stream_frame\<rparr>\<rparr>"
  have "validate_dsp_configuration exact_fpu (channel_for_tuner ?d Tuner_A) (fsHz (dev_params ?d)) = 0"
    using default_validates [of exact_fpu]
    by (simp add: channel_for_tuner_def update_channel_def validate_dsp_iff default_dev_params_def decimation_factor_def)
  note c = dsp_validated_configures [OF this]
  obtain f where f: "snd (configure_lane_dsp exact_fpu Tuner_A ?d) = update_lane Tuner_A f ?d"
    using configure_lane_dsp_frame by blast
  obtain h where h: "snd (configure_lane_decimator exact_fpu Tuner_A (update_lane Tuner_A f ?d)) =
      update_lane Tuner_A h (update_lane Tuner_A f ?d)"
    by (simp add: configure_lane_decimator_def case_prod_beta)
  define d where "d = update_lane Tuner_A h (update_lane Tuner_A f ?d)"
  have "init_lane exact_fpu Tuner_A ?d = (0, d)"
    using c f h by (simp add: init_lane_def d_def case_prod_beta prod_eq_iff)
  then have "init_prepare exact_fpu True bench_idle = (sdrplay_api_Success, d)"
    using default_validates [of exact_fpu]
    by (simp add: init_prepare_def init_validate_def g allocate_stream_buffers_def init_filters_def d_def frame_simps
        active_channel_def default_dev_params_def)
  then show thesis
    by (rule that) (simp_all add: d_def frame_simps)
qed

definition bench_running :: api_state where
  "bench_running = api_run [Call_Init Rspduo (Some (True, False))] bench_selected"

text \<open>An IQ frame on a device with buffers reaches a callback queue that is neither paused nor stopped.\<close>

lemma stream_callback_queued:
  assumes "stream_buffers d" "\<not> stream_callback_paused (ctx_stream d)" "\<not> stream_callback_stop (ctx_stream d)"
    "stream_callback_count (ctx_stream d) = 0"
  shows "stream_dispatch (ctx_stream (daemon_stream_callback P [x] sequence t d)) \<noteq> None"
    and "device_stream_state (daemon_stream_callback P [x] sequence t d) = 1"
    and "ctx_mode (daemon_stream_callback P [x] sequence t d) = ctx_mode d"
  using assms
  by (simp_all add: daemon_stream_callback_def Let_def case_prod_beta frame_simps queue_stream_callback_def stream_put_def
      stream_dispatch_def stream_ready_def)

lemma startup_poll_3000:
  "startup_poll E acts 0 3000 s = (if device_stream_state (dev s) \<noteq> 0 then s
     else let s1 = activity_steps E (acts 0) s in
       if device_stream_state (dev s1) \<noteq> 0 then s1 else startup_poll E acts 2 2998 (activity_steps E (acts 1) s1))"
proof -
  have "3000 = Suc (Suc 2998)" by simp
  then show ?thesis by (simp only: startup_poll.simps) (simp add: Let_def numeral_2_eq_2)
qed

lemma bench_env_simps [simp]:
  "answer bench_client_env cs = 0" "arith bench_client_env = exact_fpu" "startup bench_world n = [Iq_frame [(5, 6)] (of_nat n) OPENRSP_TUNER_A]"
  "stream_thread_created bench_world" "agc_thread_created bench_world" "buffers_allocated bench_world"
  by (simp_all add: bench_client_env_def bench_world_def)

lemma bench_configures [simp]:
  "fst (init_configure bench_client_env s) = 0" "dev (snd (init_configure E s)) = dev s"
  "fst (init_gain bench_client_env s) = 0" "dev (snd (init_gain E s)) = dev s"
  by (simp_all add: init_configure_def init_gain_def gain_request_def Let_def case_prod_beta)

lemma bench_runs_stream:
  assumes "stream_buffers (dev s)" "\<not> stream_callback_paused (ctx_stream (dev s))" "\<not> stream_callback_stop (ctx_stream (dev s))"
    "stream_callback_count (ctx_stream (dev s)) = 0" "device_stream_state (dev s) = 0" "backend (dev s)" "initialized (dev s)"
  shows "fst (init_run bench_client_env bench_world s) = sdrplay_api_Success"
    "stream_dispatch (ctx_stream (dev (snd (init_run bench_client_env bench_world s)))) \<noteq> None"
    "initialized (dev (snd (init_run bench_client_env bench_world s)))"
proof -
  define d1 where "d1 = (dev s)\<lparr>agc_thread_started := True\<rparr>"
  define d2 where "d2 = daemon_stream_callback exact_fpu [(5, 6)] 0 OPENRSP_TUNER_A d1"
  have d2: "device_stream_state d2 = 1" "stream_dispatch (ctx_stream d2) \<noteq> None"
    using stream_callback_queued [of d1] assms by (simp_all add: d2_def d1_def)
  have "life d2 = life d1" by (simp add: d2_def life_simps)
  then have "initialized d2 = initialized d1" by (metis life_fields(2))
  then have l: "initialized d2" using assms(7) by (simp add: d1_def)
  have p: "dev (startup_poll bench_client_env (startup bench_world) 0 3000 (update_dev (\<lambda>d. d\<lparr>agc_thread_started := True\<rparr>) s)) = d2"
    using assms d2(1) by (simp add: startup_poll_3000 activity_steps_def d2_def d1_def)
  show "fst (init_run bench_client_env bench_world s) = sdrplay_api_Success"
    "stream_dispatch (ctx_stream (dev (snd (init_run bench_client_env bench_world s)))) \<noteq> None"
    "initialized (dev (snd (init_run bench_client_env bench_world s)))"
    using d2 l p by (simp_all add: init_run_def Let_def case_prod_beta)
qed

lemma bench_running_state:
  "stream_dispatch (ctx_stream (ctx bench_running)) \<noteq> None" "initialized (ctx bench_running)"
proof -
  obtain d where d: "init_prepare exact_fpu True bench_idle = (sdrplay_api_Success, d)"
    "ctx_stream d = cleared_stream\<lparr>stream_queue := replicate OPENRSP_STREAM_QUEUE_CAPACITY empty_stream_frame\<rparr>"
    "stream_buffers d" "\<not> backend d" "duo_role d = 0" "ctx_mode d = RspDuoMode_Single_Tuner" "ctx_tuner d = Tuner_A"
    by (rule bench_prepared)
  define s0 where "s0 = \<lparr>dev = d, calls = [], clock_reads = 0\<rparr>"
  define s1 where "s1 = snd (init_configure bench_client_env (snd (init_open bench_client_env s0)))"
  have s1: "dev s1 = d\<lparr>backend := True\<rparr>"
    using d by (simp add: s1_def s0_def init_open_def case_prod_beta)
  define s2 where "s2 = update_dev (\<lambda>d. init_counters (d\<lparr>stream_a_cb := True, stream_b_cb := False\<rparr>))
    (update_dev (\<lambda>d. d\<lparr>ctx_stream := snd (start_stream_callback_thread True (ctx_stream d))\<rparr>) s1)"
  define s3 where "s3 = update_dev (\<lambda>d. d\<lparr>start_pending := False, thread_started := True\<rparr>) (snd (ask bench_client_env Backend_start s2))"
  have s3: "stream_buffers (dev s3)" "\<not> stream_callback_paused (ctx_stream (dev s3))" "\<not> stream_callback_stop (ctx_stream (dev s3))"
    "stream_callback_count (ctx_stream (dev s3)) = 0" "device_stream_state (dev s3) = 0" "backend (dev s3)" "initialized (dev s3)"
    using d by (simp_all add: s3_def s2_def s1 init_counters_def start_stream_callback_thread_def Let_def)
  have role: "duo_role (dev s2) = 0" using d by (simp add: s2_def s1 init_counters_def Let_def)
  have start: "init_start bench_client_env bench_world (True, False) s1 = init_run bench_client_env bench_world s3"
    using role unfolding s3_def s2_def
    by (simp add: init_start_def start_thread_ok(2) case_prod_beta update_dev_def Let_def)
  have "client_state bench_running = snd (init_connect bench_client_env bench_world (True, False) s0)"
    using d(1) by (simp add: bench_running_def update_client_def bench_selected_state sdrplay_api_Init_def s0_def)
  also have "\<dots> = snd (init_run bench_client_env bench_world s3)"
    using d(4) by (simp add: init_connect_def case_prod_beta start flip: s1_def) (simp add: init_open_def s0_def case_prod_beta)
  finally show "stream_dispatch (ctx_stream (ctx bench_running)) \<noteq> None" "initialized (ctx bench_running)"
    using bench_runs_stream [OF s3] by simp_all
qed

definition bench_calls :: "api_call list" where
  "bench_calls = [Call_Open, Call_GetDevices False False 4, Call_SelectDevice (bench_device RspDuoMode_Single_Tuner),
     Call_Init Rspduo (Some (True, False))]"

lemma bench_reaches: "runs (api_step bench_client_env) api_initial bench_calls bench_running"
  using api_run_runs [of api_initial bench_calls]
  by (simp add: bench_calls_def bench_running_def bench_selected_def bench_opened_def)

theorem library_life_cycle_witness:
  "api_open bench_running \<and> selected (ctx bench_running) \<and> backend (ctx bench_running) \<and>
   stream_buffers (ctx bench_running) \<and> agc_thread_started (ctx bench_running) \<and> 0 < callback_samples (ctx bench_running)"
  using library_life_cycle [OF bench_open_results bench_reaches] bench_running_state(2) by simp

theorem dispatched_frame_delivered_witness:
  "\<exists>taken q out. stream_dispatch (ctx_stream (ctx bench_running)) = Some (taken, q) \<and>
     sf_samples (sd_frame taken) \<le> OPENRSP_MAX_IQ_SAMPLES \<and>
     deliver_calls False (\<lambda>_. callback_samples (ctx bench_running)) taken = Some out \<and>
     concat (map sc_data out) = sf_data (sd_frame taken)"
proof -
  obtain taken q where t: "stream_dispatch (ctx_stream (ctx bench_running)) = Some (taken, q)"
    using bench_running_state(1) by auto
  have inv: "api_inv bench_client_env bench_running" by (rule reachable_inv [OF bench_open_results bench_reaches])
  then have c: "stream_callback_thread_started (ctx_stream (ctx bench_running))"
    using bench_running_state(2) by (simp add: api_inv_def settled_def life_ok_def)
  have n: "\<exists>ds b. runs (api_step bench_client_env) bench_running ds b \<and> initialized (ctx b) \<and>
      callback_samples (ctx bench_running) = callback_samples (ctx b)" for k :: nat
    using bench_running_state(2) by (intro exI [of _ "[]"] exI [of _ bench_running]) simp
  show ?thesis
    using dispatched_frame_delivered [OF bench_open_results bench_reaches c t n, of False] t by auto
qed

end
