(* ===== verification/Rsp_Refused.thy ===== *)
theory Rsp_Refused
  imports Rsp_Reach
begin

text \<open>
  What a refused request leaves behind: an update the daemon or the library turns down puts
  the filters, the AGC and the callback size back, and a change of mode, tuner or shared
  rate either takes effect as a whole or leaves every parameter as it was.
\<close>

subsection \<open>Updates\<close>


text \<open>The parts of the context an update may touch: the lane of its tuner, its queues and the callback size.\<close>

definition same_parameters :: "compat_device_context \<Rightarrow> compat_device_context \<Rightarrow> bool" where
  "same_parameters d d' \<longleftrightarrow>
     dev_params d' = dev_params d \<and> rx_channel_a d' = rx_channel_a d \<and> rx_channel_b d' = rx_channel_b d \<and>
     ctx_mode d' = ctx_mode d \<and> ctx_tuner d' = ctx_tuner d"

definition other_lane :: "int \<Rightarrow> compat_device_context \<Rightarrow> compat_lane" where
  "other_lane t d = (if t = Tuner_B then lane_a d else lane_b d)"

definition filters :: "compat_lane \<Rightarrow> openrsp_iq_correction \<times> openrsp_adsb_filter \<times> openrsp_low_if_dsp \<times> compat_decimator" where
  "filters l = (iq_correction l, adsb_filter l, low_if_dsp l, decimator l)"

definition local_frame :: "int \<Rightarrow> compat_device_context \<Rightarrow> compat_device_context \<Rightarrow> bool" where
  "local_frame t d d' \<longleftrightarrow> same_parameters d d' \<and> other_lane t d' = other_lane t d"

lemma local_frame_refl [simp]: "local_frame t d d"
  by (simp add: local_frame_def same_parameters_def)

lemma local_frame_trans: "local_frame t d d' \<Longrightarrow> local_frame t d' d'' \<Longrightarrow> local_frame t d d''"
  by (simp add: local_frame_def same_parameters_def)

lemma local_frame_lane [simp]: "local_frame t d (update_lane t f d') = local_frame t d d'"
  by (simp add: local_frame_def same_parameters_def other_lane_def update_lane_def)

lemma local_frame_samples [simp]: "local_frame t d (d'\<lparr>callback_samples := n\<rparr>) = local_frame t d d'"
  "local_frame t d (d'\<lparr>ctx_stream := q\<rparr>) = local_frame t d d'" "local_frame t d (d'\<lparr>ctx_events := v\<rparr>) = local_frame t d d'"
  by (simp_all add: local_frame_def same_parameters_def other_lane_def)

lemma local_frame_overload [simp]: "local_frame t d (acknowledge_overload t d') = local_frame t d d'"
  by (simp add: acknowledge_overload_def emit_overload_event_def queue_event_def case_prod_beta Let_def)

lemma local_frame_stage:
  assumes "local_frame t d (snd rd)" "\<And>d'. local_frame t d d' \<Longrightarrow> local_frame t d (snd (f d'))"
  shows "local_frame t d (snd (update_stage wanted f rd))"
  using assms by (simp add: update_stage_def)

lemma local_frame_filters: "local_frame t d d' \<Longrightarrow> local_frame t d (snd (update_filters P t reason (r, d')))"
  unfolding update_filters_def Let_def
  by (intro local_frame_stage) (simp_all add: local_frame_stage configure_iq_correction_def configure_adsb_def configure_low_if_def
      configure_lane_decimator_def case_prod_beta Let_def)

definition agc_of :: "compat_lane \<Rightarrow> int \<times> int" where
  "agc_of l = (lane_agc_mode l, lane_agc_setpoint l)"

lemma emit_overload_kept [simp]:
  "filters (lane_for (emit_overload_event t b d) t) = filters (lane_for d t)"
  "agc_of (lane_for (emit_overload_event t b d) t) = agc_of (lane_for d t)"
  using emit_overload_lane [of t b d] by (auto simp: filters_def agc_of_def)

lemma acknowledge_lane [simp]:
  "filters (lane_for (acknowledge_overload t d) t) = filters (lane_for d t)"
  "agc_of (lane_for (acknowledge_overload t d) t) = agc_of (lane_for d t)"
  by (simp_all add: acknowledge_overload_def Let_def) (simp_all add: filters_def agc_of_def)

lemma configure_agc [simp]:
  "agc_of (lane_for (snd (configure_iq_correction P t d)) t) = agc_of (lane_for d t)"
  "agc_of (lane_for (snd (configure_adsb P t d)) t) = agc_of (lane_for d t)"
  "agc_of (lane_for (snd (configure_low_if P t d)) t) = agc_of (lane_for d t)"
  "agc_of (lane_for (snd (configure_lane_decimator P t d)) t) = agc_of (lane_for d t)"
  by (simp_all add: configure_iq_correction_def configure_adsb_def configure_low_if_def
      configure_lane_decimator_def case_prod_beta Let_def agc_of_def)

lemma stage_agc:
  assumes "\<And>d. agc_of (lane_for (snd (f d)) t) = agc_of (lane_for d t)"
  shows "agc_of (lane_for (snd (update_stage wanted f rd)) t) = agc_of (lane_for (snd rd) t)"
  using assms by (simp add: update_stage_def)

lemma update_filters_agc [simp]: "agc_of (lane_for (snd (update_filters P t reason rd)) t) = agc_of (lane_for (snd rd) t)"
  by (simp add: update_filters_def Let_def stage_agc)

lemma update_filters_none:
  assumes "\<not> has_flag reason dsp_reasons"
  shows "filters (lane_for (snd (update_filters P t reason rd)) t) = filters (lane_for (snd rd) t)"
  using assms unfolding update_filters_def has_flag_or by (simp add: Let_def update_stage_def)

lemma lane_for_samples [simp]: "lane_for (d\<lparr>callback_samples := n\<rparr>) = lane_for d"
  by (simp add: lane_for_def fun_eq_iff)

lemma update_agc_kept [simp]:
  "local_frame t d (dev (snd (update_agc E t s))) = local_frame t d (dev s)"
  "filters (lane_for (dev (snd (update_agc E t s))) t) = filters (lane_for (dev s) t)"
  by (simp_all add: update_agc_def Let_def case_prod_beta client_milliseconds_def filters_def)

lemma update_local_kept:
  "local_frame t (dev s) (dev (snd (update_local E t reason s)))"
  "\<not> has_flag reason Update_Ctrl_Agc \<Longrightarrow>
     agc_of (lane_for (dev (snd (update_local E t reason s))) t) = agc_of (lane_for (dev s) t)"
  "\<not> has_flag reason dsp_reasons \<Longrightarrow>
     filters (lane_for (dev (snd (update_local E t reason s))) t) = filters (lane_for (dev s) t)"
proof -
  define s1 where "s1 = (if fs_changed reason
    then update_dev (\<lambda>d. d\<lparr>callback_samples := callback_samples_for (fsHz (dev_params d))\<rparr>) s else s)"
  define r where "r = (if has_flag reason Update_Ctrl_Agc then update_agc E t s1 else (0, s1))"
  have l: "local_frame t (dev s) (dev (snd r))" and f: "filters (lane_for (dev (snd r)) t) = filters (lane_for (dev s) t)"
    by (simp_all add: r_def s1_def)
  have e: "dev (snd (update_local E t reason s)) = snd (update_filters (arith E) t reason (fst r, dev (snd r)))"
    by (simp add: update_local_def r_def s1_def Let_def case_prod_beta)
  show "local_frame t (dev s) (dev (snd (update_local E t reason s)))"
    unfolding e using l by (rule local_frame_filters)
  show "\<not> has_flag reason Update_Ctrl_Agc \<Longrightarrow>
     agc_of (lane_for (dev (snd (update_local E t reason s))) t) = agc_of (lane_for (dev s) t)"
    unfolding e by (simp add: r_def s1_def)
  show "\<not> has_flag reason dsp_reasons \<Longrightarrow>
     filters (lane_for (dev (snd (update_local E t reason s))) t) = filters (lane_for (dev s) t)"
    unfolding e using f update_filters_none by simp
qed

lemma store_gain_fail: "fst (store_gain_values P t d) \<noteq> 0 \<Longrightarrow> snd (store_gain_values P t d) = d"
  by (simp add: store_gain_values_def Let_def split: option.splits)

lemma update_accepted_kept:
  assumes "update_accepted E t reason r s = (r', s')" "r \<ge> 0" "r' < 0"
  shows "local_frame t (dev s) (dev s')" "filters (lane_for (dev s') t) = filters (lane_for (dev s) t)"
    "agc_of (lane_for (dev s') t) = agc_of (lane_for (dev s) t)"
  using assms store_gain_fail [of "arith E" t "dev s"]
  by (auto simp: update_accepted_def Let_def case_prod_beta filters_def agc_of_def split: if_splits)



subsection \<open>Mode changes\<close>

lemma swap_parameters_kept [simp]:
  "same_parameters d (pause_ctx d') = same_parameters d d'" "same_parameters d (resume_ctx d') = same_parameters d d'"
  "same_parameters d (fail_stream d') = same_parameters d d'" "same_parameters d (update_lane t f d') = same_parameters d d'"
  by (simp_all add: same_parameters_def pause_ctx_def resume_ctx_def fail_stream_def frame_simps)

lemma configure_same [simp]:
  "same_parameters d (snd (configure_lane_dsp P t d')) = same_parameters d d'"
  "same_parameters d (snd (configure_lane_decimator P t d')) = same_parameters d d'"
  by (simp_all add: configure_lane_dsp_def configure_iq_correction_def configure_adsb_def configure_low_if_def
      configure_lane_decimator_def case_prod_beta Let_def)

lemma swap_mode_same [simp]:
  "same_parameters d (snd (swap_mode_filters P mode t d')) = same_parameters d d'"
  "same_parameters d (swap_mode_epoch mode t d') = same_parameters d d'"
  "same_parameters d (dev (snd (resume_mode E s))) = same_parameters d (dev s)"
proof -
  show "same_parameters d (snd (swap_mode_filters P mode t d')) = same_parameters d d'"
    by (simp add: swap_mode_filters_def Let_def case_prod_beta)
  show "same_parameters d (swap_mode_epoch mode t d') = same_parameters d d'"
    by (simp add: swap_mode_epoch_def Let_def) (simp add: same_parameters_def)
  show "same_parameters d (dev (snd (resume_mode E s))) = same_parameters d (dev s)"
    by (simp add: resume_mode_def case_prod_beta)
qed

lemma swapped_mode_same:
  "same_parameters ((dev s)\<lparr>ctx_mode := mode, ctx_tuner := t\<rparr>) (dev (snd (swapped_mode E mode t s)))"
proof -
  have "same_parameters d ((pause_ctx d')\<lparr>ctx_mode := m, ctx_tuner := t\<rparr>) = same_parameters d (d'\<lparr>ctx_mode := m, ctx_tuner := t\<rparr>)"
    for d d' m by (simp add: same_parameters_def pause_ctx_def)
  then show ?thesis by (simp add: swapped_mode_def Let_def case_prod_beta) (simp add: same_parameters_def)
qed



subsection \<open>A daemon that refuses\<close>

definition refusing_env :: client_env where
  "refusing_env = bench_client_env\<lparr>answer := (\<lambda>_. -1)\<rparr>"

lemma refusing_env_simps [simp]: "answer refusing_env cs = -1" "arith refusing_env = exact_fpu"
  by (simp_all add: refusing_env_def bench_client_env_def)


definition bench_single :: api_state where
  "bench_single =
     \<lparr>api_open = True, device_api_lock_depth = 0, daemon_api_lock = False, discovery_handles = [],
      last_errors = replicate 4 None, params_dev = True, params_rx_a = True, params_rx_b = False,
      client_state = \<lparr>dev = bench_context\<lparr>stream_b_cb := True\<rparr>, calls = [], clock_reads = 0\<rparr>\<rparr>"

definition bench_handle :: sdrplay_api_DeviceT where
  "bench_handle =
     \<lparr>SerNo = [65], hwVer = 3, dt_tuner = Tuner_A, rspDuoMode = RspDuoMode_Single_Tuner, dt_valid = True,
      rspDuoSampleFreq = Fin 2000000, dt_dev = Rspduo\<rparr>"

lemma bench_single_fields [simp]:
  "initialized (ctx bench_single)" "ctx_mode (ctx bench_single) = RspDuoMode_Single_Tuner" "stream_b_cb (ctx bench_single)"
  "dt_dev bench_handle = Rspduo"
  by (simp_all add: bench_handle_def bench_single_def bench_context_def initial_context_def)


end
