(* ===== verification/Rsp_Backend.thy ===== *)
theory Rsp_Backend
  imports Rsp_Serve Rsp_Api
begin

text \<open>
  The client library's end of the daemon connection, \<open>compat/daemon_backend.c\<close>: the
  synchronous requests on a fresh connection, the interface lock, the pool of IQ frames
  between the reader thread and the IQ thread, the two threads, the asynchronous requests,
  and the exported calls. A connection is the list of what its receives will find and the
  list of the requests sent on it; the first list is arbitrary, so it also stands for what
  is read after a message that did not fit its buffer. The threads are guarded steps: \<^term>\<open>None\<close> is a
  thread that waits. The callbacks made are recorded as the activities the client library
  reacts to. The constants are those of the POSIX build.
\<close>

subsection \<open>Messages on a connection\<close>

text \<open>
  What one call of \<open>openrsp_client_receive\<close> finds: a message, a timeout before its first
  byte, or a failure. A receive that finds nothing at all times out.
\<close>

datatype received = Received message_header "u8 list" | Receive_timeout | Receive_failed

record connection =
  incoming :: "received list"
  outgoing :: "(openrsp_command_type \<times> u32 \<times> u8 list) list"

text \<open>A message longer than the buffer is a failure.\<close>

fun within_capacity :: "nat \<Rightarrow> received \<Rightarrow> received" where
  "within_capacity capacity (Received h p) =
     (if unat (hdr_payload_bytes h) > capacity then Receive_failed else Received h p)"
| "within_capacity capacity Receive_timeout = Receive_timeout"
| "within_capacity capacity Receive_failed = Receive_failed"

definition client_receive :: "nat \<Rightarrow> connection \<Rightarrow> received \<times> connection" where
  "client_receive capacity c =
     (case incoming c of [] \<Rightarrow> (Receive_timeout, c)
      | r # rs \<Rightarrow> (within_capacity capacity r, c\<lparr>incoming := rs\<rparr>))"

text \<open>Whether a send succeeds depends on the requests sent before it.\<close>

definition client_send ::
  "(nat \<Rightarrow> bool) \<Rightarrow> openrsp_command_type \<Rightarrow> u32 \<Rightarrow> u8 list \<Rightarrow> connection \<Rightarrow> int \<times> connection" where
  "client_send sends command sequence payload c =
     (if sends (length (outgoing c)) then 0 else -1,
      c\<lparr>outgoing := outgoing c @ [(command, sequence, payload)]\<rparr>)"

subsection \<open>Messages and bytes\<close>

text \<open>
  What a call of the byte-level \<open>openrsp_client_receive\<close> amounts to as a message; one that
  still blocks has not returned before its timeout.
\<close>

definition receive_outcome ::
  "(int \<times> (message_header \<times> u8 list) option \<times> sock_event list) option \<Rightarrow> received" where
  "receive_outcome out =
     (case out of
        None \<Rightarrow> Receive_timeout
      | Some (r, m, evs) \<Rightarrow>
          if r = OPENRSP_CLIENT_TIMEOUT then Receive_timeout
          else case m of Some (h, p) \<Rightarrow> Received h p | None \<Rightarrow> Receive_failed)"

lemma transfer_exact_read_length:
  "transfer_exact_read evs n acc = Some (0, bs, evs') \<Longrightarrow> length bs = length acc + n"
  by (induction evs n acc rule: transfer_exact_read.induct) (auto split: if_splits)

text \<open>A message that is received has the announced length.\<close>

fun received_ok :: "received \<Rightarrow> bool" where
  "received_ok (Received h p) = (length p = unat (hdr_payload_bytes h))"
| "received_ok _ = True"

lemma receive_outcome_ok: "received_ok (receive_outcome (openrsp_client_receive evs capacity))"
proof (cases "transfer_exact_read evs 16 []")
  case None
  then show ?thesis by (simp add: openrsp_client_receive_def receive_outcome_def)
next
  case (Some a)
  obtain r bs evs1 where a: "a = (r, bs, evs1)" by (cases a)
  let ?n = "unat (hdr_payload_bytes (decode_header bs))"
  show ?thesis
  proof (cases "transfer_exact_read evs1 ?n []")
    case None
    then show ?thesis using Some a by (simp add: openrsp_client_receive_def receive_outcome_def Let_def)
  next
    case (Some c)
    then show ?thesis
      using \<open>transfer_exact_read evs 16 [] = Some a\<close> a transfer_exact_read_length [of evs1 ?n "[]"]
      by (cases c) (auto simp: openrsp_client_receive_def receive_outcome_def Let_def)
  qed
qed

text \<open>A frame at the front of the stream is the message, if it fits.\<close>

lemma receive_outcome_frame:
  assumes "list_all readable evs" "stream evs = frame_bytes (ty, sequence, payload) @ rest"
    and "length payload < 4294967296"
  shows "receive_outcome (openrsp_client_receive evs capacity) =
    within_capacity capacity (Received (frame_header ty sequence (of_nat (length payload))) payload)"
proof -
  let ?h = "frame_header ty sequence (of_nat (length payload))"
  have n: "unat (hdr_payload_bytes ?h) = length payload"
    using assms(3) by (simp add: frame_header_def unat_of_nat_u32)
  show ?thesis
  proof (cases "length payload \<le> capacity")
    case True
    then show ?thesis using openrsp_client_receive_frame [OF assms(1,2) True assms(3)] n
      by (auto simp: receive_outcome_def)
  next
    case False
    have "stream evs = encode_header ?h @ (payload @ rest)" using assms(2) by (simp add: frame_bytes_def)
    then obtain evs1 where "transfer_exact_read evs 16 [] = Some (0, encode_header ?h, evs1)"
      using client_reader.rd_prefix [OF assms(1)] header_codec.enc_width by metis
    then show ?thesis using False n
      by (simp add: openrsp_client_receive_def header_codec.dec_enc Let_def receive_outcome_def)
  qed
qed

subsection \<open>Synchronous requests\<close>

definition receive_response :: "u32 \<Rightarrow> connection \<Rightarrow> response option \<times> connection" where
  "receive_response sequence c =
     (case client_receive 16 c of
        (Received h p, c) \<Rightarrow>
          (if hdr_type h \<noteq> command_code OPENRSP_MSG_RESPONSE \<or> hdr_sequence h \<noteq> sequence \<or>
              hdr_payload_bytes h \<noteq> 16 \<or> rsp_sequence (decode_response p) \<noteq> sequence
           then None else Some (decode_response p), c)
      | (_, c) \<Rightarrow> (None, c))"

definition request_on_client ::
  "(nat \<Rightarrow> bool) \<Rightarrow> openrsp_command_type \<Rightarrow> u32 \<Rightarrow> u8 list \<Rightarrow> connection \<Rightarrow> int \<times> connection" where
  "request_on_client sends command sequence payload c =
     (let (result, c) = client_send sends command sequence payload c in
      if result \<noteq> 0 then (-1, c)
      else case receive_response sequence c of
        (None, c) \<Rightarrow> (-1, c)
      | (Some r, c) \<Rightarrow>
          (if rsp_status r = status_code OPENRSP_STATUS_OK then 0 else - sint (rsp_status r), c))"

fun receive_records :: "u32 \<Rightarrow> nat \<Rightarrow> connection \<Rightarrow> bool \<times> device_record list \<times> connection" where
  "receive_records sequence 0 c = (True, [], c)"
| "receive_records sequence (Suc n) c =
     (case client_receive 144 c of
        (Received h p, c) \<Rightarrow>
          if hdr_type h \<noteq> command_code OPENRSP_EVENT_DEVICE \<or> hdr_sequence h \<noteq> sequence \<or>
             hdr_payload_bytes h \<noteq> 144
          then (False, [], c)
          else let (ok, records, c) = receive_records sequence n c
               in (ok, decode_device_record p # records, c)
      | (_, c) \<Rightarrow> (False, [], c))"

text \<open>The result, what is stored in the caller's array of \<open>capacity\<close> entries, and the rest.\<close>

definition list_on_client ::
  "(nat \<Rightarrow> bool) \<Rightarrow> u32 \<Rightarrow> nat \<Rightarrow> connection \<Rightarrow> int \<times> device_record list \<times> connection" where
  "list_on_client sends sequence capacity c =
     (let (result, c) = client_send sends OPENRSP_CMD_LIST sequence [] c in
      if result \<noteq> 0 then (-1, [], c)
      else case receive_response sequence c of
        (None, c) \<Rightarrow> (-1, [], c)
      | (Some r, c) \<Rightarrow>
          if rsp_status r \<noteq> status_code OPENRSP_STATUS_OK then (-1, [], c)
          else let (ok, records, c) = receive_records sequence (unat (rsp_changed_flags r)) c
               in (if ok then sint (rsp_changed_flags r) else -1, take capacity records, c))"

subsection \<open>The interface lock\<close>

text \<open>
  What one call finds: whether memory is available and the connection is made, what the
  connection's receives will find, which sends succeed, whether the clock and the threads
  can be had, and what the threads do while the call waits.
\<close>

datatype backend_event =
    Reader_receives bool
  | Reader_wakes
  | Reader_drained
  | Worker_takes
  | Worker_finishes

record backend_world =
  has_memory :: bool
  has_frame_memory :: bool
  connects :: "connection option"
  sends :: "nat \<Rightarrow> bool"
  clock_readable :: bool
  makes_iq_thread :: bool
  makes_reader_thread :: bool
  while_waiting :: "backend_event list"
  while_closing :: "backend_event list"

definition openrsp_daemon_backend_list ::
  "backend_world \<Rightarrow> nat \<Rightarrow> int \<times> device_record list" where
  "openrsp_daemon_backend_list W capacity =
     (case connects W of None \<Rightarrow> (-1, [])
      | Some c \<Rightarrow> let (count, devices, c) = list_on_client (sends W) 1 capacity c
                 in (count, devices))"

record daemon_api_lock =
  lock_client :: "connection option"
  lock_next_sequence :: u32

definition openrsp_daemon_api_lock_acquire :: "backend_world \<Rightarrow> int \<times> daemon_api_lock option" where
  "openrsp_daemon_api_lock_acquire W =
     (if \<not> has_memory W then (-1, None)
      else case connects W of None \<Rightarrow> (-1, None)
      | Some c \<Rightarrow>
          let (result, c) = request_on_client (sends W) OPENRSP_CMD_LOCK_API 1 [] c
          in if result \<noteq> 0 then (result, None)
             else (0, Some \<lparr>lock_client = Some c, lock_next_sequence = 2\<rparr>))"

definition openrsp_daemon_api_lock_list ::
  "backend_world \<Rightarrow> nat \<Rightarrow> daemon_api_lock option \<Rightarrow> int \<times> device_record list \<times> daemon_api_lock option" where
  "openrsp_daemon_api_lock_list W capacity lock =
     (case lock of None \<Rightarrow> (-1, [], None)
      | Some l \<Rightarrow>
         (case lock_client l of None \<Rightarrow> (-1, [], lock)
          | Some c \<Rightarrow>
              let (count, devices, c) = list_on_client (sends W) (lock_next_sequence l) capacity c
              in (count, devices,
                  Some (l\<lparr>lock_client := Some c, lock_next_sequence := lock_next_sequence l + 1\<rparr>))))"

text \<open>The result and the requests sent on the connection, which is then closed.\<close>

definition openrsp_daemon_api_lock_release ::
  "backend_world \<Rightarrow> daemon_api_lock option \<Rightarrow> int \<times> (openrsp_command_type \<times> u32 \<times> u8 list) list" where
  "openrsp_daemon_api_lock_release W lock =
     (case lock of None \<Rightarrow> (-1, [])
      | Some l \<Rightarrow>
         (case lock_client l of None \<Rightarrow> (-1, [])
          | Some c \<Rightarrow>
              let (result, c) = request_on_client (sends W) OPENRSP_CMD_UNLOCK_API (lock_next_sequence l) [] c
              in (result, outgoing c)))"

subsection \<open>The state of a back end\<close>

datatype iq_slot_state = Iq_free | Iq_queued | Iq_active

record daemon_iq_frame =
  iq_state :: iq_slot_state
  iq_samples :: nat
  iq_sequence :: u32
  iq_tuner :: u32
  interleaved :: "(int \<times> int) list"

text \<open>
  Where the reader thread is: not created, about to receive, in the timed wait for a free
  slot with the frame it holds, in the wait of \<open>drain_iq_before_response\<close> with the
  response it holds, or ended.
\<close>

datatype reader_place =
    Reader_absent
  | Reader_reading
  | Reader_waiting nat u32 u32 "(int \<times> int) list"
  | Reader_draining response
  | Reader_ended

abbreviation (input) OPENRSP_DAEMON_IQ_QUEUE_CAPACITY :: nat where
  "OPENRSP_DAEMON_IQ_QUEUE_CAPACITY \<equiv> 32"

text \<open>
  \<open>iq_slot\<close> is the local variable of the IQ thread; \<open>callbacks_made\<close> records the calls of
  the four callbacks, in order.
\<close>

record daemon_backend =
  be_client :: "connection option"
  reader_started :: bool
  reader_place :: reader_place
  iq_started :: bool
  iq_stop :: bool
  iq_queue :: "nat list"
  iq_queue_head :: nat
  iq_queue_count :: nat
  iq_active :: bool
  iq_slot :: nat
  iq_drop_count :: u32
  iq_frames :: "daemon_iq_frame list"
  next_sequence :: u32
  waiting_sequence :: u32
  waiting_status :: u32
  waiting_changed_flags :: u32
  response_received :: bool
  reader_failed :: bool
  be_closing :: bool
  has_callback :: bool
  has_status_callback :: bool
  has_duo_callback :: bool
  has_failure_callback :: bool
  be_duo_role :: u32
  callbacks_made :: "activity list"

definition call_back :: "bool \<Rightarrow> activity \<Rightarrow> daemon_backend \<Rightarrow> daemon_backend" where
  "call_back installed act b =
     (if installed then b\<lparr>callbacks_made := callbacks_made b @ [act]\<rparr> else b)"

definition be_send ::
  "backend_world \<Rightarrow> openrsp_command_type \<Rightarrow> u32 \<Rightarrow> u8 list \<Rightarrow> daemon_backend \<Rightarrow> int \<times> daemon_backend" where
  "be_send W command sequence payload b =
     (case be_client b of None \<Rightarrow> (-1, b)
      | Some c \<Rightarrow> let (result, c) = client_send (sends W) command sequence payload c
                 in (result, b\<lparr>be_client := Some c\<rparr>))"

definition direct_request ::
  "backend_world \<Rightarrow> openrsp_command_type \<Rightarrow> u8 list \<Rightarrow> daemon_backend \<Rightarrow> int \<times> daemon_backend" where
  "direct_request W command payload b =
     (let sequence = next_sequence b;
          b = b\<lparr>next_sequence := sequence + 1\<rparr>
      in case be_client b of None \<Rightarrow> (-1, b)
         | Some c \<Rightarrow> let (result, c) = request_on_client (sends W) command sequence payload c
                    in (result, b\<lparr>be_client := Some c\<rparr>))"

subsection \<open>The IQ thread\<close>

text \<open>\<open>iq_main\<close> up to and including its callback, and after it.\<close>

definition iq_take :: "daemon_backend \<Rightarrow> daemon_backend option" where
  "iq_take b =
     (if \<not> iq_started b \<or> iq_active b \<or> iq_stop b \<or> iq_queue_count b = 0 then None
      else let slot = iq_queue b ! iq_queue_head b;
               frame = iq_frames b ! slot;
               b = b\<lparr>iq_queue_head := (iq_queue_head b + 1) mod OPENRSP_DAEMON_IQ_QUEUE_CAPACITY,
                     iq_queue_count := iq_queue_count b - 1,
                     iq_slot := slot,
                     iq_frames := (iq_frames b)[slot := frame\<lparr>iq_state := Iq_active\<rparr>],
                     iq_active := True\<rparr>
           in Some (call_back (has_callback b)
                (Iq_frame (take (iq_samples frame) (interleaved frame)) (iq_sequence frame) (iq_tuner frame)) b))"

definition iq_finish :: "daemon_backend \<Rightarrow> daemon_backend option" where
  "iq_finish b =
     (if \<not> iq_active b then None
      else Some (b\<lparr>iq_frames := (iq_frames b)[iq_slot b := (iq_frames b ! iq_slot b)\<lparr>iq_state := Iq_free\<rparr>],
                   iq_active := False\<rparr>))"

text \<open>The condition that ends the wait of \<open>drain_iq_before_response\<close>.\<close>

definition iq_drained :: "daemon_backend \<Rightarrow> bool" where
  "iq_drained b \<longleftrightarrow> iq_queue_count b = 0 \<and> \<not> iq_active b \<or> iq_stop b"

definition start_iq_worker :: "backend_world \<Rightarrow> daemon_backend \<Rightarrow> int \<times> daemon_backend" where
  "start_iq_worker W b =
     (if iq_started b then (0, b)
      else let b = b\<lparr>iq_stop := False\<rparr>
           in if \<not> makes_iq_thread W then (-1, b) else (0, b\<lparr>iq_started := True\<rparr>))"

text \<open>The thread that is joined first finishes the callback it is in.\<close>

definition stop_iq_worker :: "daemon_backend \<Rightarrow> daemon_backend" where
  "stop_iq_worker b =
     (if \<not> iq_started b then b
      else let b = b\<lparr>iq_stop := True, iq_queue_count := 0\<rparr>;
               b = (case iq_finish b of None \<Rightarrow> b | Some b' \<Rightarrow> b')
           in b\<lparr>iq_started := False\<rparr>)"

subsection \<open>Queueing an IQ frame\<close>

text \<open>The first free slot, or the capacity.\<close>

fun free_slot :: "daemon_iq_frame list \<Rightarrow> nat" where
  "free_slot [] = 0"
| "free_slot (f # fs) = (if iq_state f = Iq_free then 0 else Suc (free_slot fs))"

definition drop_oldest_iq :: "daemon_backend \<Rightarrow> nat \<times> daemon_backend" where
  "drop_oldest_iq b =
     (iq_queue b ! iq_queue_head b,
      b\<lparr>iq_queue_head := (iq_queue_head b + 1) mod OPENRSP_DAEMON_IQ_QUEUE_CAPACITY,
        iq_queue_count := iq_queue_count b - 1,
        iq_drop_count := iq_drop_count b + 1\<rparr>)"

text \<open>The copy overwrites the front of the slot's buffer.\<close>

definition put_iq ::
  "nat \<Rightarrow> nat \<Rightarrow> u32 \<Rightarrow> u32 \<Rightarrow> (int \<times> int) list \<Rightarrow> daemon_backend \<Rightarrow> daemon_backend" where
  "put_iq slot samples sequence t data b =
     (let frame = iq_frames b ! slot in
      b\<lparr>iq_frames := (iq_frames b)[slot :=
           \<lparr>iq_state = Iq_queued, iq_samples = samples, iq_sequence = sequence, iq_tuner = t,
            interleaved = data @ drop (length data) (interleaved frame)\<rparr>],
        iq_queue := (iq_queue b)[(iq_queue_head b + iq_queue_count b) mod
                                   OPENRSP_DAEMON_IQ_QUEUE_CAPACITY := slot],
        iq_queue_count := iq_queue_count b + 1\<rparr>)"

text \<open>\<open>queue_iq\<close> after its search for a free slot: drop the oldest frame when none is free.\<close>

definition store_iq :: "nat \<Rightarrow> u32 \<Rightarrow> u32 \<Rightarrow> (int \<times> int) list \<Rightarrow> daemon_backend \<Rightarrow> daemon_backend" where
  "store_iq samples sequence t data b =
     (let slot = free_slot (iq_frames b);
          (slot, b) = (if slot = OPENRSP_DAEMON_IQ_QUEUE_CAPACITY \<and> iq_queue_count b \<noteq> 0
                       then drop_oldest_iq b else (slot, b))
      in if slot \<noteq> OPENRSP_DAEMON_IQ_QUEUE_CAPACITY then put_iq slot samples sequence t data b
         else b)"

text \<open>With no slot free and a readable clock, the reader waits once before it stores.\<close>

definition queue_iq ::
  "bool \<Rightarrow> nat \<Rightarrow> u32 \<Rightarrow> u32 \<Rightarrow> (int \<times> int) list \<Rightarrow> daemon_backend \<Rightarrow> daemon_backend" where
  "queue_iq ck samples sequence t data b =
     (if \<not> has_callback b \<or> samples > OPENRSP_MAX_IQ_SAMPLES then b
      else if free_slot (iq_frames b) = OPENRSP_DAEMON_IQ_QUEUE_CAPACITY \<and> iq_queue_count b \<noteq> 0 \<and> ck
      then b\<lparr>reader_place := Reader_waiting samples sequence t data\<rparr>
      else store_iq samples sequence t data b)"

definition reader_wakes :: "daemon_backend \<Rightarrow> daemon_backend option" where
  "reader_wakes b =
     (case reader_place b of
        Reader_waiting samples sequence t data \<Rightarrow>
          Some (store_iq samples sequence t data (b\<lparr>reader_place := Reader_reading\<rparr>))
      | _ \<Rightarrow> None)"

subsection \<open>The reader thread\<close>

text \<open>The payload of an IQ event as pairs of 16-bit samples.\<close>

fun iq_pairs :: "u8 list \<Rightarrow> (int \<times> int) list" where
  "iq_pairs (a # b # c # d # bs) = (sint (bytes_u16 a b), sint (bytes_u16 c d)) # iq_pairs bs"
| "iq_pairs _ = []"

definition handle_message :: "bool \<Rightarrow> message_header \<Rightarrow> u8 list \<Rightarrow> daemon_backend \<Rightarrow> daemon_backend" where
  "handle_message ck h p b =
     (if (hdr_type h = command_code OPENRSP_EVENT_IQ \<or> hdr_type h = command_code OPENRSP_EVENT_IQ_B) \<and>
         hdr_payload_bytes h mod 4 = 0
      then queue_iq ck (unat (hdr_payload_bytes h div 4)) (hdr_sequence h)
             (if hdr_type h = command_code OPENRSP_EVENT_IQ_B then OPENRSP_TUNER_B else OPENRSP_TUNER_A)
             (iq_pairs p) b
      else if hdr_type h = command_code OPENRSP_EVENT_STATUS \<and> hdr_payload_bytes h = 8
      then call_back (has_status_callback b) (Device_status (le32s p ! 0) (le32s p ! 1)) b
      else if hdr_type h = command_code OPENRSP_EVENT_DUO \<and> hdr_payload_bytes h = 8
      then call_back (has_duo_callback b) (Duo_mode (le32s p ! 0) (le32s p ! 1)) b
      else if hdr_type h = command_code OPENRSP_MSG_RESPONSE \<and> hdr_payload_bytes h = 16
      then b\<lparr>reader_place := Reader_draining (decode_response p)\<rparr>
      else b)"

definition reader_ends :: "daemon_backend \<Rightarrow> daemon_backend" where
  "reader_ends b =
     call_back (\<not> be_closing b \<and> has_failure_callback b) Connection_lost
       (b\<lparr>reader_failed := True, reader_place := Reader_ended\<rparr>)"

definition reader_receives :: "bool \<Rightarrow> daemon_backend \<Rightarrow> daemon_backend option" where
  "reader_receives ck b =
     (if reader_place b \<noteq> Reader_reading then None
      else case be_client b of None \<Rightarrow> Some (reader_ends b)
      | Some c \<Rightarrow>
          let (r, c) = client_receive 262144 c;
              b = b\<lparr>be_client := Some c\<rparr>
          in Some (case r of
               Receive_timeout \<Rightarrow> b
             | Receive_failed \<Rightarrow> reader_ends b
             | Received h p \<Rightarrow> handle_message ck h p b))"

definition reader_responds :: "daemon_backend \<Rightarrow> daemon_backend option" where
  "reader_responds b =
     (case reader_place b of
        Reader_draining r \<Rightarrow>
          if \<not> iq_drained b then None
          else let b = b\<lparr>reader_place := Reader_reading\<rparr>
               in Some (if rsp_sequence r = waiting_sequence b
                        then b\<lparr>waiting_status := rsp_status r, waiting_changed_flags := rsp_changed_flags r,
                               response_received := True\<rparr>
                        else b)
      | _ \<Rightarrow> None)"

fun backend_do :: "backend_event \<Rightarrow> daemon_backend \<Rightarrow> daemon_backend option" where
  "backend_do (Reader_receives ck) b = reader_receives ck b"
| "backend_do Reader_wakes b = reader_wakes b"
| "backend_do Reader_drained b = reader_responds b"
| "backend_do Worker_takes b = iq_take b"
| "backend_do Worker_finishes b = iq_finish b"

text \<open>Steps that are not enabled change nothing.\<close>

fun backend_run :: "backend_event list \<Rightarrow> daemon_backend \<Rightarrow> daemon_backend" where
  "backend_run [] b = b"
| "backend_run (e # es) b = backend_run es (case backend_do e b of None \<Rightarrow> b | Some b' \<Rightarrow> b')"

subsection \<open>Asynchronous requests\<close>

text \<open>
  The wait for the response while the threads run: it ends with 0 when a response has been
  received or the reader has failed, and with -1 when the deadline passes first, which is
  the end of the list of thread steps.
\<close>

fun await_response :: "backend_event list \<Rightarrow> daemon_backend \<Rightarrow> int \<times> daemon_backend" where
  "await_response [] b = (if response_received b \<or> reader_failed b then 0 else -1, b)"
| "await_response (e # es) b =
     (if response_received b \<or> reader_failed b then (0, b)
      else await_response es (case backend_do e b of None \<Rightarrow> b | Some b' \<Rightarrow> b'))"

definition async_request ::
  "backend_world \<Rightarrow> openrsp_command_type \<Rightarrow> u8 list \<Rightarrow> daemon_backend \<Rightarrow> int \<times> daemon_backend" where
  "async_request W command payload b =
     (let sequence = next_sequence b;
          b = b\<lparr>next_sequence := sequence + 1, waiting_sequence := sequence,
                waiting_changed_flags := 0, response_received := False\<rparr>;
          (result, b) = be_send W command sequence payload b
      in if result \<noteq> 0 then (result, b)
         else let (result, b) = (if \<not> clock_readable W then (-1, b)
                                 else await_response (while_waiting W) b)
              in if result \<noteq> 0 then (result, b)
                 else if response_received b \<and> waiting_status b = status_code OPENRSP_STATUS_OK
                 then (if has_flag (waiting_changed_flags b) OPENRSP_RESPONSE_RECOVERY_QUEUED then 1 else 0, b)
                 else (- sint (if response_received b then waiting_status b
                               else status_code OPENRSP_STATUS_IO_ERROR), b))"

subsection \<open>Closing\<close>

text \<open>
  The IQ thread left alone delivers what is queued; this is what a reader in
  \<open>drain_iq_before_response\<close> waits for when it is joined.
\<close>

fun iq_drain :: "nat \<Rightarrow> daemon_backend \<Rightarrow> daemon_backend" where
  "iq_drain 0 b = (case iq_finish b of None \<Rightarrow> b | Some b' \<Rightarrow> b')"
| "iq_drain (Suc n) b =
     (let b = (case iq_finish b of None \<Rightarrow> b | Some b' \<Rightarrow> b')
      in iq_drain n (case iq_take b of None \<Rightarrow> b | Some b' \<Rightarrow> b'))"

text \<open>
  Joining the reader once the connection is closed: after the steps it takes beside the
  IQ thread it leaves its wait, and its next receive fails.
\<close>

definition join_reader :: "backend_world \<Rightarrow> daemon_backend \<Rightarrow> daemon_backend" where
  "join_reader W b =
     (let b = backend_run (while_closing W) b;
          b = (case reader_place b of
                 Reader_waiting _ _ _ _ \<Rightarrow> backend_run [Reader_wakes] b
               | Reader_draining r \<Rightarrow> backend_run [Reader_drained] (iq_drain (iq_queue_count b) b)
               | _ \<Rightarrow> b)
      in backend_run [Reader_receives (clock_readable W)] b)"

definition release_command :: "daemon_backend \<Rightarrow> openrsp_command_type" where
  "release_command b = (if be_duo_role b \<noteq> 0 then OPENRSP_CMD_DUO_RELEASE else OPENRSP_CMD_RELEASE)"

text \<open>The back end as it is freed, and the requests that were sent on its connection.\<close>

definition openrsp_daemon_backend_close ::
  "backend_world \<Rightarrow> daemon_backend \<Rightarrow> daemon_backend \<times> (openrsp_command_type \<times> u32 \<times> u8 list) list" where
  "openrsp_daemon_backend_close W b =
     (case be_client b of None \<Rightarrow> (stop_iq_worker b, [])
      | Some _ \<Rightarrow>
          let (r, b) = (if reader_started b then async_request W (release_command b) [] b
                        else direct_request W (release_command b) [] b);
              sent = (case be_client b of None \<Rightarrow> [] | Some c \<Rightarrow> outgoing c);
              b = (if reader_started b
                   then stop_iq_worker (join_reader W (b\<lparr>be_closing := True, be_client := None\<rparr>))
                   else b\<lparr>be_client := None\<rparr>)
          in (stop_iq_worker b, sent))"

subsection \<open>Opening\<close>

definition new_backend :: daemon_backend where
  "new_backend =
     \<lparr>be_client = None, reader_started = False, reader_place = Reader_absent,
      iq_started = False, iq_stop = False,
      iq_queue = replicate OPENRSP_DAEMON_IQ_QUEUE_CAPACITY 0, iq_queue_head = 0,
      iq_queue_count = 0, iq_active = False, iq_slot = 0, iq_drop_count = 0,
      iq_frames = replicate OPENRSP_DAEMON_IQ_QUEUE_CAPACITY
        \<lparr>iq_state = Iq_free, iq_samples = 0, iq_sequence = 0, iq_tuner = 0, interleaved = []\<rparr>,
      next_sequence = 1, waiting_sequence = 0, waiting_status = 0, waiting_changed_flags = 0,
      response_received = False, reader_failed = False, be_closing = False,
      has_callback = False, has_status_callback = False, has_duo_callback = False,
      has_failure_callback = False, be_duo_role = 0, callbacks_made = []\<rparr>"

text \<open>
  The part both ways of opening share: the result, the back end stored for the caller, and
  the requests sent on a connection that was closed again.
\<close>

definition open_with ::
  "backend_world \<Rightarrow> openrsp_command_type \<Rightarrow> u8 list \<Rightarrow>
   int \<times> daemon_backend option \<times> (openrsp_command_type \<times> u32 \<times> u8 list) list" where
  "open_with W command payload =
     (if \<not> has_memory W \<or> \<not> has_frame_memory W then (-1, None, [])
      else case connects W of None \<Rightarrow> (-1, None, [])
      | Some c \<Rightarrow>
          let (result, b) = direct_request W command payload (new_backend\<lparr>be_client := Some c\<rparr>)
          in if result \<noteq> 0 then (-1, None, snd (openrsp_daemon_backend_close W b))
             else (0, Some b, []))"

definition openrsp_daemon_backend_open ::
  "backend_world \<Rightarrow> acquire_request \<Rightarrow>
   int \<times> daemon_backend option \<times> (openrsp_command_type \<times> u32 \<times> u8 list) list" where
  "openrsp_daemon_backend_open W identity = open_with W OPENRSP_CMD_ACQUIRE (encode_acquire_request identity)"

definition openrsp_daemon_backend_open_duo ::
  "backend_world \<Rightarrow> acquire_request \<Rightarrow> u32 \<Rightarrow> u32 \<Rightarrow> u32 \<Rightarrow>
   int \<times> daemon_backend option \<times> (openrsp_command_type \<times> u32 \<times> u8 list) list" where
  "openrsp_daemon_backend_open_duo W identity role t rate =
     (if role \<noteq> OPENRSP_DUO_ROLE_MASTER \<and> role \<noteq> OPENRSP_DUO_ROLE_SLAVE then (-1, None, [])
      else let (result, b, sent) = open_with W OPENRSP_CMD_DUO_ACQUIRE
                 (encode_duo_acquire_request
                    \<lparr>da_identity = identity, da_role = role, da_tuner = t, da_sample_rate_hz = rate\<rparr>)
           in (result, map_option (\<lambda>b. b\<lparr>be_duo_role := role\<rparr>) b, sent))"

subsection \<open>The exported requests\<close>

definition openrsp_daemon_backend_configure ::
  "backend_world \<Rightarrow> radio_config \<Rightarrow> daemon_backend \<Rightarrow> int \<times> daemon_backend" where
  "openrsp_daemon_backend_configure W cfg b =
     direct_request W OPENRSP_CMD_CONFIGURE (encode_radio_config cfg) b"

definition openrsp_daemon_backend_configure_dual ::
  "backend_world \<Rightarrow> dual_config \<Rightarrow> daemon_backend \<Rightarrow> int \<times> daemon_backend" where
  "openrsp_daemon_backend_configure_dual W cfg b =
     direct_request W OPENRSP_CMD_CONFIGURE_DUAL (encode_dual_config cfg) b"

text \<open>
  The callbacks installed; the library passes all of them, \<open>openrsp_daemon_backend_start\<close>
  leaves the role callback alone.
\<close>

definition openrsp_daemon_backend_start ::
  "backend_world \<Rightarrow> daemon_backend \<Rightarrow> int \<times> daemon_backend" where
  "openrsp_daemon_backend_start W b =
     (if reader_started b then (-1, b)
      else let b = b\<lparr>has_callback := True, has_status_callback := True, has_failure_callback := True\<rparr>;
               (start_result, b) = direct_request W OPENRSP_CMD_START [] b
           in if start_result \<noteq> 0 then (-1, b)
              else let (r, b) = start_iq_worker W b in
                if r \<noteq> 0 then (-1, snd (direct_request W OPENRSP_CMD_STOP [] b))
                else if \<not> makes_reader_thread W
                then (-1, snd (direct_request W OPENRSP_CMD_STOP [] (stop_iq_worker b)))
                else (0, b\<lparr>reader_started := True, reader_place := Reader_reading\<rparr>))"

definition openrsp_daemon_backend_start_duo ::
  "backend_world \<Rightarrow> daemon_backend \<Rightarrow> int \<times> daemon_backend" where
  "openrsp_daemon_backend_start_duo W b =
     (let b = b\<lparr>has_callback := True, has_status_callback := True, has_duo_callback := True,
                has_failure_callback := True\<rparr>
      in if reader_started b then async_request W OPENRSP_CMD_DUO_START [] b
         else let (r, b) = start_iq_worker W b in
           if r \<noteq> 0 then (-1, b)
           else if \<not> makes_reader_thread W then (-1, stop_iq_worker b)
           else async_request W OPENRSP_CMD_DUO_START []
                  (b\<lparr>reader_started := True, reader_place := Reader_reading\<rparr>))"

definition openrsp_daemon_backend_update ::
  "backend_world \<Rightarrow> radio_config \<Rightarrow> u32 \<Rightarrow> daemon_backend \<Rightarrow> int \<times> daemon_backend" where
  "openrsp_daemon_backend_update W cfg changed_flags b =
     async_request W OPENRSP_CMD_UPDATE
       (encode_update_request \<lparr>upd_changed_flags = changed_flags, upd_reserved = 0, upd_config = cfg\<rparr>) b"

definition openrsp_daemon_backend_swap ::
  "backend_world \<Rightarrow> swap_request \<Rightarrow> daemon_backend \<Rightarrow> int \<times> daemon_backend" where
  "openrsp_daemon_backend_swap W request b =
     async_request W OPENRSP_CMD_SWAP_TUNER (encode_swap_request request) b"

definition openrsp_daemon_backend_swap_mode ::
  "backend_world \<Rightarrow> mode_swap_request \<Rightarrow> daemon_backend \<Rightarrow> int \<times> daemon_backend" where
  "openrsp_daemon_backend_swap_mode W request b =
     async_request W OPENRSP_CMD_SWAP_MODE (encode_mode_swap_request request) b"

definition openrsp_daemon_backend_resume_mode ::
  "backend_world \<Rightarrow> daemon_backend \<Rightarrow> int \<times> daemon_backend" where
  "openrsp_daemon_backend_resume_mode W b = async_request W OPENRSP_CMD_RESUME_MODE [] b"

definition openrsp_daemon_backend_stop ::
  "backend_world \<Rightarrow> daemon_backend \<Rightarrow> int \<times> daemon_backend" where
  "openrsp_daemon_backend_stop W b =
     (if reader_started b then async_request W OPENRSP_CMD_STOP [] b else (-1, b))"

definition openrsp_daemon_backend_configure_duo ::
  "backend_world \<Rightarrow> radio_config \<Rightarrow> daemon_backend \<Rightarrow> int \<times> daemon_backend" where
  "openrsp_daemon_backend_configure_duo W cfg b =
     (if reader_started b then async_request W OPENRSP_CMD_DUO_CONFIGURE (encode_radio_config cfg) b
      else direct_request W OPENRSP_CMD_DUO_CONFIGURE (encode_radio_config cfg) b)"

definition openrsp_daemon_backend_update_duo ::
  "backend_world \<Rightarrow> radio_config \<Rightarrow> u32 \<Rightarrow> daemon_backend \<Rightarrow> int \<times> daemon_backend" where
  "openrsp_daemon_backend_update_duo W cfg changed_flags b =
     async_request W OPENRSP_CMD_DUO_UPDATE
       (encode_update_request \<lparr>upd_changed_flags = changed_flags, upd_reserved = 0, upd_config = cfg\<rparr>) b"

definition openrsp_daemon_backend_stop_duo ::
  "backend_world \<Rightarrow> daemon_backend \<Rightarrow> int \<times> daemon_backend" where
  "openrsp_daemon_backend_stop_duo W b =
     (if reader_started b then async_request W OPENRSP_CMD_DUO_STOP [] b else (-1, b))"

definition openrsp_daemon_backend_swap_duo_rate ::
  "backend_world \<Rightarrow> u32 \<Rightarrow> daemon_backend \<Rightarrow> int \<times> daemon_backend" where
  "openrsp_daemon_backend_swap_duo_rate W rate b =
     (if be_duo_role b = OPENRSP_DUO_ROLE_MASTER \<and> reader_started b
      then async_request W OPENRSP_CMD_DUO_SWAP_RATE (u32_bytes rate) b else (-1, b))"

subsection \<open>All requests of the library\<close>

text \<open>
  A call on the connection pointer, which is null without a connection: every call but
  opening and closing then returns -1. The result of a close is not used. A second open on
  a pointer in use replaces it, as the assignment through the pointer does.
\<close>

fun backend_request ::
  "backend_world \<Rightarrow> backend_call \<Rightarrow> daemon_backend option \<Rightarrow> int \<times> daemon_backend option" where
  "backend_request W (Backend_open identity) p =
     (let (r, b, sent) = openrsp_daemon_backend_open W identity in (r, if r = 0 then b else p))"
| "backend_request W (Backend_open_duo identity role t rate) p =
     (let (r, b, sent) = openrsp_daemon_backend_open_duo W identity role t rate
      in (r, if r = 0 then b else p))"
| "backend_request W Backend_close p = (0, None)"
| "backend_request W call None = (-1, None)"
| "backend_request W (Backend_configure cfg) (Some b) =
     map_prod id Some (openrsp_daemon_backend_configure W cfg b)"
| "backend_request W (Backend_configure_dual cfg) (Some b) =
     map_prod id Some (openrsp_daemon_backend_configure_dual W cfg b)"
| "backend_request W (Backend_configure_duo cfg) (Some b) =
     map_prod id Some (openrsp_daemon_backend_configure_duo W cfg b)"
| "backend_request W Backend_start (Some b) = map_prod id Some (openrsp_daemon_backend_start W b)"
| "backend_request W Backend_start_duo (Some b) = map_prod id Some (openrsp_daemon_backend_start_duo W b)"
| "backend_request W Backend_stop (Some b) = map_prod id Some (openrsp_daemon_backend_stop W b)"
| "backend_request W Backend_stop_duo (Some b) = map_prod id Some (openrsp_daemon_backend_stop_duo W b)"
| "backend_request W (Backend_update cfg flags) (Some b) =
     map_prod id Some (openrsp_daemon_backend_update W cfg flags b)"
| "backend_request W (Backend_update_duo cfg flags) (Some b) =
     map_prod id Some (openrsp_daemon_backend_update_duo W cfg flags b)"
| "backend_request W (Backend_swap request) (Some b) =
     map_prod id Some (openrsp_daemon_backend_swap W request b)"
| "backend_request W (Backend_swap_mode request) (Some b) =
     map_prod id Some (openrsp_daemon_backend_swap_mode W request b)"
| "backend_request W (Backend_swap_duo_rate rate) (Some b) =
     map_prod id Some (openrsp_daemon_backend_swap_duo_rate W rate b)"
| "backend_request W Backend_resume_mode (Some b) =
     map_prod id Some (openrsp_daemon_backend_resume_mode W b)"

end
