(* ===== verification/Rsp_Pool.thy ===== *)
theory Rsp_Pool
  imports Rsp_Backend
begin

text \<open>
  The pool of IQ frames of \<open>compat/daemon_backend.c\<close> and what it guarantees: the reader
  never writes the frame the IQ thread is delivering, frames are delivered unaltered in the
  order of the wire, and a response becomes visible only after the frames received before
  it. The invariant ties the state of every slot to the queue of slot numbers and to the
  slot in delivery; it is kept by every thread step.
\<close>

subsection \<open>The invariant of the pool\<close>

definition slots :: "daemon_backend \<Rightarrow> nat list" where
  "slots b = ring_items 32 (iq_queue b) (iq_queue_head b) (iq_queue_count b)"

text \<open>\<open>pool_but X b\<close>: the invariant, except that the slots in \<open>X\<close> are up for being written.\<close>

definition pool_but :: "nat set \<Rightarrow> daemon_backend \<Rightarrow> bool" where
  "pool_but X b \<longleftrightarrow>
     length (iq_frames b) = 32 \<and> ring_wf 32 (iq_queue b) (iq_queue_head b) (iq_queue_count b) \<and>
     distinct (slots b) \<and> set (slots b) \<subseteq> {..<32} - X \<and>
     (\<forall>k<32. k \<notin> X \<longrightarrow> (iq_state (iq_frames b ! k) = Iq_queued \<longleftrightarrow> k \<in> set (slots b))) \<and>
     (\<forall>k<32. iq_state (iq_frames b ! k) = Iq_active \<longleftrightarrow> iq_active b \<and> k = iq_slot b) \<and>
     (iq_active b \<longrightarrow> iq_slot b < 32)"

abbreviation pool_ok :: "daemon_backend \<Rightarrow> bool" where
  "pool_ok b \<equiv> pool_but {} b"

text \<open>The fields the pool consists of.\<close>

definition pool_of where
  "pool_of b = (iq_frames b, iq_queue b, iq_queue_head b, iq_queue_count b, iq_active b, iq_slot b)"

lemma pool_cong: "pool_of b = pool_of b' \<Longrightarrow> pool_but X b = pool_but X b'"
  by (simp add: pool_of_def pool_but_def slots_def)

lemma pool_new [simp]: "pool_ok new_backend"
  by (simp add: pool_but_def slots_def new_backend_def ring_wf_def)

lemma free_slot_le: "free_slot fs \<le> length fs"
  by (induction fs) auto

lemma free_slot_free: "free_slot fs < length fs \<Longrightarrow> iq_state (fs ! free_slot fs) = Iq_free"
  by (induction fs) auto

lemma free_slot_none: "free_slot fs = length fs \<Longrightarrow> k < length fs \<Longrightarrow> iq_state (fs ! k) \<noteq> Iq_free"
proof (induction fs arbitrary: k)
  case (Cons f fs)
  then show ?case by (cases k) (auto split: if_splits)
qed simp

subsection \<open>Every step keeps the invariant\<close>

lemma slots_take:
  assumes "pool_but X b" "iq_queue_count b \<noteq> 0"
  shows "slots b = iq_queue b ! iq_queue_head b #
    ring_items 32 (iq_queue b) ((iq_queue_head b + 1) mod 32) (iq_queue_count b - 1)"
  using assms ring_items_pop [of 32 "iq_queue b" "iq_queue_head b" "iq_queue_count b"]
  by (simp add: slots_def pool_but_def)

lemma pool_take:
  assumes "pool_ok b" "iq_take b = Some b'"
  shows "pool_ok b'"
    and "slots b = iq_slot b' # slots b'" and "iq_active b'" and "iq_slot b' < 32"
proof -
  let ?s = "iq_queue b ! iq_queue_head b"
  have g: "iq_queue_count b \<noteq> 0" "\<not> iq_active b"
    using assms(2) by (simp_all add: iq_take_def split: if_splits)
  have b': "pool_of b' = ((iq_frames b)[?s := (iq_frames b ! ?s)\<lparr>iq_state := Iq_active\<rparr>], iq_queue b,
      (iq_queue_head b + 1) mod 32, iq_queue_count b - 1, True, ?s)"
    using assms(2) by (simp add: iq_take_def Let_def call_back_def pool_of_def split: if_splits) auto
  then have f: "iq_frames b' = (iq_frames b)[?s := (iq_frames b ! ?s)\<lparr>iq_state := Iq_active\<rparr>]"
    "iq_queue b' = iq_queue b" "iq_queue_head b' = (iq_queue_head b + 1) mod 32"
    "iq_queue_count b' = iq_queue_count b - 1" "iq_active b'" "iq_slot b' = ?s"
    by (simp_all add: pool_of_def)
  have sl: "slots b = ?s # slots b'"
    using slots_take [OF assms(1) g(1)] by (simp add: slots_def f)
  then have s: "?s < 32" "?s \<notin> set (slots b')" "set (slots b') \<subseteq> {..<32}" "distinct (slots b')"
    using assms(1) by (auto simp: pool_but_def)
  show "slots b = iq_slot b' # slots b'" "iq_active b'" "iq_slot b' < 32" using sl f s by simp_all
  have q: "\<forall>k<32. iq_state (iq_frames b ! k) = Iq_queued \<longleftrightarrow> k \<in> set (slots b)"
    and a: "\<forall>k<32. iq_state (iq_frames b ! k) \<noteq> Iq_active"
    and l: "length (iq_frames b) = 32"
    and w: "ring_wf 32 (iq_queue b') (iq_queue_head b') (iq_queue_count b')"
    using assms(1) g ring_wf_pop [of 32 "iq_queue b" "iq_queue_head b" "iq_queue_count b"]
    by (auto simp: pool_but_def f)
  show "pool_ok b'" unfolding pool_but_def
    using s q a l w by (auto simp: f nth_list_update sl)
qed

lemma active_slot:
  assumes "pool_ok b" "iq_active b"
  shows "iq_slot b < 32" "iq_state (iq_frames b ! iq_slot b) = Iq_active" "iq_slot b \<notin> set (slots b)"
proof -
  show i: "iq_slot b < 32" "iq_state (iq_frames b ! iq_slot b) = Iq_active"
    using assms by (simp_all add: pool_but_def)
  have "iq_state (iq_frames b ! iq_slot b) = Iq_queued \<longleftrightarrow> iq_slot b \<in> set (slots b)"
    using assms(1) i(1) by (simp add: pool_but_def)
  then show "iq_slot b \<notin> set (slots b)" using i(2) by simp
qed

lemma pool_finish:
  assumes "pool_ok b" "iq_finish b = Some b'"
  shows "pool_ok b'" and "slots b' = slots b" and "\<not> iq_active b'"
proof -
  have act: "iq_active b" and
    b': "b' = b\<lparr>iq_frames := (iq_frames b)[iq_slot b := (iq_frames b ! iq_slot b)\<lparr>iq_state := Iq_free\<rparr>],
      iq_active := False\<rparr>"
    using assms(2) by (auto simp: iq_finish_def split: if_splits)
  show sl: "slots b' = slots b" and "\<not> iq_active b'" by (simp_all add: slots_def b')
  note a = active_slot [OF assms(1) act]
  show "pool_ok b'" using assms(1) act a unfolding pool_but_def sl
    by (auto simp: b' nth_list_update)
qed

lemma pool_put:
  assumes "pool_but {k} b" "k < 32" "iq_state (iq_frames b ! k) \<noteq> Iq_active"
  shows "pool_ok (put_iq k n q t data b)" and "slots (put_iq k n q t data b) = slots b @ [k]"
proof -
  have d: "distinct (slots b)" "set (slots b) \<subseteq> {..<32} - {k}" using assms(1) by (auto simp: pool_but_def)
  have "length (slots b) = card (set (slots b))" using d(1) by (simp add: distinct_card)
  also have "\<dots> \<le> card ({..<32} - {k})" by (rule card_mono) (use d(2) in auto)
  also have "\<dots> < 32" using assms(2) by simp
  finally have c: "iq_queue_count b < 32" by (simp add: slots_def)
  have w: "ring_wf 32 (iq_queue b) (iq_queue_head b) (iq_queue_count b)" using assms(1) by (simp add: pool_but_def)
  show sl: "slots (put_iq k n q t data b) = slots b @ [k]"
    using ring_items_push [OF w c] by (simp add: slots_def put_iq_def Let_def)
  have st: "iq_state (iq_frames (put_iq k n q t data b) ! j) =
      (if j = k then Iq_queued else iq_state (iq_frames b ! j))" if "j < 32" for j
    using assms(1,2) that by (simp add: put_iq_def Let_def pool_but_def nth_list_update)
  have "ring_wf 32 (iq_queue (put_iq k n q t data b)) (iq_queue_head (put_iq k n q t data b))
      (iq_queue_count (put_iq k n q t data b))"
    using ring_wf_push [OF w c] by (simp add: put_iq_def Let_def)
  moreover have "length (iq_frames (put_iq k n q t data b)) = 32"
    "iq_active (put_iq k n q t data b) = iq_active b" "iq_slot (put_iq k n q t data b) = iq_slot b"
    using assms(1) by (simp_all add: put_iq_def Let_def pool_but_def)
  ultimately show "pool_ok (put_iq k n q t data b)"
    using assms d st unfolding pool_but_def sl by auto
qed

lemma pool_but_free:
  assumes "pool_ok b" "k < 32" "iq_state (iq_frames b ! k) = Iq_free"
  shows "pool_but {k} b"
proof -
  have "k \<notin> set (slots b)" using assms by (auto simp: pool_but_def)
  then show ?thesis using assms(1) by (auto simp: pool_but_def)
qed

lemma pool_drop:
  assumes "pool_ok b" "iq_queue_count b \<noteq> 0" "drop_oldest_iq b = (k, b')"
  shows "pool_but {k} b'" and "slots b = k # slots b'" and "k < 32"
    and "iq_state (iq_frames b' ! k) \<noteq> Iq_active" and "iq_frames b' = iq_frames b"
proof -
  have k: "k = iq_queue b ! iq_queue_head b" and
    b': "b' = b\<lparr>iq_queue_head := (iq_queue_head b + 1) mod 32, iq_queue_count := iq_queue_count b - 1,
        iq_drop_count := iq_drop_count b + 1\<rparr>"
    using assms(3) by (auto simp: drop_oldest_iq_def)
  show fr: "iq_frames b' = iq_frames b" by (simp add: b')
  show sl: "slots b = k # slots b'"
    using slots_take [OF assms(1,2)] by (simp add: slots_def b' k)
  then have d: "k < 32" "k \<notin> set (slots b')" "distinct (slots b')" "set (slots b') \<subseteq> {..<32}"
    and q: "iq_state (iq_frames b ! k) = Iq_queued"
    using assms(1) by (auto simp: pool_but_def)
  then show "k < 32" "iq_state (iq_frames b' ! k) \<noteq> Iq_active" by (simp_all add: fr)
  have "ring_wf 32 (iq_queue b') (iq_queue_head b') (iq_queue_count b')"
    using assms(1) ring_wf_pop [of 32 "iq_queue b" "iq_queue_head b" "iq_queue_count b"]
    by (simp add: pool_but_def b')
  then show "pool_but {k} b'"
    using assms(1) d unfolding pool_but_def fr sl by (auto simp: b')
qed

text \<open>A full pool has a queued frame: at most one slot is in delivery.\<close>

lemma full_pool_queued:
  assumes "pool_ok b" "free_slot (iq_frames b) = 32"
  shows "iq_queue_count b \<noteq> 0"
proof
  assume "iq_queue_count b = 0"
  then have e: "slots b = []" by (simp add: slots_def)
  have l: "length (iq_frames b) = 32" using assms(1) by (simp add: pool_but_def)
  have "iq_slot b = k" if k: "k < 32" for k
  proof -
    have "iq_state (iq_frames b ! k) \<noteq> Iq_free" using free_slot_none [of "iq_frames b" k] k assms(2) l by simp
    moreover have "iq_state (iq_frames b ! k) \<noteq> Iq_queued" using assms(1) e k by (simp add: pool_but_def)
    ultimately have "iq_state (iq_frames b ! k) = Iq_active" by (cases "iq_state (iq_frames b ! k)") simp_all
    then show ?thesis using assms(1) k by (simp add: pool_but_def)
  qed
  from this [of 0] this [of 1] show False by simp
qed

lemma store_iq_cases:
  assumes "pool_ok b"
  obtains (free) k where "k < 32" "pool_but {k} b" "iq_state (iq_frames b ! k) \<noteq> Iq_active"
      "store_iq n q t data b = put_iq k n q t data b"
  | (full) k b' where "k < 32" "drop_oldest_iq b = (k, b')" "pool_but {k} b'" "slots b = k # slots b'"
      "iq_state (iq_frames b' ! k) \<noteq> Iq_active" "iq_frames b' = iq_frames b"
      "store_iq n q t data b = put_iq k n q t data b'"
proof (cases "free_slot (iq_frames b) = 32")
  case True
  obtain k b' where d: "drop_oldest_iq b = (k, b')" by fastforce
  note p = pool_drop [OF assms full_pool_queued [OF assms True] d]
  show thesis
    by (rule full [OF p(3) d p(1,2,4,5)])
      (use True full_pool_queued [OF assms True] p(3) in \<open>simp add: store_iq_def d\<close>)
next
  case False
  then have "free_slot (iq_frames b) < 32"
    using free_slot_le [of "iq_frames b"] assms by (simp add: pool_but_def)
  moreover from this have "iq_state (iq_frames b ! free_slot (iq_frames b)) = Iq_free"
    using free_slot_free [of "iq_frames b"] assms by (simp add: pool_but_def)
  ultimately show thesis
    using free [of "free_slot (iq_frames b)"] pool_but_free [OF assms] False by (simp add: store_iq_def)
qed

lemma pool_store: "pool_ok b \<Longrightarrow> pool_ok (store_iq n q t data b)"
  by (erule store_iq_cases [of b n q t data]) (simp_all add: pool_put)

text \<open>Storing a frame leaves the slot in delivery alone.\<close>

lemma store_keeps_active:
  assumes "pool_ok b" "iq_active b"
  shows "iq_active (store_iq n q t data b)" "iq_slot (store_iq n q t data b) = iq_slot b"
    and "iq_frames (store_iq n q t data b) ! iq_slot b = iq_frames b ! iq_slot b"
proof -
  have act: "iq_state (iq_frames b ! iq_slot b) = Iq_active" using assms by (simp add: pool_but_def)
  have "iq_active (store_iq n q t data b) \<and> iq_slot (store_iq n q t data b) = iq_slot b \<and>
    iq_frames (store_iq n q t data b) ! iq_slot b = iq_frames b ! iq_slot b"
    using assms(1)
  proof (cases rule: store_iq_cases [of b n q t data])
    case (free k)
    then have "k \<noteq> iq_slot b" using act by auto
    then show ?thesis using free assms(2) by (simp add: put_iq_def Let_def)
  next
    case (full k b')
    then have "k \<noteq> iq_slot b" using act by auto
    then show ?thesis using full assms(2) by (auto simp: put_iq_def Let_def drop_oldest_iq_def)
  qed
  then show "iq_active (store_iq n q t data b)" "iq_slot (store_iq n q t data b) = iq_slot b"
    "iq_frames (store_iq n q t data b) ! iq_slot b = iq_frames b ! iq_slot b" by simp_all
qed

subsection \<open>What the threads leave alone\<close>

definition kept where
  "kept b = (has_callback b, iq_started b, iq_stop b, reader_started b, be_duo_role b, next_sequence b,
     waiting_sequence b, map_option outgoing (be_client b))"

lemma kept_store [simp]: "kept (store_iq n q t data b) = kept b"
  by (simp add: store_iq_def put_iq_def drop_oldest_iq_def Let_def kept_def)

lemma kept_call_back [simp]: "kept (call_back x a b) = kept b"
  by (simp add: call_back_def kept_def)

lemma pool_call_back [simp]: "pool_but X (call_back x a b) = pool_but X b"
  by (rule pool_cong) (simp add: call_back_def pool_of_def)

lemma kept_place [simp]: "kept (reader_place_update f b) = kept b"
  by (simp add: kept_def)

lemma pool_place [simp]: "pool_but X (reader_place_update f b) = pool_but X b"
  by (rule pool_cong) (simp add: pool_of_def)

lemma kept_handle [simp]: "kept (handle_message ck h p b) = kept b"
  by (simp add: handle_message_def queue_iq_def)

lemma kept_ends [simp]: "kept (reader_ends b) = kept b"
  by (simp add: reader_ends_def kept_def call_back_def)

lemma pool_queue: "pool_ok b \<Longrightarrow> pool_ok (queue_iq ck n q t data b)"
  by (simp add: queue_iq_def pool_store)

lemma pool_handle: "pool_ok b \<Longrightarrow> pool_ok (handle_message ck h p b)"
  by (simp add: handle_message_def pool_queue)

lemma pool_ends [simp]: "pool_but X (reader_ends b) = pool_but X b"
  by (rule pool_cong) (simp add: reader_ends_def call_back_def pool_of_def)

lemma pool_client [simp]: "pool_but X (be_client_update f b) = pool_but X b"
  by (rule pool_cong) (simp add: pool_of_def)

text \<open>The forms a step of the reader takes.\<close>

lemma client_receive_outgoing [simp]: "client_receive n c = (r, c') \<Longrightarrow> outgoing c' = outgoing c"
  by (auto simp: client_receive_def split: list.splits)

lemma reader_receives_cases:
  assumes "reader_receives ck b = Some b'"
  obtains (ended) "be_client b = None" "b' = reader_ends b"
  | (idle) "be_client b \<noteq> None" "b' = b"
  | (failed) c r rs where "be_client b = Some c" "incoming c = r # rs" "within_capacity 262144 r = Receive_failed"
      "b' = reader_ends (b\<lparr>be_client := Some (c\<lparr>incoming := rs\<rparr>)\<rparr>)"
  | (timeout) c rs where "be_client b = Some c" "incoming c = Receive_timeout # rs"
      "b' = b\<lparr>be_client := Some (c\<lparr>incoming := rs\<rparr>)\<rparr>"
  | (message) c h p rs where "be_client b = Some c" "incoming c = Received h p # rs"
      "unat (hdr_payload_bytes h) \<le> 262144"
      "b' = handle_message ck h p (b\<lparr>be_client := Some (c\<lparr>incoming := rs\<rparr>)\<rparr>)"
proof (cases "be_client b")
  case None
  then show thesis using assms ended by (simp add: reader_receives_def split: if_splits)
next
  case (Some c)
  show thesis
  proof (cases "incoming c")
    case Nil
    have "b' = b\<lparr>be_client := Some c\<rparr>"
      using assms Some Nil by (simp add: reader_receives_def client_receive_def split: if_splits)
    also have "\<dots> = b" using Some by (cases b) simp
    finally have "b' = b" .
    then show thesis using idle Some by simp
  next
    case (Cons r rs)
    show thesis
    proof (cases "within_capacity 262144 r")
      case (Received h p)
      then have "r = Received h p" "unat (hdr_payload_bytes h) \<le> 262144"
        by (cases r; auto split: if_splits)+
      then show thesis using message [OF Some] assms Some Cons Received
        by (simp add: reader_receives_def client_receive_def split: if_splits)
    next
      case Receive_timeout
      then have "r = Receive_timeout" by (cases r) (auto split: if_splits)
      then show thesis using timeout [OF Some] assms Some Cons
        by (simp add: reader_receives_def client_receive_def split: if_splits)
    next
      case Receive_failed
      then show thesis using failed [OF Some Cons] assms Some Cons
        by (simp add: reader_receives_def client_receive_def split: if_splits)
    qed
  qed
qed

lemma reader_receives_place: "reader_receives ck b = Some b' \<Longrightarrow> reader_place b = Reader_reading"
  by (simp add: reader_receives_def split: if_splits)

lemma kept_step:
  assumes "backend_do e b = Some b'"
  shows "kept b' = kept b"
proof (cases e)
  case (Reader_receives ck)
  then have "reader_receives ck b = Some b'" using assms by simp
  then show ?thesis
    by (cases rule: reader_receives_cases) (simp_all, simp_all add: kept_def)
next
  case Reader_wakes
  then show ?thesis using assms by (auto simp: reader_wakes_def split: reader_place.splits)
next
  case Reader_drained
  then show ?thesis using assms
    by (auto simp: reader_responds_def Let_def kept_def split: reader_place.splits if_splits)
next
  case Worker_takes
  then show ?thesis using assms by (auto simp: iq_take_def Let_def kept_def call_back_def split: if_splits)
next
  case Worker_finishes
  then show ?thesis using assms by (auto simp: iq_finish_def kept_def split: if_splits)
qed

lemma pool_step:
  assumes "pool_ok b" "backend_do e b = Some b'"
  shows "pool_ok b'"
proof (cases e)
  case (Reader_receives ck)
  then have "reader_receives ck b = Some b'" using assms by simp
  then show ?thesis
    by (cases rule: reader_receives_cases) (simp_all add: assms(1) pool_handle)
next
  case Reader_wakes
  then show ?thesis using assms by (auto simp: reader_wakes_def pool_store split: reader_place.splits)
next
  case Reader_drained
  then have "pool_of b' = pool_of b" using assms
    by (auto simp: reader_responds_def Let_def pool_of_def split: reader_place.splits if_splits)
  then show ?thesis using pool_cong [of b' b] assms(1) by simp
next
  case Worker_takes
  then show ?thesis using assms(2) by (intro pool_take(1) [OF assms(1)]) simp
next
  case Worker_finishes
  then show ?thesis using assms(2) by (intro pool_finish(1) [OF assms(1)]) simp
qed

lemma active_step:
  assumes "pool_ok b" "iq_active b" "backend_do e b = Some b'" "e \<noteq> Worker_finishes"
  shows "iq_active b' \<and> iq_slot b' = iq_slot b \<and> iq_frames b' ! iq_slot b = iq_frames b ! iq_slot b"
proof (cases e)
  case (Reader_receives ck)
  then have "reader_receives ck b = Some b'" using assms by simp
  then show ?thesis
  proof (cases rule: reader_receives_cases)
    case (message c h p rs)
    let ?b = "b\<lparr>be_client := Some (c\<lparr>incoming := rs\<rparr>)\<rparr>"
    have "pool_ok ?b" "iq_active ?b" using assms by simp_all
    from store_keeps_active [OF this] show ?thesis
      unfolding message(4) by (simp add: handle_message_def queue_iq_def call_back_def assms(2))
  qed (simp_all add: assms(2) reader_ends_def call_back_def)
next
  case Reader_wakes
  then obtain n q t data where "b' = store_iq n q t data (b\<lparr>reader_place := Reader_reading\<rparr>)"
    using assms by (auto simp: reader_wakes_def split: reader_place.splits)
  then show ?thesis using store_keeps_active [of "b\<lparr>reader_place := Reader_reading\<rparr>" n q t data] assms(1,2) by simp
next
  case Reader_drained
  then show ?thesis using assms
    by (auto simp: reader_responds_def Let_def split: reader_place.splits if_splits)
next
  case Worker_takes
  then show ?thesis using assms by (simp add: iq_take_def)
qed (use assms in simp)

subsection \<open>Frames on the wire and frames delivered\<close>

definition be_incoming :: "daemon_backend \<Rightarrow> received list" where
  "be_incoming b = (case be_client b of None \<Rightarrow> [] | Some c \<Rightarrow> incoming c)"

definition wire_ok :: "daemon_backend \<Rightarrow> bool" where
  "wire_ok b \<longleftrightarrow> list_all received_ok (be_incoming b) \<and>
     (case reader_place b of Reader_waiting n q t data \<Rightarrow> length data = n | _ \<Rightarrow> True)"

text \<open>The callback an IQ message asks for.\<close>

definition is_iq_message :: "message_header \<Rightarrow> bool" where
  "is_iq_message h \<longleftrightarrow>
     (hdr_type h = command_code OPENRSP_EVENT_IQ \<or> hdr_type h = command_code OPENRSP_EVENT_IQ_B) \<and>
     hdr_payload_bytes h mod 4 = 0 \<and> unat (hdr_payload_bytes h) \<le> 262144"

definition iq_callback :: "message_header \<Rightarrow> u8 list \<Rightarrow> activity" where
  "iq_callback h p = Iq_frame (iq_pairs p) (hdr_sequence h)
     (if hdr_type h = command_code OPENRSP_EVENT_IQ_B then OPENRSP_TUNER_B else OPENRSP_TUNER_A)"

fun iq_arrivals :: "received list \<Rightarrow> activity list" where
  "iq_arrivals [] = []"
| "iq_arrivals (Received h p # rs) = (if is_iq_message h then [iq_callback h p] else []) @ iq_arrivals rs"
| "iq_arrivals (_ # rs) = iq_arrivals rs"

fun is_iq :: "activity \<Rightarrow> bool" where
  "is_iq (Iq_frame _ _ _) = True"
| "is_iq _ = False"

definition delivered :: "daemon_backend \<Rightarrow> activity list" where
  "delivered b = filter is_iq (callbacks_made b)"

definition frame_callback :: "daemon_iq_frame \<Rightarrow> activity" where
  "frame_callback f = Iq_frame (take (iq_samples f) (interleaved f)) (iq_sequence f) (iq_tuner f)"

definition queued_iq :: "daemon_backend \<Rightarrow> activity list" where
  "queued_iq b = map (\<lambda>k. frame_callback (iq_frames b ! k)) (slots b)"

definition held_iq :: "daemon_backend \<Rightarrow> activity list" where
  "held_iq b = (case reader_place b of Reader_waiting n q t data \<Rightarrow> [Iq_frame data q t] | _ \<Rightarrow> [])"

definition history :: "daemon_backend \<Rightarrow> activity list" where
  "history b = delivered b @ queued_iq b @ held_iq b"

lemma iq_arrivals_append [simp]: "iq_arrivals (rs @ rs') = iq_arrivals rs @ iq_arrivals rs'"
  by (induction rs rule: iq_arrivals.induct) auto

lemma length_iq_pairs: "length (iq_pairs p) = length p div 4"
  by (induction p rule: iq_pairs.induct) auto

lemma iq_message_length:
  assumes "hdr_payload_bytes h mod 4 = 0" "unat (hdr_payload_bytes h) \<le> 262144"
    and "length p = unat (hdr_payload_bytes h)"
  shows "length (iq_pairs p) = unat (hdr_payload_bytes h div 4)"
    and "unat (hdr_payload_bytes h div 4) \<le> 65536"
  using assms by (simp_all add: length_iq_pairs unat_div)

lemma pending_put:
  assumes "pool_but {k} b" "k < 32" "iq_state (iq_frames b ! k) \<noteq> Iq_active" "length data = n"
  shows "queued_iq (put_iq k n q t data b) = queued_iq b @ [Iq_frame data q t]"
proof -
  have k: "k \<notin> set (slots b)" "k < length (iq_frames b)" using assms(1,2) by (auto simp: pool_but_def)
  have "map (\<lambda>j. frame_callback (iq_frames (put_iq k n q t data b) ! j)) (slots b) = queued_iq b"
    unfolding queued_iq_def by (rule map_cong) (use k in \<open>auto simp: put_iq_def Let_def nth_list_update\<close>)
  moreover have "frame_callback (iq_frames (put_iq k n q t data b) ! k) = Iq_frame data q t"
    using k assms(4) by (simp add: put_iq_def Let_def frame_callback_def)
  ultimately show ?thesis using pool_put(2) [OF assms(1-3)] by (simp add: queued_iq_def)
qed

text \<open>Storing appends the frame and, when the pool is full, drops and counts the oldest one.\<close>

lemma pending_store:
  assumes "pool_ok b" "length data = n"
  shows "subseq (queued_iq (store_iq n q t data b)) (queued_iq b @ [Iq_frame data q t])"
    and "of_nat (length (queued_iq (store_iq n q t data b))) + iq_drop_count (store_iq n q t data b) =
      of_nat (length (queued_iq b)) + 1 + iq_drop_count b"
proof -
  have "subseq (queued_iq (store_iq n q t data b)) (queued_iq b @ [Iq_frame data q t]) \<and>
    of_nat (length (queued_iq (store_iq n q t data b))) + iq_drop_count (store_iq n q t data b) =
      of_nat (length (queued_iq b)) + 1 + iq_drop_count b"
    using assms(1)
  proof (cases rule: store_iq_cases [of b n q t data])
    case (free k)
    show ?thesis unfolding free(4) pending_put [OF free(2,1,3) assms(2)]
      by (simp add: put_iq_def Let_def add.commute)
  next
    case (full k b')
    have "queued_iq b = frame_callback (iq_frames b ! k) # queued_iq b'"
      by (simp add: queued_iq_def full(4,6))
    moreover have "iq_drop_count b' = iq_drop_count b + 1" using full(2) by (auto simp: drop_oldest_iq_def)
    ultimately show ?thesis unfolding full(7) pending_put [OF full(3,1,5) assms(2)]
      by (simp add: put_iq_def Let_def subseq_Cons')
  qed
  then show "subseq (queued_iq (store_iq n q t data b)) (queued_iq b @ [Iq_frame data q t])"
    "of_nat (length (queued_iq (store_iq n q t data b))) + iq_drop_count (store_iq n q t data b) =
      of_nat (length (queued_iq b)) + 1 + iq_drop_count b" by simp_all
qed

lemma store_fields [simp]:
  "delivered (store_iq n q t data b) = delivered b" "reader_place (store_iq n q t data b) = reader_place b"
  "be_incoming (store_iq n q t data b) = be_incoming b" "held_iq (store_iq n q t data b) = held_iq b"
  by (simp_all add: store_iq_def put_iq_def drop_oldest_iq_def Let_def delivered_def be_incoming_def held_iq_def)

text \<open>
  The account of one step: it consumes messages of the wire, and what has been delivered,
  is queued or is held afterwards is a subsequence of what was before and has arrived; what
  is missing is counted as dropped.
\<close>

definition accounts :: "daemon_backend \<Rightarrow> daemon_backend \<Rightarrow> bool" where
  "accounts b b' \<longleftrightarrow> (\<exists>rs. be_incoming b = rs @ be_incoming b' \<and>
     subseq (history b') (history b @ iq_arrivals rs) \<and>
     of_nat (length (history b')) + iq_drop_count b' =
       of_nat (length (history b)) + of_nat (length (iq_arrivals rs)) + iq_drop_count b)"

lemma accounts_refl: "accounts b b"
  unfolding accounts_def by (rule exI [of _ "[]"]) simp

lemma accounts_trans:
  assumes "accounts b b'" "accounts b' b''"
  shows "accounts b b''"
proof -
  obtain rs rs' where r: "be_incoming b = rs @ be_incoming b'" "subseq (history b') (history b @ iq_arrivals rs)"
      "of_nat (length (history b')) + iq_drop_count b' =
        of_nat (length (history b)) + of_nat (length (iq_arrivals rs)) + iq_drop_count b"
    and r': "be_incoming b' = rs' @ be_incoming b''" "subseq (history b'') (history b' @ iq_arrivals rs')"
      "of_nat (length (history b'')) + iq_drop_count b'' =
        of_nat (length (history b')) + of_nat (length (iq_arrivals rs')) + iq_drop_count b'"
    using assms by (auto simp: accounts_def)
  have "subseq (history b' @ iq_arrivals rs') ((history b @ iq_arrivals rs) @ iq_arrivals rs')"
    using r(2) by (rule list_emb_append_mono) simp
  then have "subseq (history b'') (history b @ iq_arrivals (rs @ rs'))"
    using r'(2) by (metis append.assoc iq_arrivals_append subseq_order.order_trans)
  moreover have "of_nat (length (history b'')) + iq_drop_count b'' =
      of_nat (length (history b)) + of_nat (length (iq_arrivals (rs @ rs'))) + iq_drop_count b"
    using r(3) r'(3) by (simp add: algebra_simps)
  ultimately show ?thesis unfolding accounts_def using r(1) r'(1) by (intro exI [of _ "rs @ rs'"]) simp
qed

lemma accounts_same:
  "be_incoming b' = be_incoming b \<Longrightarrow> history b' = history b \<Longrightarrow> iq_drop_count b' = iq_drop_count b \<Longrightarrow>
   accounts b b'"
  unfolding accounts_def by (rule exI [of _ "[]"]) simp

lemma accounts_consumed:
  assumes "be_incoming b = r # be_incoming b'" "iq_arrivals [r] = []" "history b' = history b"
    "iq_drop_count b' = iq_drop_count b"
  shows "accounts b b'"
  unfolding accounts_def by (rule exI [of _ "[r]"]) (use assms in simp)

lemma accounts_store:
  assumes "pool_ok b" "length data = n" "held_iq b = []"
    and "be_incoming b0 = rs @ be_incoming b" "history b0 @ iq_arrivals rs = history b @ [Iq_frame data q t]"
    and "iq_drop_count b0 = iq_drop_count b"
  shows "accounts b0 (store_iq n q t data b)"
  unfolding accounts_def
proof (intro exI conjI)
  let ?s = "store_iq n q t data b"
  show "be_incoming b0 = rs @ be_incoming ?s" using assms(4) by simp
  have "subseq (delivered b @ queued_iq ?s) (delivered b @ queued_iq b @ [Iq_frame data q t])"
    using pending_store(1) [OF assms(1,2), of q t] by (intro list_emb_append_mono) simp_all
  then show "subseq (history ?s) (history b0 @ iq_arrivals rs)"
    unfolding assms(5) by (simp add: history_def assms(3))
  have "length (history b0) + length (iq_arrivals rs) = length (delivered b) + length (queued_iq b) + 1"
    using arg_cong [OF assms(5), of length] by (simp add: history_def assms(3))
  then have "of_nat (length (history b0)) + of_nat (length (iq_arrivals rs)) =
      (of_nat (length (delivered b)) + of_nat (length (queued_iq b)) + 1 :: u32)"
    by (metis of_nat_1 of_nat_add)
  then show "of_nat (length (history ?s)) + iq_drop_count ?s =
      of_nat (length (history b0)) + of_nat (length (iq_arrivals rs)) + iq_drop_count b0"
    using pending_store(2) [OF assms(1,2), of q t] by (simp add: history_def assms(3,6) algebra_simps)
qed

lemma history_cong:
  "pool_of b' = pool_of b \<Longrightarrow> callbacks_made b' = callbacks_made b \<Longrightarrow> held_iq b' = held_iq b \<Longrightarrow> history b' = history b"
  by (simp add: history_def queued_iq_def delivered_def slots_def pool_of_def)

lemma call_back_client [simp]:
  "be_client (call_back x a b) = be_client b" "reader_place (call_back x a b) = reader_place b"
  by (simp_all add: call_back_def)

lemma call_back_fields [simp]:
  "pool_of (call_back x a b) = pool_of b" "held_iq (call_back x a b) = held_iq b"
  "be_incoming (call_back x a b) = be_incoming b" "iq_drop_count (call_back x a b) = iq_drop_count b"
  "\<not> is_iq a \<Longrightarrow> history (call_back x a b) = history b"
  by (simp_all add: call_back_def pool_of_def held_iq_def be_incoming_def history_def queued_iq_def delivered_def slots_def)

lemma ends_fields:
  assumes "reader_place b = Reader_reading"
  shows "history (reader_ends b) = history b" "be_incoming (reader_ends b) = be_incoming b"
    "iq_drop_count (reader_ends b) = iq_drop_count b"
proof -
  show "history (reader_ends b) = history b" unfolding reader_ends_def
    by (subst call_back_fields(5)) (auto intro!: history_cong simp: pool_of_def held_iq_def assms)
qed (simp_all add: reader_ends_def call_back_def be_incoming_def)

lemma accounts_take:
  assumes "pool_ok b" "has_callback b" "iq_take b = Some b'"
  shows "accounts b b'"
proof (rule accounts_same)
  note p = pool_take [OF assms(1,3)]
  have nt: "iq_slot b' \<notin> set (slots b')" "iq_slot b' < length (iq_frames b)"
    using assms(1) p(2) by (auto simp: pool_but_def)
  define f where "f = iq_frames b ! iq_slot b'"
  have b': "iq_frames b' = (iq_frames b)[iq_slot b' := f\<lparr>iq_state := Iq_active\<rparr>]"
    "callbacks_made b' = callbacks_made b @ [frame_callback f]" "held_iq b' = held_iq b"
    using assms(2,3) by (auto simp: iq_take_def Let_def call_back_def frame_callback_def held_iq_def f_def split: if_splits)
  have "map (\<lambda>j. frame_callback (iq_frames b' ! j)) (slots b') = map (\<lambda>j. frame_callback (iq_frames b ! j)) (slots b')"
    by (rule map_cong) (use nt in \<open>auto simp: b' nth_list_update\<close>)
  then show "history b' = history b"
    using p(2) b' nt(2) by (simp add: history_def queued_iq_def delivered_def f_def frame_callback_def)
  show "be_incoming b' = be_incoming b" "iq_drop_count b' = iq_drop_count b"
    using assms(3) by (auto simp: iq_take_def Let_def call_back_def be_incoming_def split: if_splits)
qed

lemma accounts_finish:
  assumes "pool_ok b" "iq_finish b = Some b'"
  shows "accounts b b'"
proof (rule accounts_same)
  have act: "iq_active b" and
    b': "b' = b\<lparr>iq_frames := (iq_frames b)[iq_slot b := (iq_frames b ! iq_slot b)\<lparr>iq_state := Iq_free\<rparr>],
      iq_active := False\<rparr>"
    using assms(2) by (auto simp: iq_finish_def split: if_splits)
  have sl: "slots b' = slots b" by (simp add: b' slots_def)
  have "iq_slot b < length (iq_frames b)" using active_slot(1) [OF assms(1) act] assms(1) by (simp add: pool_but_def)
  then have "map (\<lambda>j. frame_callback (iq_frames b' ! j)) (slots b) = map (\<lambda>j. frame_callback (iq_frames b ! j)) (slots b)"
    by (intro map_cong) (auto simp: b' nth_list_update frame_callback_def)
  then show "history b' = history b"
    by (simp add: history_def queued_iq_def sl) (simp add: b' delivered_def held_iq_def)
qed (use assms(2) in \<open>auto simp: iq_finish_def be_incoming_def split: if_splits\<close>)

lemma accounts_message:
  assumes "pool_ok b" "wire_ok b" "has_callback b" "reader_place b = Reader_reading"
    and "be_client b = Some c" "incoming c = Received h p # rs" "unat (hdr_payload_bytes h) \<le> 262144"
  shows "accounts b (handle_message ck h p (b\<lparr>be_client := Some (c\<lparr>incoming := rs\<rparr>)\<rparr>))"
proof -
  let ?b = "b\<lparr>be_client := Some (c\<lparr>incoming := rs\<rparr>)\<rparr>"
  let ?t = "if hdr_type h = command_code OPENRSP_EVENT_IQ_B then OPENRSP_TUNER_B else OPENRSP_TUNER_A"
  let ?n = "unat (hdr_payload_bytes h div 4)"
  have h: "held_iq b = []" "held_iq ?b = []" "history ?b = history b" "iq_drop_count ?b = iq_drop_count b"
    and i: "be_incoming b = Received h p # be_incoming ?b"
    using assms(4-6) by (auto simp: held_iq_def be_incoming_def intro!: history_cong simp: pool_of_def)
  have len: "length p = unat (hdr_payload_bytes h)" using assms(2) i by (simp add: wire_ok_def)
  show ?thesis
  proof (cases "is_iq_message h")
    case True
    have l: "length (iq_pairs p) = ?n" "?n \<le> 65536"
      using iq_message_length [OF _ assms(7) len] True by (simp_all add: is_iq_message_def)
    have eq: "history b @ iq_arrivals [Received h p] = history ?b @ [Iq_frame (iq_pairs p) (hdr_sequence h) ?t]"
      using True h(3) by (simp add: iq_callback_def)
    have hm: "handle_message ck h p ?b = queue_iq ck ?n (hdr_sequence h) ?t (iq_pairs p) ?b"
      using True by (simp add: handle_message_def is_iq_message_def)
    show ?thesis
    proof (cases "free_slot (iq_frames ?b) = 32 \<and> iq_queue_count ?b \<noteq> 0 \<and> ck")
      case True
      let ?w = "?b\<lparr>reader_place := Reader_waiting ?n (hdr_sequence h) ?t (iq_pairs p)\<rparr>"
      have "queue_iq ck ?n (hdr_sequence h) ?t (iq_pairs p) ?b = ?w"
        using True l(2) assms(3) by (simp add: queue_iq_def)
      moreover have "history ?w = history b @ iq_arrivals [Received h p]"
        unfolding eq using h(2) by (simp add: history_def delivered_def queued_iq_def slots_def held_iq_def)
      moreover have "be_incoming ?w = be_incoming ?b" by (simp add: be_incoming_def)
      ultimately show ?thesis unfolding hm accounts_def
        by (intro exI [of _ "[Received h p]"]) (use i h(4) in simp)
    next
      case False
      then have "queue_iq ck ?n (hdr_sequence h) ?t (iq_pairs p) ?b =
          store_iq ?n (hdr_sequence h) ?t (iq_pairs p) ?b"
        using l(2) assms(3) by (auto simp: queue_iq_def)
      then show ?thesis unfolding hm
        using accounts_store [of ?b "iq_pairs p" ?n b "[Received h p]" "hdr_sequence h" ?t] assms(1) l(1) h i eq
        by simp
    qed
  next
    case False
    have "history (handle_message ck h p ?b) = history ?b"
      "be_incoming (handle_message ck h p ?b) = be_incoming ?b"
      "iq_drop_count (handle_message ck h p ?b) = iq_drop_count ?b"
      using False assms(4,7) by (auto simp: handle_message_def is_iq_message_def be_incoming_def held_iq_def pool_of_def
          intro!: history_cong)
    then show ?thesis using accounts_consumed [of b "Received h p"] i h False by simp
  qed
qed

lemma accounts_step:
  assumes "pool_ok b" "wire_ok b" "has_callback b" "backend_do e b = Some b'"
  shows "accounts b b'"
proof (cases e)
  case (Reader_receives ck)
  then have r: "reader_receives ck b = Some b'" using assms(4) by simp
  note pl = reader_receives_place [OF r]
  from r show ?thesis
  proof (cases rule: reader_receives_cases)
    case ended
    then show ?thesis using ends_fields [OF pl] by (intro accounts_same) simp_all
  next
    case idle
    then show ?thesis by (simp add: accounts_refl)
  next
    case (failed c r rs)
    let ?b = "b\<lparr>be_client := Some (c\<lparr>incoming := rs\<rparr>)\<rparr>"
    have "reader_place ?b = Reader_reading" using pl by simp
    note e = ends_fields [OF this]
    have "history ?b = history b" by (rule history_cong) (simp_all add: pool_of_def held_iq_def)
    moreover have "iq_arrivals [r] = []" using failed(3) by (cases r) (auto simp: is_iq_message_def split: if_splits)
    ultimately show ?thesis using failed e by (intro accounts_consumed [of b r]) (simp_all add: be_incoming_def)
  next
    case (timeout c rs)
    then have "history b' = history b" by (intro history_cong) (simp_all add: pool_of_def held_iq_def)
    then show ?thesis using timeout by (intro accounts_consumed [of b Receive_timeout]) (simp_all add: be_incoming_def)
  next
    case (message c h p rs)
    show ?thesis unfolding message(4) by (rule accounts_message [OF assms(1-3) pl message(1-3)])
  qed
next
  case Reader_wakes
  then obtain n q t data where w: "reader_place b = Reader_waiting n q t data"
      "b' = store_iq n q t data (b\<lparr>reader_place := Reader_reading\<rparr>)"
    using assms(4) by (auto simp: reader_wakes_def split: reader_place.splits)
  show ?thesis unfolding w(2)
  proof (rule accounts_store [where rs = "[]"])
    show "length data = n" using assms(2) w(1) by (simp add: wire_ok_def)
    show "history b @ iq_arrivals [] = history (b\<lparr>reader_place := Reader_reading\<rparr>) @ [Iq_frame data q t]"
      by (simp add: history_def delivered_def queued_iq_def slots_def held_iq_def w(1))
  qed (simp_all add: assms(1) held_iq_def be_incoming_def)
next
  case Reader_drained
  then show ?thesis using assms(4)
    by (intro accounts_same) (auto simp: reader_responds_def Let_def be_incoming_def pool_of_def held_iq_def
        intro!: history_cong split: reader_place.splits if_splits)
next
  case Worker_takes
  then show ?thesis using accounts_take [OF assms(1,3)] assms(4) by simp
next
  case Worker_finishes
  then show ?thesis using accounts_finish [OF assms(1)] assms(4) by simp
qed

lemma wire_step:
  assumes "wire_ok b" "backend_do e b = Some b'"
  shows "wire_ok b'"
proof (cases e)
  case (Reader_receives ck)
  then have r: "reader_receives ck b = Some b'" using assms(2) by simp
  from r reader_receives_place [OF r] assms(1) show ?thesis
  proof (cases rule: reader_receives_cases)
    case (message c h p rs)
    let ?b = "b\<lparr>be_client := Some (c\<lparr>incoming := rs\<rparr>)\<rparr>"
    have ok: "list_all received_ok rs" "length p = unat (hdr_payload_bytes h)"
      using assms(1) message by (simp_all add: wire_ok_def be_incoming_def)
    have "be_incoming (handle_message ck h p ?b) = rs"
      by (simp add: handle_message_def queue_iq_def) (simp add: be_incoming_def)
    moreover have "case reader_place (handle_message ck h p ?b) of Reader_waiting n q t data \<Rightarrow> length data = n | _ \<Rightarrow> True"
      using reader_receives_place [OF r] iq_message_length(1) [OF _ message(3) ok(2)]
      by (simp add: handle_message_def queue_iq_def)
    ultimately show ?thesis unfolding message(4) wire_ok_def using ok(1) by simp
  qed (auto simp: wire_ok_def be_incoming_def reader_ends_def)
next
  case Reader_wakes
  then obtain n q t data where "b' = store_iq n q t data (b\<lparr>reader_place := Reader_reading\<rparr>)"
    using assms(2) by (auto simp: reader_wakes_def split: reader_place.splits)
  then show ?thesis using assms(1) by (simp add: wire_ok_def) (simp add: be_incoming_def)
next
  case Reader_drained
  then show ?thesis using assms
    by (auto simp: reader_responds_def Let_def wire_ok_def be_incoming_def split: reader_place.splits if_splits)
next
  case Worker_takes
  then show ?thesis using assms by (auto simp: iq_take_def Let_def wire_ok_def be_incoming_def split: if_splits)
next
  case Worker_finishes
  then show ?thesis using assms by (auto simp: iq_finish_def wire_ok_def be_incoming_def split: if_splits)
qed

subsection \<open>Every state of a back end\<close>

text \<open>
  The invariant of a back end: the pool and the wire are in order; once the reader runs so
  does the IQ thread and the IQ callback is installed; before, nothing is queued.
\<close>

definition link_ok :: "daemon_backend \<Rightarrow> bool" where
  "link_ok b \<longleftrightarrow> pool_ok b \<and> wire_ok b \<and>
     (if reader_started b then has_callback b \<and> iq_started b \<and> \<not> iq_stop b
      else reader_place b = Reader_absent \<and> iq_queue_count b = 0 \<and> \<not> iq_active b)"

lemma link_step_kept:
  assumes "link_ok b" "backend_do e b = Some b'"
  shows "link_ok b'"
proof (cases "reader_started b")
  case True
  then show ?thesis using assms kept_step [OF assms(2)] pool_step wire_step by (auto simp: link_ok_def kept_def)
next
  case False
  then have "backend_do e b = None" using assms(1)
    by (cases e) (simp_all add: link_ok_def reader_receives_def reader_wakes_def reader_responds_def iq_take_def iq_finish_def)
  then show ?thesis using assms(2) by simp
qed

lemma run_induct [consumes 1, case_names refl step]:
  assumes "b' = backend_run es b" "P b"
    "\<And>e c c'. P c \<Longrightarrow> e \<in> set es \<Longrightarrow> backend_do e c = Some c' \<Longrightarrow> P c'"
  shows "P b'"
  using assms
proof (induction es arbitrary: b)
  case (Cons e es)
  show ?case
  proof (rule Cons.IH)
    show "b' = backend_run es (case backend_do e b of None \<Rightarrow> b | Some c \<Rightarrow> c)" using Cons.prems(1) by simp
    show "P (case backend_do e b of None \<Rightarrow> b | Some c \<Rightarrow> c)"
      using Cons.prems(2,3) by (auto split: option.splits)
  qed (use Cons.prems(3) in auto)
qed simp

lemma link_run: "link_ok b \<Longrightarrow> link_ok (backend_run es b)"
  by (rule run_induct [OF refl, where P = link_ok]) (auto intro: link_step_kept)

lemma kept_run: "kept (backend_run es b) = kept b"
  by (rule run_induct [OF refl, where P = "\<lambda>c. kept c = kept b"]) (auto dest: kept_step)

lemma accounts_run:
  assumes "link_ok b" "has_callback b"
  shows "accounts b (backend_run es b)"
proof -
  have "link_ok (backend_run es b) \<and> has_callback (backend_run es b) \<and> accounts b (backend_run es b)"
  proof (rule run_induct [OF refl, where P = "\<lambda>c. link_ok c \<and> has_callback c \<and> accounts b c"])
    fix e c c' assume c: "link_ok c \<and> has_callback c \<and> accounts b c" and d: "backend_do e c = Some c'"
    have "accounts c c'" using accounts_step [of c e c'] c d by (simp add: link_ok_def)
    then show "link_ok c' \<and> has_callback c' \<and> accounts b c'"
      using c d kept_step [OF d] link_step_kept accounts_trans by (auto simp: kept_def)
  qed (use assms accounts_refl in simp)
  then show ?thesis by simp
qed

text \<open>Waiting for a response is a run of the threads.\<close>

lemma await_run: "\<exists>es'. set es' \<subseteq> set es \<and> snd (await_response es b) = backend_run es' b"
proof (induction es arbitrary: b)
  case Nil
  show ?case by (intro exI [of _ "[]"]) simp
next
  case (Cons e es)
  show ?case
  proof (cases "response_received b \<or> reader_failed b")
    case True
    then show ?thesis by (intro exI [of _ "[]"]) auto
  next
    case False
    obtain es' where "set es' \<subseteq> set es"
      "snd (await_response es (case backend_do e b of None \<Rightarrow> b | Some c \<Rightarrow> c)) =
        backend_run es' (case backend_do e b of None \<Rightarrow> b | Some c \<Rightarrow> c)" using Cons.IH by blast
    then show ?thesis using False by (intro exI [of _ "e # es'"]) auto
  qed
qed

subsection \<open>The calls keep the invariant\<close>

lemma receive_suffix: "client_receive n c = (r, c') \<Longrightarrow> \<exists>rs. incoming c = rs @ incoming c'"
  by (cases "incoming c") (auto simp: client_receive_def)

lemma request_suffix:
  assumes "request_on_client S cmd q p c = (r, c')"
  shows "\<exists>rs. incoming c = rs @ incoming c'" and "outgoing c' = outgoing c @ [(cmd, q, p)]"
proof -
  define c1 where "c1 = c\<lparr>outgoing := outgoing c @ [(cmd, q, p)]\<rparr>"
  obtain m c2 where m: "client_receive 16 c1 = (m, c2)" by fastforce
  have "c' = c1 \<or> c' = c2"
  proof (cases "S (length (outgoing c))")
    case True
    then have "snd (request_on_client S cmd q p c) = snd (receive_response q c1)"
      by (simp add: request_on_client_def client_send_def c1_def split: prod.split option.split)
    also have "\<dots> = c2" by (simp add: receive_response_def m split: received.split)
    finally show ?thesis using assms by simp
  next
    case False
    then show ?thesis using assms by (simp add: request_on_client_def client_send_def c1_def)
  qed
  moreover have "incoming c1 = incoming c" "outgoing c1 = outgoing c @ [(cmd, q, p)]" by (simp_all add: c1_def)
  moreover obtain rs where "incoming c1 = rs @ incoming c2" using receive_suffix [OF m] by blast
  ultimately show "\<exists>rs. incoming c = rs @ incoming c'" "outgoing c' = outgoing c @ [(cmd, q, p)]"
    using client_receive_outgoing [OF m] by (metis append_Nil, auto)
qed

lemma link_cong:
  assumes "link_ok b" "pool_of b' = pool_of b" "reader_started b' = reader_started b" "reader_place b' = reader_place b"
    and "has_callback b \<Longrightarrow> has_callback b'" "iq_started b' = iq_started b" "iq_stop b' = iq_stop b"
    and "list_all received_ok (be_incoming b')"
  shows "link_ok b'"
  using assms pool_cong [OF assms(2)] by (simp add: link_ok_def wire_ok_def pool_of_def)

lemma link_incoming: "link_ok b \<Longrightarrow> list_all received_ok (be_incoming b)"
  by (simp add: link_ok_def wire_ok_def)

lemma link_direct:
  assumes "link_ok b"
  shows "link_ok (snd (direct_request W cmd p b))"
    and "reader_started (snd (direct_request W cmd p b)) = reader_started b"
    and "has_callback (snd (direct_request W cmd p b)) = has_callback b"
proof -
  let ?b = "snd (direct_request W cmd p b)"
  have "list_all received_ok (be_incoming ?b)"
  proof (cases "be_client b")
    case None
    then show ?thesis by (simp add: direct_request_def be_incoming_def)
  next
    case (Some c)
    obtain r c' where q: "request_on_client (sends W) cmd (next_sequence b) p c = (r, c')" by fastforce
    obtain rs where "incoming c = rs @ incoming c'" using request_suffix(1) [OF q] by blast
    then show ?thesis using link_incoming [OF assms] Some q
      by (simp add: direct_request_def be_incoming_def)
  qed
  moreover have "pool_of ?b = pool_of b" "reader_started ?b = reader_started b" "reader_place ?b = reader_place b"
    "has_callback ?b = has_callback b" "iq_started ?b = iq_started b" "iq_stop ?b = iq_stop b"
    by (simp_all add: direct_request_def pool_of_def Let_def case_prod_beta split: option.splits)
  ultimately show "link_ok ?b" "reader_started ?b = reader_started b" "has_callback ?b = has_callback b"
    using link_cong [OF assms] by auto
qed

text \<open>An asynchronous request: the state with the request sent, then a run of the threads.\<close>

definition asked :: "openrsp_command_type \<Rightarrow> u8 list \<Rightarrow> daemon_backend \<Rightarrow> daemon_backend" where
  "asked cmd p b =
     b\<lparr>next_sequence := next_sequence b + 1, waiting_sequence := next_sequence b, waiting_changed_flags := 0,
       response_received := False,
       be_client := map_option (\<lambda>c. c\<lparr>outgoing := outgoing c @ [(cmd, next_sequence b, p)]\<rparr>) (be_client b)\<rparr>"

lemma be_send_asked:
  "snd (be_send W cmd (next_sequence b) p
     (b\<lparr>next_sequence := next_sequence b + 1, waiting_sequence := next_sequence b, waiting_changed_flags := 0,
        response_received := False\<rparr>)) = asked cmd p b"
  by (cases b) (simp add: be_send_def asked_def client_send_def split: option.splits)

lemma async_run:
  obtains es where "snd (async_request W cmd p b) = backend_run es (asked cmd p b)" "set es \<subseteq> set (while_waiting W)"
proof -
  let ?b = "b\<lparr>next_sequence := next_sequence b + 1, waiting_sequence := next_sequence b, waiting_changed_flags := 0,
        response_received := False\<rparr>"
  obtain r b1 where s: "be_send W cmd (next_sequence b) p ?b = (r, b1)" by fastforce
  then have b1: "b1 = asked cmd p b" using be_send_asked [of W cmd b p] by simp
  obtain es where es: "set es \<subseteq> set (while_waiting W)"
      "snd (await_response (while_waiting W) b1) = backend_run es b1" using await_run by blast
  have "snd (async_request W cmd p b) = b1 \<or>
      snd (async_request W cmd p b) = snd (await_response (while_waiting W) b1)"
    by (simp add: async_request_def s Let_def case_prod_beta)
  then show thesis using that [of "[]"] that [of es] es b1 by auto
qed

lemma link_asked:
  assumes "link_ok b"
  shows "link_ok (asked cmd p b)"
proof (rule link_cong [OF assms])
  have "be_incoming (asked cmd p b) = be_incoming b"
    by (simp add: asked_def be_incoming_def split: option.splits)
  then show "list_all received_ok (be_incoming (asked cmd p b))" using link_incoming [OF assms] by simp
qed (simp_all add: asked_def pool_of_def)

lemma link_async:
  assumes "link_ok b"
  shows "link_ok (snd (async_request W cmd p b))"
    and "reader_started (snd (async_request W cmd p b)) = reader_started b"
    and "has_callback (snd (async_request W cmd p b)) = has_callback b"
proof -
  obtain es where es: "snd (async_request W cmd p b) = backend_run es (asked cmd p b)" by (rule async_run)
  show "link_ok (snd (async_request W cmd p b))" unfolding es by (intro link_run link_asked assms)
  show "reader_started (snd (async_request W cmd p b)) = reader_started b"
    "has_callback (snd (async_request W cmd p b)) = has_callback b"
    unfolding es using kept_run [of es "asked cmd p b"] by (simp_all add: kept_def asked_def)
qed

lemma link_start_iq:
  assumes "link_ok b" "\<not> reader_started b" "start_iq_worker W b = (r, b')"
  shows "link_ok b'" and "\<not> reader_started b'" and "r = 0 \<Longrightarrow> \<not> iq_stop b' \<or> iq_started b"
    and "has_callback b' = has_callback b" and "r = 0 \<Longrightarrow> iq_started b'"
proof -
  have f: "pool_of b' = pool_of b" "reader_started b' = reader_started b" "reader_place b' = reader_place b"
    "has_callback b' = has_callback b" "be_incoming b' = be_incoming b"
    using assms(3) by (auto simp: start_iq_worker_def Let_def pool_of_def be_incoming_def split: if_splits)
  then show "\<not> reader_started b'" "has_callback b' = has_callback b" using assms(2) by simp_all
  show "link_ok b'" using assms(1,2) f pool_cong [OF f(1)] by (simp add: link_ok_def wire_ok_def pool_of_def)
  show "r = 0 \<Longrightarrow> \<not> iq_stop b' \<or> iq_started b" "r = 0 \<Longrightarrow> iq_started b'"
    using assms(3) by (auto simp: start_iq_worker_def Let_def split: if_splits)
qed

lemma link_stop_iq:
  assumes "link_ok b" "\<not> reader_started b"
  shows "link_ok (stop_iq_worker b)" and "\<not> reader_started (stop_iq_worker b)"
proof -
  have i: "iq_queue_count b = 0" "\<not> iq_active b" using assms by (simp_all add: link_ok_def)
  have f: "pool_of (stop_iq_worker b) = pool_of b" "reader_started (stop_iq_worker b) = reader_started b"
    "reader_place (stop_iq_worker b) = reader_place b" "be_incoming (stop_iq_worker b) = be_incoming b"
    using i by (simp_all add: stop_iq_worker_def Let_def iq_finish_def pool_of_def be_incoming_def)
  then show "\<not> reader_started (stop_iq_worker b)" using assms(2) by simp
  show "link_ok (stop_iq_worker b)"
    using assms f pool_cong [OF f(1)] by (simp add: link_ok_def wire_ok_def pool_of_def)
qed

text \<open>The flags of the thread that a back end without a reader may have.\<close>

definition no_worker :: "daemon_backend \<Rightarrow> bool" where
  "no_worker b \<longleftrightarrow> reader_started b \<or> \<not> iq_started b"

lemma no_worker_direct: "no_worker (snd (direct_request W cmd p b)) = no_worker b"
  by (simp add: direct_request_def no_worker_def Let_def case_prod_beta split: option.splits)

lemma no_worker_async: "no_worker (snd (async_request W cmd p b)) = no_worker b"
proof -
  obtain es where es: "snd (async_request W cmd p b) = backend_run es (asked cmd p b)" by (rule async_run)
  show ?thesis unfolding es using kept_run [of es "asked cmd p b"] by (simp add: no_worker_def kept_def asked_def)
qed

definition backend_inv :: "daemon_backend \<Rightarrow> bool" where
  "backend_inv b \<longleftrightarrow> link_ok b \<and> no_worker b"

lemma inv_direct: "backend_inv b \<Longrightarrow> backend_inv (snd (direct_request W cmd p b))"
  by (simp add: backend_inv_def link_direct no_worker_direct)

lemma inv_async: "backend_inv b \<Longrightarrow> backend_inv (snd (async_request W cmd p b))"
  by (simp add: backend_inv_def link_async no_worker_async)

lemma inv_step: "backend_inv b \<Longrightarrow> backend_do e b = Some b' \<Longrightarrow> backend_inv b'"
  using kept_step [of e b b'] link_step_kept [of b e b'] by (simp add: backend_inv_def no_worker_def kept_def)

lemma inv_callbacks:
  assumes "backend_inv b"
  shows "backend_inv (b\<lparr>has_callback := True, has_status_callback := True, has_failure_callback := True\<rparr>)"
    and "backend_inv (b\<lparr>has_callback := True, has_status_callback := True, has_duo_callback := True,
      has_failure_callback := True\<rparr>)"
  using assms link_cong [of b] link_incoming [of b]
  by (simp_all add: backend_inv_def no_worker_def pool_of_def be_incoming_def)

text \<open>Creating both threads.\<close>

lemma inv_threads:
  assumes "backend_inv b" "\<not> reader_started b" "has_callback b" "start_iq_worker W b = (0, b')"
  shows "backend_inv (b'\<lparr>reader_started := True, reader_place := Reader_reading\<rparr>)"
    and "backend_inv (stop_iq_worker b')"
proof -
  have n: "\<not> iq_started b" using assms(1,2) by (simp add: backend_inv_def no_worker_def)
  have l: "link_ok b" using assms(1) by (simp add: backend_inv_def)
  note s = link_start_iq [OF l assms(2,4)]
  have "pool_ok b'" "list_all received_ok (be_incoming b')"
    using s(1) by (simp_all add: link_ok_def wire_ok_def)
  then have "link_ok (b'\<lparr>reader_started := True, reader_place := Reader_reading\<rparr>)"
    using s(3-5) n assms(3) pool_cong [of "b'\<lparr>reader_started := True, reader_place := Reader_reading\<rparr>" b' "{}"]
    by (simp add: link_ok_def wire_ok_def pool_of_def be_incoming_def)
  then show "backend_inv (b'\<lparr>reader_started := True, reader_place := Reader_reading\<rparr>)"
    by (simp add: backend_inv_def no_worker_def)
  have "\<not> iq_started (stop_iq_worker b')" by (simp add: stop_iq_worker_def Let_def split: option.splits)
  then show "backend_inv (stop_iq_worker b')"
    using link_stop_iq [OF s(1,2)] by (simp add: backend_inv_def no_worker_def)
qed

lemma inv_failed_iq:
  assumes "backend_inv b" "\<not> reader_started b" "start_iq_worker W b = (r, b')" "r \<noteq> 0"
  shows "backend_inv b'"
proof -
  have "\<not> iq_started b'" using assms(3,4) by (auto simp: start_iq_worker_def Let_def split: if_splits)
  then show ?thesis using link_start_iq(1) [OF _ assms(2,3)] assms(1) by (simp add: backend_inv_def no_worker_def)
qed

lemma inv_start:
  assumes "backend_inv b"
  shows "backend_inv (snd (openrsp_daemon_backend_start W b))"
proof (cases "reader_started b")
  case True
  then show ?thesis using assms by (simp add: openrsp_daemon_backend_start_def)
next
  case False
  let ?b = "b\<lparr>has_callback := True, has_status_callback := True, has_failure_callback := True\<rparr>"
  obtain r b1 where d: "direct_request W OPENRSP_CMD_START [] ?b = (r, b1)" by fastforce
  obtain r' b2 where t: "start_iq_worker W b1 = (r', b2)" by fastforce
  have b1: "backend_inv b1" "\<not> reader_started b1" "has_callback b1"
    using inv_direct [OF inv_callbacks(1) [OF assms], of W OPENRSP_CMD_START "[]"] d False
      link_direct(2,3) [of ?b W OPENRSP_CMD_START "[]"] inv_callbacks(1) [OF assms] by (simp_all add: backend_inv_def)
  show ?thesis
  proof (cases "r' = 0")
    case True
    then show ?thesis using False d t inv_threads [OF b1, of W b2] b1(1) inv_direct
      by (simp add: openrsp_daemon_backend_start_def)
  next
    case r': False
    then show ?thesis using False d t inv_failed_iq [OF b1(1,2) t] b1(1) inv_direct
      by (simp add: openrsp_daemon_backend_start_def)
  qed
qed

lemma inv_start_duo:
  assumes "backend_inv b"
  shows "backend_inv (snd (openrsp_daemon_backend_start_duo W b))"
proof -
  let ?b = "b\<lparr>has_callback := True, has_status_callback := True, has_duo_callback := True,
      has_failure_callback := True\<rparr>"
  note b = inv_callbacks(2) [OF assms]
  obtain r b1 where t: "start_iq_worker W ?b = (r, b1)" by fastforce
  show ?thesis
  proof (cases "reader_started b")
    case True
    then show ?thesis using inv_async [OF b] by (simp add: openrsp_daemon_backend_start_duo_def)
  next
    case False
    then show ?thesis using inv_threads [OF b, of W b1] inv_failed_iq [OF b _ t] t inv_async
      by (auto simp: openrsp_daemon_backend_start_duo_def)
  qed
qed

end
