(* ===== verification/Rsp_Link.thy ===== *)
theory Rsp_Link
  imports Rsp_Pool Rsp_Library
begin

text \<open>
  The daemon connection as a state machine: the calls of the client library on it and the
  steps of its two threads, in any order. The invariant of the pool holds in every state
  it reaches; on it rest the theorems on the delivery of frames and on responses, and the
  agreement of the library's own idea of its connection with the back end.
\<close>

subsection \<open>The state machine\<close>

text \<open>
  A new connection has sent nothing yet and delivers messages of the announced length; the
  library opens it with an identity whose serial number fills its array.
\<close>

definition world_ok :: "backend_world \<Rightarrow> bool" where
  "world_ok W \<longleftrightarrow>
     (case connects W of None \<Rightarrow> True | Some c \<Rightarrow> list_all received_ok (incoming c) \<and> outgoing c = [])"

fun call_ok :: "backend_call \<Rightarrow> bool" where
  "call_ok (Backend_open i) = wf_acquire_request i"
| "call_ok (Backend_open_duo i _ _ _) = wf_acquire_request i"
| "call_ok _ = True"

datatype link_action = Thread backend_event | Call backend_world backend_call

fun action_ok :: "link_action \<Rightarrow> bool" where
  "action_ok (Thread e) = True"
| "action_ok (Call W c) = (world_ok W \<and> call_ok c)"

fun link_next :: "link_action \<Rightarrow> daemon_backend option \<Rightarrow> daemon_backend option" where
  "link_next (Thread e) p = map_option (\<lambda>b. case backend_do e b of None \<Rightarrow> b | Some b' \<Rightarrow> b') p"
| "link_next (Call W c) p = snd (backend_request W c p)"

definition link_step :: "daemon_backend option \<Rightarrow> link_action \<Rightarrow> daemon_backend option \<Rightarrow> bool" where
  "link_step p l p' \<longleftrightarrow> action_ok l \<and> p' = link_next l p"

lemma runs_link: "runs link_step p ls p' \<longleftrightarrow> list_all action_ok ls \<and> p' = fold link_next ls p"
  by (induction ls arbitrary: p) (auto simp: runs_Cons_iff link_step_def)

definition link_inv :: "daemon_backend option \<Rightarrow> bool" where
  "link_inv p \<longleftrightarrow> (case p of None \<Rightarrow> True | Some b \<Rightarrow> backend_inv b)"

lemma link_inv_simps [simp]: "link_inv None" "link_inv (Some b) = backend_inv b"
  by (simp_all add: link_inv_def)

lemma inv_new:
  assumes "list_all received_ok (incoming c)"
  shows "backend_inv (new_backend\<lparr>be_client := Some c\<rparr>)"
  unfolding backend_inv_def link_ok_def no_worker_def
  by (simp add: wire_ok_def be_incoming_def assms) (simp add: new_backend_def)

lemma inv_open_with:
  assumes "world_ok W" "open_with W cmd p = (r, Some b, sent)"
  shows "backend_inv b" and "r = 0"
proof -
  have m: "has_memory W" "has_frame_memory W"
    using assms(2) by (simp_all add: open_with_def split: if_splits)
  then obtain c where c: "connects W = Some c"
    using assms(2) by (cases "connects W") (simp_all add: open_with_def)
  obtain q b1 where d: "direct_request W cmd p (new_backend\<lparr>be_client := Some c\<rparr>) = (q, b1)" by fastforce
  have "q = 0" "b1 = b" "r = 0" using assms(2) m c d by (simp_all add: open_with_def split: if_splits)
  then show "backend_inv b" "r = 0"
    using inv_direct [OF inv_new, of c W cmd p] assms(1) c d by (simp_all add: world_ok_def)
qed

lemma inv_duo_role: "backend_inv b \<Longrightarrow> backend_inv (b\<lparr>be_duo_role := role\<rparr>)"
  using link_cong [of b "b\<lparr>be_duo_role := role\<rparr>"] link_incoming [of b]
  by (simp add: backend_inv_def no_worker_def pool_of_def be_incoming_def)

lemma inv_open:
  assumes "world_ok W"
  shows "openrsp_daemon_backend_open W i = (r, Some b, sent) \<Longrightarrow> backend_inv b"
    and "openrsp_daemon_backend_open_duo W i role t rate = (r, Some b, sent) \<Longrightarrow> backend_inv b"
  using inv_open_with [OF assms] inv_duo_role
  by (auto simp: openrsp_daemon_backend_open_def openrsp_daemon_backend_open_duo_def split: if_splits prod.splits)

lemma inv_request:
  assumes "link_inv p" "world_ok W"
  shows "link_inv (snd (backend_request W c p))"
proof (cases p)
  case None
  then show ?thesis using inv_open [OF assms(2)]
    by (cases c) (auto simp: link_inv_def split: option.splits prod.splits)
next
  case (Some b)
  then have b: "backend_inv b" using assms(1) by simp
  show ?thesis
  proof (cases c)
    case (Backend_open i)
    then show ?thesis using inv_open(1) [OF assms(2)] b Some
      by (auto simp: link_inv_def split: option.splits prod.splits)
  next
    case (Backend_open_duo i role t rate)
    then show ?thesis using inv_open(2) [OF assms(2)] b Some
      by (auto simp: link_inv_def split: option.splits prod.splits)
  qed (simp_all add: Some b inv_direct inv_async inv_start inv_start_duo openrsp_daemon_backend_configure_def
      openrsp_daemon_backend_configure_dual_def openrsp_daemon_backend_configure_duo_def
      openrsp_daemon_backend_stop_def openrsp_daemon_backend_stop_duo_def openrsp_daemon_backend_update_def
      openrsp_daemon_backend_update_duo_def openrsp_daemon_backend_swap_def openrsp_daemon_backend_swap_mode_def
      openrsp_daemon_backend_swap_duo_rate_def openrsp_daemon_backend_resume_mode_def)
qed

interpretation link_sys: invariant_system link_step link_inv
proof
  fix p l p' assume "link_inv p" "link_step p l p'"
  then show "link_inv p'"
    using inv_request by (cases l; cases p) (auto simp: link_step_def intro: inv_step split: option.splits)
qed

lemma reached_inv: "runs link_step None ls (Some b) \<Longrightarrow> backend_inv b"
  using link_sys.runs_inv [of None ls "Some b"] by simp

subsection \<open>The frame in delivery\<close>

lemma active_run:
  assumes "pool_ok b" "iq_active b" "Worker_finishes \<notin> set es"
  shows "iq_active (backend_run es b) \<and> iq_slot (backend_run es b) = iq_slot b \<and>
    iq_frames (backend_run es b) ! iq_slot b = iq_frames b ! iq_slot b"
proof -
  let ?P = "\<lambda>c. pool_ok c \<and> iq_active c \<and> iq_slot c = iq_slot b \<and> iq_frames c ! iq_slot b = iq_frames b ! iq_slot b"
  have "?P (backend_run es b)"
  proof (rule run_induct [OF refl, where P = ?P])
    fix e c c' assume c: "?P c" and e: "e \<in> set es" and d: "backend_do e c = Some c'"
    have "e \<noteq> Worker_finishes" using e assms(3) by auto
    then have "iq_active c' \<and> iq_slot c' = iq_slot c \<and> iq_frames c' ! iq_slot c = iq_frames c ! iq_slot c"
      using active_step [OF _ _ d] c by blast
    then show "?P c'" using c pool_step [OF _ d] by simp
  qed (use assms in simp)
  then show ?thesis by simp
qed

text \<open>
  C8. The frame being delivered is not touched. In every state the connection can reach
  while the IQ thread is inside a callback, no step of the reader or of the IQ thread,
  until that callback has returned, changes the frame the callback reads: neither a free
  slot nor the oldest queued slot that a full pool gives up is the one in delivery.
\<close>

theorem frame_in_delivery_untouched:
  assumes "runs link_step None ls (Some b)" and "iq_active b" and "Worker_finishes \<notin> set es"
  shows "iq_active (backend_run es b) \<and> iq_slot (backend_run es b) = iq_slot b \<and>
    iq_frames (backend_run es b) ! iq_slot b = iq_frames b ! iq_slot b"
  using active_run assms reached_inv by (simp add: backend_inv_def link_ok_def)

text \<open>
  C9. Frames are delivered in the order of the wire, unaltered, and none is lost silently.
  From any state the connection can reach with its reader running, any interleaving of the
  threads consumes a prefix of what the wire holds; what the callbacks have seen, followed
  by what is queued and what the reader still holds, is a subsequence of what it was before
  followed by the IQ frames of that prefix; and the number of missing frames is the number
  by which the drop counter has grown.
\<close>

theorem frames_delivered_in_wire_order:
  assumes "runs link_step None ls (Some b)" and "reader_started b"
  shows "\<exists>rs. be_incoming b = rs @ be_incoming (backend_run es b) \<and>
    subseq (delivered (backend_run es b) @ queued_iq (backend_run es b) @ held_iq (backend_run es b))
      (delivered b @ queued_iq b @ held_iq b @ iq_arrivals rs) \<and>
    of_nat (length (delivered (backend_run es b) @ queued_iq (backend_run es b) @ held_iq (backend_run es b))) +
      iq_drop_count (backend_run es b) =
    of_nat (length (delivered b @ queued_iq b @ held_iq b @ iq_arrivals rs)) + iq_drop_count b"
proof -
  have "link_ok b" "has_callback b"
    using reached_inv [OF assms(1)] assms(2) by (simp_all add: backend_inv_def link_ok_def)
  from accounts_run [OF this, of es] show ?thesis
    by (simp add: accounts_def history_def add.assoc)
qed

subsection \<open>Responses\<close>

text \<open>Where a response the reader holds came from.\<close>

definition response_from :: "daemon_backend \<Rightarrow> response \<Rightarrow> bool" where
  "response_from b rsp \<longleftrightarrow> reader_place b = Reader_draining rsp \<or>
     (\<exists>h p. Received h p \<in> set (be_incoming b) \<and> hdr_type h = command_code OPENRSP_MSG_RESPONSE \<and>
       hdr_payload_bytes h = 16 \<and> rsp = decode_response p)"

lemma store_received [simp]:
  "response_received (store_iq n q t data b) = response_received b"
  by (simp add: store_iq_def put_iq_def drop_oldest_iq_def Let_def)

lemma call_back_received [simp]: "response_received (call_back x a b) = response_received b"
  by (simp add: call_back_def)

lemma handle_received [simp]: "response_received (handle_message ck h p b) = response_received b"
  by (simp add: handle_message_def queue_iq_def)

lemma received_step:
  assumes "backend_do e b = Some b'" "\<not> response_received b" "response_received b'"
  shows "e = Reader_drained"
proof (cases e)
  case (Reader_receives ck)
  then have "reader_receives ck b = Some b'" using assms(1) by simp
  then show ?thesis using assms(2,3)
    by (cases rule: reader_receives_cases) (simp_all add: reader_ends_def)
qed (use assms in \<open>auto simp: reader_wakes_def iq_take_def iq_finish_def Let_def split: reader_place.splits if_splits\<close>)

lemma await_received:
  assumes "await_response es b = (r, b')" "\<not> response_received b" "response_received b'"
  shows "\<exists>es1. \<not> response_received (backend_run es1 b) \<and> reader_responds (backend_run es1 b) = Some b'"
  using assms
proof (induction es arbitrary: b)
  case (Cons e es)
  let ?b = "case backend_do e b of None \<Rightarrow> b | Some c \<Rightarrow> c"
  have a: "await_response es ?b = (r, b')"
    using Cons.prems by (cases "reader_failed b") auto
  show ?case
  proof (cases "response_received ?b")
    case True
    then obtain c where c: "backend_do e b = Some c" "?b = c" using Cons.prems(2) by (cases "backend_do e b") simp_all
    have "e = Reader_drained" using received_step [OF c(1)] Cons.prems(2) True c(2) by simp
    moreover have "b' = c" using a True c(2) by (cases es) simp_all
    ultimately show ?thesis using c(1) Cons.prems(2) by (intro exI [of _ "[]"]) simp
  next
    case False
    from Cons.IH [OF a this Cons.prems(3)] obtain es1
      where "\<not> response_received (backend_run es1 ?b)" "reader_responds (backend_run es1 ?b) = Some b'" by blast
    then show ?thesis by (intro exI [of _ "e # es1"]) simp
  qed
qed (simp split: if_splits)

lemma place_step:
  assumes "backend_do e b = Some b'"
  shows "set (be_incoming b') \<subseteq> set (be_incoming b)"
    and "reader_place b' = Reader_draining rsp \<Longrightarrow> response_from b rsp"
proof -
  have "set (be_incoming b') \<subseteq> set (be_incoming b) \<and>
    (reader_place b' = Reader_draining rsp \<longrightarrow> response_from b rsp)"
  proof (cases e)
    case (Reader_receives ck)
    then have r: "reader_receives ck b = Some b'" using assms by simp
    from r reader_receives_place [OF r] show ?thesis
    proof (cases rule: reader_receives_cases)
      case (message c h p rs)
      let ?b = "b\<lparr>be_client := Some (c\<lparr>incoming := rs\<rparr>)\<rparr>"
      have "be_incoming (handle_message ck h p ?b) = rs"
        by (simp add: handle_message_def queue_iq_def) (simp add: be_incoming_def)
      moreover have "be_incoming b = Received h p # rs" using message by (simp add: be_incoming_def)
      moreover have "response_from b rsp" if "reader_place (handle_message ck h p ?b) = Reader_draining rsp"
        using that reader_receives_place [OF r] calculation(2)
        by (auto simp: handle_message_def queue_iq_def response_from_def split: if_splits)
      ultimately show ?thesis unfolding message(4) by auto
    qed (auto simp: be_incoming_def reader_ends_def response_from_def)
  next
    case Reader_wakes
    then obtain n q t data where "b' = store_iq n q t data (b\<lparr>reader_place := Reader_reading\<rparr>)"
      using assms by (auto simp: reader_wakes_def split: reader_place.splits)
    then show ?thesis by simp (simp add: be_incoming_def)
  next
    case Reader_drained
    then show ?thesis using assms
      by (auto simp: reader_responds_def Let_def be_incoming_def split: reader_place.splits if_splits)
  next
    case Worker_takes
    then show ?thesis using assms
      by (auto simp: iq_take_def Let_def be_incoming_def response_from_def split: if_splits)
  next
    case Worker_finishes
    then show ?thesis using assms by (auto simp: iq_finish_def be_incoming_def response_from_def split: if_splits)
  qed
  then show "set (be_incoming b') \<subseteq> set (be_incoming b)"
    "reader_place b' = Reader_draining rsp \<Longrightarrow> response_from b rsp" by simp_all
qed

lemma place_run:
  assumes "reader_place (backend_run es b) = Reader_draining rsp"
  shows "response_from b rsp"
proof -
  let ?P = "\<lambda>c. set (be_incoming c) \<subseteq> set (be_incoming b) \<and>
    (\<forall>rsp. reader_place c = Reader_draining rsp \<longrightarrow> response_from b rsp)"
  have "?P (backend_run es b)"
  proof (rule run_induct [OF refl, where P = ?P])
    fix e c c' assume c: "?P c" and d: "backend_do e c = Some c'"
    have "response_from b rsp" if "reader_place c' = Reader_draining rsp" for rsp
      using place_step(2) [OF d that] c by (auto simp: response_from_def)
    then show "?P c'" using c place_step(1) [OF d] by blast
  qed (simp add: response_from_def)
  then show ?thesis using assms by blast
qed

lemma async_received:
  assumes "link_ok b" "reader_started b" "async_request W cmd p b = (r, b')" "response_received b'"
  obtains rsp where "response_from b rsp" "rsp_sequence rsp = next_sequence b" "rsp_status rsp = waiting_status b'"
    "iq_queue_count b' = 0" "\<not> iq_active b'" "reader_place b' = Reader_reading"
proof -
  let ?a = "asked cmd p b"
  let ?b = "b\<lparr>next_sequence := next_sequence b + 1, waiting_sequence := next_sequence b, waiting_changed_flags := 0,
        response_received := False\<rparr>"
  obtain q b1 where s: "be_send W cmd (next_sequence b) p ?b = (q, b1)" by fastforce
  then have b1: "b1 = ?a" using be_send_asked [of W cmd b p] by simp
  have nr: "\<not> response_received ?a" by (simp add: asked_def)
  have "b' = snd (await_response (while_waiting W) ?a)"
    using assms(3,4) nr by (auto simp: async_request_def s b1 Let_def case_prod_beta split: if_splits)
  then obtain k where "await_response (while_waiting W) ?a = (k, b')" by (metis prod.collapse)
  from await_received [OF this nr assms(4)] obtain es
    where nr': "\<not> response_received (backend_run es ?a)" and rr: "reader_responds (backend_run es ?a) = Some b'"
    by blast
  then obtain rsp where d: "reader_place (backend_run es ?a) = Reader_draining rsp" "iq_drained (backend_run es ?a)"
    by (auto simp: reader_responds_def split: reader_place.splits if_splits)
  have k: "waiting_sequence (backend_run es ?a) = next_sequence b" "\<not> iq_stop (backend_run es ?a)"
    using kept_run [of es ?a] assms(1,2) by (simp_all add: kept_def asked_def link_ok_def)
  show thesis
  proof (cases "rsp_sequence rsp = next_sequence b")
    case True
    have "response_from ?a rsp" by (rule place_run [OF d(1)])
    then have "response_from b rsp"
      by (auto simp: response_from_def asked_def be_incoming_def split: option.splits)
    then show thesis using that [of rsp] True rr d k
      by (auto simp: reader_responds_def Let_def iq_drained_def)
  next
    case False
    then have "response_received b' = response_received (backend_run es ?a)"
      using rr d k(1) by (auto simp: reader_responds_def Let_def)
    then show thesis using assms(4) nr' by simp
  qed
qed

lemma sint_u32_0 [simp]: "sint (w :: u32) = 0 \<longleftrightarrow> w = 0"
proof
  assume "sint w = 0"
  then show "w = 0" using signed_word_eqI [of w 0] by simp
qed simp

text \<open>
  C7. An asynchronous request succeeds only on its own response, and only after the frames
  that came before it. From any state the connection can reach with its reader running, a
  request that returns 0 has received a response; and whenever it has received one, that
  response is a message of the wire, or the one the reader was holding, with the sequence
  number of this request and the status the request reports; at that moment no frame
  received earlier is queued, held or in delivery.
\<close>

theorem response_after_its_frames:
  assumes "runs link_step None ls (Some b)" and "reader_started b"
    and "async_request W cmd payload b = (r, b')"
  shows "(r = 0 \<longrightarrow> response_received b' \<and> waiting_status b' = status_code OPENRSP_STATUS_OK) \<and>
    (response_received b' \<longrightarrow>
      queued_iq b' = [] \<and> held_iq b' = [] \<and> \<not> iq_active b' \<and>
      (\<exists>rsp. response_from b rsp \<and> rsp_sequence rsp = next_sequence b \<and> rsp_status rsp = waiting_status b'))"
proof (intro conjI impI)
  have l: "link_ok b" using reached_inv [OF assms(1)] by (simp add: backend_inv_def)
  let ?b = "b\<lparr>next_sequence := next_sequence b + 1, waiting_sequence := next_sequence b, waiting_changed_flags := 0,
        response_received := False\<rparr>"
  obtain q b1 where s: "be_send W cmd (next_sequence b) payload ?b = (q, b1)" by fastforce
  obtain k b2 where w: "await_response (while_waiting W) b1 = (k, b2)" by fastforce
  show "response_received b'" "waiting_status b' = status_code OPENRSP_STATUS_OK" if "r = 0"
    using assms(3) that s w by (auto simp: async_request_def Let_def split: if_splits)
  assume "response_received b'"
  from async_received [OF l assms(2,3) this] obtain rsp where
    "response_from b rsp" "rsp_sequence rsp = next_sequence b" "rsp_status rsp = waiting_status b'"
    "iq_queue_count b' = 0" "\<not> iq_active b'" "reader_place b' = Reader_reading" by blast
  then show "queued_iq b' = []" "held_iq b' = []" "\<not> iq_active b'"
    "\<exists>rsp. response_from b rsp \<and> rsp_sequence rsp = next_sequence b \<and> rsp_status rsp = waiting_status b'"
    by (auto simp: queued_iq_def held_iq_def slots_def)
qed

subsection \<open>The requests on the wire\<close>

definition sent_requests :: "daemon_backend \<Rightarrow> (openrsp_command_type \<times> u32 \<times> u8 list) list" where
  "sent_requests b = (case be_client b of None \<Rightarrow> [] | Some c \<Rightarrow> outgoing c)"

text \<open>The payload sizes the daemon's dispatcher compares with.\<close>

fun request_bytes :: "openrsp_command_type \<Rightarrow> u32" where
  "request_bytes OPENRSP_CMD_ACQUIRE = 72"
| "request_bytes OPENRSP_CMD_DUO_ACQUIRE = 84"
| "request_bytes OPENRSP_CMD_CONFIGURE = 60"
| "request_bytes OPENRSP_CMD_DUO_CONFIGURE = 60"
| "request_bytes OPENRSP_CMD_CONFIGURE_DUAL = 128"
| "request_bytes OPENRSP_CMD_UPDATE = 68"
| "request_bytes OPENRSP_CMD_DUO_UPDATE = 68"
| "request_bytes OPENRSP_CMD_SWAP_TUNER = 68"
| "request_bytes OPENRSP_CMD_SWAP_MODE = 196"
| "request_bytes OPENRSP_CMD_DUO_SWAP_RATE = 4"
| "request_bytes _ = 0"

definition request_typed :: "openrsp_command_type \<times> u32 \<times> u8 list \<Rightarrow> bool" where
  "request_typed x \<longleftrightarrow> (case x of (cmd, q, p) \<Rightarrow>
     is_request (frame_header (command_code cmd) q (of_nat (length p))) cmd (request_bytes cmd))"

definition typed_inv :: "daemon_backend option \<Rightarrow> bool" where
  "typed_inv p \<longleftrightarrow> (case p of None \<Rightarrow> True | Some b \<Rightarrow> list_all request_typed (sent_requests b))"

lemma typed_inv_simps [simp]:
  "typed_inv None" "typed_inv (Some b) = list_all request_typed (sent_requests b)"
  by (simp_all add: typed_inv_def)

lemma request_typed_iff: "request_typed (cmd, q, p) \<longleftrightarrow> of_nat (length p) = request_bytes cmd"
  by (simp add: request_typed_def is_request_def frame_header_def)

lemma typed_direct:
  "list_all request_typed (sent_requests b) \<Longrightarrow> of_nat (length p) = request_bytes cmd \<Longrightarrow>
   list_all request_typed (sent_requests (snd (direct_request W cmd p b)))"
proof (cases "be_client b")
  case (Some c)
  assume t: "list_all request_typed (sent_requests b)" "of_nat (length p) = request_bytes cmd"
  obtain r c' where q: "request_on_client (sends W) cmd (next_sequence b) p c = (r, c')" by fastforce
  show ?thesis using t Some q request_suffix(2) [OF q]
    by (simp add: direct_request_def sent_requests_def request_typed_iff)
qed (simp add: direct_request_def sent_requests_def)

lemma typed_async:
  assumes "list_all request_typed (sent_requests b)" "of_nat (length p) = request_bytes cmd"
  shows "list_all request_typed (sent_requests (snd (async_request W cmd p b)))"
proof -
  obtain es where es: "snd (async_request W cmd p b) = backend_run es (asked cmd p b)" by (rule async_run)
  have "map_option outgoing (be_client (backend_run es (asked cmd p b))) = map_option outgoing (be_client (asked cmd p b))"
    using kept_run [of es "asked cmd p b"] by (simp add: kept_def)
  then have "sent_requests (backend_run es (asked cmd p b)) = sent_requests (asked cmd p b)"
    by (auto simp: sent_requests_def split: option.splits)
  then show ?thesis unfolding es using assms
    by (auto simp: sent_requests_def asked_def request_typed_iff split: option.splits)
qed

lemma sent_simps [simp]:
  "sent_requests (snd (start_iq_worker W b)) = sent_requests b" "sent_requests (stop_iq_worker b) = sent_requests b"
  "sent_requests (reader_started_update f b) = sent_requests b" "sent_requests (reader_place_update g b) = sent_requests b"
  "sent_requests (has_callback_update f b) = sent_requests b" "sent_requests (has_status_callback_update f b) = sent_requests b"
  "sent_requests (has_duo_callback_update f b) = sent_requests b" "sent_requests (has_failure_callback_update f b) = sent_requests b"
  "sent_requests (be_duo_role_update h b) = sent_requests b"
  by (simp_all add: sent_requests_def start_iq_worker_def stop_iq_worker_def Let_def iq_finish_def)

lemma typed_start:
  assumes "list_all request_typed (sent_requests b)"
  shows "list_all request_typed (sent_requests (snd (openrsp_daemon_backend_start W b)))"
    and "list_all request_typed (sent_requests (snd (openrsp_daemon_backend_start_duo W b)))"
  using assms by (simp_all add: openrsp_daemon_backend_start_def openrsp_daemon_backend_start_duo_def Let_def
      case_prod_beta typed_direct typed_async)

lemma typed_open:
  assumes "world_ok W" "open_with W cmd p = (r, Some b, sent)" "of_nat (length p) = request_bytes cmd"
  shows "list_all request_typed (sent_requests b)"
proof -
  have m: "has_memory W" "has_frame_memory W" using assms(2) by (simp_all add: open_with_def split: if_splits)
  then obtain c where c: "connects W = Some c" using assms(2) by (cases "connects W") (simp_all add: open_with_def)
  obtain q b1 where d: "direct_request W cmd p (new_backend\<lparr>be_client := Some c\<rparr>) = (q, b1)" by fastforce
  have "b1 = b" using assms(2) m c d by (simp add: open_with_def split: if_splits)
  moreover have "sent_requests (new_backend\<lparr>be_client := Some c\<rparr>) = []"
    using assms(1) c by (simp add: sent_requests_def world_ok_def)
  ultimately show ?thesis
    using typed_direct [of "new_backend\<lparr>be_client := Some c\<rparr>" p cmd W] assms(3) d by simp
qed

lemmas encoded_lengths = acquire_request_codec.enc_width duo_acquire_request_codec.enc_width
  radio_config_codec.enc_width dual_config_codec.enc_width update_request_codec.enc_width
  swap_request_codec.enc_width mode_swap_request_codec.enc_width

lemma typed_open_duo:
  assumes "world_ok W" "wf_acquire_request i"
    "openrsp_daemon_backend_open_duo W i role t rate = (r, Some b, sent)"
  shows "list_all request_typed (sent_requests b)"
proof -
  let ?p = "encode_duo_acquire_request \<lparr>da_identity = i, da_role = role, da_tuner = t, da_sample_rate_hz = rate\<rparr>"
  obtain b1 where "open_with W OPENRSP_CMD_DUO_ACQUIRE ?p = (r, Some b1, sent)" "b = b1\<lparr>be_duo_role := role\<rparr>"
    using assms(3) by (auto simp: openrsp_daemon_backend_open_duo_def split: if_splits prod.splits)
  then show ?thesis using typed_open [OF assms(1)] assms(2)
    by (simp add: encoded_lengths)
qed

lemma typed_request:
  assumes "typed_inv p" "world_ok W" "call_ok c"
  shows "typed_inv (snd (backend_request W c p))"
proof (cases "opens c")
  case True
  then consider i where "c = Backend_open i" | i role t rate where "c = Backend_open_duo i role t rate"
    by (auto simp: opens_def split: backend_call.splits)
  then show ?thesis
  proof cases
    case 1
    then show ?thesis using assms typed_open [OF assms(2), of OPENRSP_CMD_ACQUIRE "encode_acquire_request i"]
      by (auto simp: openrsp_daemon_backend_open_def typed_inv_def encoded_lengths split: option.splits prod.splits)
  next
    case 2
    then show ?thesis using assms typed_open_duo [OF assms(2), of i role t rate]
      by (auto simp: typed_inv_def split: option.splits prod.splits)
  qed
next
  case False
  then show ?thesis using assms(1)
    by (cases p; cases c) (simp_all add: opens_def typed_start typed_direct typed_async encoded_lengths u32_bytes_def
      openrsp_daemon_backend_configure_def
      openrsp_daemon_backend_configure_dual_def openrsp_daemon_backend_configure_duo_def
      openrsp_daemon_backend_stop_def openrsp_daemon_backend_stop_duo_def openrsp_daemon_backend_update_def
      openrsp_daemon_backend_update_duo_def openrsp_daemon_backend_swap_def openrsp_daemon_backend_swap_mode_def
      openrsp_daemon_backend_swap_duo_rate_def openrsp_daemon_backend_resume_mode_def)
qed

lemma typed_thread:
  assumes "backend_do e b = Some b'"
  shows "sent_requests b' = sent_requests b"
  using kept_step [OF assms] by (auto simp: kept_def sent_requests_def split: option.splits)

interpretation typed_sys: invariant_system link_step typed_inv
proof
  fix p l p' assume "typed_inv p" "link_step p l p'"
  then show "typed_inv p'"
    using typed_request by (cases l; cases p) (auto simp: link_step_def typed_thread split: option.splits)
qed

lemma typed_close:
  assumes "list_all request_typed (sent_requests b)"
  shows "list_all request_typed (snd (openrsp_daemon_backend_close W b))"
proof (cases "be_client b")
  case (Some c)
  have "of_nat (length []) = request_bytes (release_command b)" by (simp add: release_command_def)
  note t = typed_direct [OF assms this, of W] typed_async [OF assms this, of W]
  show ?thesis using t Some by (simp add: openrsp_daemon_backend_close_def case_prod_beta Let_def sent_requests_def)
qed (simp add: openrsp_daemon_backend_close_def)

text \<open>A command of the library with any other payload size is refused by the daemon, with nothing changed.\<close>

lemma dispatch_refuses_size:
  assumes "hdr_type h = command_code cmd" "hdr_payload_bytes h \<noteq> request_bytes cmd"
  shows "\<exists>st. st \<noteq> OPENRSP_STATUS_OK \<and> dispatch E d h payload s = (reply_with st, s)"
  using assms by (cases cmd) (auto simp: dispatch_def is_request_def)

text \<open>
  C10. Every request has the type the daemon expects. In every state the connection can
  reach, each request sent on it carries a payload of exactly the size that the daemon's
  dispatcher requires for its command, and so does the release that closing adds; and the
  dispatcher refuses every command with another size, without changing its state.
\<close>

theorem requests_well_typed:
  assumes "runs link_step None ls (Some b)"
  shows "list_all request_typed (sent_requests b) \<and>
    list_all request_typed (snd (openrsp_daemon_backend_close W b)) \<and>
    (\<forall>E d h payload s cmd. hdr_type h = command_code cmd \<and> hdr_payload_bytes h \<noteq> request_bytes cmd \<longrightarrow>
      (\<exists>st. st \<noteq> OPENRSP_STATUS_OK \<and> dispatch E d h payload s = (reply_with st, s)))"
  using typed_sys.runs_inv [OF assms] typed_close dispatch_refuses_size by simp

text \<open>
  Before its first start a role has no reader: a role event that is already on the wire is
  then read in place of the response, and configuring fails although the daemon's answer
  may follow it.
\<close>

lemma duo_event_fails_configure:
  assumes "\<not> reader_started b" and "be_client b = Some c" and "incoming c = Received h p # rs"
    and "hdr_type h = command_code OPENRSP_EVENT_DUO"
  shows "fst (openrsp_daemon_backend_configure_duo W cfg b) = -1"
  using assms by (cases "unat (hdr_payload_bytes h) > 16")
    (simp_all add: Let_def openrsp_daemon_backend_configure_duo_def direct_request_def request_on_client_def client_send_def
      receive_response_def client_receive_def)

subsection \<open>The client library on the back end\<close>

text \<open>
  The calls of the library answered by the back end: before the \<open>n\<close>-th call its threads
  take the steps \<open>Ts n\<close>, and the call finds the world \<open>Ws n\<close>.
\<close>

fun backend_session ::
  "(nat \<Rightarrow> backend_world) \<Rightarrow> (nat \<Rightarrow> backend_event list) \<Rightarrow> nat \<Rightarrow> backend_call list \<Rightarrow>
   daemon_backend option \<Rightarrow> int list \<times> daemon_backend option" where
  "backend_session Ws Ts n [] p = ([], p)"
| "backend_session Ws Ts n (c # cs) p =
     (let (r, p) = backend_request (Ws n) c (map_option (backend_run (Ts n)) p);
          (rs, p) = backend_session Ws Ts (n + 1) cs p
      in (r # rs, p))"

definition backend_answers ::
  "(nat \<Rightarrow> backend_world) \<Rightarrow> (nat \<Rightarrow> backend_event list) \<Rightarrow> backend_call list \<Rightarrow> int" where
  "backend_answers Ws Ts cs = last (fst (backend_session Ws Ts 0 cs None))"

definition backend_now ::
  "(nat \<Rightarrow> backend_world) \<Rightarrow> (nat \<Rightarrow> backend_event list) \<Rightarrow> backend_call list \<Rightarrow> daemon_backend option" where
  "backend_now Ws Ts cs = snd (backend_session Ws Ts 0 cs None)"

lemma session_snoc:
  "backend_session Ws Ts n (cs @ [c]) p =
     (let (rs, q) = backend_session Ws Ts n cs p;
          (r, q) = backend_request (Ws (n + length cs)) c (map_option (backend_run (Ts (n + length cs))) q)
      in (rs @ [r], q))"
  by (induction cs arbitrary: n p) (simp_all add: Let_def case_prod_beta)

lemma answers_snoc:
  "backend_answers Ws Ts (cs @ [c]) =
     fst (backend_request (Ws (length cs)) c (map_option (backend_run (Ts (length cs))) (backend_now Ws Ts cs)))"
  "backend_now Ws Ts (cs @ [c]) =
     snd (backend_request (Ws (length cs)) c (map_option (backend_run (Ts (length cs))) (backend_now Ws Ts cs)))"
  by (simp_all add: backend_answers_def backend_now_def session_snoc Let_def case_prod_beta)

lemma open_with_results:
  "fst (open_with W cmd p) \<in> {0, -1}" "fst (open_with W cmd p) = 0 \<longleftrightarrow> fst (snd (open_with W cmd p)) \<noteq> None"
  by (auto simp: open_with_def Let_def case_prod_beta split: option.splits)

lemma request_open_results:
  assumes "opens c"
  shows "fst (backend_request W c p) \<in> {0, -1}"
    and "snd (backend_request W c None) \<noteq> None \<longleftrightarrow> fst (backend_request W c None) = 0"
proof -
  consider i where "c = Backend_open i" | i role t rate where "c = Backend_open_duo i role t rate"
    using assms by (auto simp: opens_def split: backend_call.splits)
  then have "fst (backend_request W c p) \<in> {0, -1} \<and>
    (snd (backend_request W c None) \<noteq> None \<longleftrightarrow> fst (backend_request W c None) = 0)"
  proof cases
    case 1
    then show ?thesis
      using open_with_results [of W OPENRSP_CMD_ACQUIRE "encode_acquire_request i"]
      by (auto simp: openrsp_daemon_backend_open_def case_prod_beta)
  next
    case 2
    then show ?thesis
      using open_with_results [of W OPENRSP_CMD_DUO_ACQUIRE "encode_duo_acquire_request
        \<lparr>da_identity = i, da_role = role, da_tuner = t, da_sample_rate_hz = rate\<rparr>"]
      by (auto simp: openrsp_daemon_backend_open_duo_def case_prod_beta Let_def)
  qed
  then show "fst (backend_request W c p) \<in> {0, -1}"
    "snd (backend_request W c None) \<noteq> None \<longleftrightarrow> fst (backend_request W c None) = 0" by simp_all
qed

lemma request_keeps_pointer:
  "\<not> opens c \<Longrightarrow> snd (backend_request W c (Some b)) \<noteq> None \<longleftrightarrow> c \<noteq> Backend_close"
  by (cases c) (simp_all add: opens_def)

lemma backend_open_results: "answer E = backend_answers Ws Ts \<Longrightarrow> open_results E"
  by (simp add: open_results_def answers_snoc request_open_results [simplified])

text \<open>The trace read by \<open>handle_scan\<close> and the pointer of the back end agree.\<close>

lemma scan_pointer:
  "handle_scan (backend_answers Ws Ts) [] False cs = Some is_open \<Longrightarrow> backend_now Ws Ts cs \<noteq> None \<longleftrightarrow> is_open"
proof (induction cs arbitrary: is_open rule: rev_induct)
  case Nil
  then show ?case by (simp add: backend_now_def)
next
  case (snoc c cs)
  let ?p = "backend_now Ws Ts cs"
  obtain o1 where o: "handle_scan (backend_answers Ws Ts) [] False cs = Some o1"
    "handle_step o1 c (backend_answers Ws Ts (cs @ [c])) = Some is_open"
    using snoc.prems by (auto simp: handle_scan_snoc split: option.splits)
  have p: "?p \<noteq> None \<longleftrightarrow> o1" by (rule snoc.IH [OF o(1)])
  show ?case
  proof (cases "opens c")
    case True
    then have "?p = None" "is_open \<longleftrightarrow> backend_answers Ws Ts (cs @ [c]) = 0"
      using o(2) p by (auto simp: handle_step_def split: if_splits)
    then show ?thesis using request_open_results(2) [OF True, of "Ws (length cs)"] by (simp add: answers_snoc)
  next
    case False
    then obtain b where "?p = Some b" "is_open \<longleftrightarrow> c \<noteq> Backend_close"
      using o(2) p by (auto simp: handle_step_def split: if_splits)
    then show ?thesis
      using request_keeps_pointer [OF False, of "Ws (length cs)" "backend_run (Ts (length cs)) b"]
      by (simp add: answers_snoc)
  qed
qed

text \<open>
  C6. The library and the back end agree on the connection. When the calls of the client
  library are answered by the back end, whatever its threads do between the calls and
  whatever the calls find, then in every state the application can bring the library to
  the library holds a connection exactly when the back end exists: no connection is leaked
  and none is used after it was closed or before it was opened.
\<close>

theorem library_agrees_with_backend:
  assumes "answer E = backend_answers Ws Ts" and "runs (api_step E) api_initial cs a"
  shows "backend (ctx a) \<longleftrightarrow> backend_now Ws Ts (calls (client_state a)) \<noteq> None"
proof -
  have "api_inv E a" by (rule reachable_inv [OF backend_open_results [OF assms(1)] assms(2)])
  then have "conn_ok E (client_state a)" by (simp add: api_inv_def settled_def)
  then show ?thesis using scan_pointer [of Ws Ts "calls (client_state a)"] assms(1) by (simp add: conn_ok_def)
qed

subsection \<open>A session on a test bench\<close>

text \<open>
  A daemon that grants the receiver and the start, sends one IQ frame, answers the next
  request and then sends a second frame. The frame is in delivery when the response is
  read, so the reader has to wait for the callback to return.
\<close>

definition wire_response :: "u32 \<Rightarrow> received" where
  "wire_response q = Received (frame_header (command_code OPENRSP_MSG_RESPONSE) q 16)
     (encode_response \<lparr>rsp_status = 0, rsp_sequence = q, rsp_changed_flags = 0, rsp_reserved = 0\<rparr>)"

definition wire_frame :: "u32 \<Rightarrow> received" where
  "wire_frame q = Received (frame_header (command_code OPENRSP_EVENT_IQ) q 8) [5, 0, 6, 0, 7, 0, 8, 0]"

definition bench_backend_world :: backend_world where
  "bench_backend_world =
     \<lparr>has_memory = True, has_frame_memory = True,
      connects = Some \<lparr>incoming = [wire_response 1, wire_response 2, wire_frame 0, wire_response 3, wire_frame 1],
                       outgoing = []\<rparr>,
      sends = (\<lambda>_. True), clock_readable = True, makes_iq_thread = True, makes_reader_thread = True,
      while_waiting = [Reader_receives True, Worker_takes, Reader_receives True, Reader_drained,
                       Worker_finishes, Reader_drained],
      while_closing = []\<rparr>"

lemmas request_defs = direct_request_def request_on_client_def client_send_def receive_response_def client_receive_def
  wire_response_def wire_frame_def frame_header_def response_codec.dec_enc

lemma bench_world_ok: "world_ok bench_backend_world" "call_ok (Backend_open zero_identity)"
  by (simp_all add: world_ok_def bench_backend_world_def wire_response_def wire_frame_def frame_header_def
      response_codec.enc_width wf_acquire_request_def zero_identity_def)

lemma new_backend_fields [simp]:
  "next_sequence new_backend = 1" "\<not> reader_started new_backend" "\<not> iq_started new_backend" "\<not> iq_active new_backend"
  "\<not> reader_failed new_backend" "iq_queue_count new_backend = 0" "iq_queue_head new_backend = 0"
  "callbacks_made new_backend = []" "be_duo_role new_backend = 0"
  by (simp_all add: new_backend_def)

lemma new_backend_slots [simp]:
  "free_slot (iq_frames new_backend) = 0" "length (iq_frames new_backend) = 32" "length (iq_queue new_backend) = 32"
  "interleaved (iq_frames new_backend ! 0) = []"
proof -
  have r: "replicate 32 x = x # replicate 31 x" for x :: "'a" by (simp add: eval_nat_numeral)
  show "free_slot (iq_frames new_backend) = 0" by (simp add: new_backend_def r)
qed (simp_all add: new_backend_def)

definition bench_acquired_link :: daemon_backend where
  "bench_acquired_link = new_backend\<lparr>next_sequence := 2, be_client := Some \<lparr>
     incoming = [wire_response 2, wire_frame 0, wire_response 3, wire_frame 1],
     outgoing = [(OPENRSP_CMD_ACQUIRE, 1, encode_acquire_request zero_identity)]\<rparr>\<rparr>"

definition bench_link :: daemon_backend where
  "bench_link = new_backend\<lparr>next_sequence := 3, has_callback := True, has_status_callback := True,
     has_failure_callback := True, iq_stop := False, iq_started := True, reader_started := True,
     reader_place := Reader_reading,
     be_client := Some \<lparr>
       incoming = [wire_frame 0, wire_response 3, wire_frame 1],
       outgoing = [(OPENRSP_CMD_ACQUIRE, 1, encode_acquire_request zero_identity), (OPENRSP_CMD_START, 2, [])]\<rparr>\<rparr>"

lemma bench_link_opens:
  "link_step None (Call bench_backend_world (Backend_open zero_identity)) (Some bench_acquired_link)"
  "link_step (Some bench_acquired_link) (Call bench_backend_world Backend_start) (Some bench_link)"
  unfolding link_step_def using bench_world_ok
  by (simp_all add: openrsp_daemon_backend_open_def open_with_def request_defs bench_acquired_link_def bench_link_def
      openrsp_daemon_backend_start_def start_iq_worker_def bench_backend_world_def)

lemma bench_link_reached:
  "runs link_step None [Call bench_backend_world (Backend_open zero_identity), Call bench_backend_world Backend_start]
     (Some bench_link)"
  using bench_link_opens by (auto intro: runs.intros)

lemma bench_link_started: "reader_started bench_link"
  by (simp add: bench_link_def)

text \<open>The frame of the wire is queued and taken.\<close>

definition bench_delivering :: daemon_backend where
  "bench_delivering = backend_run [Reader_receives True, Worker_takes] bench_link"

lemma bench_delivering_active: "iq_active bench_delivering"
  by (simp add: bench_delivering_def bench_link_def reader_receives_def client_receive_def wire_frame_def frame_header_def
      handle_message_def queue_iq_def store_iq_def put_iq_def iq_take_def call_back_def Let_def)

lemma bench_delivering_reached:
  "runs link_step None [Call bench_backend_world (Backend_open zero_identity), Call bench_backend_world Backend_start,
     Thread (Reader_receives True), Thread Worker_takes] (Some bench_delivering)"
  using runs_append [OF bench_link_reached, of "[Thread (Reader_receives True), Thread Worker_takes]" "Some bench_delivering"]
  by (simp add: runs_Cons_iff link_step_def bench_delivering_def)

theorem frame_in_delivery_untouched_witness:
  "iq_frames (backend_run [Reader_receives True, Reader_drained, Worker_takes] bench_delivering) ! iq_slot bench_delivering =
   iq_frames bench_delivering ! iq_slot bench_delivering"
  using frame_in_delivery_untouched [OF bench_delivering_reached bench_delivering_active,
      of "[Reader_receives True, Reader_drained, Worker_takes]"] by simp

theorem frames_delivered_in_wire_order_witness:
  "\<exists>rs. be_incoming bench_link = rs @ be_incoming bench_delivering \<and>
    subseq (delivered bench_delivering @ queued_iq bench_delivering @ held_iq bench_delivering)
      (delivered bench_link @ queued_iq bench_link @ held_iq bench_link @ iq_arrivals rs)"
  using frames_delivered_in_wire_order [OF bench_link_reached bench_link_started, of "[Reader_receives True, Worker_takes]"]
  by (auto simp: bench_delivering_def)

text \<open>The whole request on the bench, with the wait for the frame in delivery.\<close>

lemma bench_async: "fst (async_request bench_backend_world OPENRSP_CMD_STOP [] bench_link) = 0"
  by (simp add: async_request_def be_send_def client_send_def bench_link_def bench_backend_world_def reader_receives_def
      client_receive_def wire_frame_def wire_response_def frame_header_def response_codec.dec_enc
      handle_message_def queue_iq_def store_iq_def put_iq_def iq_take_def iq_finish_def reader_responds_def iq_drained_def
      call_back_def Let_def)

theorem response_after_its_frames_witness:
  "queued_iq (snd (async_request bench_backend_world OPENRSP_CMD_STOP [] bench_link)) = [] \<and>
   \<not> iq_active (snd (async_request bench_backend_world OPENRSP_CMD_STOP [] bench_link)) \<and>
   (\<exists>rsp. response_from bench_link rsp \<and> rsp_sequence rsp = next_sequence bench_link)"
  using response_after_its_frames [OF bench_link_reached bench_link_started,
      of bench_backend_world OPENRSP_CMD_STOP "[]" 0 "snd (async_request bench_backend_world OPENRSP_CMD_STOP [] bench_link)"]
    bench_async by (auto simp: prod_eq_iff)

theorem requests_well_typed_witness:
  "list_all request_typed (sent_requests bench_link) \<and> length (sent_requests bench_link) = 2 \<and>
   list_all request_typed (snd (openrsp_daemon_backend_close bench_backend_world bench_link))"
  using requests_well_typed [OF bench_link_reached, of bench_backend_world]
  by (simp add: sent_requests_def bench_link_def)

text \<open>The library's session of \<^term>\<open>bench_calls\<close> with the back end in place of the answers.\<close>

definition bench_backend_env :: client_env where
  "bench_backend_env = bench_client_env\<lparr>answer := backend_answers (\<lambda>_. bench_backend_world) (\<lambda>_. [])\<rparr>"

lemma bench_backend_env_answer:
  "answer bench_backend_env = backend_answers (\<lambda>_. bench_backend_world) (\<lambda>_. [])"
  by (simp add: bench_backend_env_def)

fun link_api_run :: "api_call list \<Rightarrow> api_state \<Rightarrow> api_state" where
  "link_api_run [] a = a"
| "link_api_run (c # cs) a = link_api_run cs (api_do bench_backend_env bench_world c a)"

lemma link_api_run_runs: "runs (api_step bench_backend_env) a cs (link_api_run cs a)"
proof (induction cs arbitrary: a)
  case (Cons c cs)
  have "api_step bench_backend_env a c (api_do bench_backend_env bench_world c a)" by (rule api_step.intros)
  then show ?case using Cons by (auto intro: runs_Cons)
qed (simp add: runs_Nil)

theorem library_agrees_with_backend_witness:
  "backend (ctx (link_api_run bench_calls api_initial)) \<longleftrightarrow>
   backend_now (\<lambda>_. bench_backend_world) (\<lambda>_. []) (calls (client_state (link_api_run bench_calls api_initial))) \<noteq> None"
  using library_agrees_with_backend [of bench_backend_env "\<lambda>_. bench_backend_world" "\<lambda>_. []" bench_calls
      "link_api_run bench_calls api_initial"] link_api_run_runs
  by (simp add: bench_backend_env_answer)

end
