(* ===== verification/Spec2Isabelle.thy ===== *)
theory Spec2Isabelle
  imports Rsp_Prelude Rsp_Protocol Rsp_Duo Rsp_Sync Rsp_Removal Rsp_Identity Rsp_Transport
    Rsp_Io Rsp_Daemon Rsp_Serve Rsp_Frame Rsp_Owner Rsp_Radio Rsp_Response Rsp_Bench Rsp_Safety
    Rsp_Ring Rsp_Float Rsp_Fir Rsp_Gain Rsp_Adsb Rsp_Decim Rsp_Iq Rsp_Queue Rsp_Context Rsp_Validate Rsp_Client
    Rsp_Api Rsp_Init Rsp_Update Rsp_Swap Rsp_Life Rsp_Reach Rsp_Library Rsp_Refused Rsp_Backend Rsp_Pool Rsp_Link
begin

text \<open>
  OpenRSP: a verification development of the daemon, the client library and the
  API-compatibility layer of an SDR receiver driver.
\<close>

end
